(* ===== verification/Prelude.thy ===== *)
theory Prelude
  imports Main "HOL-Library.Word" "HOL-Library.Sublist"
begin

text \<open>
  Shared vocabulary of the development: the model's basic types (Go integers, bytes,
  instants), Go error values with the chain that \<open>errors.Is\<close> walks, bounds-checked
  slices, results with early return, and the generic facts about lists and maps that the
  component theories use.
\<close>

unbundle bit_operations_syntax

named_theorems go_defs \<open>definitions of small pure helpers, unfolded together\<close>

section \<open>Basic types\<close>

text \<open>
  A Go \<open>int\<close> (64 bits) that the program only compares, counts with or prints is an
  \<open>int\<close>; the places where the width matters (the parser of decimal numbers, durations,
  STUN fields) write the range out or use words. A \<open>time.Time\<close> is an \<open>int\<close>: the
  nanoseconds since Go's zero time, so that the zero value, on which \<open>IsZero\<close> answers
  true, is 0. A Go string is its byte sequence, an Isabelle \<open>string\<close>.
\<close>

type_synonym byte = "8 word"
type_synonym time = int

definition is_zero_time :: "time \<Rightarrow> bool" where
  [go_defs]: "is_zero_time t \<longleftrightarrow> t = 0"

definition max_int64 :: int where
  "max_int64 = 9223372036854775807"

definition min_int64 :: int where
  "min_int64 = - 9223372036854775808"

text \<open>Two's complement wrap-around of a 64-bit signed result.\<close>

definition wrap64 :: "int \<Rightarrow> int" where
  "wrap64 x = (x + 9223372036854775808) mod 18446744073709551616 - 9223372036854775808"

lemma wrap64_id: "min_int64 \<le> x \<Longrightarrow> x \<le> max_int64 \<Longrightarrow> wrap64 x = x"
  by (simp add: wrap64_def min_int64_def max_int64_def)

lemma wrap64_range: "min_int64 \<le> wrap64 x \<and> wrap64 x \<le> max_int64"
  by (simp add: wrap64_def min_int64_def max_int64_def)

section \<open>Errors\<close>

text \<open>
  A Go error is a value. The sentinels are compared by identity (\<open>errors.Is\<close>);
  \<open>ErrNew\<close> is \<open>errors.New\<close> or \<open>fmt.Errorf\<close> without \<open>%w\<close>, \<open>Wrap\<close> is
  \<open>fmt.Errorf\<close> with \<open>%w\<close> (its full text, and the error it wraps), \<open>NetError\<close> is an
  error of the operating system or the network stack: its text and its \<open>Timeout()\<close>.
  \<open>BadPort\<close> is the one message of the program that quotes a value with \<open>%q\<close>; it
  carries the unquoted value. \<open>GoPanic\<close> stands for a run-time panic, so that
  out-of-range accesses are visible in the model.
\<close>

datatype sentinel =
    OsErrNotExist
  | ErrStopped
  | ErrSessionClosed
  | CtxCanceled
  | CtxDeadlineExceeded
  | OsErrDeadlineExceeded
  | ErrPublicProbeRoundFailed
  | ErrNoTCPMapping
  | IoEOF

datatype go_error =
    Sentinel sentinel
  | ErrNew string
  | BadPort string
  | NetError string bool
  | Wrap string go_error
  | GoPanic string

fun err_is :: "go_error \<Rightarrow> sentinel \<Rightarrow> bool" where
  "err_is (Sentinel s) t = (s = t)"
| "err_is (Wrap msg e) t = err_is e t"
| "err_is (ErrNew msg) t = False"
| "err_is (BadPort s) t = False"
| "err_is (NetError msg b) t = False"
| "err_is (GoPanic msg) t = False"

fun sentinel_text :: "sentinel \<Rightarrow> string" where
  "sentinel_text OsErrNotExist = ''file does not exist''"
| "sentinel_text ErrStopped = ''instance stopped''"
| "sentinel_text ErrSessionClosed = ''session closed''"
| "sentinel_text CtxCanceled = ''context canceled''"
| "sentinel_text CtxDeadlineExceeded = ''context deadline exceeded''"
| "sentinel_text OsErrDeadlineExceeded = ''i/o timeout''"
| "sentinel_text ErrPublicProbeRoundFailed = ''public probe round failed''"
| "sentinel_text ErrNoTCPMapping = ''tcp public mapping is not ready''"
| "sentinel_text IoEOF = ''EOF''"

fun err_text :: "go_error \<Rightarrow> string" where
  "err_text (Sentinel s) = sentinel_text s"
| "err_text (ErrNew msg) = msg"
| "err_text (BadPort s) = ''bindPort '' @ s @ '' is invalid''"
| "err_text (NetError msg b) = msg"
| "err_text (Wrap msg e) = msg"
| "err_text (GoPanic msg) = msg"

text \<open>\<open>fmt.Errorf("%w: %v", e, x)\<close> and \<open>fmt.Errorf(prefix + "%w", e)\<close>.\<close>

definition wrap_w_v :: "go_error \<Rightarrow> string \<Rightarrow> go_error" where
  "wrap_w_v e t = Wrap (err_text e @ '': '' @ t) e"

definition wrap_prefix :: "string \<Rightarrow> go_error \<Rightarrow> go_error" where
  "wrap_prefix p e = Wrap (p @ err_text e) e"

lemma err_is_wrap [simp]:
  "err_is (wrap_w_v e t) s = err_is e s"
  "err_is (wrap_prefix p e) s = err_is e s"
  by (simp_all add: wrap_w_v_def wrap_prefix_def)

lemma err_text_wrap [simp]:
  "err_text (wrap_w_v e t) = err_text e @ '': '' @ t"
  "err_text (wrap_prefix p e) = p @ err_text e"
  by (simp_all add: wrap_w_v_def wrap_prefix_def)

section \<open>Results with early return\<close>

text \<open>
  A function that returns \<open>(value, error)\<close> is modelled with the sum type: \<open>Inl\<close> for
  the error return. \<open>res_bind r f\<close> is \<open>if err != nil { return err }\<close> before the rest.
\<close>

type_synonym 'a res = "go_error + 'a"

fun res_bind :: "'a res \<Rightarrow> ('a \<Rightarrow> 'b res) \<Rightarrow> 'b res" where
  "res_bind (Inl e) f = Inl e"
| "res_bind (Inr x) f = f x"

lemma res_bind_eq_Inr [simp]: "res_bind r f = Inr y \<longleftrightarrow> (\<exists>x. r = Inr x \<and> f x = Inr y)"
  by (cases r) auto

lemma res_bind_eq_Inl:
  "res_bind r f = Inl e \<longleftrightarrow> r = Inl e \<or> (\<exists>x. r = Inr x \<and> f x = Inl e)"
  by (cases r) auto

lemma res_bind_cong [fundef_cong]:
  "r = r' \<Longrightarrow> (\<And>x. r' = Inr x \<Longrightarrow> f x = g x) \<Longrightarrow> res_bind r f = res_bind r' g"
  by (cases r') auto

definition check :: "bool \<Rightarrow> go_error \<Rightarrow> unit res" where
  "check b e = (if b then Inl e else Inr ())"

lemma check_eq_Inr [simp]: "check b e = Inr u \<longleftrightarrow> \<not> b"
  by (simp add: check_def)

lemma check_eq_Inl [simp]: "check b e = Inl e' \<longleftrightarrow> b \<and> e' = e"
  by (auto simp: check_def)

lemma check_False [simp]: "check False e = Inr ()"
  by (simp add: check_def)

lemma check_True [simp]: "check True e = Inl e"
  by (simp add: check_def)

section \<open>Slices\<close>

text \<open>\<open>xs[a:b]\<close>: a panic when the bounds do not satisfy \<open>a \<le> b \<le> len(xs)\<close>.\<close>

definition slice :: "'a list \<Rightarrow> nat \<Rightarrow> nat \<Rightarrow> 'a list res" where
  "slice xs a b =
     (if a \<le> b \<and> b \<le> length xs then Inr (take (b - a) (drop a xs))
      else Inl (GoPanic ''slice bounds out of range''))"

definition index :: "'a list \<Rightarrow> nat \<Rightarrow> 'a res" where
  "index xs i = (if i < length xs then Inr (xs ! i) else Inl (GoPanic ''index out of range''))"

lemma slice_ok: "a \<le> b \<Longrightarrow> b \<le> length xs \<Longrightarrow> slice xs a b = Inr (take (b - a) (drop a xs))"
  by (simp add: slice_def)

lemma slice_mid: "xs = a @ b @ c \<Longrightarrow> i = length a \<Longrightarrow> j = length a + length b \<Longrightarrow> slice xs i j = Inr b"
  by (simp add: slice_def)

lemma index_ok: "i < length xs \<Longrightarrow> index xs i = Inr (xs ! i)"
  by (simp add: index_def)

definition is_panic :: "'a res \<Rightarrow> bool" where
  "is_panic r \<longleftrightarrow> (case r of Inl e \<Rightarrow> (case e of GoPanic m \<Rightarrow> True | _ \<Rightarrow> False) | Inr x \<Rightarrow> False)"

lemma is_panic_simps [simp]:
  "\<not> is_panic (Inr x)"
  "\<not> is_panic (Inl (ErrNew m))"
  "\<not> is_panic (Inl (Sentinel s))"
  "is_panic (Inl (GoPanic m))"
  by (simp_all add: is_panic_def)

section \<open>Bytes\<close>

lemma unat_lt2p_byte: "unat (b :: byte) < 256"
  using unsigned_less [where 'a = nat, of b] by simp

section \<open>Lists and maps\<close>

text \<open>\<open>xs[len(xs)-n:]\<close> when \<open>xs\<close> is longer than \<open>n\<close>, else \<open>xs\<close>: the newest \<open>n\<close>.\<close>

definition last_n :: "nat \<Rightarrow> 'a list \<Rightarrow> 'a list" where
  "last_n n xs = (if length xs > n then drop (length xs - n) xs else xs)"

lemma last_n_eq_drop: "last_n n xs = drop (length xs - n) xs"
  by (simp add: last_n_def)

lemma length_last_n [simp]: "length (last_n n xs) = min n (length xs)"
  by (auto simp: last_n_eq_drop)

lemma last_n_short: "length xs \<le> n \<Longrightarrow> last_n n xs = xs"
  by (simp add: last_n_def)

lemma last_n_append_last_n [simp]: "last_n n (last_n n xs @ ys) = last_n n (xs @ ys)"
proof (cases "length xs \<le> n")
  case True
  then show ?thesis by (simp add: last_n_short)
next
  case False
  then have "drop (length xs - n) xs @ ys = drop (length xs - n) (xs @ ys)"
    by simp
  with False show ?thesis
    by (simp only: last_n_eq_drop drop_drop length_append length_drop) (simp add: add.commute)
qed

lemma suffix_last_n: "suffix (last_n n xs) xs"
  by (simp add: last_n_eq_drop suffix_drop)

lemma find_none_all: "find P xs = None \<longleftrightarrow> (\<forall>x \<in> set xs. \<not> P x)"
  by (auto simp: find_None_iff)

lemma find_some_in: "find P xs = Some x \<Longrightarrow> x \<in> set xs \<and> P x"
  by (metis find_Some_iff nth_mem)

end
