(* ===== verification/Go_Strings.thy ===== *)
theory Go_Strings
  imports Prelude
begin

text \<open>
  The functions of Go's \<open>strings\<close> and \<open>strconv\<close> packages that the program calls, on byte
  strings. \<open>TrimSpace\<close> removes every UTF-8 encoding of a Unicode white space rune.
  \<open>ToLower\<close> decodes UTF-8 and maps every rune by Unicode's table of simple lower case
  mappings. \<open>EqualFold\<close> folds ASCII letters
  and the two runes that fold to ASCII letters (U+017F and U+212A).
\<close>

section \<open>Prefixes, suffixes, substrings\<close>

fun has_prefix :: "'a list \<Rightarrow> 'a list \<Rightarrow> bool" where
  "has_prefix s [] = True"
| "has_prefix [] (p # ps) = False"
| "has_prefix (c # cs) (p # ps) = (c = p \<and> has_prefix cs ps)"

definition has_suffix :: "'a list \<Rightarrow> 'a list \<Rightarrow> bool" where
  "has_suffix s t = has_prefix (rev s) (rev t)"

definition trim_prefix :: "string \<Rightarrow> string \<Rightarrow> string" where
  "trim_prefix s p = (if has_prefix s p then drop (length p) s else s)"

fun contains :: "string \<Rightarrow> string \<Rightarrow> bool" where
  "contains [] t = (t = [])"
| "contains (c # cs) t = (has_prefix (c # cs) t \<or> contains cs t)"

lemma has_prefix_iff: "has_prefix s p \<longleftrightarrow> (\<exists>t. s = p @ t)"
  by (induction s p rule: has_prefix.induct) auto

lemma has_prefix_append [simp]: "has_prefix (p @ t) p"
  by (simp add: has_prefix_iff)

lemma has_prefix_appendI: "has_prefix s p \<Longrightarrow> has_prefix (s @ t) p"
  by (auto simp: has_prefix_iff)

lemma has_suffix_iff: "has_suffix s p \<longleftrightarrow> (\<exists>t. s = t @ p)"
  unfolding has_suffix_def has_prefix_iff
  by (metis rev_append rev_rev_ident)

lemma contains_iff: "contains s t \<longleftrightarrow> (\<exists>u v. s = u @ t @ v)"
proof (induction s)
  case Nil
  then show ?case by auto
next
  case (Cons c cs)
  show ?case
  proof
    assume "contains (c # cs) t"
    then consider "has_prefix (c # cs) t" | "contains cs t" by auto
    then show "\<exists>u v. c # cs = u @ t @ v"
    proof cases
      case 1
      then show ?thesis by (metis append_Nil has_prefix_iff)
    next
      case 2
      with Cons.IH show ?thesis by (metis append_Cons)
    qed
  next
    assume "\<exists>u v. c # cs = u @ t @ v"
    then obtain u v where uv: "c # cs = u @ t @ v" by blast
    show "contains (c # cs) t"
    proof (cases u)
      case Nil
      with uv have "has_prefix (c # cs) t" by (simp add: has_prefix_iff)
      then show ?thesis by simp
    next
      case (Cons d u')
      with uv have "cs = u' @ t @ v" by simp
      with Cons.IH show ?thesis by auto
    qed
  qed
qed

lemma contains_trans: "contains s t \<Longrightarrow> contains t u \<Longrightarrow> contains s u"
  unfolding contains_iff by (metis append.assoc)

lemma contains_append_mid [simp]: "contains (u @ t @ v) t"
  by (auto simp: contains_iff)

section \<open>White space\<close>

text \<open>The UTF-8 encodings of the runes on which \<open>unicode.IsSpace\<close> answers true.\<close>

definition space_runes :: "string list" where
  "space_runes =
     [[CHR 0x09], [CHR 0x0A], [CHR 0x0B], [CHR 0x0C], [CHR 0x0D], [CHR 0x20],
      [CHR 0xC2, CHR 0x85], [CHR 0xC2, CHR 0xA0],
      [CHR 0xE1, CHR 0x9A, CHR 0x80],
      [CHR 0xE2, CHR 0x80, CHR 0x80], [CHR 0xE2, CHR 0x80, CHR 0x81],
      [CHR 0xE2, CHR 0x80, CHR 0x82], [CHR 0xE2, CHR 0x80, CHR 0x83],
      [CHR 0xE2, CHR 0x80, CHR 0x84], [CHR 0xE2, CHR 0x80, CHR 0x85],
      [CHR 0xE2, CHR 0x80, CHR 0x86], [CHR 0xE2, CHR 0x80, CHR 0x87],
      [CHR 0xE2, CHR 0x80, CHR 0x88], [CHR 0xE2, CHR 0x80, CHR 0x89],
      [CHR 0xE2, CHR 0x80, CHR 0x8A], [CHR 0xE2, CHR 0x80, CHR 0xA8],
      [CHR 0xE2, CHR 0x80, CHR 0xA9], [CHR 0xE2, CHR 0x80, CHR 0xAF],
      [CHR 0xE2, CHR 0x81, CHR 0x9F], [CHR 0xE3, CHR 0x80, CHR 0x80]]"

function strip_runes :: "string list \<Rightarrow> string \<Rightarrow> string" where
  "strip_runes ws s =
     (case find (\<lambda>w. w \<noteq> [] \<and> has_prefix s w) ws of
        None \<Rightarrow> s
      | Some w \<Rightarrow> strip_runes ws (drop (length w) s))"
  by pat_completeness auto
termination
proof (relation "measure (\<lambda>(ws, s). length s)")
  fix ws :: "string list" and s w
  assume "find (\<lambda>w. w \<noteq> [] \<and> has_prefix s w) ws = Some w"
  then have "w \<noteq> []" and "has_prefix s w"
    using find_some_in by fastforce+
  then have "0 < length w" and "length w \<le> length s"
    by (auto simp: has_prefix_iff)
  then have "length (drop (length w) s) < length s"
    by (simp only: length_drop)
  then show "((ws, drop (length w) s), (ws, s)) \<in> measure (\<lambda>(ws, s). length s)"
    by simp
qed simp

declare strip_runes.simps [simp del]

definition trim_space :: "string \<Rightarrow> string" where
  "trim_space s =
     rev (strip_runes (map rev space_runes) (rev (strip_runes space_runes s)))"

definition no_space_front :: "string list \<Rightarrow> string \<Rightarrow> bool" where
  "no_space_front ws s \<longleftrightarrow> find (\<lambda>w. w \<noteq> [] \<and> has_prefix s w) ws = None"

lemma no_space_front_iff:
  "no_space_front ws s \<longleftrightarrow> (\<forall>w \<in> set ws. w = [] \<or> \<not> has_prefix s w)"
  by (auto simp: no_space_front_def find_none_all)

lemma strip_runes_front: "no_space_front ws (strip_runes ws s)"
proof (induction ws s rule: strip_runes.induct)
  case (1 ws s)
  show ?case
    using 1 by (subst strip_runes.simps) (auto simp: no_space_front_def split: option.split)
qed

lemma strip_runes_suffix: "\<exists>t. s = t @ strip_runes ws s"
proof (induction ws s rule: strip_runes.induct)
  case (1 ws s)
  show ?case
  proof (cases "find (\<lambda>w. w \<noteq> [] \<and> has_prefix s w) ws")
    case None
    then show ?thesis by (subst strip_runes.simps) simp
  next
    case (Some w)
    then have "has_prefix s w" using find_some_in by fastforce
    then obtain r where s: "s = w @ r" by (auto simp: has_prefix_iff)
    from 1[OF Some] obtain t where "drop (length w) s = t @ strip_runes ws (drop (length w) s)"
      by blast
    with s have "s = (w @ t) @ strip_runes ws (drop (length w) s)" by simp
    moreover from Some have "strip_runes ws s = strip_runes ws (drop (length w) s)"
      by (subst strip_runes.simps) simp
    ultimately show ?thesis by metis
  qed
qed

lemma strip_runes_id: "no_space_front ws s \<Longrightarrow> strip_runes ws s = s"
  by (subst strip_runes.simps) (simp add: no_space_front_def)

text \<open>A string is trimmed when no white space rune stands at either end.\<close>

definition trimmed :: "string \<Rightarrow> bool" where
  "trimmed s \<longleftrightarrow> no_space_front space_runes s \<and> no_space_front (map rev space_runes) (rev s)"

lemma trim_space_trimmed: "trimmed (trim_space s)"
proof -
  let ?l = "strip_runes space_runes s"
  let ?r = "strip_runes (map rev space_runes) (rev ?l)"
  obtain t where "rev ?l = t @ ?r" using strip_runes_suffix by metis
  then have l: "?l = rev ?r @ rev t" by (metis rev_append rev_rev_ident)
  have "no_space_front space_runes ?l" by (rule strip_runes_front)
  then have "no_space_front space_runes (rev ?r)"
    unfolding no_space_front_iff by (metis l has_prefix_appendI)
  moreover have "no_space_front (map rev space_runes) ?r" by (rule strip_runes_front)
  ultimately show ?thesis by (simp add: trimmed_def trim_space_def)
qed

lemma trim_space_id: "trimmed s \<Longrightarrow> trim_space s = s"
  by (simp add: trimmed_def trim_space_def strip_runes_id)

lemma trim_space_idem [simp]: "trim_space (trim_space s) = trim_space s"
  by (rule trim_space_id, rule trim_space_trimmed)

lemma trim_space_Nil [simp]: "trim_space [] = []"
  by (rule trim_space_id) (simp add: trimmed_def no_space_front_def space_runes_def)

text \<open>Characters that begin or end no white space rune.\<close>

definition plain_char :: "char \<Rightarrow> bool" where
  "plain_char c \<longleftrightarrow> (\<forall>w \<in> set space_runes. hd w \<noteq> c \<and> last w \<noteq> c)"

lemma trimmed_plain:
  assumes "s \<noteq> []" and "plain_char (hd s)" and "plain_char (last s)"
  shows "trimmed s"
proof -
  from assms(1) obtain c cs where s: "s = c # cs" by (cases s) auto
  from assms(1) obtain d ds where r: "rev s = d # ds" by (cases "rev s") auto
  then have d: "d = last s" by (metis last_rev list.sel(1) hd_rev rev_rev_ident)
  have ne: "\<forall>w \<in> set space_runes. w \<noteq> []" by (simp add: space_runes_def)
  have "\<not> has_prefix s w" if "w \<in> set space_runes" for w
  proof
    assume "has_prefix s w"
    then obtain t where "c # cs = w @ t" by (auto simp: has_prefix_iff s)
    with ne that have "c = hd w" by (metis hd_append2 list.sel(1))
    with assms(2) that s show False by (auto simp: plain_char_def)
  qed
  then have "no_space_front space_runes s" by (simp add: no_space_front_iff)
  moreover have "\<not> has_prefix (rev s) (rev w)" if "w \<in> set space_runes" for w
  proof
    assume "has_prefix (rev s) (rev w)"
    then obtain t where "rev s = rev w @ t" by (auto simp: has_prefix_iff)
    moreover have "rev w = last w # rev (butlast w)"
      using ne that by (metis append_butlast_last_id rev.simps(2) rev_rev_ident rev_swap)
    ultimately have "d = last w" using r by simp
    with assms(3) that d show False by (auto simp: plain_char_def)
  qed
  ultimately show ?thesis by (auto simp: trimmed_def no_space_front_iff)
qed

section \<open>Case\<close>

definition upper_ascii :: "char \<Rightarrow> bool" where
  "upper_ascii c \<longleftrightarrow> 65 \<le> (of_char c :: nat) \<and> (of_char c :: nat) \<le> 90"

definition lower_char :: "char \<Rightarrow> char" where
  "lower_char c = (if upper_ascii c then char_of ((of_char c :: nat) + 32) else c)"

definition ascii :: "string \<Rightarrow> bool" where
  "ascii s \<longleftrightarrow> (\<forall>c \<in> set s. (of_char c :: nat) < 128)"

lemma ascii_simps [simp]:
  "ascii []" "ascii (c # s) \<longleftrightarrow> (of_char c :: nat) < 128 \<and> ascii s"
  by (auto simp: ascii_def)

text \<open>
  The runes of a string; every byte that does not belong to an encoding is U+FFFD, as
  \<open>strings.Map\<close> replaces it. \<open>runeBytes\<close> is the encoding of a rune.
\<close>

definition cont :: "nat \<Rightarrow> bool" where
  "cont b \<longleftrightarrow> 128 \<le> b \<and> b < 192"

definition runeError :: nat where
  "runeError = 65533"

fun runes :: "nat list \<Rightarrow> nat list" where
  "runes [] = []"
| "runes (a # s) =
     (if a < 128 then a # runes s
      else case s of
          [] \<Rightarrow> [runeError]
        | b # s2 \<Rightarrow>
            (if 194 \<le> a \<and> a < 224 \<and> cont b then ((a - 192) * 64 + (b - 128)) # runes s2
             else case s2 of
                 [] \<Rightarrow> runeError # runes s
               | c # s3 \<Rightarrow>
                   (if 224 \<le> a \<and> a < 240 \<and> cont b \<and> cont c \<and> (a = 224 \<longrightarrow> 160 \<le> b) \<and> (a = 237 \<longrightarrow> b < 160)
                    then ((a - 224) * 4096 + (b - 128) * 64 + (c - 128)) # runes s3
                    else case s3 of
                        [] \<Rightarrow> runeError # runes s
                      | d # s4 \<Rightarrow>
                          (if 240 \<le> a \<and> a < 245 \<and> cont b \<and> cont c \<and> cont d \<and> (a = 240 \<longrightarrow> 144 \<le> b) \<and> (a = 244 \<longrightarrow> b < 144)
                           then ((a - 240) * 262144 + (b - 128) * 4096 + (c - 128) * 64 + (d - 128)) # runes s4
                           else runeError # runes s))))"

definition runeBytes :: "nat \<Rightarrow> nat list" where
  "runeBytes r =
     (if r < 128 then [r]
      else if r < 2048 then [192 + r div 64, 128 + r mod 64]
      else if r < 65536 then [224 + r div 4096, 128 + r div 64 mod 64, 128 + r mod 64]
      else [240 + r div 262144, 128 + r div 4096 mod 64, 128 + r div 64 mod 64, 128 + r mod 64])"

text \<open>
  \<open>unicode.ToLower\<close> outside ASCII: the first and last rune of a range of letters, their
  distance in it (the letters of two cases alternate in some ranges), and what is added.
\<close>

definition lowerRanges :: "(nat \<times> nat \<times> nat \<times> int) list" where
  "lowerRanges =
    [(192, 214, 1, 32), (216, 222, 1, 32), (256, 302, 2, 1), (304, 304, 1, - 199), (306, 310, 2,
     1), (313, 327, 2, 1), (330, 374, 2, 1), (376, 376, 1, - 121), (377, 381, 2, 1), (385, 385,
     1, 210), (386, 388, 2, 1), (390, 390, 1, 206), (391, 391, 1, 1), (393, 394, 1, 205), (395,
     395, 1, 1), (398, 398, 1, 79), (399, 399, 1, 202), (400, 400, 1, 203), (401, 401, 1, 1),
     (403, 403, 1, 205), (404, 404, 1, 207), (406, 406, 1, 211), (407, 407, 1, 209), (408, 408,
     1, 1), (412, 412, 1, 211), (413, 413, 1, 213), (415, 415, 1, 214), (416, 420, 2, 1), (422,
     422, 1, 218), (423, 423, 1, 1), (425, 425, 1, 218), (428, 428, 1, 1), (430, 430, 1, 218),
     (431, 431, 1, 1), (433, 434, 1, 217), (435, 437, 2, 1), (439, 439, 1, 219), (440, 440, 1,
     1), (444, 444, 1, 1), (452, 452, 1, 2), (453, 453, 1, 1), (455, 455, 1, 2), (456, 456, 1,
     1), (458, 458, 1, 2), (459, 475, 2, 1), (478, 494, 2, 1), (497, 497, 1, 2), (498, 500, 2,
     1), (502, 502, 1, - 97), (503, 503, 1, - 56), (504, 542, 2, 1), (544, 544, 1, - 130), (546,
     562, 2, 1), (570, 570, 1, 10795), (571, 571, 1, 1), (573, 573, 1, - 163), (574, 574, 1,
     10792), (577, 577, 1, 1), (579, 579, 1, - 195), (580, 580, 1, 69), (581, 581, 1, 71), (582,
     590, 2, 1), (880, 882, 2, 1), (886, 886, 1, 1), (895, 895, 1, 116), (902, 902, 1, 38), (904,
     906, 1, 37), (908, 908, 1, 64), (910, 911, 1, 63), (913, 929, 1, 32), (931, 939, 1, 32),
     (975, 975, 1, 8), (984, 1006, 2, 1), (1012, 1012, 1, - 60), (1015, 1015, 1, 1), (1017, 1017,
     1, - 7), (1018, 1018, 1, 1), (1021, 1023, 1, - 130), (1024, 1039, 1, 80), (1040, 1071, 1,
     32), (1120, 1152, 2, 1), (1162, 1214, 2, 1), (1216, 1216, 1, 15), (1217, 1229, 2, 1), (1232,
     1326, 2, 1), (1329, 1366, 1, 48), (4256, 4293, 1, 7264), (4295, 4295, 1, 7264), (4301, 4301,
     1, 7264), (5024, 5103, 1, 38864), (5104, 5109, 1, 8), (7312, 7354, 1, - 3008), (7357, 7359,
     1, - 3008), (7680, 7828, 2, 1), (7838, 7838, 1, - 7615), (7840, 7934, 2, 1), (7944, 7951, 1,
     - 8), (7960, 7965, 1, - 8), (7976, 7983, 1, - 8), (7992, 7999, 1, - 8), (8008, 8013, 1, -
     8), (8025, 8031, 2, - 8), (8040, 8047, 1, - 8), (8072, 8079, 1, - 8), (8088, 8095, 1, - 8),
     (8104, 8111, 1, - 8), (8120, 8121, 1, - 8), (8122, 8123, 1, - 74), (8124, 8124, 1, - 9),
     (8136, 8139, 1, - 86), (8140, 8140, 1, - 9), (8152, 8153, 1, - 8), (8154, 8155, 1, - 100),
     (8168, 8169, 1, - 8), (8170, 8171, 1, - 112), (8172, 8172, 1, - 7), (8184, 8185, 1, - 128),
     (8186, 8187, 1, - 126), (8188, 8188, 1, - 9), (8486, 8486, 1, - 7517), (8490, 8490, 1, -
     8383), (8491, 8491, 1, - 8262), (8498, 8498, 1, 28), (8544, 8559, 1, 16), (8579, 8579, 1,
     1), (9398, 9423, 1, 26), (11264, 11311, 1, 48), (11360, 11360, 1, 1), (11362, 11362, 1, -
     10743), (11363, 11363, 1, - 3814), (11364, 11364, 1, - 10727), (11367, 11371, 2, 1), (11373,
     11373, 1, - 10780), (11374, 11374, 1, - 10749), (11375, 11375, 1, - 10783), (11376, 11376,
     1, - 10782), (11378, 11378, 1, 1), (11381, 11381, 1, 1), (11390, 11391, 1, - 10815), (11392,
     11490, 2, 1), (11499, 11501, 2, 1), (11506, 11506, 1, 1), (42560, 42604, 2, 1), (42624,
     42650, 2, 1), (42786, 42798, 2, 1), (42802, 42862, 2, 1), (42873, 42875, 2, 1), (42877,
     42877, 1, - 35332), (42878, 42886, 2, 1), (42891, 42891, 1, 1), (42893, 42893, 1, - 42280),
     (42896, 42898, 2, 1), (42902, 42920, 2, 1), (42922, 42922, 1, - 42308), (42923, 42923, 1, -
     42319), (42924, 42924, 1, - 42315), (42925, 42925, 1, - 42305), (42926, 42926, 1, - 42308),
     (42928, 42928, 1, - 42258), (42929, 42929, 1, - 42282), (42930, 42930, 1, - 42261), (42931,
     42931, 1, 928), (42932, 42946, 2, 1), (42948, 42948, 1, - 48), (42949, 42949, 1, - 42307),
     (42950, 42950, 1, - 35384), (42951, 42953, 2, 1), (42960, 42960, 1, 1), (42966, 42968, 2,
     1), (42997, 42997, 1, 1), (65313, 65338, 1, 32), (66560, 66599, 1, 40), (66736, 66771, 1,
     40), (66928, 66938, 1, 39), (66940, 66954, 1, 39), (66956, 66962, 1, 39), (66964, 66965, 1,
     39), (68736, 68786, 1, 64), (71840, 71871, 1, 32), (93760, 93791, 1, 32), (125184, 125217,
     1, 34)]"

definition lowerRune :: "nat \<Rightarrow> nat" where
  "lowerRune r =
     (if 65 \<le> r \<and> r \<le> 90 then r + 32
      else case find (\<lambda>(lo, hi, step, delta). lo \<le> r \<and> r \<le> hi \<and> (r - lo) mod step = 0) lowerRanges of
          None \<Rightarrow> r
        | Some (lo, hi, step, delta) \<Rightarrow> nat (int r + delta))"

definition to_lower :: "string \<Rightarrow> string" where
  "to_lower s =
     (if ascii s then map lower_char s
      else map char_of (concat (map (\<lambda>r. runeBytes (lowerRune r)) (runes (map of_char s)))))"

lemma to_lower_ascii [simp]: "ascii s \<Longrightarrow> to_lower s = map lower_char s"
  by (simp add: to_lower_def)

lemma runes_eq_Nil [simp]: "runes s = [] \<longleftrightarrow> s = []"
  by (cases s) (auto split: list.split)

lemma runeBytes_not_Nil [simp]: "runeBytes r \<noteq> []"
  by (simp add: runeBytes_def)

lemma to_lower_eq_Nil [simp]: "to_lower s = [] \<longleftrightarrow> s = []"
  by (auto simp: to_lower_def)

text \<open>
  The key on which \<open>strings.EqualFold\<close> compares: ASCII letters in lower case, U+017F
  (C5 BF) as s, U+212A as k.
\<close>

fun fold_key :: "string \<Rightarrow> string" where
  "fold_key [] = []"
| "fold_key [c] = [lower_char c]"
| "fold_key [c, d] =
     (if c = CHR 0xC5 \<and> d = CHR 0xBF then ''s'' else lower_char c # fold_key [d])"
| "fold_key (c # d # e # s) =
     (if c = CHR 0xC5 \<and> d = CHR 0xBF then CHR ''s'' # fold_key (e # s)
      else if c = CHR 0xE2 \<and> d = CHR 0x84 \<and> e = CHR 0xAA then CHR ''k'' # fold_key s
      else lower_char c # fold_key (d # e # s))"

definition equal_fold :: "string \<Rightarrow> string \<Rightarrow> bool" where
  "equal_fold s t \<longleftrightarrow> fold_key s = fold_key t"

lemma fold_key_ascii: "ascii s \<Longrightarrow> fold_key s = map lower_char s"
  by (induction s rule: fold_key.induct) (auto simp: ascii_def)

section \<open>Splitting and trimming at a byte\<close>

text \<open>\<open>strings.Split(s, sep)\<close> for a separator of one byte: never an empty list.\<close>

fun split_on :: "char \<Rightarrow> string \<Rightarrow> string list" where
  "split_on sep [] = [[]]"
| "split_on sep (c # cs) =
     (if c = sep then [] # split_on sep cs
      else (case split_on sep cs of [] \<Rightarrow> [[c]] | p # ps \<Rightarrow> (c # p) # ps))"

definition trim_byte :: "char \<Rightarrow> string \<Rightarrow> string" where
  "trim_byte b s = rev (dropWhile (\<lambda>c. c = b) (rev (dropWhile (\<lambda>c. c = b) s)))"

fun index_byte :: "string \<Rightarrow> char \<Rightarrow> nat option" where
  "index_byte [] c = None"
| "index_byte (d # s) c = (if d = c then Some 0 else map_option Suc (index_byte s c))"

lemma split_on_not_Nil [simp]: "split_on sep s \<noteq> []"
  by (induction s) (auto split: list.split)

lemma split_on_no_sep: "sep \<notin> set s \<Longrightarrow> split_on sep s = [s]"
  by (induction s) auto

lemma split_on_append: "sep \<notin> set a \<Longrightarrow> split_on sep (a @ sep # b) = a # split_on sep b"
  by (induction a) auto

lemma split_on_pieces: "p \<in> set (split_on sep s) \<Longrightarrow> sep \<notin> set p"
  by (induction s arbitrary: p) (auto split: list.splits if_splits)

lemma index_byte_Some:
  "index_byte s c = Some n \<Longrightarrow>
     n < length s \<and> s ! n = c \<and> c \<notin> set (take n s)"
  by (induction s arbitrary: n) (auto split: if_splits)

lemma index_byte_append: "c \<notin> set a \<Longrightarrow> index_byte (a @ c # b) c = Some (length a)"
  by (induction a) auto

lemma dropWhile_keep: "hd s \<noteq> b \<Longrightarrow> dropWhile (\<lambda>c. c = b) s = s"
  by (cases s) auto

lemma trim_byte_id: "s \<noteq> [] \<Longrightarrow> hd s \<noteq> b \<Longrightarrow> last s \<noteq> b \<Longrightarrow> trim_byte b s = s"
  by (simp add: trim_byte_def dropWhile_keep hd_rev)

lemma trim_byte_empty [simp]: "trim_byte b [] = []"
  by (simp add: trim_byte_def)

end
