(* ===== verification/Go_Numbers.thy ===== *)
theory Go_Numbers
  imports Go_Strings
begin

text \<open>
  \<open>strconv.Itoa\<close>, \<open>strconv.Atoi\<close> and \<open>net.JoinHostPort\<close>. \<open>Atoi\<close> accepts an optional
  sign and decimal digits and fails outside the range of a 64-bit integer.
\<close>

section \<open>Decimal digits\<close>

definition digit_char :: "nat \<Rightarrow> char" where
  "digit_char d = char_of (48 + d)"

definition is_digit :: "char \<Rightarrow> bool" where
  "is_digit c \<longleftrightarrow> 48 \<le> (of_char c :: nat) \<and> (of_char c :: nat) \<le> 57"

definition digit_val :: "char \<Rightarrow> nat" where
  "digit_val c = of_char c - 48"

lemma digit_char_code: "d < 10 \<Longrightarrow> (of_char (digit_char d) :: nat) = 48 + d"
  by (simp add: digit_char_def)

lemma is_digit_digit_char [simp]: "d < 10 \<Longrightarrow> is_digit (digit_char d)"
  by (simp add: is_digit_def digit_char_code)

lemma digit_val_digit_char [simp]: "d < 10 \<Longrightarrow> digit_val (digit_char d) = d"
  by (simp add: digit_val_def digit_char_code)

fun dec_nat :: "nat \<Rightarrow> string" where
  "dec_nat n = (if n < 10 then [digit_char n] else dec_nat (n div 10) @ [digit_char (n mod 10)])"

declare dec_nat.simps [simp del]

definition itoa :: "int \<Rightarrow> string" where
  "itoa i = (if i < 0 then CHR ''-'' # dec_nat (nat (- i)) else dec_nat (nat i))"

fun undec :: "nat \<Rightarrow> string \<Rightarrow> nat option" where
  "undec acc [] = Some acc"
| "undec acc (c # cs) = (if is_digit c then undec (acc * 10 + digit_val c) cs else None)"

text \<open>\<open>None\<close> stands for a returned error (syntax or range), which no caller inspects.\<close>

definition atoi :: "string \<Rightarrow> int option" where
  "atoi s =
     (let neg = (s \<noteq> [] \<and> hd s = CHR ''-'');
          ds = (if s \<noteq> [] \<and> (hd s = CHR ''-'' \<or> hd s = CHR ''+'') then tl s else s)
      in if ds = [] then None
         else case undec 0 ds of
             None \<Rightarrow> None
           | Some n \<Rightarrow>
               (if neg then (if - int n \<ge> min_int64 then Some (- int n) else None)
                else (if int n \<le> max_int64 then Some (int n) else None)))"

lemma dec_nat_ne [simp]: "dec_nat n \<noteq> []"
  by (subst dec_nat.simps) simp

lemma dec_nat_digits: "c \<in> set (dec_nat n) \<Longrightarrow> is_digit c"
proof (induction n rule: dec_nat.induct)
  case (1 n)
  show ?case
  proof (cases "n < 10")
    case True
    with 1(2) show ?thesis by (subst (asm) dec_nat.simps) simp
  next
    case False
    with 1(2) have "c \<in> set (dec_nat (n div 10)) \<or> c = digit_char (n mod 10)"
      by (subst (asm) dec_nat.simps) auto
    with 1(1)[OF False] show ?thesis by auto
  qed
qed

lemma undec_append: "undec acc (s @ t) = Option.bind (undec acc s) (\<lambda>a. undec a t)"
  by (induction acc s rule: undec.induct) auto

lemma undec_dec_nat: "undec 0 (dec_nat n) = Some n"
proof (induction n rule: dec_nat.induct)
  case (1 n)
  show ?case
    using 1 by (subst dec_nat.simps) (simp add: undec_append)
qed

lemma hd_dec_nat: "is_digit (hd (dec_nat n))"
  using dec_nat_digits[OF hd_in_set[OF dec_nat_ne]] .

lemma last_dec_nat: "is_digit (last (dec_nat n))"
  using dec_nat_digits[OF last_in_set[OF dec_nat_ne]] .

lemma not_digit_signs [simp]: "\<not> is_digit CHR ''-''" "\<not> is_digit CHR ''+''"
  "\<not> is_digit CHR ''~''" "\<not> is_digit CHR '':''" "\<not> is_digit CHR ''.''"
  by (simp_all add: is_digit_def)

lemma dec_nat_hd_ne: "\<not> is_digit c \<Longrightarrow> hd (dec_nat n) \<noteq> c"
  using hd_dec_nat by auto

lemma dec_nat_notin: "\<not> is_digit c \<Longrightarrow> c \<notin> set (dec_nat n)"
  using dec_nat_digits by blast

lemma atoi_dec_nat: "int n \<le> max_int64 \<Longrightarrow> atoi (dec_nat n) = Some (int n)"
  by (simp add: atoi_def Let_def dec_nat_hd_ne undec_dec_nat)

lemma atoi_itoa: "min_int64 \<le> i \<Longrightarrow> i \<le> max_int64 \<Longrightarrow> atoi (itoa i) = Some i"
  by (auto simp: itoa_def atoi_dec_nat atoi_def Let_def undec_dec_nat dec_nat_hd_ne)

lemma atoi_range: "atoi s = Some i \<Longrightarrow> min_int64 \<le> i \<and> i \<le> max_int64"
  by (auto simp: atoi_def Let_def min_int64_def max_int64_def split: if_splits option.splits)

lemma atoi_Nil [simp]: "atoi [] = None"
  by (simp add: atoi_def)

lemma itoa_ne [simp]: "itoa i \<noteq> []"
  by (simp add: itoa_def)

lemma itoa_chars: "c \<in> set (itoa i) \<Longrightarrow> is_digit c \<or> c = CHR ''-''"
  by (auto simp: itoa_def dec_nat_digits split: if_splits)

lemma itoa_notin: "\<not> is_digit c \<Longrightarrow> c \<noteq> CHR ''-'' \<Longrightarrow> c \<notin> set (itoa i)"
  using itoa_chars by blast

lemma dec_nat_inj: "dec_nat m = dec_nat n \<longleftrightarrow> m = n"
  by (metis undec_dec_nat option.inject)

lemma itoa_inj [simp]: "itoa i = itoa j \<longleftrightarrow> i = j"
proof
  assume eq: "itoa i = itoa j"
  have neg: "i < 0 \<longleftrightarrow> hd (itoa i) = CHR ''-''" for i
    by (simp add: itoa_def dec_nat_hd_ne)
  then have "i < 0 \<longleftrightarrow> j < 0" using eq by metis
  with eq show "i = j" by (auto simp: itoa_def dec_nat_inj split: if_splits)
qed simp

lemma plain_digit: "is_digit c \<Longrightarrow> plain_char c"
  by (auto simp: plain_char_def space_runes_def is_digit_def)

lemma trimmed_dec_nat [simp]: "trim_space (dec_nat n) = dec_nat n"
  by (rule trim_space_id, rule trimmed_plain)
    (simp_all add: plain_digit hd_dec_nat last_dec_nat)

section \<open>Host and port\<close>

definition join_host_port :: "string \<Rightarrow> string \<Rightarrow> string" where
  "join_host_port host port =
     (if index_byte host CHR '':'' \<noteq> None then ''['' @ host @ '']:'' @ port
      else host @ '':'' @ port)"

lemma index_byte_None: "index_byte s c = None \<longleftrightarrow> c \<notin> set s"
  by (induction s) auto

lemma first_sep_inject:
  "c \<notin> set x \<Longrightarrow> c \<notin> set y \<Longrightarrow> x @ c # a = y @ c # b \<longleftrightarrow> x = y \<and> a = b"
proof (induction x arbitrary: y)
  case Nil
  then show ?case by (cases y) auto
next
  case (Cons d x)
  then show ?case by (cases y) auto
qed

lemma append_sep_inject:
  assumes "a @ c # x = b @ c # y" and "c \<notin> set x" and "c \<notin> set y"
  shows "a = b \<and> x = y"
proof -
  have "rev x @ c # rev a = rev y @ c # rev b"
    using arg_cong[OF assms(1), of rev] by simp
  then have "rev x = rev y \<and> rev a = rev b"
    using assms(2,3) by (subst (asm) first_sep_inject) simp_all
  then show ?thesis by simp
qed

lemma join_host_port_inj:
  assumes "join_host_port h p = join_host_port h' p'"
    and "CHR '':'' \<notin> set p" and "CHR '':'' \<notin> set p'"
  shows "h = h' \<and> p = p'"
proof -
  have form: "\<exists>a. join_host_port h p = a @ CHR '':'' # p \<and>
      (if CHR '':'' \<in> set h then a = ''['' @ h @ '']'' else a = h)" for h p
    by (auto simp: join_host_port_def index_byte_None)
  obtain a where a: "join_host_port h p = a @ CHR '':'' # p"
    "if CHR '':'' \<in> set h then a = ''['' @ h @ '']'' else a = h" using form by blast
  obtain b where b: "join_host_port h' p' = b @ CHR '':'' # p'"
    "if CHR '':'' \<in> set h' then b = ''['' @ h' @ '']'' else b = h'" using form by blast
  from a(1) b(1) assms have "a = b \<and> p = p'" by (metis append_sep_inject)
  with a(2) b(2) show ?thesis by (auto split: if_splits)
qed

end
