(* ===== verification/Go_Ip.thy ===== *)
theory Go_Ip
  imports Go_Numbers
begin

text \<open>
  The part of Go's \<open>net.IP\<close> the program uses: addresses are byte slices of length 4 or 16
  (the empty slice is the nil address), compared with \<open>Equal\<close>, narrowed with \<open>To4\<close>,
  printed with \<open>String\<close> and read with \<open>ParseIP\<close> (dotted IPv4, and IPv6 with an ellipsis
  or an embedded IPv4 tail; a zone is refused).
\<close>

type_synonym ip = "byte list"

definition v4_prefix :: ip where
  "v4_prefix = [0, 0, 0, 0, 0, 0, 0, 0, 0, 0, 255, 255]"

text \<open>\<open>To4\<close>: the empty list is Go's nil.\<close>

definition to4 :: "ip \<Rightarrow> ip" where
  "to4 a =
     (if length a = 4 then a
      else if length a = 16 \<and> take 12 a = v4_prefix then drop 12 a
      else [])"

definition ip_equal :: "ip \<Rightarrow> ip \<Rightarrow> bool" where
  "ip_equal a b =
     (if length a = length b then a = b
      else if length a = 4 \<and> length b = 16 then take 12 b = v4_prefix \<and> a = drop 12 b
      else if length a = 16 \<and> length b = 4 then take 12 a = v4_prefix \<and> drop 12 a = b
      else False)"

definition ipv4_zero :: ip where
  "ipv4_zero = v4_prefix @ [0, 0, 0, 0]"

definition ipv6_unspecified :: ip where
  "ipv6_unspecified = replicate 16 0"

definition is_unspecified :: "ip \<Rightarrow> bool" where
  "is_unspecified a \<longleftrightarrow> ip_equal a ipv4_zero \<or> ip_equal a ipv6_unspecified"

text \<open>\<open>ip_equal\<close> compares the 16-byte forms, so it is an equivalence.\<close>

definition to16 :: "ip \<Rightarrow> ip" where
  "to16 a = (if length a = 4 then v4_prefix @ a else a)"

lemma length_v4_prefix [simp]: "length v4_prefix = 12"
  by (simp add: v4_prefix_def)

lemma ip_equal_to16: "ip_equal a b \<longleftrightarrow> to16 a = to16 b"
proof -
  have join: "length b = 16 \<Longrightarrow>
      v4_prefix @ a = b \<longleftrightarrow> take 12 b = v4_prefix \<and> a = drop 12 b" for a b :: ip
    by (metis append_eq_conv_conj length_v4_prefix)
  have len: "to16 a = to16 b \<Longrightarrow> length a \<noteq> length b \<Longrightarrow>
      (length a = 4 \<and> length b = 16) \<or> (length a = 16 \<and> length b = 4)"
    by (auto simp: to16_def dest: arg_cong[of _ _ length] split: if_splits)
  consider "length a = length b" | "length a = 4" "length b = 16"
    | "length a = 16" "length b = 4"
    | "length a \<noteq> length b" "\<not> (length a = 4 \<and> length b = 16)" "\<not> (length a = 16 \<and> length b = 4)"
    by blast
  then show ?thesis
  proof cases
    case 1
    then show ?thesis by (simp add: ip_equal_def to16_def)
  next
    case 2
    then show ?thesis using join[of b a] by (simp add: ip_equal_def to16_def)
  next
    case 3
    then show ?thesis using join[of a b] by (auto simp: ip_equal_def to16_def)
  next
    case 4
    then show ?thesis using len by (auto simp: ip_equal_def)
  qed
qed

lemma ip_equal_refl [simp]: "ip_equal a a"
  by (simp add: ip_equal_to16)

lemma ip_equal_sym: "ip_equal a b \<Longrightarrow> ip_equal b a"
  by (simp add: ip_equal_to16)

lemma ip_equal_trans: "ip_equal a b \<Longrightarrow> ip_equal b c \<Longrightarrow> ip_equal a c"
  by (simp add: ip_equal_to16)

section \<open>Printing\<close>

definition hex_digit :: "nat \<Rightarrow> char" where
  "hex_digit d = (if d < 10 then char_of (48 + d) else char_of (87 + d))"

fun hex_nat :: "nat \<Rightarrow> string" where
  "hex_nat n = (if n < 16 then [hex_digit n] else hex_nat (n div 16) @ [hex_digit (n mod 16)])"

declare hex_nat.simps [simp del]

definition hex_byte :: "byte \<Rightarrow> string" where
  "hex_byte b = [hex_digit (unat b div 16), hex_digit (unat b mod 16)]"

definition dotted :: "ip \<Rightarrow> string" where
  "dotted a = concat (map (\<lambda>(i, b). (if i = 0 then [] else ''.'') @ dec_nat (unat b))
                (enumerate 0 a))"

fun words16 :: "byte list \<Rightarrow> nat list" where
  "words16 (h # l # bs) = (unat h * 256 + unat l) # words16 bs"
| "words16 _ = []"

text \<open>The first longest run of at least two zero words: its start and its end.\<close>

definition zero_run :: "nat list \<Rightarrow> nat \<Rightarrow> nat" where
  "zero_run ws i = length (takeWhile (\<lambda>w. w = 0) (drop i ws))"

definition best_run :: "nat list \<Rightarrow> (nat \<times> nat) option" where
  "best_run ws =
     foldl (\<lambda>best i.
        let l = zero_run ws i in
        if l \<ge> 2 \<and> l > (case best of None \<Rightarrow> 0 | Some (s, e) \<Rightarrow> e - s) then Some (i, i + l)
        else best) None [0..<length ws]"

definition join_colon :: "nat list \<Rightarrow> string" where
  "join_colon ws = concat (map (\<lambda>(i, w). (if i = 0 then [] else '':'') @ hex_nat w) (enumerate 0 ws))"

definition v6_string :: "ip \<Rightarrow> string" where
  "v6_string a =
     (let ws = words16 a in
      case best_run ws of
        None \<Rightarrow> join_colon ws
      | Some (s, e) \<Rightarrow> join_colon (take s ws) @ ''::'' @ join_colon (drop e ws))"

definition ip_string :: "ip \<Rightarrow> string" where
  "ip_string a =
     (if a = [] then ''<nil>''
      else if length a \<noteq> 4 \<and> length a \<noteq> 16 then ''?'' @ concat (map hex_byte a)
      else if to4 a \<noteq> [] then dotted (to4 a)
      else v6_string a)"

section \<open>Parsing\<close>

definition v4_field :: "string \<Rightarrow> byte option" where
  "v4_field s =
     (if s = [] \<or> (length s > 1 \<and> hd s = CHR ''0'') then None
      else case undec 0 s of
          None \<Rightarrow> None
        | Some n \<Rightarrow> (if n \<le> 255 then Some (of_nat n) else None))"

definition parse_v4 :: "string \<Rightarrow> ip option" where
  "parse_v4 s =
     (case split_on CHR ''.'' s of
        [a, b, c, d] \<Rightarrow>
          (case (v4_field a, v4_field b, v4_field c, v4_field d) of
             (Some w, Some x, Some y, Some z) \<Rightarrow> Some [w, x, y, z]
           | _ \<Rightarrow> None)
      | _ \<Rightarrow> None)"

definition hex_val :: "char \<Rightarrow> nat option" where
  "hex_val c =
     (let n = of_char c :: nat in
      if 48 \<le> n \<and> n \<le> 57 then Some (n - 48)
      else if 97 \<le> n \<and> n \<le> 102 then Some (n - 87)
      else if 65 \<le> n \<and> n \<le> 70 then Some (n - 55)
      else None)"

definition hex_group :: "string \<Rightarrow> nat" where
  "hex_group s = foldl (\<lambda>acc c. acc * 16 + the (hex_val c)) 0 s"

text \<open>
  The loop of \<open>parseIPv6\<close>: \<open>n\<close> groups may still come, \<open>acc\<close> holds the bytes read,
  \<open>ell\<close> the position of the ellipsis. The result is the bytes, the ellipsis and the
  unread rest.
\<close>

fun v6_loop :: "nat \<Rightarrow> string \<Rightarrow> ip \<Rightarrow> nat option \<Rightarrow> (ip \<times> nat option \<times> string) option" where
  "v6_loop 0 s acc ell = Some (acc, ell, s)"
| "v6_loop (Suc n) s acc ell =
     (let hex = takeWhile (\<lambda>c. hex_val c \<noteq> None) s;
          rest = drop (length hex) s;
          g = hex_group hex;
          acc' = acc @ [of_nat (g div 256), of_nat (g mod 256)]
      in
      if hex = [] \<or> length hex > 4 then None
      else if rest \<noteq> [] \<and> hd rest = CHR ''.'' then
        (if (ell = None \<and> length acc \<noteq> 12) \<or> length acc + 4 > 16 then None
         else case parse_v4 s of None \<Rightarrow> None | Some b \<Rightarrow> Some (acc @ b, ell, []))
      else if rest = [] then Some (acc', ell, [])
      else if hd rest \<noteq> CHR '':'' \<or> length rest = 1 then None
      else if hd (tl rest) = CHR '':'' then
        (if ell \<noteq> None then None
         else if tl (tl rest) = [] then Some (acc', Some (length acc'), [])
         else v6_loop n (tl (tl rest)) acc' (Some (length acc')))
      else v6_loop n (tl rest) acc' ell)"

definition v6_finish :: "ip \<times> nat option \<times> string \<Rightarrow> ip option" where
  "v6_finish r =
     (case r of (acc, ell, rest) \<Rightarrow>
        if rest \<noteq> [] then None
        else if length acc < 16 then
          (case ell of
             None \<Rightarrow> None
           | Some e \<Rightarrow> Some (take e acc @ replicate (16 - length acc) 0 @ drop e acc))
        else if ell \<noteq> None then None
        else Some acc)"

definition parse_v6 :: "string \<Rightarrow> ip option" where
  "parse_v6 s =
     (if has_prefix s ''::'' then
        (if length s = 2 then Some ipv6_unspecified
         else Option.bind (v6_loop 8 (drop 2 s) [] (Some 0)) v6_finish)
      else Option.bind (v6_loop 8 s [] None) v6_finish)"

definition parse_ip :: "string \<Rightarrow> ip option" where
  "parse_ip s =
     (case find (\<lambda>c. c = CHR ''.'' \<or> c = CHR '':'' \<or> c = CHR ''%'') s of
        None \<Rightarrow> None
      | Some c \<Rightarrow>
          (if c = CHR ''.'' then map_option (\<lambda>a. v4_prefix @ a) (parse_v4 s)
           else if c = CHR '':'' then (if CHR ''%'' \<in> set s then None else parse_v6 s)
           else None))"

section \<open>The dotted form reads back\<close>

lemma v4_field_dec: "v4_field (dec_nat (unat (b :: byte))) = Some b"
proof -
  have lt: "unat b \<le> 255" using unat_lt2p_byte[of b] by simp
  have "\<not> (length (dec_nat n) > 1 \<and> hd (dec_nat n) = CHR ''0'')" for n
  proof (induction n rule: dec_nat.induct)
    case (1 n)
    show ?case
    proof (cases "n < 10")
      case True
      then show ?thesis by (subst (1) dec_nat.simps) simp
    next
      case False
      have "hd (dec_nat (n div 10)) \<noteq> CHR ''0''"
      proof (cases "n div 10 < 10")
        case True
        with False have d: "n div 10 < 10" "0 < n div 10" by auto
        then have "(of_char (digit_char (n div 10)) :: nat) \<noteq> of_char CHR ''0''"
          by (simp add: digit_char_code)
        then have "digit_char (n div 10) \<noteq> CHR ''0''" by metis
        with d show ?thesis by (subst dec_nat.simps) simp
      next
        case big: False
        then have "length (dec_nat (n div 10)) > 1"
          by (subst dec_nat.simps) simp
        with 1[OF False] show ?thesis by simp
      qed
      with False show ?thesis by (subst (2) dec_nat.simps) simp
    qed
  qed
  with lt show ?thesis
    by (auto simp: v4_field_def undec_dec_nat)
qed

lemma dotted_4: "dotted [a, b, c, d] =
    dec_nat (unat a) @ CHR ''.'' # dec_nat (unat b) @ CHR ''.'' # dec_nat (unat c) @
    CHR ''.'' # dec_nat (unat d)"
  by (simp add: dotted_def enumerate_eq_zip upt_rec)

lemma parse_v4_dotted: "parse_v4 (dotted [a, b, c, d]) = Some [a, b, c, d]"
  by (simp add: parse_v4_def dotted_4 split_on_append split_on_no_sep dec_nat_notin v4_field_dec)

lemma length4_cases:
  assumes "length (x :: 'a list) = 4"
  obtains a b c d where "x = [a, b, c, d]"
proof -
  from assms obtain a b c d where "x = [a, b, c, d]"
    by (auto simp: length_Suc_conv eval_nat_numeral)
  then show ?thesis by (rule that)
qed

lemma find_dot_digits:
  assumes "\<forall>c \<in> set s. is_digit c"
  shows "find (\<lambda>c. c = CHR ''.'' \<or> c = CHR '':'' \<or> c = CHR ''%'') (s @ CHR ''.'' # t) = Some CHR ''.''"
  using assms by (induction s) (auto simp: is_digit_def)

lemma parse_ip_string_v4:
  assumes "length a = 4"
  shows "parse_ip (ip_string a) = Some (to16 a)"
proof -
  from assms obtain w x y z where a: "a = [w, x, y, z]" by (rule length4_cases)
  then have s: "ip_string a = dotted [w, x, y, z]" by (simp add: ip_string_def to4_def)
  have "find (\<lambda>c. c = CHR ''.'' \<or> c = CHR '':'' \<or> c = CHR ''%'') (dotted [w, x, y, z]) = Some CHR ''.''"
    unfolding dotted_4 by (rule find_dot_digits) (simp add: dec_nat_digits)
  then show ?thesis
    unfolding s parse_ip_def by (simp add: parse_v4_dotted to16_def a)
qed

end
