(* ===== verification/Stun.thy ===== *)
theory Stun
  imports Go_Ip
begin

text \<open>
  The STUN client of \<open>internal/core/stun.go\<close>: the binding request, the parser of binding
  responses (header, attribute walk, mapped address in plain and XOR form) and the exchange
  over a TCP connection. Packets are byte lists; every slice and index expression of the
  source is bounds-checked in the model, so an out-of-range access would be a visible
  \<open>GoPanic\<close> result.
\<close>

unbundle bit_operations_syntax

section \<open>Big-endian fields\<close>

fun be16 :: "byte list \<Rightarrow> (16 word) res" where
  "be16 (h # l # bs) = Inr (push_bit 8 (ucast h) OR ucast l)"
| "be16 _ = Inl (GoPanic ''index out of range'')"

fun be32 :: "byte list \<Rightarrow> (32 word) res" where
  "be32 (a # b # c # d # bs) =
     Inr (push_bit 24 (ucast a) OR push_bit 16 (ucast b) OR push_bit 8 (ucast c) OR ucast d)"
| "be32 _ = Inl (GoPanic ''index out of range'')"

definition put16 :: "16 word \<Rightarrow> byte list" where
  "put16 w = [ucast (drop_bit 8 w), ucast w]"

definition put32 :: "32 word \<Rightarrow> byte list" where
  "put32 w = [ucast (drop_bit 24 w), ucast (drop_bit 16 w), ucast (drop_bit 8 w), ucast w]"

lemma be16_put16 [simp]: "be16 (put16 w @ bs) = Inr w" "be16 (put16 w) = Inr w"
proof -
  have "push_bit 8 (ucast (ucast (drop_bit 8 w) :: byte)) OR ucast (ucast w :: byte) = w"
    by (rule bit_eqI) (auto simp: bit_simps)
  then show "be16 (put16 w @ bs) = Inr w" "be16 (put16 w) = Inr w" by (simp_all add: put16_def)
qed

lemma length_put16 [simp]: "length (put16 w) = 2"
  by (simp add: put16_def)

lemma length_put32 [simp]: "length (put32 w) = 4"
  by (simp add: put32_def)

section \<open>Constants and results\<close>

definition stunMagic :: "32 word" where "stunMagic = 0x2112A442"
definition stunBindingRequest :: "16 word" where "stunBindingRequest = 0x0001"
definition stunBindingSuccess :: "16 word" where "stunBindingSuccess = 0x0101"
definition stunMappedAddress :: "16 word" where "stunMappedAddress = 0x0001"
definition stunXORMappedAddr :: "16 word" where "stunXORMappedAddr = 0x0020"

lemmas stun_consts =
  stunMagic_def stunBindingRequest_def stunBindingSuccess_def stunMappedAddress_def
  stunXORMappedAddr_def

type_synonym tid = "byte list"

record stunResult =
  srTID :: tid
  srIP :: ip
  srPort :: int
  srServer :: string
  srSource :: string

definition zeroStunResult :: stunResult where
  "zeroStunResult = \<lparr>srTID = replicate 12 0, srIP = [], srPort = 0, srServer = [], srSource = []\<rparr>"

lemma be32_put32_magic: "be32 (put32 stunMagic) = Inr stunMagic"
  by (simp add: put32_def stunMagic_def)

section \<open>The request\<close>

text \<open>\<open>rand.Read\<close> into the 12 bytes of the transaction id is a parameter.\<close>

definition stunRequest :: "tid res \<Rightarrow> (byte list \<times> tid) res" where
  "stunRequest random =
     res_bind random (\<lambda>tid.
       Inr (put16 stunBindingRequest @ put16 0 @ put32 stunMagic @ tid, tid))"

section \<open>The parser\<close>

definition hex4 :: "16 word \<Rightarrow> string" where
  "hex4 w = (let h = hex_nat (unat w) in replicate (4 - length h) CHR ''0'' @ h)"

definition magicBytes :: "byte list" where
  "magicBytes = put32 stunMagic"

definition parseMappedAddress :: "16 word \<Rightarrow> byte list \<Rightarrow> stunResult res" where
  "parseMappedAddress attrType v =
     (if length v < 4 then Inl (ErrNew ''short mapped address'')
      else
        res_bind (index v 1) (\<lambda>family.
        res_bind (slice v 2 4) (\<lambda>pb.
        res_bind (be16 pb) (\<lambda>port0.
          let port = (if attrType = stunXORMappedAddr then port0 XOR ucast (drop_bit 16 stunMagic)
                      else port0) in
          if family = 0x01 then
            (if length v < 8 then Inl (ErrNew ''short ipv4 mapped address'')
             else
               res_bind (slice v 4 8) (\<lambda>a.
                 Inr (zeroStunResult
                   \<lparr>srIP := (if attrType = stunXORMappedAddr then map2 (XOR) a magicBytes else a),
                    srPort := int (unat port)\<rparr>)))
          else Inl (ErrNew ''unknown mapped address family'')))))"

text \<open>The attribute walk from position \<open>pos\<close> of the body.\<close>

function parseAttrs :: "tid \<Rightarrow> byte list \<Rightarrow> nat \<Rightarrow> stunResult res" where
  "parseAttrs tid body pos =
     (if pos + 4 \<le> length body then
        res_bind (slice body pos (pos + 2)) (\<lambda>tb.
        res_bind (be16 tb) (\<lambda>attrType.
        res_bind (slice body (pos + 2) (pos + 4)) (\<lambda>lb.
        res_bind (be16 lb) (\<lambda>attrLen.
          let valueStart = pos + 4; valueEnd = valueStart + unat attrLen in
          if valueEnd > length body then Inl (ErrNew ''invalid stun attribute'')
          else
            res_bind (slice body valueStart valueEnd) (\<lambda>v.
              if attrType = stunMappedAddress \<or> attrType = stunXORMappedAddr then
                res_bind (parseMappedAddress attrType v) (\<lambda>r. Inr (r\<lparr>srTID := tid\<rparr>))
              else
                parseAttrs tid body
                  (if valueEnd mod 4 \<noteq> 0 then valueEnd + (4 - valueEnd mod 4) else valueEnd))))))
      else Inl (ErrNew ''mapped address missing''))"
  by pat_completeness auto
termination
  by (relation "measure (\<lambda>(tid, body, pos). length body - pos)") auto

declare parseAttrs.simps [simp del]
declare add_2_eq_Suc [simp del] add_2_eq_Suc' [simp del]

definition parseSTUN :: "byte list \<Rightarrow> stunResult res" where
  "parseSTUN packet =
     (if length packet < 20 then Inl (ErrNew ''short stun packet'')
      else
        res_bind (slice packet 0 2) (\<lambda>mb.
        res_bind (be16 mb) (\<lambda>msgType.
          if msgType \<noteq> stunBindingSuccess then
            Inl (ErrNew (''unexpected stun message 0x'' @ hex4 msgType))
          else
            res_bind (slice packet 2 4) (\<lambda>lb.
            res_bind (be16 lb) (\<lambda>len.
              if 20 + unat len > length packet then Inl (ErrNew ''invalid stun length'')
              else
                res_bind (slice packet 4 8) (\<lambda>cb.
                res_bind (be32 cb) (\<lambda>magic.
                  if magic \<noteq> stunMagic then Inl (ErrNew ''invalid stun magic'')
                  else
                    res_bind (slice packet 8 20) (\<lambda>tid.
                    res_bind (slice packet 20 (20 + unat len)) (\<lambda>body.
                      parseAttrs tid body 0)))))))))"

section \<open>The exchange over TCP\<close>

text \<open>
  A connection: the errors of \<open>SetDeadline\<close> and \<open>Write\<close> if they fail, the bytes the peer
  sends, and the error a read reports when these bytes run out. \<open>io.ReadFull\<close> needs all the
  bytes it asks for.
\<close>

record stunConn =
  scDeadline :: "go_error option"
  scWrite :: "go_error option"
  scIn :: "byte list"
  scFail :: go_error

definition readFull :: "nat \<Rightarrow> stunConn \<Rightarrow> (byte list \<times> stunConn) res" where
  "readFull n c =
     (if n \<le> length (scIn c) then Inr (take n (scIn c), c\<lparr>scIn := drop n (scIn c)\<rparr>)
      else Inl (scFail c))"

definition stunTCP :: "tid res \<Rightarrow> stunConn \<Rightarrow> stunResult res" where
  "stunTCP random c =
     res_bind (stunRequest random) (\<lambda>(request, tid).
     case scDeadline c of Some e \<Rightarrow> Inl e | None \<Rightarrow>
     (case scWrite c of Some e \<Rightarrow> Inl e | None \<Rightarrow>
       res_bind (readFull 20 c) (\<lambda>(header, c1).
       res_bind (slice header 2 4) (\<lambda>lb.
       res_bind (be16 lb) (\<lambda>len.
       res_bind (readFull (unat len) c1) (\<lambda>(body, c2).
       res_bind (parseSTUN (header @ body)) (\<lambda>result.
         if srTID result \<noteq> tid then Inl (ErrNew ''stun transaction mismatch'')
         else Inr result)))))))"

section \<open>No out-of-range access\<close>

lemma be16_ok: "2 \<le> length bs \<Longrightarrow> \<exists>w. be16 bs = Inr w"
  by (cases bs rule: be16.cases) auto

lemma be32_ok: "4 \<le> length bs \<Longrightarrow> \<exists>w. be32 bs = Inr w"
  by (cases bs rule: be32.cases) auto

lemma slice_be16: "a + 2 \<le> length xs \<Longrightarrow> \<exists>w. be16 (take 2 (drop a xs)) = Inr w"
  by (rule be16_ok) simp

lemma parseMappedAddress_no_panic: "\<not> is_panic (parseMappedAddress t v)"
proof (cases "length v < 4")
  case True
  then show ?thesis by (simp add: parseMappedAddress_def)
next
  case False
  then obtain w where "be16 (take 2 (drop 2 v)) = Inr w" using slice_be16[of 2 v] by auto
  with False show ?thesis by (simp add: parseMappedAddress_def index_def slice_def Let_def)
qed

lemma is_panic_bind: "is_panic (res_bind r f) \<longleftrightarrow> is_panic r \<or> (\<exists>x. r = Inr x \<and> is_panic (f x))"
  by (cases r) (auto simp: is_panic_def)

lemma parseAttrs_no_panic: "\<not> is_panic (parseAttrs tid body pos)"
proof (induction tid body pos rule: parseAttrs.induct)
  case (1 tid body pos)
  show ?case
  proof (cases "pos + 4 \<le> length body")
    case False
    then show ?thesis by (subst parseAttrs.simps) simp
  next
    case True
    obtain t where t: "be16 (take 2 (drop pos body)) = Inr t"
      using True slice_be16[of pos body] by auto
    obtain l where l: "be16 (take 2 (drop (pos + 2) body)) = Inr l"
      using True slice_be16[of "pos + 2" body] by auto
    have sl: "slice body pos (pos + 2) = Inr (take 2 (drop pos body))"
      "slice body (pos + 2) (pos + 4) = Inr (take 2 (drop (pos + 2) body))"
      using True by (simp_all add: slice_def)
    show ?thesis
    proof (cases "pos + 4 + unat l > length body")
      case True
      then show ?thesis
        by (subst parseAttrs.simps) (simp add: t l sl Let_def)
    next
      case fits: False
      then have v: "slice body (pos + 4) (pos + 4 + unat l) =
          Inr (take (unat l) (drop (pos + 4) body))" by (simp add: slice_def)
      note IH = 1[OF True sl(1) t sl(2) l refl refl fits v]
      show ?thesis
        using fits IH
        by (subst parseAttrs.simps)
          (simp add: t l sl v Let_def is_panic_bind parseMappedAddress_no_panic)
    qed
  qed
qed

lemma parseSTUN_no_panic: "\<not> is_panic (parseSTUN packet)"
proof (cases "length packet < 20")
  case True
  then show ?thesis by (simp add: parseSTUN_def)
next
  case False
  obtain m where m: "be16 (take 2 packet) = Inr m"
    using False slice_be16[of 0 packet] by auto
  obtain l where l: "be16 (take 2 (drop 2 packet)) = Inr l"
    using False slice_be16[of 2 packet] by auto
  obtain c where c: "be32 (take 4 (drop 4 packet)) = Inr c"
    using False be32_ok[of "take 4 (drop 4 packet)"] by auto
  show ?thesis
    using False by (simp add: parseSTUN_def slice_def m l c parseAttrs_no_panic)
qed

end
