(* ===== verification/Stun_Correct.thy ===== *)
theory Stun_Correct
  imports Stun
begin

text \<open>
  Correctness of the STUN client against the wire format: a reference encoder of binding
  responses (RFC 5389 attributes with padding), the round trip of an XOR-mapped address
  through the parser behind any number of skipped attributes, what a successful parse says of
  the packet, and the transaction check of the exchange over TCP.
\<close>

unbundle bit_operations_syntax

section \<open>Reference encoder\<close>

type_synonym attr = "16 word \<times> byte list"

definition encodeAttr :: "attr \<Rightarrow> byte list" where
  "encodeAttr a =
     put16 (fst a) @ put16 (of_nat (length (snd a))) @ snd a @
     replicate ((4 - length (snd a) mod 4) mod 4) 0"

definition encodeAttrs :: "attr list \<Rightarrow> byte list" where
  "encodeAttrs as = concat (map encodeAttr as)"

definition encodeResponse :: "tid \<Rightarrow> byte list \<Rightarrow> byte list" where
  "encodeResponse tid body =
     put16 stunBindingSuccess @ put16 (of_nat (length body)) @ put32 stunMagic @ tid @ body"

definition xorAddress :: "ip \<Rightarrow> 16 word \<Rightarrow> byte list" where
  "xorAddress a port = [0, 1] @ put16 (port XOR 0x2112) @ map2 (XOR) a magicBytes"

definition skippable :: "attr \<Rightarrow> bool" where
  "skippable a \<longleftrightarrow> fst a \<noteq> stunMappedAddress \<and> fst a \<noteq> stunXORMappedAddr \<and> length (snd a) < 65536"

lemma length_encodeAttr: "length (encodeAttr a) = 4 + length (snd a) + (4 - length (snd a) mod 4) mod 4"
  by (simp add: encodeAttr_def)

lemma pad4: "(4 - n mod 4) mod 4 = (if n mod 4 = 0 then 0 else 4 - n mod 4)" for n :: nat
  by simp

lemma pad4_aligned: "(n + (if n mod 4 = 0 then 0 else 4 - n mod 4)) mod 4 = 0" for n :: nat
proof -
  have eq: "4 * q + r + (4 - r) = 4 * (q + 1)" if "r < 4" for q r :: nat
    using that by simp
  have "n + (4 - n mod 4) = 4 * (n div 4) + n mod 4 + (4 - n mod 4)" by simp
  also have "\<dots> = 4 * (n div 4 + 1)" by (rule eq) simp
  finally have "n + (4 - n mod 4) = 4 * (n div 4 + 1)" .
  then have "(n + (4 - n mod 4)) mod 4 = 0" by (metis mod_mult_self1_is_0)
  then show ?thesis by simp
qed

lemma encodeAttr_aligned: "length (encodeAttr a) mod 4 = 0"
proof -
  have "length (encodeAttr a) = 4 + (length (snd a) +
      (if length (snd a) mod 4 = 0 then 0 else 4 - length (snd a) mod 4))"
    unfolding length_encodeAttr pad4 by simp
  then show ?thesis using pad4_aligned[of "length (snd a)"] by (metis mod_add_self1)
qed

lemma unat_of_nat16: "n < 65536 \<Longrightarrow> unat (of_nat n :: 16 word) = n"
  by (simp add: unat_of_nat take_bit_eq_mod)

text \<open>One step of the walk, on a body cut at the attribute's fields.\<close>

lemma parseAttrs_at:
  assumes "body = pre @ put16 t @ put16 (of_nat (length v)) @ v @ post"
    and "pos = length pre" and "length v < 65536"
  shows "parseAttrs tid body pos =
    (if t = stunMappedAddress \<or> t = stunXORMappedAddr then
       res_bind (parseMappedAddress t v) (\<lambda>r. Inr (r\<lparr>srTID := tid\<rparr>))
     else parseAttrs tid body
       (let e = pos + 4 + length v in if e mod 4 \<noteq> 0 then e + (4 - e mod 4) else e))"
proof -
  have "slice body pos (pos + 2) = Inr (put16 t)"
    by (rule slice_mid[of _ pre]) (simp_all add: assms)
  moreover have "slice body (pos + 2) (pos + 4) = Inr (put16 (of_nat (length v)))"
    by (rule slice_mid[of _ "pre @ put16 t"]) (simp_all add: assms)
  moreover have "slice body (pos + 4) (pos + 4 + length v) = Inr v"
    by (rule slice_mid[of _ "pre @ put16 t @ put16 (of_nat (length v))"]) (simp_all add: assms)
  moreover have "pos + 4 + length v \<le> length body" by (simp add: assms)
  ultimately show ?thesis
    by (subst parseAttrs.simps) (simp add: unat_of_nat16[OF assms(3)] Let_def)
qed

lemma parseAttrs_skip1:
  assumes "skippable a" and "length pre mod 4 = 0"
  shows "parseAttrs tid (pre @ encodeAttr a @ post) (length pre) =
    parseAttrs tid (pre @ encodeAttr a @ post) (length (pre @ encodeAttr a))"
proof -
  let ?n = "length (snd a)"
  let ?e = "length pre + 4 + ?n"
  have "(if ?e mod 4 \<noteq> 0 then ?e + (4 - ?e mod 4) else ?e) = length pre + length (encodeAttr a)"
  proof -
    have "?e = length pre + (4 + ?n)" by simp
    then have "?e mod 4 = (length pre mod 4 + (4 + ?n) mod 4) mod 4" by (metis mod_add_eq)
    then have "?e mod 4 = ?n mod 4" using assms(2) by simp
    then show ?thesis unfolding length_encodeAttr pad4 by (simp add: ac_simps)
  qed
  moreover have "pre @ encodeAttr a @ post = pre @ put16 (fst a) @ put16 (of_nat ?n) @ snd a @
      (replicate ((4 - ?n mod 4) mod 4) 0 @ post)"
    by (simp add: encodeAttr_def)
  from parseAttrs_at[OF this refl] have "parseAttrs tid (pre @ encodeAttr a @ post) (length pre) =
      parseAttrs tid (pre @ encodeAttr a @ post)
        (if ?e mod 4 \<noteq> 0 then ?e + (4 - ?e mod 4) else ?e)"
    using assms(1) by (simp add: skippable_def Let_def)
  ultimately show ?thesis by simp
qed

lemma parseAttrs_skip:
  assumes "\<forall>a \<in> set as. skippable a" and "length pre mod 4 = 0"
  shows "parseAttrs tid (pre @ encodeAttrs as @ post) (length pre) =
    parseAttrs tid (pre @ encodeAttrs as @ post) (length (pre @ encodeAttrs as))"
  using assms
proof (induction as arbitrary: pre)
  case Nil
  then show ?case by (simp add: encodeAttrs_def)
next
  case (Cons a as)
  have "length (pre @ encodeAttr a) mod 4 = 0"
    using Cons.prems(2) encodeAttr_aligned[of a] by (simp add: mod_add_eq[symmetric])
  from Cons.IH[OF _ this] Cons.prems(1)
  have "parseAttrs tid (pre @ encodeAttrs (a # as) @ post) (length (pre @ encodeAttr a)) =
      parseAttrs tid (pre @ encodeAttrs (a # as) @ post) (length (pre @ encodeAttrs (a # as)))"
    by (simp add: encodeAttrs_def)
  moreover have "parseAttrs tid (pre @ encodeAttrs (a # as) @ post) (length pre) =
      parseAttrs tid (pre @ encodeAttrs (a # as) @ post) (length (pre @ encodeAttr a))"
    using parseAttrs_skip1[of a pre tid "encodeAttrs as @ post"] Cons.prems
    by (simp add: encodeAttrs_def)
  ultimately show ?case by simp
qed

section \<open>Round trip\<close>

definition mapped :: "tid \<Rightarrow> ip \<Rightarrow> 16 word \<Rightarrow> stunResult" where
  "mapped tid a port =
     zeroStunResult\<lparr>srIP := a, srPort := int (unat port), srTID := tid\<rparr>"

lemma magic_port: "(ucast (drop_bit 16 stunMagic) :: 16 word) = 0x2112"
  by (simp add: stunMagic_def)

lemma xor_xor: "(x XOR y) XOR y = (x :: 'a :: len word)"
  by (simp add: xor.assoc)

lemma parse_xorAddress:
  assumes "length a = 4"
  shows "parseMappedAddress stunXORMappedAddr (xorAddress a port) =
    Inr (zeroStunResult\<lparr>srIP := a, srPort := int (unat port)\<rparr>)"
proof -
  obtain w x y z where a: "a = [w, x, y, z]" using assms by (rule length4_cases)
  have four: "slice (xorAddress a port) 4 8 = Inr (map2 (XOR) a magicBytes)"
    by (rule slice_mid[of _ "[0, 1] @ put16 (port XOR 0x2112)" _ "[]"])
      (simp_all add: xorAddress_def a magicBytes_def put32_def)
  have two: "slice (xorAddress a port) 2 4 = Inr (put16 (port XOR 0x2112))"
    by (rule slice_mid[of _ "[0, 1]"]) (simp_all add: xorAddress_def)
  have len: "length (xorAddress a port) = 8"
    by (simp add: xorAddress_def a magicBytes_def put32_def)
  have "map2 (XOR) (map2 (XOR) a magicBytes) magicBytes = a"
    by (simp add: a magicBytes_def put32_def xor_xor)
  then show ?thesis
    using four two len
    by (simp add: parseMappedAddress_def index_def xorAddress_def magic_port xor_xor Let_def)
qed

lemma parseSTUN_response:
  assumes "length tid = 12" and "length body < 65536"
  shows "parseSTUN (encodeResponse tid body @ trailing) = parseAttrs tid body 0"
proof -
  let ?p = "encodeResponse tid body @ trailing"
  let ?len = "put16 (of_nat (length body))"
  have "slice ?p 0 2 = Inr (put16 stunBindingSuccess)"
    by (rule slice_mid[of _ "[]"]) (simp_all add: encodeResponse_def)
  moreover have "slice ?p 2 4 = Inr ?len"
    by (rule slice_mid[of _ "put16 stunBindingSuccess"]) (simp_all add: encodeResponse_def)
  moreover have "slice ?p 4 8 = Inr (put32 stunMagic)"
    by (rule slice_mid[of _ "put16 stunBindingSuccess @ ?len"]) (simp_all add: encodeResponse_def)
  moreover have "slice ?p 8 20 = Inr tid"
    by (rule slice_mid[of _ "put16 stunBindingSuccess @ ?len @ put32 stunMagic"])
      (simp_all add: encodeResponse_def assms)
  moreover have "slice ?p 20 (20 + length body) = Inr body"
    by (rule slice_mid[of _ "put16 stunBindingSuccess @ ?len @ put32 stunMagic @ tid"])
      (simp_all add: encodeResponse_def assms)
  moreover have "length ?p = 20 + length body + length trailing"
    by (simp add: encodeResponse_def assms)
  ultimately show ?thesis
    by (simp add: parseSTUN_def unat_of_nat16[OF assms(2)] be32_put32_magic)
qed

definition xorResponse :: "tid \<Rightarrow> attr list \<Rightarrow> ip \<Rightarrow> 16 word \<Rightarrow> byte list \<Rightarrow> byte list" where
  "xorResponse tid skipped a port rest =
     encodeResponse tid
       (encodeAttrs skipped @ encodeAttr (stunXORMappedAddr, xorAddress a port) @ rest)"

definition xorResponse_ok :: "tid \<Rightarrow> attr list \<Rightarrow> ip \<Rightarrow> byte list \<Rightarrow> bool" where
  "xorResponse_ok tid skipped a rest \<longleftrightarrow>
     length tid = 12 \<and> length a = 4 \<and> list_all skippable skipped \<and>
     length (encodeAttrs skipped) + 12 + length rest < 65536"

lemma length_xorAddress: "length a = 4 \<Longrightarrow> length (xorAddress a port) = 8"
  by (simp add: xorAddress_def magicBytes_def)

lemma parse_xorResponse:
  assumes "xorResponse_ok tid skipped a rest"
  shows "parseSTUN (xorResponse tid skipped a port rest @ trailing) = Inr (mapped tid a port)"
proof -
  let ?x = "encodeAttr (stunXORMappedAddr, xorAddress a port)"
  let ?body = "encodeAttrs skipped @ ?x @ rest"
  from assms have len: "length tid = 12" "length a = 4"
    "length (encodeAttrs skipped) + 12 + length rest < 65536"
    and skip: "\<forall>s \<in> set skipped. skippable s"
    by (auto simp: xorResponse_ok_def list_all_iff)
  have x: "?x = put16 stunXORMappedAddr @ put16 (of_nat (length (xorAddress a port))) @ xorAddress a port"
    by (simp add: encodeAttr_def length_xorAddress len)
  have "length ?body < 65536" using len by (simp add: x length_xorAddress)
  then have "parseSTUN (xorResponse tid skipped a port rest @ trailing) = parseAttrs tid ?body 0"
    unfolding xorResponse_def by (rule parseSTUN_response[OF len(1)])
  also have "\<dots> = parseAttrs tid ?body (length (encodeAttrs skipped))"
    using parseAttrs_skip[OF skip, of "[]" tid "?x @ rest"] by simp
  also have "\<dots> = Inr (mapped tid a port)"
    by (subst parseAttrs_at[of _ "encodeAttrs skipped" stunXORMappedAddr "xorAddress a port" rest])
      (simp_all add: x length_xorAddress len parse_xorAddress mapped_def)
  finally show ?thesis .
qed

section \<open>What a successful parse says\<close>

lemma be16_Inr: "length bs = 2 \<Longrightarrow> be16 bs = Inr w \<Longrightarrow> bs = put16 w"
proof (cases bs rule: be16.cases)
  case (1 h l r)
  assume "length bs = 2" and "be16 bs = Inr w"
  with 1 have "r = []" and w: "w = push_bit 8 (ucast h) OR ucast l" by auto
  have "ucast (drop_bit 8 w) = h" and "ucast w = l"
    unfolding w by (rule bit_eqI, auto simp: bit_simps dest: bit_imp_le_length)+
  with 1 \<open>r = []\<close> show ?thesis by (simp add: put16_def)
qed simp_all

lemma be32_Inr: "length bs = 4 \<Longrightarrow> be32 bs = Inr w \<Longrightarrow> bs = put32 w"
proof (cases bs rule: be32.cases)
  case (1 a b c d r)
  assume "length bs = 4" and "be32 bs = Inr w"
  with 1 have "r = []"
    and w: "w = push_bit 24 (ucast a) OR push_bit 16 (ucast b) OR push_bit 8 (ucast c) OR ucast d"
    by auto
  have "ucast (drop_bit 24 w) = a" and "ucast (drop_bit 16 w) = b"
    and "ucast (drop_bit 8 w) = c" and "ucast w = d"
    unfolding w by (rule bit_eqI, auto simp: bit_simps dest: bit_imp_le_length)+
  with 1 \<open>r = []\<close> show ?thesis by (simp add: put32_def)
qed simp_all

lemma parseMappedAddress_Inr:
  "parseMappedAddress t v = Inr r \<Longrightarrow> length (srIP r) = 4 \<and> 0 \<le> srPort r \<and> srPort r < 65536"
proof -
  have "uint (w :: 16 word) < 65536" for w using unsigned_less[where 'a = int, of w] by simp
  then show "parseMappedAddress t v = Inr r \<Longrightarrow> ?thesis"
    by (auto simp: parseMappedAddress_def Let_def slice_def magicBytes_def split: if_splits)
qed

lemma parseAttrs_Inr:
  "parseAttrs tid body pos = Inr r \<Longrightarrow>
     srTID r = tid \<and> length (srIP r) = 4 \<and> 0 \<le> srPort r \<and> srPort r < 65536"
proof (induction tid body pos rule: parseAttrs.induct)
  case (1 tid body pos)
  from 1(2) have fits: "pos + 4 \<le> length body"
    by (subst (asm) parseAttrs.simps) (simp split: if_splits)
  with 1(2) obtain tb t lb l where s: "slice body pos (pos + 2) = Inr tb" "be16 tb = Inr t"
    "slice body (pos + 2) (pos + 4) = Inr lb" "be16 lb = Inr l"
    by (subst (asm) parseAttrs.simps) auto
  with 1(2) fits have le: "\<not> pos + 4 + unat l > length body"
    by (subst (asm) parseAttrs.simps) (auto simp: Let_def split: if_splits)
  with 1(2) fits s obtain v where v: "slice body (pos + 4) (pos + 4 + unat l) = Inr v"
    by (subst (asm) parseAttrs.simps) (auto simp: Let_def split: if_splits)
  show ?case
  proof (cases "t = stunMappedAddress \<or> t = stunXORMappedAddr")
    case True
    with 1(2) fits s le v obtain q where "parseMappedAddress t v = Inr q" and "r = q\<lparr>srTID := tid\<rparr>"
      by (subst (asm) parseAttrs.simps) (auto simp: Let_def)
    with parseMappedAddress_Inr[of t v q] show ?thesis by simp
  next
    case False
    with 1(2) fits s le v have "parseAttrs tid body
        (if (pos + 4 + unat l) mod 4 \<noteq> 0 then pos + 4 + unat l + (4 - (pos + 4 + unat l) mod 4)
         else pos + 4 + unat l) = Inr r"
      by (subst (asm) parseAttrs.simps) (simp add: Let_def)
    with 1(1)[OF fits s refl refl le v False] show ?thesis by blast
  qed
qed

lemma parseSTUN_Inr:
  assumes "parseSTUN packet = Inr r"
  shows "\<exists>len. 20 + unat len \<le> length packet \<and>
    take 8 packet = put16 stunBindingSuccess @ put16 len @ put32 stunMagic \<and>
    parseAttrs (take 12 (drop 8 packet)) (take (unat len) (drop 20 packet)) 0 = Inr r"
proof -
  from assms have long: "20 \<le> length packet"
    by (simp add: parseSTUN_def split: if_splits)
  with assms obtain len m where
    m: "be16 (take 2 packet) = Inr stunBindingSuccess"
    and l: "be16 (take 2 (drop 2 packet)) = Inr len"
    and fits: "20 + unat len \<le> length packet"
    and c: "be32 (take 4 (drop 4 packet)) = Inr stunMagic"
    and r: "parseAttrs (take 12 (drop 8 packet)) (take (unat len) (drop 20 packet)) 0 = Inr r"
    by (auto simp: parseSTUN_def slice_def split: if_splits)
  have "take 8 packet = take 2 packet @ take 2 (drop 2 packet) @ take 4 (drop 4 packet)"
    by (simp add: take_add[of 2 2, simplified] take_add[of 4 4, simplified])
  also have "\<dots> = put16 stunBindingSuccess @ put16 len @ put32 stunMagic"
    using be16_Inr[OF _ m] be16_Inr[OF _ l] be32_Inr[OF _ c] long by simp
  finally show ?thesis using fits r by blast
qed

section \<open>Properties\<close>

text \<open>
  C39: The parser of STUN responses never reads outside the packet: on every byte sequence
  \<open>parseSTUN\<close> ends with a result or an ordinary error, never with a slice or index panic.
\<close>

theorem stun_parse_never_panics: "\<not> is_panic (parseSTUN packet)"
  by (rule parseSTUN_no_panic)

text \<open>
  C17: A binding response that carries an XOR-MAPPED-ADDRESS, behind any number of other
  attributes (padded to four bytes) and followed by anything, is parsed back to exactly the
  address, port and transaction id it encodes; bytes after the message are ignored.
\<close>

theorem xor_mapped_address_roundtrip:
  assumes "xorResponse_ok tid skipped a rest"
  shows "parseSTUN (xorResponse tid skipped a port rest @ trailing) = Inr (mapped tid a port)"
  using assms by (rule parse_xorResponse)

lemma xor_mapped_address_roundtrip_witness:
  "parseSTUN (xorResponse (replicate 12 7) [(0x8022, [1, 2, 3])] [203, 0, 113, 8] 5000 [] @ [9]) =
     Inr (mapped (replicate 12 7) [203, 0, 113, 8] 5000)"
  by (rule xor_mapped_address_roundtrip)
    (simp add: xorResponse_ok_def skippable_def encodeAttrs_def encodeAttr_def stun_consts)

text \<open>
  C8: A packet \<open>parseSTUN\<close> accepts is a binding success response with the STUN magic and a
  length that fits the packet; the result carries the packet's own transaction id, an IPv4
  address and a port of 16 bits.
\<close>

theorem stun_parse_sound:
  assumes "parseSTUN packet = Inr r"
  shows "\<exists>len. 20 + unat len \<le> length packet \<and>
      take 8 packet = put16 stunBindingSuccess @ put16 len @ put32 stunMagic \<and>
      srTID r = take 12 (drop 8 packet) \<and> length (srIP r) = 4 \<and>
      0 \<le> srPort r \<and> srPort r < 65536"
  using parseSTUN_Inr[OF assms] parseAttrs_Inr by blast

lemma stun_parse_sound_witness:
  "\<exists>len. 20 + unat (len :: 16 word) \<le> length (xorResponse (replicate 12 7) [] [203, 0, 113, 8] 5000 []) \<and>
      srTID (mapped (replicate 12 7) [203, 0, 113, 8] 5000) = replicate 12 7"
proof -
  have "xorResponse_ok (replicate 12 7) [] [203, 0, 113, 8] []"
    by (simp add: xorResponse_ok_def encodeAttrs_def)
  from parse_xorResponse[OF this, of 5000 "[]"]
  have "parseSTUN (xorResponse (replicate 12 7) [] [203, 0, 113, 8] 5000 []) =
      Inr (mapped (replicate 12 7) [203, 0, 113, 8] 5000)" by simp
  from stun_parse_sound[OF this] show ?thesis by (auto simp: mapped_def)
qed

lemma encodeResponse_parts:
  assumes "length tid = 12"
  shows "length (encodeResponse tid body) = 20 + length body"
    and "slice (take 20 (encodeResponse tid body)) 2 4 = Inr (put16 (of_nat (length body)))"
proof -
  show "length (encodeResponse tid body) = 20 + length body"
    by (simp add: encodeResponse_def assms)
  have "take 20 (encodeResponse tid body) =
      put16 stunBindingSuccess @ put16 (of_nat (length body)) @ put32 stunMagic @ tid"
    by (simp add: encodeResponse_def assms)
  then show "slice (take 20 (encodeResponse tid body)) 2 4 = Inr (put16 (of_nat (length body)))"
    by (simp add: slice_mid[of _ "put16 stunBindingSuccess" _ "put32 stunMagic @ tid"])
qed

text \<open>
  Over a TCP connection that accepts the request and delivers an XOR response,
  \<open>stunTCP\<close> returns the mapped address exactly when the response carries the transaction id
  of its own request, and the transaction error otherwise; bytes that follow the message on
  the stream do not matter.
\<close>

lemma stun_tcp_checks_transaction:
  assumes "xorResponse_ok tid' skipped a rest"
    and "scDeadline c = None" and "scWrite c = None"
    and "scIn c = xorResponse tid' skipped a port rest @ later"
  shows "stunTCP (Inr tid) c =
    (if tid' = tid then Inr (mapped tid a port) else Inl (ErrNew ''stun transaction mismatch''))"
proof -
  define body where
    "body = encodeAttrs skipped @ encodeAttr (stunXORMappedAddr, xorAddress a port) @ rest"
  let ?body = "body"
  let ?m = "encodeResponse tid' body"
  from assms(1) have len: "length tid' = 12" "length body < 65536"
    by (auto simp: body_def xorResponse_ok_def length_encodeAttr length_xorAddress)
  note parts = encodeResponse_parts[OF len(1), of ?body]
  have inb: "scIn c = ?m @ later" using assms(4) by (simp add: xorResponse_def body_def)
  have "readFull 20 c = Inr (take 20 ?m, c\<lparr>scIn := drop 20 ?m @ later\<rparr>)"
    by (simp add: readFull_def inb parts(1))
  moreover have "readFull (length ?body) (c\<lparr>scIn := drop 20 ?m @ later\<rparr>) =
      Inr (drop 20 ?m, c\<lparr>scIn := later\<rparr>)"
    using parts(1) by (simp add: readFull_def)
  moreover have "parseSTUN ?m = Inr (mapped tid' a port)"
    using parse_xorResponse[OF assms(1), of port "[]"] by (simp add: xorResponse_def body_def)
  moreover have "srTID (mapped tid' a port) = tid'" by (simp add: mapped_def)
  ultimately show ?thesis
    using assms(2,3) parts(2)
    by (simp add: stunTCP_def stunRequest_def unat_of_nat16[OF len(2)])
qed

lemma stun_tcp_checks_transaction_witness:
  "stunTCP (Inr (replicate 12 1))
     \<lparr>scDeadline = None, scWrite = None,
      scIn = xorResponse (replicate 12 7) [] [203, 0, 113, 8] 5000 [], scFail = Sentinel IoEOF\<rparr> =
   Inl (ErrNew ''stun transaction mismatch'')"
  using stun_tcp_checks_transaction[of "replicate 12 7" "[]" "[203, 0, 113, 8]" "[]"
      "\<lparr>scDeadline = None, scWrite = None,
        scIn = xorResponse (replicate 12 7) [] [203, 0, 113, 8] 5000 [], scFail = Sentinel IoEOF\<rparr>"
      5000 "[]" "replicate 12 1"]
  by (simp add: xorResponse_ok_def encodeAttrs_def)

end
