(* ===== verification/Types.thy ===== *)
theory Types
  imports Go_Ip
begin

text \<open>
  The data model of \<open>internal/core/types.go\<close>: one record per struct, in the source's order,
  with the zero values Go gives them. Field names carry a prefix per struct. Strings that
  name states keep the source's values.
\<close>

section \<open>Servers and options\<close>

record serverEndpoint =
  epHost :: string
  epPort :: int

record serverGroup =
  sgID :: string
  sgName :: string
  sgServers :: "serverEndpoint list"

record systemOptions =
  optSessionHours :: int
  optSTUNServers :: "serverEndpoint list"
  optHTTPServers :: "serverEndpoint list"
  optQUICServers :: "serverEndpoint list"
  optSTUNGroups :: "serverGroup list"
  optKeepAliveGroups :: "serverGroup list"

record serverGroupsConfig =
  gcSTUNServers :: "serverEndpoint list"
  gcHTTPServers :: "serverEndpoint list"
  gcQUICServers :: "serverEndpoint list"
  gcSTUNGroups :: "serverGroup list"
  gcKeepAliveGroups :: "serverGroup list"

record adminCredential =
  admUsername :: string
  admSalt :: string
  admHash :: string
  admIterations :: int
  admLastPassword :: time

section \<open>Instances\<close>

record instanceConfig =
  cfgID :: string
  cfgName :: string
  cfgEnabled :: bool
  cfgProtocol :: string
  cfgBindAddress :: string
  cfgBindPort :: string
  cfgSTUNMode :: string
  cfgSTUNGroupID :: string
  cfgSTUNHost :: string
  cfgSTUNPort :: int
  cfgKeepAliveMode :: string
  cfgKeepAliveGroupID :: string
  cfgHTTPHost :: string
  cfgHTTPPort :: int
  cfgInterface :: string
  cfgKeepAliveSeconds :: int
  cfgMappingConfirmations :: int
  cfgNotifyScript :: string
  cfgFWMark :: "32 word"
  cfgResolvedSTUN :: "serverEndpoint list"
  cfgResolvedKeepAlive :: "serverEndpoint list"

definition zeroConfig :: instanceConfig where
  "zeroConfig =
     \<lparr>cfgID = [], cfgName = [], cfgEnabled = False, cfgProtocol = [], cfgBindAddress = [],
      cfgBindPort = [], cfgSTUNMode = [], cfgSTUNGroupID = [], cfgSTUNHost = [], cfgSTUNPort = 0,
      cfgKeepAliveMode = [], cfgKeepAliveGroupID = [], cfgHTTPHost = [], cfgHTTPPort = 0,
      cfgInterface = [], cfgKeepAliveSeconds = 0, cfgMappingConfirmations = 0,
      cfgNotifyScript = [], cfgFWMark = 0, cfgResolvedSTUN = [], cfgResolvedKeepAlive = []\<rparr>"

section \<open>Runtime status\<close>

record portCheck =
  pcProtocol :: string
  pcState :: string
  pcLatencyMs :: int
  pcCheckedAt :: time
  pcMessage :: string

record keepAlive =
  kaState :: string
  kaProtocol :: string
  kaAddress :: string
  kaPort :: int
  kaLatencyMs :: int
  kaConnectedAt :: time
  kaConnectedSeconds :: int
  kaLastSeenAt :: time
  kaMessage :: string

record logEntry =
  logAt :: time
  logLevel :: string
  logMessage :: string

record runtimeStatus =
  stState :: string
  stStartedAt :: "time option"
  stLastChange :: time
  stPublicAddress :: string
  stPublicPort :: int
  stPublicStableSince :: time
  stPublicUpdatedAt :: time
  stPrivateAddress :: string
  stPrivatePort :: int
  stProtocol :: string
  stLastError :: string
  stKeepAlive :: keepAlive
  stPortCheck :: portCheck
  stLogs :: "logEntry list"

definition zeroPortCheck :: portCheck where
  "zeroPortCheck =
     \<lparr>pcProtocol = [], pcState = [], pcLatencyMs = 0, pcCheckedAt = 0, pcMessage = []\<rparr>"

definition zeroKeepAlive :: keepAlive where
  "zeroKeepAlive =
     \<lparr>kaState = [], kaProtocol = [], kaAddress = [], kaPort = 0, kaLatencyMs = 0,
      kaConnectedAt = 0, kaConnectedSeconds = 0, kaLastSeenAt = 0, kaMessage = []\<rparr>"

definition zeroStatus :: runtimeStatus where
  "zeroStatus =
     \<lparr>stState = [], stStartedAt = None, stLastChange = 0, stPublicAddress = [],
      stPublicPort = 0, stPublicStableSince = 0, stPublicUpdatedAt = 0, stPrivateAddress = [],
      stPrivatePort = 0, stProtocol = [], stLastError = [], stKeepAlive = zeroKeepAlive,
      stPortCheck = zeroPortCheck, stLogs = []\<rparr>"

record notifyTestResult =
  ntOK :: bool
  ntExitCode :: int
  ntDurationMs :: int
  ntOutput :: string
  ntCommand :: string

record persistedRuntimeStatus =
  prPublicAddress :: string
  prPublicPort :: int
  prPublicStableSince :: time
  prPublicUpdatedAt :: time
  prPrivateAddress :: string
  prPrivatePort :: int
  prProtocol :: string

record instanceSnapshot =
  snapConfig :: instanceConfig
  snapRuntime :: runtimeStatus

section \<open>The database\<close>

record database =
  dbVersion :: int
  dbAdmin :: adminCredential
  dbOptions :: systemOptions
  dbItems :: "instanceConfig list"
  dbRuntime :: "string \<rightharpoonup> persistedRuntimeStatus"

section \<open>State names\<close>

abbreviation StateStopped :: string where "StateStopped \<equiv> ''stopped''"
abbreviation StateStarting :: string where "StateStarting \<equiv> ''starting''"
abbreviation StateRunning :: string where "StateRunning \<equiv> ''running''"
abbreviation StateStopping :: string where "StateStopping \<equiv> ''stopping''"
abbreviation StateError :: string where "StateError \<equiv> ''error''"

abbreviation KeepAliveUnknown :: string where "KeepAliveUnknown \<equiv> ''unknown''"
abbreviation KeepAliveConnected :: string where "KeepAliveConnected \<equiv> ''connected''"
abbreviation KeepAliveReconnecting :: string where "KeepAliveReconnecting \<equiv> ''reconnecting''"
abbreviation KeepAliveDisconnected :: string where "KeepAliveDisconnected \<equiv> ''disconnected''"

end
