(* ===== verification/Port.thy ===== *)
theory Port
  imports Go_Numbers
begin

text \<open>
  The port picker of \<open>internal/core/port.go\<close>: parsing of a \<open>bindPort\<close> specification
  (a port, a sequential range \<open>a-b\<close> or a random range \<open>a~b\<close>) and the choice of the next
  port. The mutex is dropped: every operation runs under it from start to end. The random
  source is a parameter: \<open>draws i\<close> is what the i-th call of \<open>rand.Int\<close> inside one
  operation returns, \<open>None\<close> for an error.
\<close>

section \<open>State and parsing\<close>

record portPicker =
  pp_start :: int
  pp_end :: int
  pp_randomized :: bool
  pp_next :: int

definition parsePortRange :: "string \<Rightarrow> string \<Rightarrow> (int \<times> int) res" where
  "parsePortRange rawStart rawEnd =
     (case atoi (trim_space rawStart) of
        None \<Rightarrow> Inl (BadPort rawStart)
      | Some start \<Rightarrow>
          (case atoi (trim_space rawEnd) of
             None \<Rightarrow> Inl (BadPort rawEnd)
           | Some end \<Rightarrow>
               (if start < 0 \<or> end < 0 \<or> start > 65535 \<or> end > 65535 \<or> start > end
                then Inl (ErrNew ''bindPort range is invalid'')
                else Inr (start, end))))"

definition pickerOfRange :: "bool \<Rightarrow> string \<Rightarrow> string list \<Rightarrow> portPicker res" where
  "pickerOfRange random msg parts =
     (case parts of
        [a, b] \<Rightarrow>
          (case parsePortRange a b of
             Inl e \<Rightarrow> Inl e
           | Inr (start, end) \<Rightarrow>
               Inr \<lparr>pp_start = start, pp_end = end, pp_randomized = random, pp_next = start\<rparr>)
      | _ \<Rightarrow> Inl (ErrNew msg))"

definition newPortPicker :: "string \<Rightarrow> portPicker res" where
  "newPortPicker raw =
     (let spec0 = trim_space raw;
          spec = (if spec0 = [] then ''0'' else spec0) in
      if contains spec ''~'' then
        pickerOfRange True ''bindPort random range must be <port>~<port>'' (split_on CHR ''~'' spec)
      else if contains spec ''-'' then
        pickerOfRange False ''bindPort sequential range must be <port>-<port>'' (split_on CHR ''-'' spec)
      else
        (case atoi spec of
           None \<Rightarrow> Inl (BadPort spec)
         | Some port \<Rightarrow>
             (if port < 0 \<or> port > 65535 then Inl (BadPort spec)
              else Inr \<lparr>pp_start = port, pp_end = port, pp_randomized = False, pp_next = port\<rparr>)))"

section \<open>The next port\<close>

type_synonym draws = "nat \<Rightarrow> int option"

text \<open>The loop over at most \<open>size\<close> random attempts; an error of the source ends it.\<close>

fun randomAttempts :: "draws \<Rightarrow> int \<Rightarrow> int \<Rightarrow> nat \<Rightarrow> nat \<Rightarrow> int option" where
  "randomAttempts draws start except i 0 = None"
| "randomAttempts draws start except i (Suc k) =
     (case draws i of
        None \<Rightarrow> None
      | Some n \<Rightarrow>
          (if start + n \<noteq> except then Some (start + n)
           else randomAttempts draws start except (Suc i) k))"

definition stepNext :: "portPicker \<Rightarrow> int \<times> portPicker" where
  "stepNext p =
     (pp_next p,
      p\<lparr>pp_next := (if pp_next p + 1 > pp_end p then pp_start p else pp_next p + 1)\<rparr>)"

definition nextExcept :: "draws \<Rightarrow> int \<Rightarrow> portPicker \<Rightarrow> int \<times> portPicker" where
  "nextExcept draws except p =
     (if pp_start p = pp_end p then (pp_start p, p)
      else if pp_randomized p then
        (case randomAttempts draws (pp_start p) except 0 (nat (pp_end p - pp_start p + 1)) of
           Some port \<Rightarrow> (port, p)
         | None \<Rightarrow>
             (case find (\<lambda>port. port \<noteq> except) [pp_start p..pp_end p] of
                Some port \<Rightarrow> (port, p)
              | None \<Rightarrow> (pp_start p, p)))
      else
        (let (port, q) = stepNext p in
         if port = except then stepNext q else (port, q)))"

definition next_port :: "draws \<Rightarrow> portPicker \<Rightarrow> int \<times> portPicker" where
  "next_port draws p = nextExcept draws (- 1) p"

section \<open>Well-formedness\<close>

definition picker_wf :: "portPicker \<Rightarrow> bool" where
  "picker_wf p \<longleftrightarrow>
     0 \<le> pp_start p \<and> pp_start p \<le> pp_next p \<and> pp_next p \<le> pp_end p \<and> pp_end p \<le> 65535"

text \<open>The documented range of \<open>rand.Int\<close> for a maximum of \<open>size\<close>.\<close>

definition draws_ok :: "draws \<Rightarrow> int \<Rightarrow> bool" where
  "draws_ok draws sz \<longleftrightarrow> (\<forall>i n. draws i = Some n \<longrightarrow> 0 \<le> n \<and> n < sz)"

definition pickerPorts :: "portPicker \<Rightarrow> int set" where
  "pickerPorts p = {pp_start p..pp_end p}"

lemma parsePortRange_Inr:
  "parsePortRange a b = Inr (s, e) \<Longrightarrow> 0 \<le> s \<and> s \<le> e \<and> e \<le> 65535"
  by (auto simp: parsePortRange_def split: option.splits if_splits)

lemma pickerOfRange_wf: "pickerOfRange r m parts = Inr p \<Longrightarrow> picker_wf p"
  by (auto simp: pickerOfRange_def picker_wf_def dest!: parsePortRange_Inr
      split: list.splits sum.splits)

lemma newPortPicker_picker_wf: "newPortPicker spec = Inr p \<Longrightarrow> picker_wf p"
  unfolding newPortPicker_def Let_def
  by (auto simp: picker_wf_def dest!: pickerOfRange_wf split: if_splits option.splits)

lemma stepNext_wf: "picker_wf p \<Longrightarrow> picker_wf (snd (stepNext p))"
  by (auto simp: stepNext_def picker_wf_def)

lemma stepNext_range: "picker_wf p \<Longrightarrow> fst (stepNext p) \<in> pickerPorts p"
  by (auto simp: stepNext_def picker_wf_def pickerPorts_def)

lemma stepNext_ports [simp]: "pickerPorts (snd (stepNext p)) = pickerPorts p"
  by (simp add: stepNext_def pickerPorts_def)

lemma stepNext_moves:
  "picker_wf p \<Longrightarrow> pp_start p \<noteq> pp_end p \<Longrightarrow> fst (stepNext (snd (stepNext p))) \<noteq> fst (stepNext p)"
  by (auto simp: stepNext_def picker_wf_def)

lemma randomAttempts_range:
  assumes "randomAttempts draws start except i k = Some port" and "draws_ok draws sz"
  shows "start \<le> port \<and> port < start + sz \<and> port \<noteq> except"
  using assms(1)
  by (induction k arbitrary: i) (use assms(2) in \<open>auto simp: draws_ok_def split: option.splits if_splits\<close>)

lemma nextExcept_ports [simp]: "pickerPorts (snd (nextExcept draws except p)) = pickerPorts p"
  by (auto simp: nextExcept_def Let_def split: option.split prod.split)
    (metis snd_conv stepNext_ports)+

lemma nextExcept_wf: "picker_wf p \<Longrightarrow> picker_wf (snd (nextExcept draws except p))"
  by (auto simp: nextExcept_def Let_def split: option.split prod.split)
    (metis snd_conv stepNext_wf)+

lemma random_fallback:
  assumes "pp_start p < pp_end p"
  obtains port where "find (\<lambda>port. port \<noteq> except) [pp_start p..pp_end p] = Some port"
    and "port \<in> pickerPorts p" and "port \<noteq> except"
proof (cases "find (\<lambda>port. port \<noteq> except) [pp_start p..pp_end p]")
  case None
  then have "\<forall>x \<in> {pp_start p..pp_end p}. x = except" by (simp add: find_none_all)
  with assms have "pp_start p = except" and "pp_end p = except" by auto
  with assms show ?thesis by simp
next
  case (Some port)
  with that show ?thesis by (auto dest: find_some_in simp: pickerPorts_def)
qed

lemma nextExcept_range:
  assumes wf: "picker_wf p" and ok: "draws_ok draws (pp_end p - pp_start p + 1)"
  shows "fst (nextExcept draws except p) \<in> pickerPorts p \<and>
    (pp_start p < pp_end p \<longrightarrow> fst (nextExcept draws except p) \<noteq> except)"
proof (cases "pp_start p = pp_end p")
  case True
  with wf show ?thesis by (auto simp: nextExcept_def picker_wf_def pickerPorts_def)
next
  case ne: False
  with wf have lt: "pp_start p < pp_end p" by (auto simp: picker_wf_def)
  show ?thesis
  proof (cases "pp_randomized p")
    case True
    obtain port where port: "find (\<lambda>port. port \<noteq> except) [pp_start p..pp_end p] = Some port"
      "port \<in> pickerPorts p" "port \<noteq> except" using random_fallback[OF lt] .
    show ?thesis
    proof (cases "randomAttempts draws (pp_start p) except 0 (nat (pp_end p - pp_start p + 1))")
      case None
      with port ne True show ?thesis by (simp add: nextExcept_def)
    next
      case (Some q)
      from randomAttempts_range[OF Some ok] Some ne True show ?thesis
        by (auto simp: nextExcept_def pickerPorts_def)
    qed
  next
    case False
    obtain port q where pq: "stepNext p = (port, q)" by fastforce
    then have q: "q = snd (stepNext p)" and port: "port = fst (stepNext p)" by simp_all
    have "fst (stepNext q) \<in> pickerPorts p"
      using stepNext_range[OF stepNext_wf[OF wf]] by (simp add: q)
    moreover have "port \<in> pickerPorts p" using stepNext_range[OF wf] by (simp add: port)
    moreover have "fst (stepNext q) \<noteq> port"
      using stepNext_moves[OF wf ne] by (simp add: q port)
    ultimately show ?thesis using ne False pq by (auto simp: nextExcept_def)
  qed
qed

section \<open>The interface to the runner\<close>

text \<open>
  What a runner relies on: the picker hands out ports of a fixed set, and when that set has
  more than one port it does not hand out the port that just failed.
\<close>

locale port_source =
  fixes next_except :: "int \<Rightarrow> 'p \<Rightarrow> int \<times> 'p"
    and ports :: "'p \<Rightarrow> int set"
    and wf :: "'p \<Rightarrow> bool"
  assumes next_in_ports: "wf p \<Longrightarrow> fst (next_except e p) \<in> ports p"
    and next_avoids: "wf p \<Longrightarrow> \<exists>a b. a \<in> ports p \<and> b \<in> ports p \<and> a \<noteq> b \<Longrightarrow>
      fst (next_except e p) \<noteq> e"
    and next_wf: "wf p \<Longrightarrow> wf (snd (next_except e p))"
    and next_ports: "wf p \<Longrightarrow> ports (snd (next_except e p)) = ports p"
begin

text \<open>Asking for a port again and again, each time avoiding the port just handed out.\<close>

primrec retry_ports :: "nat \<Rightarrow> int \<Rightarrow> 'p \<Rightarrow> int list" where
  "retry_ports 0 e p = []"
| "retry_ports (Suc n) e p =
     fst (next_except e p) # retry_ports n (fst (next_except e p)) (snd (next_except e p))"

lemma retry_ports_in: "wf p \<Longrightarrow> set (retry_ports n e p) \<subseteq> ports p"
proof (induction n arbitrary: e p)
  case 0
  then show ?case by simp
next
  case (Suc n)
  from Suc.IH[OF next_wf[OF Suc.prems]] Suc.prems show ?case
    by (auto simp: next_ports intro: next_in_ports)
qed

end

definition picker_ready :: "draws \<Rightarrow> portPicker \<Rightarrow> bool" where
  "picker_ready draws p \<longleftrightarrow> picker_wf p \<and> draws_ok draws (pp_end p - pp_start p + 1)"

lemma nextExcept_same_range:
  "pp_start (snd (nextExcept draws e p)) = pp_start p \<and> pp_end (snd (nextExcept draws e p)) = pp_end p"
  by (simp add: nextExcept_def stepNext_def Let_def split: option.split)

interpretation picker: port_source "nextExcept draws" pickerPorts "picker_ready draws"
  for draws
proof unfold_locales
  fix p e
  assume r: "picker_ready draws p"
  then have wf: "picker_wf p" and ok: "draws_ok draws (pp_end p - pp_start p + 1)"
    by (simp_all add: picker_ready_def)
  show "fst (nextExcept draws e p) \<in> pickerPorts p"
    using nextExcept_range[OF wf ok] by blast
  show "picker_ready draws (snd (nextExcept draws e p))"
    using r by (simp add: picker_ready_def nextExcept_wf nextExcept_same_range)
  show "pickerPorts (snd (nextExcept draws e p)) = pickerPorts p" by simp
  show "fst (nextExcept draws e p) \<noteq> e"
    if "\<exists>a b. a \<in> pickerPorts p \<and> b \<in> pickerPorts p \<and> a \<noteq> b"
  proof -
    from that have "pp_start p < pp_end p" by (auto simp: pickerPorts_def)
    with nextExcept_range[OF wf ok] show ?thesis by blast
  qed
qed

section \<open>A sequential range cycles\<close>

fun takePorts :: "nat \<Rightarrow> portPicker \<Rightarrow> int list" where
  "takePorts 0 p = []"
| "takePorts (Suc n) p = (let (port, q) = next_port (\<lambda>_. None) p in port # takePorts n q)"

lemma next_port_seq:
  assumes "picker_wf p" and "\<not> pp_randomized p" and "pp_start p < pp_end p"
  shows "next_port draws p = stepNext p"
  using assms by (auto simp: next_port_def nextExcept_def stepNext_def picker_wf_def)

lemma stepNext_offset:
  assumes "picker_wf p"
  shows "pp_next (snd (stepNext p)) =
    pp_start p + (pp_next p - pp_start p + 1) mod (pp_end p - pp_start p + 1)"
proof (cases "pp_next p + 1 > pp_end p")
  case True
  with assms have "pp_next p = pp_end p" by (simp add: picker_wf_def)
  then show ?thesis by (simp add: stepNext_def)
next
  case False
  with assms show ?thesis by (simp add: stepNext_def picker_wf_def mod_pos_pos_trivial)
qed

lemma takePorts_seq:
  assumes "picker_wf p" and "\<not> pp_randomized p" and "pp_start p < pp_end p"
  shows "takePorts n p =
    map (\<lambda>i. pp_start p + (pp_next p - pp_start p + int i) mod (pp_end p - pp_start p + 1)) [0..<n]"
  using assms
proof (induction n arbitrary: p)
  case 0
  then show ?case by simp
next
  case (Suc n)
  let ?q = "snd (stepNext p)"
  have same: "pp_start ?q = pp_start p" "pp_end ?q = pp_end p" "pp_randomized ?q = pp_randomized p"
    by (simp_all add: stepNext_def)
  have IH: "takePorts n ?q =
      map (\<lambda>i. pp_start p + (pp_next ?q - pp_start p + int i) mod (pp_end p - pp_start p + 1)) [0..<n]"
    using Suc.IH[of ?q] stepNext_wf[OF Suc.prems(1)] Suc.prems same by simp
  have "(pp_next ?q - pp_start p + int i) mod (pp_end p - pp_start p + 1) =
      (pp_next p - pp_start p + int (Suc i)) mod (pp_end p - pp_start p + 1)" for i
    by (simp add: stepNext_offset[OF Suc.prems(1)] mod_simps algebra_simps)
  with IH have "takePorts n ?q =
      map (\<lambda>i. pp_start p + (pp_next p - pp_start p + int (Suc i)) mod (pp_end p - pp_start p + 1)) [0..<n]"
    by simp
  moreover have "fst (stepNext p) = pp_start p + (pp_next p - pp_start p) mod (pp_end p - pp_start p + 1)"
    using Suc.prems(1) by (simp add: stepNext_def picker_wf_def mod_pos_pos_trivial)
  ultimately show ?case
    by (simp add: next_port_seq[OF Suc.prems] split_beta map_upt_Suc del: upt_Suc)
qed

section \<open>Specifications of a range\<close>

lemma contains_single: "contains s [c] \<longleftrightarrow> c \<in> set s"
  by (induction s) auto

lemma trim_space_range:
  "trim_space (dec_nat a @ s @ dec_nat b) = dec_nat a @ s @ dec_nat b"
  by (rule trim_space_id, rule trimmed_plain)
    (simp_all add: plain_digit hd_dec_nat last_dec_nat hd_append)

lemma parsePortRange_dec:
  "a \<le> b \<Longrightarrow> b \<le> 65535 \<Longrightarrow> parsePortRange (dec_nat a) (dec_nat b) = Inr (int a, int b)"
  by (simp add: parsePortRange_def atoi_dec_nat max_int64_def)

lemma newPortPicker_range_spec:
  assumes "a \<le> b" and "b \<le> 65535" and "sep = CHR ''-'' \<or> sep = CHR ''~''"
  shows "newPortPicker (dec_nat a @ sep # dec_nat b) =
    Inr \<lparr>pp_start = int a, pp_end = int b, pp_randomized = (sep = CHR ''~''), pp_next = int a\<rparr>"
proof -
  let ?spec = "dec_nat a @ sep # dec_nat b"
  have "trim_space ?spec = ?spec" using trim_space_range[of a "[sep]" b] by simp
  moreover have "split_on sep ?spec = [dec_nat a, dec_nat b]"
    using assms(3) by (auto simp: split_on_append split_on_no_sep dec_nat_notin)
  moreover have "contains ?spec ''~'' \<longleftrightarrow> sep = CHR ''~''"
    using assms(3) by (auto simp: contains_single dec_nat_notin)
  moreover have "contains ?spec ''-'' \<longleftrightarrow> sep = CHR ''-''"
    using assms(3) by (auto simp: contains_single dec_nat_notin)
  ultimately show ?thesis
    using assms by (auto simp: newPortPicker_def pickerOfRange_def parsePortRange_dec)
qed

lemma shifted_residues:
  fixes lo hi k :: int
  assumes "lo \<le> hi"
  shows "set (map (\<lambda>i. lo + (k + int i) mod (hi - lo + 1)) [0..<nat (hi - lo + 1)]) = {lo..hi}"
proof -
  let ?m = "hi - lo + 1"
  have m: "0 < ?m" using assms by simp
  have "y \<in> (\<lambda>i. lo + (k + int i) mod ?m) ` {0..<nat ?m}" if y: "lo \<le> y" "y \<le> hi" for y
  proof -
    let ?i = "nat ((y - lo - k) mod ?m)"
    have "lo + (k + int ?i) mod ?m = y"
      using m y by (simp add: mod_simps mod_pos_pos_trivial)
    moreover have "?i < nat ?m" using m pos_mod_bound[OF m, of "y - lo - k"] by arith
    ultimately show ?thesis by (metis (no_types, lifting) atLeastLessThan_iff image_iff zero_le)
  qed
  moreover have "lo \<le> lo + (k + int i) mod ?m \<and> lo + (k + int i) mod ?m \<le> hi" for i
    using m pos_mod_bound[OF m, of "k + int i"] pos_mod_sign[OF m, of "k + int i"] by linarith
  ultimately show ?thesis by auto
qed

lemma takePorts_cycle:
  assumes wf: "picker_wf p" and seq: "\<not> pp_randomized p" and lt: "pp_start p < pp_end p"
    and n: "n = nat (pp_end p - pp_start p + 1)"
  shows "set (takePorts n p) = {pp_start p..pp_end p} \<and> distinct (takePorts n p)"
proof -
  have set: "set (takePorts n p) = {pp_start p..pp_end p}"
    unfolding takePorts_seq[OF wf seq lt] n using shifted_residues lt by simp
  moreover have "length (takePorts n p) = n" by (simp add: takePorts_seq[OF wf seq lt])
  then have "card (set (takePorts n p)) = length (takePorts n p)" using n lt set by simp
  then have "distinct (takePorts n p)" by (rule card_distinct)
  ultimately show ?thesis by blast
qed

section \<open>Properties\<close>

text \<open>A run of the picker: the ports returned by successive \<open>NextExcept\<close> calls.\<close>

fun pickAll :: "(draws \<times> int) list \<Rightarrow> portPicker \<Rightarrow> int list" where
  "pickAll [] p = []"
| "pickAll ((draws, except) # calls) p =
     (let (port, q) = nextExcept draws except p in port # pickAll calls q)"

lemma pickAll_safe:
  assumes "picker_wf p" and "\<forall>c \<in> set calls. draws_ok (fst c) (pp_end p - pp_start p + 1)"
    and "(c, port) \<in> set (zip calls (pickAll calls p))"
  shows "port \<in> pickerPorts p \<and> (pp_start p < pp_end p \<longrightarrow> port \<noteq> snd c)"
  using assms
proof (induction calls arbitrary: p)
  case Nil
  then show ?case by simp
next
  case (Cons d calls)
  obtain draws except where d: "d = (draws, except)" by fastforce
  let ?q = "snd (nextExcept draws except p)"
  have step: "pickAll (d # calls) p = fst (nextExcept draws except p) # pickAll calls ?q"
    by (simp add: d split_beta)
  from Cons.prems(2) have ok: "draws_ok draws (pp_end p - pp_start p + 1)" by (simp add: d)
  show ?case
  proof (cases "(c, port) = (d, fst (nextExcept draws except p))")
    case True
    with nextExcept_range[OF Cons.prems(1) ok, of except] d show ?thesis by simp
  next
    case False
    with Cons.prems(3) step have "(c, port) \<in> set (zip calls (pickAll calls ?q))" by auto
    from Cons.IH[OF nextExcept_wf[OF Cons.prems(1)] _ this] Cons.prems(2)
    show ?thesis by (simp add: nextExcept_same_range)
  qed
qed

text \<open>
  C30: Whatever \<open>bindPort\<close> specification \<open>newPortPicker\<close> accepts, every port any sequence of
  \<open>NextExcept\<close> calls hands out lies in the configured range and in 0..65535, and is never
  the excluded port when the range has more than one port (the random source only has to
  keep its documented bound).
\<close>

theorem picked_ports_valid:
  assumes "newPortPicker spec = Inr p"
    and "\<forall>c \<in> set calls. draws_ok (fst c) (pp_end p - pp_start p + 1)"
    and "(c, port) \<in> set (zip calls (pickAll calls p))"
  shows "0 \<le> port \<and> port \<le> 65535 \<and> pp_start p \<le> port \<and> port \<le> pp_end p \<and>
    (pp_start p < pp_end p \<longrightarrow> port \<noteq> snd c)"
  using pickAll_safe[OF newPortPicker_picker_wf[OF assms(1)] assms(2,3)]
    newPortPicker_picker_wf[OF assms(1)]
  by (auto simp: pickerPorts_def picker_wf_def)

lemma picked_ports_valid_witness:
  "\<exists>p port. newPortPicker ''100~101'' = Inr p \<and> pickAll [(\<lambda>_. Some 1, 101)] p = [port] \<and>
     0 \<le> port \<and> port \<le> 65535 \<and> port \<noteq> 101"
proof -
  let ?p = "\<lparr>pp_start = 100, pp_end = 101, pp_randomized = True, pp_next = 100\<rparr>"
  have n: "newPortPicker ''100~101'' = Inr ?p" by code_simp
  have k: "pickAll [(\<lambda>_. Some 1, 101)] ?p = [100]"
    by (simp add: nextExcept_def eval_nat_numeral upto.simps)
  let ?calls = "[(\<lambda>_. Some 1, 101)] :: (draws \<times> int) list"
  have "((\<lambda>_. Some 1, 101), 100) \<in> set (zip ?calls (pickAll ?calls ?p))"
    unfolding k by simp
  from picked_ports_valid[OF n _ this] n k show ?thesis by (auto simp: draws_ok_def)
qed

text \<open>
  A sequential range \<open>a-b\<close> is parsed to exactly that range, and the first \<open>b-a+1\<close>
  calls of \<open>Next\<close> return every port of the range exactly once.
\<close>

lemma sequential_range_covered:
  assumes "a < b" and "b \<le> 65535"
  shows "\<exists>p. newPortPicker (dec_nat a @ CHR ''-'' # dec_nat b) = Inr p \<and>
    set (takePorts (b - a + 1) p) = {int a..int b} \<and> distinct (takePorts (b - a + 1) p)"
proof -
  let ?p = "\<lparr>pp_start = int a, pp_end = int b, pp_randomized = False, pp_next = int a\<rparr>"
  have new: "newPortPicker (dec_nat a @ CHR ''-'' # dec_nat b) = Inr ?p"
    using newPortPicker_range_spec[of a b "CHR ''-''"] assms by simp
  then have "picker_wf ?p" by (rule newPortPicker_picker_wf)
  moreover have "b - a + 1 = nat (pp_end ?p - pp_start ?p + 1)" using assms(1) by simp
  ultimately show ?thesis using new assms(1) takePorts_cycle[of ?p "b - a + 1"] by auto
qed

lemma sequential_range_covered_witness:
  "\<exists>p. newPortPicker (dec_nat 100 @ CHR ''-'' # dec_nat 102) = Inr p \<and>
     set (takePorts (102 - 100 + 1) p) = {int 100..int 102} \<and> distinct (takePorts (102 - 100 + 1) p)"
  by (rule sequential_range_covered) simp_all

end
