(* ===== verification/Validate.thy ===== *)
theory Validate
  imports Types Port
begin

text \<open>
  Normalisation and validation of configurations and server lists
  (\<open>internal/core/validate.go\<close>).
\<close>

section \<open>Instance configurations\<close>

definition defaultProbeHost :: string where "defaultProbeHost = ''turn.cloudflare.com''"
definition defaultProbePort :: int where "defaultProbePort = 3478"
definition defaultMappingConfirmations :: int where "defaultMappingConfirmations = 2"
definition maxMappingConfirmations :: int where "maxMappingConfirmations = 20"

definition orDefault :: "string \<Rightarrow> string \<Rightarrow> string" where
  "orDefault d s = (if s = [] then d else s)"

definition normalizeConfig :: "instanceConfig \<Rightarrow> instanceConfig" where
  "normalizeConfig cfg =
     (let protocol = orDefault ''tcp'' (to_lower (trim_space (cfgProtocol cfg))) in
      cfg\<lparr>cfgName := orDefault ''NATCat Instance'' (trim_space (cfgName cfg)),
          cfgProtocol := protocol,
          cfgBindAddress := trim_space (cfgBindAddress cfg),
          cfgBindPort := orDefault ''0'' (trim_space (cfgBindPort cfg)),
          cfgSTUNMode := orDefault ''custom'' (to_lower (trim_space (cfgSTUNMode cfg))),
          cfgSTUNGroupID := trim_space (cfgSTUNGroupID cfg),
          cfgSTUNHost := trim_space (cfgSTUNHost cfg),
          cfgKeepAliveMode := orDefault ''custom'' (to_lower (trim_space (cfgKeepAliveMode cfg))),
          cfgKeepAliveGroupID := trim_space (cfgKeepAliveGroupID cfg),
          cfgHTTPHost := trim_space (cfgHTTPHost cfg),
          cfgInterface := trim_space (cfgInterface cfg),
          cfgNotifyScript := trim_space (cfgNotifyScript cfg),
          cfgHTTPPort := (if cfgHTTPPort cfg \<le> 0 then (if protocol = ''udp'' then 443 else 80)
                          else cfgHTTPPort cfg),
          cfgKeepAliveSeconds := (if cfgKeepAliveSeconds cfg \<le> 0 then 30 else cfgKeepAliveSeconds cfg),
          cfgMappingConfirmations := (if cfgMappingConfirmations cfg \<le> 0
                                      then defaultMappingConfirmations
                                      else cfgMappingConfirmations cfg)\<rparr>)"

definition validateConfig :: "instanceConfig \<Rightarrow> unit res" where
  "validateConfig cfg =
     res_bind (check (cfgProtocol cfg \<noteq> ''tcp'' \<and> cfgProtocol cfg \<noteq> ''udp'')
       (ErrNew ''protocol must be tcp or udp'')) (\<lambda>_.
     res_bind (check (cfgSTUNMode cfg \<noteq> ''custom'' \<and> cfgSTUNMode cfg \<noteq> ''group'')
       (ErrNew ''stunMode must be custom or group'')) (\<lambda>_.
     res_bind (check (cfgKeepAliveMode cfg \<noteq> ''custom'' \<and> cfgKeepAliveMode cfg \<noteq> ''group'')
       (ErrNew ''keepAliveMode must be custom or group'')) (\<lambda>_.
     res_bind (check (cfgKeepAliveMode cfg = ''custom'' \<and> cfgHTTPHost cfg = [])
       (ErrNew (if cfgProtocol cfg = ''udp'' then ''quic host is required for udp''
                else ''httpHost is required for tcp''))) (\<lambda>_.
     res_bind (check (cfgSTUNPort cfg < 0 \<or> cfgSTUNPort cfg > 65535)
       (ErrNew ''public probe port must be 1-65535'')) (\<lambda>_.
     res_bind (check (cfgHTTPPort cfg < 0 \<or> cfgHTTPPort cfg > 65535)
       (ErrNew ''httpPort must be 0-65535'')) (\<lambda>_.
     res_bind (check (cfgMappingConfirmations cfg \<le> 0 \<or>
                      cfgMappingConfirmations cfg > maxMappingConfirmations)
       (ErrNew ''mappingConfirmations must be 1-20'')) (\<lambda>_.
     res_bind (check (cfgBindAddress cfg \<noteq> [] \<and>
                      (case parse_ip (cfgBindAddress cfg) of None \<Rightarrow> True | Some a \<Rightarrow> to4 a = []))
       (ErrNew ''bindAddress must be an IPv4 address'')) (\<lambda>_.
     res_bind (newPortPicker (cfgBindPort cfg)) (\<lambda>_. Inr ())))))))))"

section \<open>Addresses and servers\<close>

definition validPort :: "int \<Rightarrow> bool" where
  "validPort port \<longleftrightarrow> port > 0 \<and> port \<le> 65535"

definition networkFor :: "string \<Rightarrow> string" where
  "networkFor protocol = (if protocol = ''udp'' then ''udp4'' else ''tcp4'')"

definition parseBindIP :: "string \<Rightarrow> ip" where
  "parseBindIP v =
     (if v = [] then ipv4_zero
      else case parse_ip v of
          None \<Rightarrow> ipv4_zero
        | Some a \<Rightarrow> (if to4 a = [] then ipv4_zero else to4 a))"

definition hostPort :: "string \<Rightarrow> int \<Rightarrow> string" where
  "hostPort host port = join_host_port host (itoa port)"

definition endpointHostPort :: "serverEndpoint \<Rightarrow> string" where
  "endpointHostPort e = hostPort (epHost e) (epPort e)"

definition publicProbeHostPort :: "instanceConfig \<Rightarrow> string" where
  "publicProbeHostPort cfg =
     hostPort (orDefault defaultProbeHost (cfgSTUNHost cfg))
       (if cfgSTUNPort cfg \<le> 0 then defaultProbePort else cfgSTUNPort cfg)"

definition normalizeServerHost :: "string \<Rightarrow> string" where
  "normalizeServerHost host =
     trim_byte CHR ''/''
       (trim_prefix (trim_prefix (trim_space host) ''http://'') ''https://'')"

definition normalizeEndpoint :: "int \<Rightarrow> serverEndpoint \<Rightarrow> serverEndpoint" where
  "normalizeEndpoint defaultPort e =
     e\<lparr>epHost := normalizeServerHost (epHost e),
       epPort := (if epPort e \<le> 0 then defaultPort else epPort e)\<rparr>"

definition endpointKey :: "serverEndpoint \<Rightarrow> string" where
  "endpointKey e = to_lower (endpointHostPort e)"

fun normalizeLoop :: "int \<Rightarrow> string list \<Rightarrow> serverEndpoint list \<Rightarrow> serverEndpoint list" where
  "normalizeLoop defaultPort seen [] = []"
| "normalizeLoop defaultPort seen (e # es) =
     (let server = normalizeEndpoint defaultPort e in
      if epHost server = [] then normalizeLoop defaultPort seen es
      else if endpointKey server \<in> set seen then normalizeLoop defaultPort seen es
      else server # normalizeLoop defaultPort (endpointKey server # seen) es)"

definition normalizeServerEndpoints :: "serverEndpoint list \<Rightarrow> int \<Rightarrow> serverEndpoint list" where
  "normalizeServerEndpoints servers defaultPort = normalizeLoop defaultPort [] servers"

fun validateServers :: "string \<Rightarrow> serverEndpoint list \<Rightarrow> unit res" where
  "validateServers kind [] = Inr ()"
| "validateServers kind (e # es) =
     (if trim_space (epHost e) = [] then Inl (ErrNew (kind @ '' server host is required''))
      else if \<not> validPort (epPort e) then Inl (ErrNew (kind @ '' server port must be 1-65535''))
      else validateServers kind es)"

definition validateServerEndpoints :: "serverEndpoint list \<Rightarrow> string \<Rightarrow> unit res" where
  "validateServerEndpoints servers kind =
     (if servers = [] then Inl (ErrNew (kind @ '' server list must contain at least one server''))
      else validateServers kind servers)"

definition defaultSTUNServers :: "serverEndpoint list" where
  "defaultSTUNServers =
     [\<lparr>epHost = ''stun.miwifi.com'', epPort = 3478\<rparr>,
      \<lparr>epHost = ''stun.cloudflare.com'', epPort = 3478\<rparr>,
      \<lparr>epHost = ''stun.l.google.com'', epPort = 19302\<rparr>,
      \<lparr>epHost = defaultProbeHost, epPort = defaultProbePort\<rparr>]"

definition defaultHTTPServers :: "serverEndpoint list" where
  "defaultHTTPServers =
     [\<lparr>epHost = ''qq.com'', epPort = 80\<rparr>, \<lparr>epHost = ''223.5.5.5'', epPort = 80\<rparr>]"

definition defaultQUICServers :: "serverEndpoint list" where
  "defaultQUICServers = [\<lparr>epHost = ''zhuanlan.zhihu.com'', epPort = 443\<rparr>]"

definition customSTUNServers :: "instanceConfig \<Rightarrow> serverEndpoint list" where
  "customSTUNServers cfg =
     [\<lparr>epHost = orDefault defaultProbeHost (cfgSTUNHost cfg),
       epPort = (if cfgSTUNPort cfg \<le> 0 then defaultProbePort else cfgSTUNPort cfg)\<rparr>]"

definition customKeepAliveServers :: "instanceConfig \<Rightarrow> serverEndpoint list" where
  "customKeepAliveServers cfg = [\<lparr>epHost = cfgHTTPHost cfg, epPort = cfgHTTPPort cfg\<rparr>]"

definition stunServers :: "instanceConfig \<Rightarrow> serverEndpoint list" where
  "stunServers cfg =
     (if length (cfgResolvedSTUN cfg) > 0 then cfgResolvedSTUN cfg else customSTUNServers cfg)"

definition keepAliveServers :: "instanceConfig \<Rightarrow> serverEndpoint list" where
  "keepAliveServers cfg =
     (if length (cfgResolvedKeepAlive cfg) > 0 then cfgResolvedKeepAlive cfg
      else customKeepAliveServers cfg)"

text \<open>
  \<open>newID\<close>: the hexadecimal form of eight random bytes; when the random source fails, the
  length 8 in base 36.
\<close>

definition hexEncode :: "byte list \<Rightarrow> string" where
  "hexEncode bs = concat (map hex_byte bs)"

definition newID :: "byte list option \<Rightarrow> string" where
  "newID random = (case random of None \<Rightarrow> ''8'' | Some bs \<Rightarrow> hexEncode bs)"

section \<open>Validation results\<close>

lemma validateConfig_Inr:
  "validateConfig cfg = Inr () \<longleftrightarrow>
     (cfgProtocol cfg = ''tcp'' \<or> cfgProtocol cfg = ''udp'') \<and>
     (cfgSTUNMode cfg = ''custom'' \<or> cfgSTUNMode cfg = ''group'') \<and>
     (cfgKeepAliveMode cfg = ''custom'' \<or> cfgKeepAliveMode cfg = ''group'') \<and>
     \<not> (cfgKeepAliveMode cfg = ''custom'' \<and> cfgHTTPHost cfg = []) \<and>
     0 \<le> cfgSTUNPort cfg \<and> cfgSTUNPort cfg \<le> 65535 \<and>
     0 \<le> cfgHTTPPort cfg \<and> cfgHTTPPort cfg \<le> 65535 \<and>
     0 < cfgMappingConfirmations cfg \<and> cfgMappingConfirmations cfg \<le> maxMappingConfirmations \<and>
     (cfgBindAddress cfg \<noteq> [] \<longrightarrow> (\<exists>a. parse_ip (cfgBindAddress cfg) = Some a \<and> to4 a \<noteq> [])) \<and>
     (\<exists>p. newPortPicker (cfgBindPort cfg) = Inr p)"
  unfolding validateConfig_def
  by (auto split: option.splits)

lemma validateServers_Inr:
  "validateServers kind es = Inr () \<longleftrightarrow>
     (\<forall>e \<in> set es. trim_space (epHost e) \<noteq> [] \<and> validPort (epPort e))"
  by (induction es) auto

lemma validateServerEndpoints_Inr:
  "validateServerEndpoints es kind = Inr () \<longleftrightarrow>
     es \<noteq> [] \<and> (\<forall>e \<in> set es. trim_space (epHost e) \<noteq> [] \<and> validPort (epPort e))"
  by (simp add: validateServerEndpoints_def validateServers_Inr)

section \<open>Normalisation\<close>

lemma orDefault_ne: "d \<noteq> [] \<Longrightarrow> orDefault d s \<noteq> []"
  by (simp add: orDefault_def)

lemma trim_keywords [simp]:
  "trim_space ''tcp'' = ''tcp''" "trim_space ''udp'' = ''udp''"
  "trim_space ''custom'' = ''custom''" "trim_space ''group'' = ''group''"
  "trim_space ''0'' = ''0''" "trim_space ''NATCat Instance'' = ''NATCat Instance''"
  by code_simp+

lemma lower_keywords [simp]:
  "to_lower ''tcp'' = ''tcp''" "to_lower ''udp'' = ''udp''"
  "to_lower ''custom'' = ''custom''" "to_lower ''group'' = ''group''"
  by (simp_all add: lower_char_def upper_ascii_def)

lemma orDefault_trim [simp]:
  "orDefault ''NATCat Instance'' (trim_space (orDefault ''NATCat Instance'' (trim_space s))) =
     orDefault ''NATCat Instance'' (trim_space s)"
  "orDefault ''0'' (trim_space (orDefault ''0'' (trim_space s))) = orDefault ''0'' (trim_space s)"
  by (simp_all add: orDefault_def)

lemma orDefault_word [simp]:
  "orDefault d ''tcp'' = ''tcp''" "orDefault d ''udp'' = ''udp''"
  "orDefault d ''custom'' = ''custom''" "orDefault d ''group'' = ''group''"
  by (simp_all add: orDefault_def)

lemma word_fixed:
  "w = ''tcp'' \<or> w = ''udp'' \<or> w = ''custom'' \<or> w = ''group'' \<Longrightarrow> orDefault d (to_lower (trim_space w)) = w"
  by (elim disjE; simp only: trim_keywords lower_keywords orDefault_word)

lemma normalizeConfig_idem:
  assumes "validateConfig (normalizeConfig cfg) = Inr ()"
  shows "normalizeConfig (normalizeConfig cfg) = normalizeConfig cfg"
proof -
  let ?n = "normalizeConfig cfg"
  from assms have w: "orDefault ''tcp'' (to_lower (trim_space (cfgProtocol ?n))) = cfgProtocol ?n"
    "orDefault ''custom'' (to_lower (trim_space (cfgSTUNMode ?n))) = cfgSTUNMode ?n"
    "orDefault ''custom'' (to_lower (trim_space (cfgKeepAliveMode ?n))) = cfgKeepAliveMode ?n"
    unfolding validateConfig_Inr by (auto intro!: word_fixed)
  have "normalizeConfig ?n = ?n\<lparr>cfgProtocol := cfgProtocol ?n, cfgSTUNMode := cfgSTUNMode ?n,
      cfgKeepAliveMode := cfgKeepAliveMode ?n\<rparr>"
    unfolding normalizeConfig_def[of ?n] w Let_def
    by (simp add: normalizeConfig_def Let_def defaultMappingConfirmations_def)
  then show ?thesis by simp
qed

lemma normalizeConfig_bounds:
  "0 < cfgHTTPPort (normalizeConfig cfg)" "0 < cfgKeepAliveSeconds (normalizeConfig cfg)"
  "0 < cfgMappingConfirmations (normalizeConfig cfg)" "cfgName (normalizeConfig cfg) \<noteq> []"
  "cfgBindPort (normalizeConfig cfg) \<noteq> []"
  by (simp_all add: normalizeConfig_def Let_def defaultMappingConfirmations_def orDefault_ne)

lemma normalizeConfig_frame [simp]:
  "cfgID (normalizeConfig cfg) = cfgID cfg"
  "cfgEnabled (normalizeConfig cfg) = cfgEnabled cfg"
  "cfgSTUNPort (normalizeConfig cfg) = cfgSTUNPort cfg"
  "cfgFWMark (normalizeConfig cfg) = cfgFWMark cfg"
  "cfgResolvedSTUN (normalizeConfig cfg) = cfgResolvedSTUN cfg"
  "cfgResolvedKeepAlive (normalizeConfig cfg) = cfgResolvedKeepAlive cfg"
  by (simp_all add: normalizeConfig_def Let_def)

section \<open>Server lists\<close>

lemma endpointKey_normalizeLoop:
  "e \<in> set (normalizeLoop dp seen es) \<Longrightarrow>
     endpointKey e \<notin> set seen \<and> epHost e \<noteq> [] \<and> e \<in> normalizeEndpoint dp ` set es"
  by (induction es arbitrary: seen) (fastforce simp: Let_def split: if_splits)+

lemma distinct_normalizeLoop: "distinct (map endpointKey (normalizeLoop dp seen es))"
  by (induction es arbitrary: seen)
    (auto simp: Let_def dest: endpointKey_normalizeLoop)

lemma subseq_normalizeLoop: "subseq (normalizeLoop dp seen es) (map (normalizeEndpoint dp) es)"
  by (induction es arbitrary: seen) (auto simp: Let_def)

lemma normalizeLoop_covers:
  "x \<in> set es \<Longrightarrow> epHost (normalizeEndpoint dp x) \<noteq> [] \<Longrightarrow>
     endpointKey (normalizeEndpoint dp x) \<in> set seen \<union> endpointKey ` set (normalizeLoop dp seen es)"
proof (induction es arbitrary: seen)
  case Nil
  then show ?case by simp
next
  case (Cons e es)
  let ?s = "normalizeEndpoint dp e"
  show ?case
  proof (cases "x = e")
    case True
    with Cons.prems(2) show ?thesis by (auto simp: Let_def)
  next
    case False
    with Cons.prems have "x \<in> set es" by simp
    note IH = Cons.IH[OF this Cons.prems(2)]
    from IH[of seen] IH[of "endpointKey ?s # seen"] show ?thesis by (auto simp: Let_def)
  qed
qed

lemma normalizeLoop_first:
  "e \<in> set (normalizeLoop dp seen es) \<Longrightarrow>
     find (\<lambda>x. epHost x \<noteq> [] \<and> endpointKey x = endpointKey e) (map (normalizeEndpoint dp) es) = Some e"
  by (induction es arbitrary: seen)
    (auto simp: Let_def dest: endpointKey_normalizeLoop split: if_splits)

lemma endpointHostPort_inj:
  "endpointHostPort a = endpointHostPort b \<longleftrightarrow> epHost a = epHost b \<and> epPort a = epPort b"
proof
  assume "endpointHostPort a = endpointHostPort b"
  then show "epHost a = epHost b \<and> epPort a = epPort b"
    unfolding endpointHostPort_def hostPort_def
    by (auto dest!: join_host_port_inj simp: itoa_notin)
qed (simp add: endpointHostPort_def)

section \<open>Properties\<close>


lemma length_to4: "to4 a \<noteq> [] \<Longrightarrow> length (to4 a) = 4"
  by (simp add: to4_def split: if_splits)

lemma to4_to4 [simp]: "to4 (to4 a) = to4 a"
  by (auto simp: to4_def)

lemma length_parseBindIP: "length (to4 (parseBindIP v)) = 4"
  by (cases "parse_ip v") (auto simp: parseBindIP_def length_to4, auto simp: ipv4_zero_def to4_def v4_prefix_def)

definition sampleConfig :: instanceConfig where
  "sampleConfig = zeroConfig\<lparr>cfgID := ''web'', cfgProtocol := '' TCP '', cfgBindPort := ''100-200'',
     cfgHTTPHost := ''qq.com''\<rparr>"

lemma sample_valid: "validateConfig (normalizeConfig sampleConfig) = Inr ()"
  by code_simp

text \<open>
  Normalising a configuration twice is the same as normalising it once, whenever the
  normalised configuration is valid: what the store saves, reopens and normalises again
  does not drift.
\<close>

lemma normalizeConfig_stable:
  assumes "validateConfig (normalizeConfig cfg) = Inr ()"
  shows "normalizeConfig (normalizeConfig cfg) = normalizeConfig cfg"
  by (rule normalizeConfig_idem[OF assms])

lemma normalizeConfig_stable_witness:
  "normalizeConfig (normalizeConfig sampleConfig) = normalizeConfig sampleConfig \<and>
   normalizeConfig sampleConfig \<noteq> sampleConfig"
  using normalizeConfig_stable[OF sample_valid] by (simp, code_simp)

lemma normalizeLoop_keys:
  "endpointKey ` set (normalizeLoop dp [] es) =
     endpointKey ` {x \<in> normalizeEndpoint dp ` set es. epHost x \<noteq> []}"
proof
  show "endpointKey ` set (normalizeLoop dp [] es) \<subseteq>
      endpointKey ` {x \<in> normalizeEndpoint dp ` set es. epHost x \<noteq> []}"
    using endpointKey_normalizeLoop by fastforce
  show "endpointKey ` {x \<in> normalizeEndpoint dp ` set es. epHost x \<noteq> []} \<subseteq>
      endpointKey ` set (normalizeLoop dp [] es)"
    using normalizeLoop_covers[of _ es dp "[]"] by auto
qed

text \<open>
  C38: Normalising a server list keeps, in order, the first server of every host and port
  (compared without case) whose host is not empty, loses none, and never leaves two servers
  with the same key.
\<close>

theorem normalizeServerEndpoints_spec:
  "distinct (map endpointKey (normalizeServerEndpoints es dp)) \<and>
   subseq (normalizeServerEndpoints es dp) (map (normalizeEndpoint dp) es) \<and>
   endpointKey ` set (normalizeServerEndpoints es dp) =
     endpointKey ` {x \<in> normalizeEndpoint dp ` set es. epHost x \<noteq> []} \<and>
   list_all (\<lambda>e. epHost e \<noteq> [] \<and>
      find (\<lambda>x. epHost x \<noteq> [] \<and> endpointKey x = endpointKey e) (map (normalizeEndpoint dp) es) = Some e)
     (normalizeServerEndpoints es dp)"
  unfolding normalizeServerEndpoints_def list_all_iff
  by (intro conjI ballI distinct_normalizeLoop subseq_normalizeLoop normalizeLoop_keys
        normalizeLoop_first)
    (simp_all add: endpointKey_normalizeLoop)

end
