(* ===== verification/Auth.thy ===== *)
theory Auth
  imports Validate
begin

text \<open>
  Administrator credentials (\<open>internal/core/auth.go\<close>): PBKDF2 over HMAC-SHA-256 and the
  base64 texts the data file keeps, with the parts of Go's \<open>crypto/sha256\<close>,
  \<open>crypto/hmac\<close> and \<open>encoding/base64\<close> the code uses written out. Random bytes are
  arguments: \<open>None\<close> when the random source fails.
\<close>

section \<open>SHA-256\<close>

type_synonym word32 = "32 word"

definition rotr32 :: "nat \<Rightarrow> word32 \<Rightarrow> word32" where
  "rotr32 n x = (drop_bit n x) OR (push_bit (32 - n) x)"

definition sha_k :: "word32 list" where
  "sha_k =
    [1116352408, 1899447441, 3049323471, 3921009573, 961987163, 1508970993, 2453635748,
     2870763221, 3624381080, 310598401, 607225278, 1426881987, 1925078388, 2162078206,
     2614888103, 3248222580, 3835390401, 4022224774, 264347078, 604807628, 770255983,
     1249150122, 1555081692, 1996064986, 2554220882, 2821834349, 2952996808, 3210313671,
     3336571891, 3584528711, 113926993, 338241895, 666307205, 773529912, 1294757372,
     1396182291, 1695183700, 1986661051, 2177026350, 2456956037, 2730485921, 2820302411,
     3259730800, 3345764771, 3516065817, 3600352804, 4094571909, 275423344, 430227734,
     506948616, 659060556, 883997877, 958139571, 1322822218, 1537002063, 1747873779,
     1955562222, 2024104815, 2227730452, 2361852424, 2428436474, 2756734187, 3204031479,
     3329325298]"

definition sha_init :: "word32 list" where
  "sha_init = [1779033703, 3144134277, 1013904242, 2773480762, 1359893119, 2600822924, 528734635, 1541459225]"

definition be_bytes32 :: "word32 \<Rightarrow> byte list" where
  "be_bytes32 w = map (\<lambda>k. ucast (drop_bit k w)) [24, 16, 8, 0]"

fun words32 :: "byte list \<Rightarrow> word32 list" where
  "words32 (a # b # c # d # bs) =
     (push_bit 24 (ucast a) OR push_bit 16 (ucast b) OR push_bit 8 (ucast c) OR ucast d) # words32 bs"
| "words32 bs = []"

definition sha_pad :: "byte list \<Rightarrow> byte list" where
  "sha_pad m =
     m @ [0x80] @ replicate ((119 - length m mod 64) mod 64) 0 @
     map (\<lambda>k. ucast (drop_bit k (of_nat (8 * length m) :: 64 word))) [56, 48, 40, 32, 24, 16, 8, 0]"

text \<open>The message schedule, newest word first: the 16 last words give the next one.\<close>

fun sha_extend :: "nat \<Rightarrow> word32 list \<Rightarrow> word32 list" where
  "sha_extend 0 w = w"
| "sha_extend (Suc n) w =
     (let w15 = w ! 14; w2 = w ! 1;
          s0 = rotr32 7 w15 XOR rotr32 18 w15 XOR drop_bit 3 w15;
          s1 = rotr32 17 w2 XOR rotr32 19 w2 XOR drop_bit 10 w2
      in sha_extend n ((w ! 15 + s0 + w ! 6 + s1) # w))"

fun sha_round :: "word32 list \<Rightarrow> word32 \<times> word32 \<Rightarrow> word32 list" where
  "sha_round [a, b, c, d, e, f, g, h] (k, w) =
     (let s1 = rotr32 6 e XOR rotr32 11 e XOR rotr32 25 e;
          ch = (e AND f) XOR (NOT e AND g);
          t1 = h + s1 + ch + k + w;
          s0 = rotr32 2 a XOR rotr32 13 a XOR rotr32 22 a;
          mj = (a AND b) XOR (a AND c) XOR (b AND c)
      in [t1 + (s0 + mj), a, b, c, d + t1, e, f, g])"
| "sha_round st kw = st"

definition sha_block :: "word32 list \<Rightarrow> byte list \<Rightarrow> word32 list" where
  "sha_block st blk =
     map2 (+) st (fold (\<lambda>kw s. sha_round s kw) (zip sha_k (rev (sha_extend 48 (rev (words32 blk))))) st)"

fun sha_blocks :: "nat \<Rightarrow> word32 list \<Rightarrow> byte list \<Rightarrow> word32 list" where
  "sha_blocks 0 st bs = st"
| "sha_blocks (Suc n) st bs = sha_blocks n (sha_block st (take 64 bs)) (drop 64 bs)"

definition sha256 :: "byte list \<Rightarrow> byte list" where
  "sha256 m = (let p = sha_pad m in concat (map be_bytes32 (sha_blocks (length p div 64) sha_init p)))"

definition str_bytes :: "string \<Rightarrow> byte list" where
  "str_bytes s = map (\<lambda>c. of_nat (of_char c)) s"

definition bytes_str :: "byte list \<Rightarrow> string" where
  "bytes_str bs = map (\<lambda>b. char_of (unat b)) bs"

section \<open>HMAC and PBKDF2\<close>

text \<open>A \<open>hash.Hash\<close> constructor: the digest of a message, its size and its block size.\<close>

record hashFn =
  hSum :: "byte list \<Rightarrow> byte list"
  hSize :: nat
  hBlock :: nat

definition sha256New :: hashFn where
  "sha256New = \<lparr>hSum = sha256, hSize = 32, hBlock = 64\<rparr>"

definition xor_bytes :: "byte list \<Rightarrow> byte list \<Rightarrow> byte list" where
  "xor_bytes a b = map2 (XOR) a b"

definition hmac_key :: "hashFn \<Rightarrow> byte list \<Rightarrow> byte list" where
  "hmac_key h key =
     (let k = (if length key > hBlock h then hSum h key else key)
      in k @ replicate (hBlock h - length k) 0)"

definition hmac :: "hashFn \<Rightarrow> byte list \<Rightarrow> byte list \<Rightarrow> byte list" where
  "hmac h key msg =
     (let k = hmac_key h key
      in hSum h (map ((XOR) 0x5c) k @ hSum h (map ((XOR) 0x36) k @ msg)))"

text \<open>The inner loop of \<open>pbkdf2Key\<close>: \<open>n\<close> more rounds from the last \<open>u\<close> and the
  accumulated \<open>t\<close>.\<close>

fun pbkdf2Rounds :: "(byte list \<Rightarrow> byte list) \<Rightarrow> nat \<Rightarrow> byte list \<Rightarrow> byte list \<Rightarrow> byte list" where
  "pbkdf2Rounds prf 0 u t = t"
| "pbkdf2Rounds prf (Suc n) u t = (let u' = prf u in pbkdf2Rounds prf n u' (xor_bytes t u'))"

definition pbkdf2Block :: "(byte list \<Rightarrow> byte list) \<Rightarrow> byte list \<Rightarrow> int \<Rightarrow> nat \<Rightarrow> byte list" where
  "pbkdf2Block prf salt iter block =
     (let counter = map (\<lambda>k. ucast (drop_bit k (of_nat block :: 64 word))) [24, 16, 8, 0];
          u = prf (salt @ counter)
      in pbkdf2Rounds prf (nat (iter - 1)) u u)"

definition pbkdf2Key :: "byte list \<Rightarrow> byte list \<Rightarrow> int \<Rightarrow> nat \<Rightarrow> hashFn \<Rightarrow> byte list" where
  "pbkdf2Key password salt iter keyLen h =
     (let prf = hmac h password;
          blocks = (keyLen + hSize h - 1) div hSize h;
          out = concat (map (pbkdf2Block prf salt iter) [1..<Suc blocks])
      in take keyLen out)"

section \<open>Base64\<close>

definition b64_alphabet :: string where
  "b64_alphabet = ''ABCDEFGHIJKLMNOPQRSTUVWXYZabcdefghijklmnopqrstuvwxyz0123456789+/''"

definition b64_char :: "byte \<Rightarrow> char" where
  "b64_char v = b64_alphabet ! unat (v AND 63)"

definition b64_val :: "char \<Rightarrow> byte option" where
  "b64_val c = map_option (\<lambda>n. of_nat n) (index_byte b64_alphabet c)"

fun b64_encode :: "byte list \<Rightarrow> string" where
  "b64_encode [] = []"
| "b64_encode [a] = [b64_char (drop_bit 2 a), b64_char (push_bit 4 a), CHR ''='', CHR ''='']"
| "b64_encode [a, b] =
     [b64_char (drop_bit 2 a), b64_char (push_bit 4 a OR drop_bit 4 b), b64_char (push_bit 2 b), CHR ''='']"
| "b64_encode (a # b # c # bs) =
     [b64_char (drop_bit 2 a), b64_char (push_bit 4 a OR drop_bit 4 b),
      b64_char (push_bit 2 b OR drop_bit 6 c), b64_char c] @ b64_encode bs"

text \<open>Padding is only accepted in the last group; the newline characters were dropped before.\<close>

fun b64_groups :: "string \<Rightarrow> byte list option" where
  "b64_groups [] = Some []"
| "b64_groups (p # q # r # s # cs) =
     (case (b64_val p, b64_val q) of
        (Some a, Some b) \<Rightarrow>
          (case (b64_val r, b64_val s) of
             (Some c, Some d) \<Rightarrow>
               map_option ((@) [push_bit 2 a OR drop_bit 4 b, push_bit 4 b OR drop_bit 2 c,
                                push_bit 6 c OR d]) (b64_groups cs)
           | (Some c, None) \<Rightarrow>
               if s = CHR ''='' \<and> cs = []
               then Some [push_bit 2 a OR drop_bit 4 b, push_bit 4 b OR drop_bit 2 c] else None
           | (None, _) \<Rightarrow>
               if r = CHR ''='' \<and> s = CHR ''='' \<and> cs = [] then Some [push_bit 2 a OR drop_bit 4 b]
               else None)
      | _ \<Rightarrow> None)"
| "b64_groups cs = None"

definition b64_decode :: "string \<Rightarrow> byte list option" where
  "b64_decode s = b64_groups (filter (\<lambda>c. c \<noteq> CHR 0x0A \<and> c \<noteq> CHR 0x0D) s)"

section \<open>Credentials\<close>

definition passwordIterations :: int where
  "passwordIterations = 120000"

definition rand_error :: go_error where
  "rand_error = NetError ''random source failed'' False"

definition NewAdminCredential :: "byte list option \<Rightarrow> string \<Rightarrow> string \<Rightarrow> adminCredential res" where
  "NewAdminCredential random username password =
     (if username = [] then Inl (ErrNew ''username is required'')
      else if password = [] then Inl (ErrNew ''password is required'')
      else case random of
          None \<Rightarrow> Inl rand_error
        | Some salt \<Rightarrow>
            Inr \<lparr>admUsername = username,
                 admSalt = b64_encode salt,
                 admHash = b64_encode (pbkdf2Key (str_bytes password) salt passwordIterations 32 sha256New),
                 admIterations = passwordIterations,
                 admLastPassword = 0\<rparr>)"

definition CheckPassword :: "adminCredential \<Rightarrow> string \<Rightarrow> string \<Rightarrow> bool" where
  "CheckPassword cred username password =
     (if username \<noteq> admUsername cred \<or> password = [] \<or> admSalt cred = [] \<or> admHash cred = [] then False
      else case b64_decode (admSalt cred) of
          None \<Rightarrow> False
        | Some salt \<Rightarrow>
            (case b64_decode (admHash cred) of
               None \<Rightarrow> False
             | Some expected \<Rightarrow>
                 (let iterations = (if admIterations cred \<le> 0 then passwordIterations
                                    else admIterations cred);
                      actual = pbkdf2Key (str_bytes password) salt iterations (length expected) sha256New
                  in actual = expected)))"

definition secretAlphabet :: string where
  "secretAlphabet = ''ABCDEFGHJKLMNPQRSTUVWXYZabcdefghijkmnopqrstuvwxyz23456789''"

definition randomSecret :: "byte list option \<Rightarrow> string res" where
  "randomSecret random =
     (case random of
        None \<Rightarrow> Inl rand_error
      | Some buf \<Rightarrow> Inr (map (\<lambda>b. secretAlphabet ! (unat b mod length secretAlphabet)) buf))"

section \<open>Lengths\<close>

lemma length_be_bytes32 [simp]: "length (be_bytes32 w) = 4"
  by (simp add: be_bytes32_def)

lemma length_sha_round [simp]: "length st = 8 \<Longrightarrow> length (sha_round st kw) = 8"
  by (cases "(st, kw)" rule: sha_round.cases) (simp_all add: Let_def)

lemma length_sha_fold [simp]: "length st = 8 \<Longrightarrow> length (fold (\<lambda>kw s. sha_round s kw) kws st) = 8"
  by (induction kws arbitrary: st) simp_all

lemma length_sha_block [simp]: "length st = 8 \<Longrightarrow> length (sha_block st blk) = 8"
  by (simp add: sha_block_def)

lemma length_sha_blocks [simp]: "length st = 8 \<Longrightarrow> length (sha_blocks n st bs) = 8"
  by (induction n st bs rule: sha_blocks.induct) simp_all

lemma length_sha256 [simp]: "length (sha256 m) = 32"
proof -
  have "length (concat (map be_bytes32 ws)) = 4 * length ws" for ws
    by (induction ws) simp_all
  then show ?thesis by (simp add: sha256_def Let_def sha_init_def)
qed

lemma length_hmac: "length (hmac sha256New key msg) = 32"
  by (simp add: hmac_def Let_def sha256New_def)

lemma length_xor_bytes [simp]: "length (xor_bytes a b) = min (length a) (length b)"
  by (simp add: xor_bytes_def)

lemma length_pbkdf2Rounds:
  "(\<And>m. length (prf m) = k) \<Longrightarrow> length t = k \<Longrightarrow> length (pbkdf2Rounds prf n u t) = k"
  by (induction "prf" n u t rule: pbkdf2Rounds.induct) (simp_all add: Let_def)

lemma length_pbkdf2Key: "length (pbkdf2Key password salt iter keyLen sha256New) = keyLen"
proof -
  have len: "length (pbkdf2Block (hmac sha256New password) salt iter b) = 32" for b
    by (simp add: pbkdf2Block_def Let_def length_pbkdf2Rounds length_hmac)
  have "length (concat (map (pbkdf2Block (hmac sha256New password) salt iter) bs)) = 32 * length bs" for bs
    by (induction bs) (simp_all add: len)
  then show ?thesis
    unfolding pbkdf2Key_def Let_def by (simp add: sha256New_def del: upt_Suc)
qed


section \<open>Base64 round trip\<close>

lemma b64_index: "n < 64 \<Longrightarrow> index_byte b64_alphabet (b64_alphabet ! n) = Some n"
proof -
  have "list_all (\<lambda>n. index_byte b64_alphabet (b64_alphabet ! n) = Some n) [0..<64]"
    by code_simp
  then show "n < 64 \<Longrightarrow> ?thesis" by (simp add: list_all_iff)
qed

lemma b64_val_pad [simp]: "b64_val CHR ''='' = None"
  by code_simp

lemma unat_and_63: "unat ((v :: byte) AND 63) < 64"
proof -
  have "v AND 63 \<le> 63" by (rule word_and_le1)
  then show ?thesis by (simp add: word_le_nat_alt)
qed

lemma b64_val_char [simp]: "b64_val (b64_char v) = Some (v AND 63)"
  by (simp add: b64_val_def b64_char_def b64_index[OF unat_and_63])

lemma b64_char_ne [simp]: "b64_char v \<noteq> CHR ''=''"
  by (metis b64_val_char b64_val_pad option.distinct(1))

lemma bits_63: "(63 :: byte) = mask 6"
  by (simp add: mask_eq_decr_exp)

lemma byte_eqI:
  fixes a b :: byte
  assumes "\<And>n. n \<in> {0, 1, 2, 3, 4, 5, 6, 7} \<Longrightarrow> bit a n = bit b n"
  shows "a = b"
proof (rule bit_word_eqI)
  fix n :: nat
  assume "n < LENGTH(8)"
  then have "n = 0 \<or> n = 1 \<or> n = 2 \<or> n = 3 \<or> n = 4 \<or> n = 5 \<or> n = 6 \<or> n = 7" by (simp, arith)
  then show "bit a n = bit b n" using assms by blast
qed

lemma b64_bits:
  fixes a b c :: byte
  shows "push_bit 2 (drop_bit 2 a AND 63) OR drop_bit 4 (push_bit 4 a AND 63) = a"
    "push_bit 2 (drop_bit 2 a AND 63) OR drop_bit 4 ((push_bit 4 a OR drop_bit 4 b) AND 63) = a"
    "push_bit 4 ((push_bit 4 a OR drop_bit 4 b) AND 63) OR drop_bit 2 (push_bit 2 b AND 63) = b"
    "push_bit 4 ((push_bit 4 a OR drop_bit 4 b) AND 63) OR drop_bit 2 ((push_bit 2 b OR drop_bit 6 c) AND 63) = b"
    "push_bit 6 ((push_bit 2 b OR drop_bit 6 c) AND 63) OR (c AND 63) = c"
  by (rule byte_eqI; auto simp: bits_63 bit_simps numeral_2_eq_2 [symmetric])+

lemma b64_groups_encode: "b64_groups (b64_encode bs) = Some bs"
  by (induction bs rule: b64_encode.induct) (simp_all add: b64_bits [simplified])

lemma b64_plain_chars: "c \<in> set (b64_encode bs) \<Longrightarrow> c \<noteq> CHR 0x0A \<and> c \<noteq> CHR 0x0D"
proof -
  have a: "list_all (\<lambda>c. c \<noteq> CHR 0x0A \<and> c \<noteq> CHR 0x0D) b64_alphabet" by code_simp
  have "b64_char v \<in> set b64_alphabet" for v
  proof -
    have "length b64_alphabet = 64" by code_simp
    then show ?thesis using unat_and_63[of v] by (simp add: b64_char_def)
  qed
  with a have "b64_char v \<noteq> CHR 0x0A \<and> b64_char v \<noteq> CHR 0x0D" for v
    by (auto simp: list_all_iff)
  then show "c \<in> set (b64_encode bs) \<Longrightarrow> ?thesis"
    by (induction bs rule: b64_encode.induct) auto
qed

lemma b64_decode_encode: "b64_decode (b64_encode bs) = Some bs"
proof -
  have "filter (\<lambda>c. c \<noteq> CHR 0x0A \<and> c \<noteq> CHR 0x0D) (b64_encode bs) = b64_encode bs"
    using b64_plain_chars by (simp add: filter_id_conv)
  then show ?thesis by (simp add: b64_decode_def b64_groups_encode)
qed

lemma b64_encode_Nil [simp]: "b64_encode bs = [] \<longleftrightarrow> bs = []"
  by (cases bs rule: b64_encode.cases) simp_all

section \<open>PBKDF2 as the standard defines it\<close>

text \<open>The iterates \<open>U_1, U_2, ...\<close> and their exclusive or, as in RFC 8018.\<close>

primrec rfc_u :: "(byte list \<Rightarrow> byte list) \<Rightarrow> byte list \<Rightarrow> nat \<Rightarrow> byte list" where
  "rfc_u f start 0 = f start"
| "rfc_u f start (Suc n) = f (rfc_u f start n)"

definition rfc_block :: "(byte list \<Rightarrow> byte list) \<Rightarrow> byte list \<Rightarrow> nat \<Rightarrow> nat \<Rightarrow> byte list" where
  "rfc_block f salt c i =
     (let start = salt @ be_bytes32 (of_nat i)
      in fold (\<lambda>u t. xor_bytes t u) (map (rfc_u f start) [1..<c]) (rfc_u f start 0))"

definition rfc_pbkdf2 :: "(byte list \<Rightarrow> byte list) \<Rightarrow> nat \<Rightarrow> byte list \<Rightarrow> nat \<Rightarrow> nat \<Rightarrow> byte list" where
  "rfc_pbkdf2 f hLen salt c dkLen =
     take dkLen (concat (map (rfc_block f salt c) [1..<Suc (dkLen div hLen + (if hLen dvd dkLen then 0 else 1))]))"

lemma pbkdf2Rounds_fold:
  "pbkdf2Rounds f n (rfc_u f start k) t =
     fold (\<lambda>u t. xor_bytes t u) (map (rfc_u f start) [Suc k..<Suc k + n]) t"
proof (induction n arbitrary: k t)
  case 0
  then show ?case by simp
next
  case (Suc n)
  have "[Suc k..<Suc k + Suc n] = Suc k # [Suc (Suc k)..<Suc (Suc k) + n]"
    by (simp add: upt_conv_Cons)
  with Suc.IH[of "Suc k"] show ?case by (simp add: Let_def)
qed

lemma counter_bytes:
  "map (\<lambda>k. ucast (drop_bit k (of_nat n :: 64 word)) :: byte) [24, 16, 8, 0] = be_bytes32 (of_nat n)"
  by (simp add: be_bytes32_def) (intro conjI; rule bit_word_eqI; auto simp: bit_simps bit_of_nat_iff_bit)

lemma pbkdf2Block_rfc:
  assumes "0 < iter"
  shows "pbkdf2Block f salt iter i = rfc_block f salt (nat iter) i"
  using pbkdf2Rounds_fold[of f "nat (iter - 1)" "salt @ be_bytes32 (of_nat i)" 0] assms
  unfolding pbkdf2Block_def counter_bytes
  by (simp add: rfc_block_def Let_def nat_diff_distrib)


lemma block_count:
  "0 < h \<Longrightarrow> (k + h - 1) div h = k div h + (if h dvd k then 0 else (1::nat))"
proof -
  assume h: "0 < h"
  have k: "k = k div h * h + k mod h" by simp
  show ?thesis
  proof (cases "h dvd k")
    case True
    then obtain q where q: "k = h * q" by (rule dvdE)
    then have "k + h - 1 = q * h + (h - 1)" using h by (simp add: mult.commute)
    also have "... div h = q" using h by (simp only: div_mult_self3 div_less)
    finally have "(k + h - 1) div h = q" .
    then show ?thesis using h q by simp
  next
    case False
    then have m: "0 < k mod h" by (simp add: mod_greater_zero_iff_not_dvd)
    have "k + h - 1 = (k div h + 1) * h + (k mod h - 1)" using k h m by simp
    then have "(k + h - 1) div h = k div h + 1 + (k mod h - 1) div h"
      using div_mult_self3[of h "k div h + 1" "k mod h - 1"] h by (metis less_not_refl2)
    moreover have "k mod h - 1 < h" using h by (meson less_imp_diff_less mod_less_divisor)
    ultimately show ?thesis using False by simp
  qed
qed

lemma length_secretAlphabet: "length secretAlphabet = 57"
  by code_simp

lemma randomSecret_Some:
  "randomSecret (Some buf) = Inr s \<Longrightarrow> length s = length buf \<and> set s \<subseteq> set secretAlphabet"
  by (auto simp: randomSecret_def length_secretAlphabet)

lemma CheckPassword_new:
  assumes "u \<noteq> []" and "p \<noteq> []" and "salt \<noteq> []"
  shows "\<exists>cred. NewAdminCredential (Some salt) u p = Inr cred \<and> admUsername cred = u \<and>
    admSalt cred \<noteq> [] \<and> admHash cred \<noteq> [] \<and>
    (\<forall>u' p'. CheckPassword cred u' p' \<longleftrightarrow> u' = u \<and> p' \<noteq> [] \<and>
       pbkdf2Key (str_bytes p') salt passwordIterations 32 sha256New =
       pbkdf2Key (str_bytes p) salt passwordIterations 32 sha256New)"
proof -
  let ?key = "\<lambda>p. pbkdf2Key (str_bytes p) salt passwordIterations 32 sha256New"
  have "length (?key p) = 32" by (rule length_pbkdf2Key)
  then have "?key p \<noteq> []" by auto
  then show ?thesis
    using assms
    by (simp add: NewAdminCredential_def CheckPassword_def b64_decode_encode length_pbkdf2Key
        passwordIterations_def)
qed

section \<open>Properties\<close>

text \<open>
  C35: A credential made from a user name, a password and a salt is accepted exactly for that
  user name and for a password with the same PBKDF2 key, so always for the password it was
  made from, and never for an empty one.
\<close>

theorem new_credential_accepts_exactly:
  assumes "NewAdminCredential (Some salt) u p = Inr cred" and "length salt = 16"
  shows "CheckPassword cred u p \<and>
    (CheckPassword cred u' p' \<longleftrightarrow> u' = u \<and> p' \<noteq> [] \<and>
       pbkdf2Key (str_bytes p') salt passwordIterations 32 sha256New =
       pbkdf2Key (str_bytes p) salt passwordIterations 32 sha256New)"
proof -
  from assms(2) have salt: "salt \<noteq> []" by auto
  from assms(1) have ne: "u \<noteq> []" "p \<noteq> []"
    by (auto simp: NewAdminCredential_def split: if_splits)
  from CheckPassword_new[OF this salt] ne(2) assms(1) show ?thesis by auto
qed

lemma new_credential_accepts_exactly_witness:
  "\<exists>cred. NewAdminCredential (Some (replicate 16 7)) ''admin'' ''secret'' = Inr cred \<and>
     CheckPassword cred ''admin'' ''secret'' \<and> \<not> CheckPassword cred ''root'' ''secret'' \<and>
     \<not> CheckPassword cred ''admin'' []"
proof -
  obtain cred where c: "NewAdminCredential (Some (replicate 16 7)) ''admin'' ''secret'' = Inr cred"
    by (simp add: NewAdminCredential_def)
  note use = new_credential_accepts_exactly[OF c]
  from use[of "''root''" "''secret''"] use[of "''admin''" "[]"] c show ?thesis by auto
qed

text \<open>
  C34: \<open>pbkdf2Key\<close> computes PBKDF2 of RFC 8018 over the HMAC of its hash: the counter
  blocks, the iterated exclusive or and the truncation to the key length agree with the
  standard for every password, salt, key length and positive iteration count.
\<close>

theorem pbkdf2Key_is_pbkdf2:
  assumes "0 < iter" and "0 < hSize h"
  shows "pbkdf2Key password salt iter keyLen h =
    rfc_pbkdf2 (hmac h password) (hSize h) salt (nat iter) keyLen"
proof -
  have "pbkdf2Block (hmac h password) salt iter = rfc_block (hmac h password) salt (nat iter)"
    by (rule ext) (rule pbkdf2Block_rfc[OF assms(1)])
  then show ?thesis
    unfolding pbkdf2Key_def rfc_pbkdf2_def Let_def block_count[OF assms(2)] by simp
qed

lemma pbkdf2Key_is_pbkdf2_witness:
  "pbkdf2Key [1, 2] [3] 2 40 sha256New = rfc_pbkdf2 (hmac sha256New [1, 2]) 32 [3] 2 40"
  using pbkdf2Key_is_pbkdf2[of 2 sha256New "[1, 2]" "[3]" 40] by (simp add: sha256New_def)

end
