(* ===== verification/Store.thy ===== *)
theory Store
  imports Auth
begin

text \<open>
  The data store (\<open>internal/core/store.go\<close>): the database in memory, the data file on
  disk, and every operation of \<open>Store\<close> as a function from store and disk to its result and
  the next store and disk. The mutex makes each operation of one process atomic.

  A data file either does not exist, cannot be read, does not parse, or holds a database.
  JSON keeps every field of a database but the two unexported fields of a configuration
  (\<open>json_view\<close>). The outcomes of the file system calls, the clock and the random bytes are
  arguments of the operations that use them.
\<close>

section \<open>File system\<close>

datatype dataFile =
    NoFile
  | Unreadable go_error
  | Corrupt go_error
  | DbFile database

record disk =
  dkFile :: dataFile
  dkTmp :: dataFile

text \<open>\<open>filepath.Dir\<close> on Unix: the text up to the last slash, cleaned.\<close>

fun clean_parts :: "bool \<Rightarrow> string list \<Rightarrow> string list \<Rightarrow> string list" where
  "clean_parts rooted acc [] = rev acc"
| "clean_parts rooted acc (p # ps) =
     (if p = [] \<or> p = ''.'' then clean_parts rooted acc ps
      else if p = ''..'' then
        (case acc of
           [] \<Rightarrow> clean_parts rooted (if rooted then [] else [p]) ps
         | a # as \<Rightarrow> clean_parts rooted (if a = ''..'' then p # acc else as) ps)
      else clean_parts rooted (p # acc) ps)"

fun join_with :: "string \<Rightarrow> string list \<Rightarrow> string" where
  "join_with sep [] = []"
| "join_with sep [p] = p"
| "join_with sep (p # q # ps) = p @ sep @ join_with sep (q # ps)"

definition path_clean :: "string \<Rightarrow> string" where
  "path_clean path =
     (let rooted = has_prefix path ''/'';
          s = (if rooted then ''/'' else []) @
              join_with ''/'' (clean_parts rooted [] (split_on CHR ''/'' path))
      in if s = [] then ''.'' else s)"

definition path_dir :: "string \<Rightarrow> string" where
  "path_dir path = path_clean (rev (dropWhile (\<lambda>c. c \<noteq> CHR ''/'') (rev path)))"

record io =
  ioMkdir :: "go_error option"
  ioWrite :: "(go_error \<times> dataFile) option"
  ioRename :: "go_error option"

definition json_config :: "instanceConfig \<Rightarrow> instanceConfig" where
  "json_config c = c\<lparr>cfgResolvedSTUN := [], cfgResolvedKeepAlive := []\<rparr>"

definition json_view :: "database \<Rightarrow> database" where
  "json_view db = db\<lparr>dbItems := map json_config (dbItems db)\<rparr>"

text \<open>\<open>os.ReadFile\<close>, and the outcome of \<open>json.Unmarshal\<close> on what was read.\<close>

fun readFile :: "dataFile \<Rightarrow> (database res) res" where
  "readFile NoFile = Inl (Wrap ''open data file: no such file or directory'' (Sentinel OsErrNotExist))"
| "readFile (Unreadable e) = Inl e"
| "readFile (Corrupt e) = Inr (Inl e)"
| "readFile (DbFile db) = Inr (Inr (json_view db))"

section \<open>The store\<close>

record store =
  stoPath :: string
  stoDB :: database

definition refreshAdminFromDiskLocked :: "store \<Rightarrow> disk \<Rightarrow> store" where
  "refreshAdminFromDiskLocked s d =
     (case readFile (dkFile d) of
        Inl e \<Rightarrow> s
      | Inr (Inl e) \<Rightarrow> s
      | Inr (Inr db) \<Rightarrow>
          (let adm = dbAdmin db; cur = dbAdmin (stoDB s) in
           if admUsername adm = [] \<or> admSalt adm = [] \<or> admHash adm = [] then s
           else if is_zero_time (admLastPassword cur) \<or> admLastPassword adm > admLastPassword cur
           then s\<lparr>stoDB := (stoDB s)\<lparr>dbAdmin := adm\<rparr>\<rparr>
           else s))"

text \<open>
  The mutex of a store does not exclude another process: the password command and a running server
  write the same data file. \<open>during\<close> is what the other process does to the files in between: 0 after
  the password command has read the data file, 1 after a save has read the administrator from it,
  2 after a save has written the temporary file. What the other process does while one file is
  written is counted before the write. Renaming a file that is gone fails.
\<close>

type_synonym intrusion = "nat \<Rightarrow> disk \<Rightarrow> disk"

definition saveAmid :: "intrusion \<Rightarrow> io \<Rightarrow> store \<Rightarrow> disk \<Rightarrow> unit res \<times> store \<times> disk" where
  "saveAmid during io s0 d =
     (let s = refreshAdminFromDiskLocked s0 d;
          d0 = during 1 d;
          mk = (if path_dir (stoPath s) \<noteq> ''.'' \<and> path_dir (stoPath s) \<noteq> [] then ioMkdir io else None)
      in case mk of
          Some e \<Rightarrow> (Inl e, s, d0)
        | None \<Rightarrow>
            (case ioWrite io of
               Some (e, partial) \<Rightarrow> (Inl e, s, d0\<lparr>dkTmp := partial\<rparr>)
             | None \<Rightarrow>
                 (let d1 = during 2 (d0\<lparr>dkTmp := DbFile (json_view (stoDB s))\<rparr>) in
                  case ioRename io of
                    Some e \<Rightarrow> (Inl e, s, d1)
                  | None \<Rightarrow>
                      (case dkTmp d1 of
                         NoFile \<Rightarrow> (Inl (Wrap ''rename: no such file or directory'' (Sentinel OsErrNotExist)), s, d1)
                       | _ \<Rightarrow> (Inr (), s, d1\<lparr>dkFile := dkTmp d1, dkTmp := NoFile\<rparr>)))))"

text \<open>\<open>saveLocked\<close> when no other process touches the files meanwhile.\<close>

definition saveLocked :: "io \<Rightarrow> store \<Rightarrow> disk \<Rightarrow> unit res \<times> store \<times> disk" where
  "saveLocked io s d = saveAmid (\<lambda>k x. x) io s d"

text \<open>\<open>if err := s.saveLocked(); err != nil { return err }; return r\<close>.\<close>

definition saveThen :: "io \<Rightarrow> (store \<Rightarrow> 'a) \<Rightarrow> store \<Rightarrow> disk \<Rightarrow> 'a res \<times> store \<times> disk" where
  "saveThen io r s0 d0 =
     (case saveLocked io s0 d0 of
        (Inl e, s, d) \<Rightarrow> (Inl e, s, d)
      | (Inr u, s, d) \<Rightarrow> (Inr (r s), s, d))"

section \<open>Server groups of older data files\<close>

definition flattenLegacyServerGroups :: "serverGroup list \<Rightarrow> int \<Rightarrow> serverEndpoint list" where
  "flattenLegacyServerGroups groups defaultPort =
     normalizeServerEndpoints
       (concat (map (\<lambda>g. normalizeServerEndpoints (sgServers g) defaultPort) groups)) defaultPort"

definition groupKey :: "serverGroup \<Rightarrow> string" where
  "groupKey g = to_lower (sgID g @ '' '' @ sgName g)"

definition legacyQUIC :: "serverGroup \<Rightarrow> bool" where
  "legacyQUIC g \<longleftrightarrow> contains (groupKey g) ''quic'' \<or> contains (groupKey g) ''udp''"

definition legacyKeepAliveServers :: "serverGroup list \<Rightarrow> bool \<Rightarrow> serverEndpoint list" where
  "legacyKeepAliveServers groups quic =
     (let defaultPort = (if quic then 443 else 80)
      in normalizeServerEndpoints
           (concat (map (\<lambda>g. normalizeServerEndpoints (sgServers g) defaultPort)
              (filter (\<lambda>g. legacyQUIC g = quic) groups))) defaultPort)"

section \<open>Normalisation of a database\<close>

definition orElse :: "'a list \<Rightarrow> 'a list \<Rightarrow> 'a list" where
  "orElse xs ys = (if length xs = 0 then ys else xs)"

definition normalizeOptions :: "systemOptions \<Rightarrow> systemOptions" where
  "normalizeOptions o1 =
     (let stun = orElse (orElse (optSTUNServers o1)
            (flattenLegacyServerGroups (optSTUNGroups o1) defaultProbePort)) defaultSTUNServers;
          http = orElse (orElse (optHTTPServers o1)
            (legacyKeepAliveServers (optKeepAliveGroups o1) False)) defaultHTTPServers;
          quic = orElse (orElse (optQUICServers o1)
            (legacyKeepAliveServers (optKeepAliveGroups o1) True)) defaultQUICServers
      in \<lparr>optSessionHours = (if optSessionHours o1 \<le> 0 then 12 else optSessionHours o1),
          optSTUNServers = normalizeServerEndpoints stun defaultProbePort,
          optHTTPServers = normalizeServerEndpoints http 80,
          optQUICServers = normalizeServerEndpoints quic 443,
          optSTUNGroups = [],
          optKeepAliveGroups = []\<rparr>)"

definition normalizeDB :: "database \<Rightarrow> database" where
  "normalizeDB db =
     db\<lparr>dbVersion := (if dbVersion db \<le> 0 then 1 else dbVersion db),
        dbOptions := normalizeOptions (dbOptions db),
        dbItems := map normalizeConfig (dbItems db)\<rparr>"

definition normalizeLocked :: "store \<Rightarrow> store" where
  "normalizeLocked s = s\<lparr>stoDB := normalizeDB (stoDB s)\<rparr>"

section \<open>Opening, and the administrator\<close>

text \<open>The content of a new database and of Go's zero \<open>Database\<close>.\<close>

definition freshDB :: "adminCredential \<Rightarrow> database" where
  "freshDB admin =
     \<lparr>dbVersion = 1, dbAdmin = admin,
      dbOptions = \<lparr>optSessionHours = 12, optSTUNServers = defaultSTUNServers,
        optHTTPServers = defaultHTTPServers, optQUICServers = defaultQUICServers,
        optSTUNGroups = [], optKeepAliveGroups = []\<rparr>,
      dbItems = [], dbRuntime = (\<lambda>_. None)\<rparr>"

definition createStore ::
  "string \<Rightarrow> string \<Rightarrow> string \<Rightarrow> byte list option \<Rightarrow> byte list option \<Rightarrow> time \<Rightarrow> io \<Rightarrow> disk \<Rightarrow>
     (store \<times> string) res \<times> disk" where
  "createStore path setupUser setupPassword secretRandom saltRandom now io d =
     (case (if setupPassword = [] then map_sum id (\<lambda>pw. (pw, pw)) (randomSecret secretRandom)
            else Inr (setupPassword, [])) of
        Inl e \<Rightarrow> (Inl e, d)
      | Inr (password, generated) \<Rightarrow>
          (case NewAdminCredential saltRandom setupUser password of
             Inl e \<Rightarrow> (Inl e, d)
           | Inr admin \<Rightarrow>
               (case saveLocked io \<lparr>stoPath = path, stoDB = freshDB (admin\<lparr>admLastPassword := now\<rparr>)\<rparr> d of
                  (Inl e, s, d') \<Rightarrow> (Inl e, d')
                | (Inr u, s, d') \<Rightarrow> (Inr (s, generated), d'))))"

definition OpenStore ::
  "string \<Rightarrow> string \<Rightarrow> string \<Rightarrow> byte list option \<Rightarrow> byte list option \<Rightarrow> time \<Rightarrow> io \<Rightarrow> disk \<Rightarrow>
     (store \<times> string) res \<times> disk" where
  "OpenStore path setupUser setupPassword secretRandom saltRandom now io d =
     (case readFile (dkFile d) of
        Inr (Inl e) \<Rightarrow> (Inl e, d)
      | Inr (Inr db) \<Rightarrow> (Inr (normalizeLocked \<lparr>stoPath = path, stoDB = db\<rparr>, []), d)
      | Inl e \<Rightarrow>
          (if \<not> err_is e OsErrNotExist then (Inl e, d)
           else createStore path setupUser setupPassword secretRandom saltRandom now io d))"

definition Admin :: "store \<Rightarrow> disk \<Rightarrow> adminCredential \<times> store" where
  "Admin s d = (let s' = refreshAdminFromDiskLocked s d in (dbAdmin (stoDB s'), s'))"

definition ChangeAdminPasswordAmid ::
  "intrusion \<Rightarrow> string \<Rightarrow> string \<Rightarrow> string \<Rightarrow> byte list option \<Rightarrow> time \<Rightarrow> io \<Rightarrow> disk \<Rightarrow> unit res \<times> disk" where
  "ChangeAdminPasswordAmid during path username password saltRandom now io d =
     (case readFile (dkFile d) of
        Inl e \<Rightarrow>
          (Inl (if err_is e OsErrNotExist then ErrNew (''data file does not exist: '' @ path) else e), d)
      | Inr (Inl e) \<Rightarrow> (Inl e, d)
      | Inr (Inr db) \<Rightarrow>
          (case NewAdminCredential saltRandom
                  (if username = [] then admUsername (dbAdmin db) else username) password of
             Inl e \<Rightarrow> (Inl e, d)
           | Inr admin \<Rightarrow>
               (let s = normalizeLocked \<lparr>stoPath = path,
                          stoDB = db\<lparr>dbAdmin := admin\<lparr>admLastPassword := now\<rparr>\<rparr>\<rparr>;
                    (r, s', d') = saveAmid during io s (during 0 d)
                in (r, d'))))"

definition ChangeAdminPassword ::
  "string \<Rightarrow> string \<Rightarrow> string \<Rightarrow> byte list option \<Rightarrow> time \<Rightarrow> io \<Rightarrow> disk \<Rightarrow> unit res \<times> disk" where
  "ChangeAdminPassword path username password saltRandom now io d =
     ChangeAdminPasswordAmid (\<lambda>k x. x) path username password saltRandom now io d"

definition SessionHours :: "store \<Rightarrow> int" where
  "SessionHours s =
     (if optSessionHours (dbOptions (stoDB s)) \<le> 0 then 12 else optSessionHours (dbOptions (stoDB s)))"

section \<open>Instances\<close>

definition resolveConfigLocked :: "systemOptions \<Rightarrow> instanceConfig \<Rightarrow> instanceConfig" where
  "resolveConfigLocked opts cfg =
     (let c = normalizeConfig cfg;
          c1 = (if cfgSTUNMode c = ''group'' then c\<lparr>cfgResolvedSTUN := optSTUNServers opts\<rparr> else c)
      in if cfgKeepAliveMode c1 = ''group''
         then (if cfgProtocol c1 = ''udp'' then c1\<lparr>cfgResolvedKeepAlive := optQUICServers opts\<rparr>
               else c1\<lparr>cfgResolvedKeepAlive := optHTTPServers opts\<rparr>)
         else c1)"

definition validateConfigLocked :: "systemOptions \<Rightarrow> instanceConfig \<Rightarrow> unit res" where
  "validateConfigLocked opts cfg =
     res_bind (validateConfig cfg) (\<lambda>_.
     res_bind (check (cfgSTUNMode cfg = ''group'' \<and> length (optSTUNServers opts) = 0)
       (ErrNew ''stun server list is not available'')) (\<lambda>_.
     res_bind (check (cfgKeepAliveMode cfg = ''group'' \<and> cfgProtocol cfg = ''udp'' \<and>
                      length (optQUICServers opts) = 0)
       (ErrNew ''quic server list is not available'')) (\<lambda>_.
     check (cfgKeepAliveMode cfg = ''group'' \<and> cfgProtocol cfg \<noteq> ''udp'' \<and>
            length (optHTTPServers opts) = 0)
       (ErrNew ''http server list is not available''))))"

abbreviation items :: "store \<Rightarrow> instanceConfig list" where
  "items s \<equiv> dbItems (stoDB s)"

abbreviation options :: "store \<Rightarrow> systemOptions" where
  "options s \<equiv> dbOptions (stoDB s)"

abbreviation runtimes :: "store \<Rightarrow> string \<rightharpoonup> persistedRuntimeStatus" where
  "runtimes s \<equiv> dbRuntime (stoDB s)"

definition setItems :: "instanceConfig list \<Rightarrow> store \<Rightarrow> store" where
  "setItems cs s = s\<lparr>stoDB := (stoDB s)\<lparr>dbItems := cs\<rparr>\<rparr>"

definition setRuntimes :: "(string \<rightharpoonup> persistedRuntimeStatus) \<Rightarrow> store \<Rightarrow> store" where
  "setRuntimes m s = s\<lparr>stoDB := (stoDB s)\<lparr>dbRuntime := m\<rparr>\<rparr>"

definition ListInstances :: "store \<Rightarrow> instanceConfig list" where
  "ListInstances s = map (resolveConfigLocked (options s)) (items s)"

definition GetInstance :: "string \<Rightarrow> store \<Rightarrow> instanceConfig option" where
  "GetInstance i s = map_option (resolveConfigLocked (options s)) (find (\<lambda>c. cfgID c = i) (items s))"

definition AddInstance ::
  "byte list option \<Rightarrow> instanceConfig \<Rightarrow> io \<Rightarrow> store \<Rightarrow> disk \<Rightarrow> instanceConfig res \<times> store \<times> disk" where
  "AddInstance idRandom cfg0 io s d =
     (let cfg = normalizeConfig (if cfgID cfg0 = [] then cfg0\<lparr>cfgID := newID idRandom\<rparr> else cfg0) in
      case validateConfigLocked (options s) cfg of
        Inl e \<Rightarrow> (Inl e, s, d)
      | Inr u \<Rightarrow>
          (if list_ex (\<lambda>c. cfgID c = cfgID cfg) (items s)
           then (Inl (ErrNew (''instance '' @ cfgID cfg @ '' already exists'')), s, d)
           else saveThen io (\<lambda>s'. resolveConfigLocked (options s') cfg) (setItems (items s @ [cfg]) s) d))"

fun replaceFirst :: "string \<Rightarrow> instanceConfig \<Rightarrow> instanceConfig list \<Rightarrow> instanceConfig list option" where
  "replaceFirst i cfg [] = None"
| "replaceFirst i cfg (c # cs) =
     (if cfgID c = i then Some (cfg # cs) else map_option ((#) c) (replaceFirst i cfg cs))"

definition UpdateInstance ::
  "string \<Rightarrow> instanceConfig \<Rightarrow> io \<Rightarrow> store \<Rightarrow> disk \<Rightarrow> instanceConfig res \<times> store \<times> disk" where
  "UpdateInstance i cfg0 io s d =
     (let cfg = normalizeConfig (cfg0\<lparr>cfgID := i\<rparr>) in
      case validateConfigLocked (options s) cfg of
        Inl e \<Rightarrow> (Inl e, s, d)
      | Inr u \<Rightarrow>
          (case replaceFirst i cfg (items s) of
             None \<Rightarrow> (Inl (Sentinel OsErrNotExist), s, d)
           | Some cs \<Rightarrow> saveThen io (\<lambda>s'. resolveConfigLocked (options s') cfg) (setItems cs s) d))"

fun removeFirst :: "string \<Rightarrow> instanceConfig list \<Rightarrow> instanceConfig list option" where
  "removeFirst i [] = None"
| "removeFirst i (c # cs) = (if cfgID c = i then Some cs else map_option ((#) c) (removeFirst i cs))"

definition DeleteInstance :: "string \<Rightarrow> io \<Rightarrow> store \<Rightarrow> disk \<Rightarrow> unit res \<times> store \<times> disk" where
  "DeleteInstance i io s d =
     (case removeFirst i (items s) of
        None \<Rightarrow> (Inl (Sentinel OsErrNotExist), s, d)
      | Some cs \<Rightarrow> saveLocked io (setRuntimes ((runtimes s)(i := None)) (setItems cs s)) d)"

section \<open>Saved runtime status\<close>

definition persisted :: "runtimeStatus \<Rightarrow> persistedRuntimeStatus" where
  "persisted st =
     \<lparr>prPublicAddress = stPublicAddress st, prPublicPort = stPublicPort st,
      prPublicStableSince = stPublicStableSince st, prPublicUpdatedAt = stPublicUpdatedAt st,
      prPrivateAddress = stPrivateAddress st, prPrivatePort = stPrivatePort st,
      prProtocol = stProtocol st\<rparr>"

definition restored :: "persistedRuntimeStatus \<Rightarrow> runtimeStatus" where
  "restored pr =
     zeroStatus\<lparr>stPublicAddress := prPublicAddress pr, stPublicPort := prPublicPort pr,
       stPublicStableSince := prPublicStableSince pr, stPublicUpdatedAt := prPublicUpdatedAt pr,
       stPrivateAddress := prPrivateAddress pr, stPrivatePort := prPrivatePort pr,
       stProtocol := prProtocol pr\<rparr>"

definition RuntimeStatus :: "string \<Rightarrow> store \<Rightarrow> runtimeStatus option" where
  "RuntimeStatus i s =
     (case runtimes s i of
        None \<Rightarrow> None
      | Some pr \<Rightarrow> if prPublicAddress pr = [] \<or> prPublicPort pr = 0 then None else Some (restored pr))"

definition SaveRuntimeStatus ::
  "string \<Rightarrow> runtimeStatus \<Rightarrow> io \<Rightarrow> store \<Rightarrow> disk \<Rightarrow> unit res \<times> store \<times> disk" where
  "SaveRuntimeStatus i st io s d =
     (if i = [] \<or> stPublicAddress st = [] \<or> stPublicPort st = 0 then (Inr (), s, d)
      else if runtimes s i = Some (persisted st) then (Inr (), s, d)
      else saveLocked io (setRuntimes ((runtimes s)(i \<mapsto> persisted st)) s) d)"

definition ClearRuntimeStatus :: "string \<Rightarrow> io \<Rightarrow> store \<Rightarrow> disk \<Rightarrow> unit res \<times> store \<times> disk" where
  "ClearRuntimeStatus i io s d =
     (if i = [] then (Inr (), s, d)
      else if runtimes s i = None then (Inr (), s, d)
      else saveLocked io (setRuntimes ((runtimes s)(i := None)) s) d)"

section \<open>Server groups\<close>

definition serverGroupsOf :: "systemOptions \<Rightarrow> serverGroupsConfig" where
  "serverGroupsOf opts =
     \<lparr>gcSTUNServers = optSTUNServers opts, gcHTTPServers = optHTTPServers opts,
      gcQUICServers = optQUICServers opts, gcSTUNGroups = [], gcKeepAliveGroups = []\<rparr>"

definition ServerGroups :: "store \<Rightarrow> serverGroupsConfig" where
  "ServerGroups s = serverGroupsOf (options s)"

text \<open>The check of every stored instance against the new lists, in the loop's order.\<close>

fun checkItems :: "systemOptions \<Rightarrow> instanceConfig list \<Rightarrow> unit res" where
  "checkItems opts [] = Inr ()"
| "checkItems opts (c # cs) =
     res_bind (validateConfigLocked opts (normalizeConfig c)) (\<lambda>_. checkItems opts cs)"

definition newServerLists :: "serverGroupsConfig \<Rightarrow> systemOptions \<Rightarrow> systemOptions" where
  "newServerLists g opts =
     (let stun = (if length (gcSTUNServers g) = 0 \<and> length (gcSTUNGroups g) > 0
                  then flattenLegacyServerGroups (gcSTUNGroups g) defaultProbePort else gcSTUNServers g);
          http = (if length (gcHTTPServers g) = 0 \<and> length (gcKeepAliveGroups g) > 0
                  then legacyKeepAliveServers (gcKeepAliveGroups g) False else gcHTTPServers g);
          quic = (if length (gcQUICServers g) = 0 \<and> length (gcKeepAliveGroups g) > 0
                  then legacyKeepAliveServers (gcKeepAliveGroups g) True else gcQUICServers g)
      in opts\<lparr>optSTUNServers := normalizeServerEndpoints stun defaultProbePort,
              optHTTPServers := normalizeServerEndpoints http 80,
              optQUICServers := normalizeServerEndpoints quic 443,
              optSTUNGroups := [],
              optKeepAliveGroups := []\<rparr>)"

definition UpdateServerGroups ::
  "serverGroupsConfig \<Rightarrow> io \<Rightarrow> store \<Rightarrow> disk \<Rightarrow> serverGroupsConfig res \<times> store \<times> disk" where
  "UpdateServerGroups g io s d =
     (let opts = newServerLists g (options s) in
      case res_bind (validateServerEndpoints (optSTUNServers opts) ''stun'') (\<lambda>_.
           res_bind (validateServerEndpoints (optHTTPServers opts) ''http'') (\<lambda>_.
           res_bind (validateServerEndpoints (optQUICServers opts) ''quic'') (\<lambda>_.
           checkItems opts (items s)))) of
        Inl e \<Rightarrow> (Inl e, s, d)
      | Inr u \<Rightarrow>
          saveThen io (\<lambda>s'. serverGroupsOf (options s'))
            (s\<lparr>stoDB := (stoDB s)\<lparr>dbOptions := opts\<rparr>\<rparr>) d)"

end
