(* ===== verification/Store_Correct.thy ===== *)
theory Store_Correct
  imports Store
begin

text \<open>
  What the store guarantees: which parts of the database each operation changes, that a failed
  operation leaves the data file alone, the invariant of every reachable store, durability, and
  the rules of the administrator's password.
\<close>

section \<open>Saving\<close>

lemma refresh_frame [simp]:
  "stoPath (refreshAdminFromDiskLocked s d) = stoPath s"
  "items (refreshAdminFromDiskLocked s d) = items s"
  "options (refreshAdminFromDiskLocked s d) = options s"
  "runtimes (refreshAdminFromDiskLocked s d) = runtimes s"
  "dbVersion (stoDB (refreshAdminFromDiskLocked s d)) = dbVersion (stoDB s)"
  by (simp_all add: refreshAdminFromDiskLocked_def Let_def split: sum.split)

lemma set_frame [simp]:
  "stoPath (setItems cs s) = stoPath s" "items (setItems cs s) = cs"
  "options (setItems cs s) = options s" "runtimes (setItems cs s) = runtimes s"
  "dbVersion (stoDB (setItems cs s)) = dbVersion (stoDB s)"
  "stoPath (setRuntimes m s) = stoPath s" "items (setRuntimes m s) = items s"
  "options (setRuntimes m s) = options s" "runtimes (setRuntimes m s) = m"
  "dbVersion (stoDB (setRuntimes m s)) = dbVersion (stoDB s)"
  by (simp_all add: setItems_def setRuntimes_def)

lemma saveLocked_eq:
  "saveLocked io s0 d =
     (let s = refreshAdminFromDiskLocked s0 d;
          mk = (if path_dir (stoPath s) \<noteq> ''.'' \<and> path_dir (stoPath s) \<noteq> [] then ioMkdir io else None)
      in case mk of
          Some e \<Rightarrow> (Inl e, s, d)
        | None \<Rightarrow>
            (case ioWrite io of
               Some (e, partial) \<Rightarrow> (Inl e, s, d\<lparr>dkTmp := partial\<rparr>)
             | None \<Rightarrow>
                 (let d1 = d\<lparr>dkTmp := DbFile (json_view (stoDB s))\<rparr> in
                  case ioRename io of
                    Some e \<Rightarrow> (Inl e, s, d1)
                  | None \<Rightarrow> (Inr (), s, d1\<lparr>dkFile := dkTmp d1, dkTmp := NoFile\<rparr>))))"
  by (simp add: saveLocked_def saveAmid_def Let_def split: option.split)

lemma ChangeAdminPassword_eq:
  "ChangeAdminPassword path username password saltRandom now io d =
     (case readFile (dkFile d) of
        Inl e \<Rightarrow>
          (Inl (if err_is e OsErrNotExist then ErrNew (''data file does not exist: '' @ path) else e), d)
      | Inr (Inl e) \<Rightarrow> (Inl e, d)
      | Inr (Inr db) \<Rightarrow>
          (case NewAdminCredential saltRandom
                  (if username = [] then admUsername (dbAdmin db) else username) password of
             Inl e \<Rightarrow> (Inl e, d)
           | Inr admin \<Rightarrow>
               (let s = normalizeLocked \<lparr>stoPath = path,
                          stoDB = db\<lparr>dbAdmin := admin\<lparr>admLastPassword := now\<rparr>\<rparr>\<rparr>;
                    (r, s', d') = saveLocked io s d
                in (r, d'))))"
  by (simp only: ChangeAdminPassword_def ChangeAdminPasswordAmid_def saveLocked_def)

lemma saveLocked_store: "fst (snd (saveLocked io s d)) = refreshAdminFromDiskLocked s d"
  by (simp add: saveLocked_eq Let_def split: option.split)

lemma saveLocked_result:
  "(fst (saveLocked io s d) = Inr () \<and> snd (snd (saveLocked io s d)) =
      \<lparr>dkFile = DbFile (json_view (stoDB (refreshAdminFromDiskLocked s d))), dkTmp = NoFile\<rparr>) \<or>
   (\<exists>e. fst (saveLocked io s d) = Inl e \<and> dkFile (snd (snd (saveLocked io s d))) = dkFile d)"
  by (cases d) (simp add: saveLocked_eq Let_def split: option.split)

lemma saveLocked_cases:
  assumes "saveLocked io s d = (r, s', d')"
  obtains (saved) "r = Inr ()" "s' = refreshAdminFromDiskLocked s d"
      "d' = \<lparr>dkFile = DbFile (json_view (stoDB s')), dkTmp = NoFile\<rparr>"
    | (failed) e where "r = Inl e" "s' = refreshAdminFromDiskLocked s d" "dkFile d' = dkFile d"
proof -
  from saveLocked_store[of io s d] have s: "s' = refreshAdminFromDiskLocked s d" by (simp add: assms)
  have "r = Inr () \<and> d' = \<lparr>dkFile = DbFile (json_view (stoDB s')), dkTmp = NoFile\<rparr> \<or>
      (\<exists>e. r = Inl e \<and> dkFile d' = dkFile d)"
    using saveLocked_result[of io s d] unfolding assms fst_conv snd_conv s .
  then show ?thesis
  proof
    assume "r = Inr () \<and> d' = \<lparr>dkFile = DbFile (json_view (stoDB s')), dkTmp = NoFile\<rparr>"
    then show ?thesis by (intro saved[OF _ s]) simp_all
  next
    assume "\<exists>e. r = Inl e \<and> dkFile d' = dkFile d"
    then show ?thesis using failed[OF _ s] by blast
  qed
qed

lemma saveThen_cases:
  assumes "saveThen io f s d = (r, s', d')"
  obtains (saved) "r = Inr (f s')" "s' = refreshAdminFromDiskLocked s d"
      "d' = \<lparr>dkFile = DbFile (json_view (stoDB s')), dkTmp = NoFile\<rparr>"
    | (failed) e where "r = Inl e" "s' = refreshAdminFromDiskLocked s d" "dkFile d' = dkFile d"
proof -
  obtain u t d1 where sv: "saveLocked io s d = (u, t, d1)" by (metis prod_cases3)
  from sv show ?thesis
  proof (cases rule: saveLocked_cases)
    case saved
    have "(Inr (f t), t, d1) = (r, s', d')"
      using assms unfolding saveThen_def sv saved(1) by auto
    with saved show ?thesis by (intro that(1)) auto
  next
    case (failed e)
    have "(Inl e, t, d1) = (r, s', d')"
      using assms unfolding saveThen_def sv failed(1) by auto
    with failed show ?thesis by (intro that(2)) auto
  qed
qed

section \<open>Validity of a database\<close>

definition config_ok :: "instanceConfig \<Rightarrow> bool" where
  "config_ok c \<longleftrightarrow> cfgID c \<noteq> [] \<and> json_config c = c \<and> normalizeConfig c = c \<and> validateConfig c = Inr ()"

definition runtime_ok :: "(string \<rightharpoonup> persistedRuntimeStatus) \<Rightarrow> bool" where
  "runtime_ok m \<longleftrightarrow> (\<forall>i pr. m i = Some pr \<longrightarrow> i \<noteq> [] \<and> prPublicAddress pr \<noteq> [] \<and> prPublicPort pr \<noteq> 0)"

definition db_ok :: "database \<Rightarrow> bool" where
  "db_ok db \<longleftrightarrow> 1 \<le> dbVersion db \<and> 1 \<le> optSessionHours (dbOptions db) \<and>
     distinct (map cfgID (dbItems db)) \<and> list_all config_ok (dbItems db) \<and> runtime_ok (dbRuntime db)"

definition disk_ok :: "disk \<Rightarrow> bool" where
  "disk_ok d \<longleftrightarrow> (case dkFile d of DbFile db \<Rightarrow> db_ok db | _ \<Rightarrow> True)"

lemma db_ok_refresh [simp]:
  "db_ok (stoDB (refreshAdminFromDiskLocked s d)) = db_ok (stoDB s)"
  by (simp add: db_ok_def)

lemma json_config_simps [simp]:
  "cfgID (json_config c) = cfgID c" "json_config (json_config c) = json_config c"
  by (simp_all add: json_config_def)

lemma json_view_ok:
  assumes "list_all config_ok (dbItems db)"
  shows "json_view db = db"
proof -
  have "map json_config (dbItems db) = dbItems db"
    using assms by (auto simp: list_all_iff config_ok_def intro: map_idI)
  then show ?thesis by (simp add: json_view_def)
qed

lemma db_ok_view [simp]: "db_ok db \<Longrightarrow> json_view db = db"
  by (simp add: db_ok_def json_view_ok)

lemma saveLocked_ok:
  assumes "saveLocked io s d = (r, s', d')" and "db_ok (stoDB s)" and "disk_ok d"
  shows "db_ok (stoDB s') \<and> disk_ok d'"
  using assms(1)
  by (cases rule: saveLocked_cases) (use assms(2,3) in \<open>auto simp: disk_ok_def\<close>)

lemma saveThen_ok:
  assumes "saveThen io f s d = (r, s', d')" and "db_ok (stoDB s)" and "disk_ok d"
  shows "db_ok (stoDB s') \<and> disk_ok d'"
  using assms(1)
  by (cases rule: saveThen_cases) (use assms(2,3) in \<open>auto simp: disk_ok_def\<close>)

lemma runtime_ok_upd:
  "runtime_ok m \<Longrightarrow> runtime_ok (m(i := None))"
  "runtime_ok m \<Longrightarrow> i \<noteq> [] \<Longrightarrow> prPublicAddress pr \<noteq> [] \<Longrightarrow> prPublicPort pr \<noteq> 0 \<Longrightarrow> runtime_ok (m(i \<mapsto> pr))"
  by (auto simp: runtime_ok_def)

section \<open>Operations keep validity\<close>

lemma validateConfigLocked_Inr:
  "validateConfigLocked opts c = Inr u \<longleftrightarrow> validateConfig c = Inr () \<and>
     (cfgSTUNMode c = ''group'' \<longrightarrow> optSTUNServers opts \<noteq> []) \<and>
     (cfgKeepAliveMode c = ''group'' \<longrightarrow>
        (if cfgProtocol c = ''udp'' then optQUICServers opts else optHTTPServers opts) \<noteq> [])"
  by (auto simp: validateConfigLocked_def)

lemma json_normalizeConfig: "json_config c = c \<Longrightarrow> json_config (normalizeConfig c) = normalizeConfig c"
  by (cases c) (simp add: json_config_def normalizeConfig_def Let_def)

lemma config_ok_normalized:
  assumes "json_config c = c" and "cfgID c \<noteq> []" and "validateConfigLocked opts (normalizeConfig c) = Inr u"
  shows "config_ok (normalizeConfig c)"
  using assms by (simp add: config_ok_def validateConfigLocked_Inr normalizeConfig_idem json_normalizeConfig)

definition random_id :: "byte list option \<Rightarrow> bool" where
  "random_id r \<longleftrightarrow> (case r of None \<Rightarrow> True | Some bs \<Rightarrow> length bs = 8)"

lemma length_hexEncode: "length (hexEncode bs) = 2 * length bs"
  by (induction bs) (simp_all add: hexEncode_def hex_byte_def)

lemma newID_ne: "random_id r \<Longrightarrow> newID r \<noteq> []"
  using length_hexEncode[of "the r"] by (auto simp: newID_def random_id_def split: option.splits)

lemma AddInstance_ok:
  assumes "AddInstance rnd cfg io s d = (r, s', d')" and "json_config cfg = cfg" and "random_id rnd"
    and "db_ok (stoDB s)" and "disk_ok d"
  shows "db_ok (stoDB s') \<and> disk_ok d'"
proof -
  let ?raw = "if cfgID cfg = [] then cfg\<lparr>cfgID := newID rnd\<rparr> else cfg"
  let ?c = "normalizeConfig ?raw"
  have j: "json_config ?raw = ?raw" "cfgID ?raw \<noteq> []"
    using assms(2) newID_ne[OF assms(3)] by (cases cfg, auto simp: json_config_def)
  show ?thesis
  proof (cases "\<exists>u. validateConfigLocked (options s) ?c = Inr u \<and> \<not> list_ex (\<lambda>x. cfgID x = cfgID ?c) (items s)")
    case False
    with assms show ?thesis by (auto simp: AddInstance_def Let_def split: sum.splits if_splits)
  next
    case True
    then obtain u where u: "validateConfigLocked (options s) ?c = Inr u"
      and fresh: "\<not> list_ex (\<lambda>x. cfgID x = cfgID ?c) (items s)" by blast
    have "db_ok (stoDB (setItems (items s @ [?c]) s))"
      using assms(4) fresh config_ok_normalized[OF j u]
      by (auto simp: db_ok_def setItems_def list_ex_iff)
    moreover have "saveThen io (\<lambda>s'. resolveConfigLocked (options s') ?c) (setItems (items s @ [?c]) s) d = (r, s', d')"
      using assms(1) u fresh by (simp add: AddInstance_def Let_def)
    ultimately show ?thesis using saveThen_ok assms(5) by blast
  qed
qed

lemma replaceFirst_Some:
  assumes "replaceFirst i c cs = Some cs'" and "cfgID c = i"
  shows "map cfgID cs' = map cfgID cs \<and> set cs' \<subseteq> insert c (set cs) \<and>
    find (\<lambda>x. cfgID x = i) cs' = Some c \<and> (\<forall>j. j \<noteq> i \<longrightarrow>
      find (\<lambda>x. cfgID x = j) cs' = find (\<lambda>x. cfgID x = j) cs)"
  using assms
proof (induction cs arbitrary: cs')
  case Nil
  then show ?case by simp
next
  case (Cons a cs)
  then show ?case by (cases "cfgID a = i") fastforce+
qed

lemma replaceFirst_None: "replaceFirst i c cs = None \<longleftrightarrow> i \<notin> cfgID ` set cs"
  by (induction cs) auto

lemma removeFirst_Some:
  assumes "removeFirst i cs = Some cs'" and "distinct (map cfgID cs)"
  shows "cs' = filter (\<lambda>x. cfgID x \<noteq> i) cs"
  using assms
proof (induction cs arbitrary: cs')
  case Nil
  then show ?case by simp
next
  case (Cons a cs)
  show ?case
  proof (cases "cfgID a = i")
    case True
    with Cons.prems(2) have "i \<notin> cfgID ` set cs" by simp
    then have "filter (\<lambda>x. cfgID x \<noteq> i) cs = cs" by (intro filter_True) blast
    with True Cons.prems(1) show ?thesis by simp
  next
    case False
    with Cons.prems(1) obtain r where r: "removeFirst i cs = Some r" "cs' = a # r" by auto
    with Cons.IH[OF r(1)] Cons.prems(2) False show ?thesis by simp
  qed
qed

lemma removeFirst_None: "removeFirst i cs = None \<longleftrightarrow> i \<notin> cfgID ` set cs"
  by (induction cs) auto

lemma UpdateInstance_ok:
  assumes "UpdateInstance i cfg io s d = (r, s', d')" and "json_config cfg = cfg"
    and "db_ok (stoDB s)" and "disk_ok d"
  shows "db_ok (stoDB s') \<and> disk_ok d'"
proof -
  let ?raw = "cfg\<lparr>cfgID := i\<rparr>"
  let ?c = "normalizeConfig ?raw"
  have j: "json_config ?raw = ?raw" using assms(2) by (cases cfg) (simp add: json_config_def)
  show ?thesis
  proof (cases "\<exists>u cs. validateConfigLocked (options s) ?c = Inr u \<and> replaceFirst i ?c (items s) = Some cs")
    case False
    with assms show ?thesis by (auto simp: UpdateInstance_def Let_def split: sum.splits option.splits)
  next
    case True
    then obtain u cs where u: "validateConfigLocked (options s) ?c = Inr u"
      and cs: "replaceFirst i ?c (items s) = Some cs" by blast
    have id: "cfgID ?c = i" by simp
    note rep = replaceFirst_Some[OF cs id]
    have "i \<in> cfgID ` set (items s)" using cs replaceFirst_None[of i ?c "items s"] by force
    then have "i \<noteq> []" using assms(3) by (auto simp: db_ok_def list_all_iff config_ok_def)
    then have "config_ok ?c" using config_ok_normalized[OF j _ u] by simp
    then have "db_ok (stoDB (setItems cs s))"
      using assms(3) rep by (auto simp: db_ok_def list_all_iff setItems_def)
    moreover have "saveThen io (\<lambda>s'. resolveConfigLocked (options s') ?c) (setItems cs s) d = (r, s', d')"
      using assms(1) u cs by (simp add: UpdateInstance_def Let_def)
    ultimately show ?thesis using saveThen_ok assms(4) by blast
  qed
qed

lemma DeleteInstance_ok:
  assumes "DeleteInstance i io s d = (r, s', d')" and "db_ok (stoDB s)" and "disk_ok d"
  shows "db_ok (stoDB s') \<and> disk_ok d'"
proof (cases "removeFirst i (items s)")
  case None
  with assms show ?thesis by (simp add: DeleteInstance_def)
next
  case (Some cs)
  let ?t = "setRuntimes ((runtimes s)(i := None)) (setItems cs s)"
  have "cs = filter (\<lambda>x. cfgID x \<noteq> i) (items s)"
    using removeFirst_Some[OF Some] assms(2) by (simp add: db_ok_def)
  then have "db_ok (stoDB ?t)"
    using assms(2) by (auto simp: db_ok_def list_all_iff runtime_ok_upd distinct_map_filter)
  moreover have "saveLocked io ?t d = (r, s', d')" using assms(1) Some by (simp add: DeleteInstance_def)
  ultimately show ?thesis using saveLocked_ok assms(3) by blast
qed

lemma SaveRuntimeStatus_ok:
  assumes "SaveRuntimeStatus i st io s d = (r, s', d')" and "db_ok (stoDB s)" and "disk_ok d"
  shows "db_ok (stoDB s') \<and> disk_ok d'"
proof (cases "i = [] \<or> stPublicAddress st = [] \<or> stPublicPort st = 0 \<or> runtimes s i = Some (persisted st)")
  case True
  with assms show ?thesis by (auto simp: SaveRuntimeStatus_def split: if_splits)
next
  case False
  let ?t = "setRuntimes ((runtimes s)(i \<mapsto> persisted st)) s"
  from False have "saveLocked io ?t d = (r, s', d')" using assms(1) by (simp add: SaveRuntimeStatus_def)
  moreover from False have "db_ok (stoDB ?t)"
    using assms(2) by (auto simp: db_ok_def runtime_ok_upd persisted_def)
  ultimately show ?thesis using saveLocked_ok assms(3) by blast
qed

lemma ClearRuntimeStatus_ok:
  assumes "ClearRuntimeStatus i io s d = (r, s', d')" and "db_ok (stoDB s)" and "disk_ok d"
  shows "db_ok (stoDB s') \<and> disk_ok d'"
proof (cases "i = [] \<or> runtimes s i = None")
  case True
  with assms show ?thesis by (auto simp: ClearRuntimeStatus_def split: if_splits)
next
  case False
  let ?t = "setRuntimes ((runtimes s)(i := None)) s"
  from False have "saveLocked io ?t d = (r, s', d')" using assms(1) by (auto simp: ClearRuntimeStatus_def)
  moreover have "db_ok (stoDB ?t)" using assms(2) by (auto simp: db_ok_def runtime_ok_upd)
  ultimately show ?thesis using saveLocked_ok assms(3) by blast
qed

lemma UpdateServerGroups_ok:
  assumes "UpdateServerGroups g io s d = (r, s', d')" and "db_ok (stoDB s)" and "disk_ok d"
  shows "db_ok (stoDB s') \<and> disk_ok d'"
proof -
  let ?opts = "newServerLists g (options s)"
  let ?t = "s\<lparr>stoDB := (stoDB s)\<lparr>dbOptions := ?opts\<rparr>\<rparr>"
  have "db_ok (stoDB ?t)" using assms(2) by (simp add: db_ok_def newServerLists_def Let_def)
  note ok = saveThen_ok[OF _ this assms(3)]
  from assms(1) have "(s', d') = (s, d) \<or>
      saveThen io (\<lambda>s'. serverGroupsOf (options s')) ?t d = (r, s', d')"
    by (auto simp: UpdateServerGroups_def Let_def split: sum.splits)
  then show ?thesis using ok assms(2,3) by blast
qed


section \<open>Opening and the administrator keep validity\<close>

lemma normalizeDB_ok:
  assumes "db_ok db"
  shows "db_ok (normalizeDB db) \<and>
    normalizeDB db = db\<lparr>dbOptions := normalizeOptions (dbOptions db)\<rparr>"
proof -
  have "map normalizeConfig (dbItems db) = dbItems db"
    using assms by (auto simp: db_ok_def list_all_iff config_ok_def intro: map_idI)
  moreover have "(if dbVersion db \<le> 0 then 1 else dbVersion db) = dbVersion db"
    using assms by (simp add: db_ok_def)
  ultimately have eq: "normalizeDB db = db\<lparr>dbOptions := normalizeOptions (dbOptions db)\<rparr>"
    by (simp add: normalizeDB_def)
  have "db_ok (db\<lparr>dbOptions := normalizeOptions (dbOptions db)\<rparr>)"
    using assms by (simp add: db_ok_def normalizeOptions_def Let_def)
  with eq show ?thesis by simp
qed

lemma freshDB_ok: "db_ok (freshDB adm)"
  by (simp add: freshDB_def db_ok_def runtime_ok_def)

lemma createStore_ok:
  assumes "createStore path u p r1 r2 now io d = (r, d')" and "disk_ok d"
  shows "disk_ok d' \<and> (case r of Inl e \<Rightarrow> dkFile d' = dkFile d
    | Inr x \<Rightarrow> db_ok (stoDB (fst x)) \<and> stoPath (fst x) = path \<and>
        d' = \<lparr>dkFile = DbFile (stoDB (fst x)), dkTmp = NoFile\<rparr>)"
proof -
  have "saveLocked io \<lparr>stoPath = path, stoDB = freshDB adm\<rparr> d = (v, s, d') \<Longrightarrow>
      db_ok (stoDB s) \<and> disk_ok d' \<and> stoPath s = path \<and> (case v of
        Inl e \<Rightarrow> dkFile d' = dkFile d | Inr _ \<Rightarrow> d' = \<lparr>dkFile = DbFile (stoDB s), dkTmp = NoFile\<rparr>)"
    for adm v s
  proof (erule saveLocked_cases)
    assume h: "s = refreshAdminFromDiskLocked \<lparr>stoPath = path, stoDB = freshDB adm\<rparr> d"
    then have ok: "db_ok (stoDB s)" by (simp add: freshDB_ok)
    assume "v = Inr ()" "d' = \<lparr>dkFile = DbFile (json_view (stoDB s)), dkTmp = NoFile\<rparr>"
    with ok h show ?thesis by (simp add: disk_ok_def)
  next
    fix e
    assume h: "s = refreshAdminFromDiskLocked \<lparr>stoPath = path, stoDB = freshDB adm\<rparr> d"
    assume "v = Inl e" "dkFile d' = dkFile d"
    with h assms(2) show ?thesis by (simp add: disk_ok_def freshDB_ok)
  qed
  note sv = this
  show ?thesis
    using assms unfolding createStore_def
    by (auto split: sum.splits prod.splits dest!: sv)
qed

lemma OpenStore_ok:
  assumes "OpenStore path u p r1 r2 now io d = (r, d')" and "disk_ok d"
  shows "disk_ok d' \<and> (case r of Inl e \<Rightarrow> True | Inr x \<Rightarrow> db_ok (stoDB (fst x)) \<and> stoPath (fst x) = path)"
proof (cases "dkFile d")
  case (DbFile db)
  then have "db_ok db" using assms(2) by (simp add: disk_ok_def)
  with assms DbFile show ?thesis
    using normalizeDB_ok[of db] by (auto simp: OpenStore_def normalizeLocked_def)
qed (use assms createStore_ok[of path u p r1 r2 now io d r d'] in
    \<open>auto simp: OpenStore_def split: if_splits sum.splits\<close>)

lemma admin_view [simp]: "dbAdmin (json_view db) = dbAdmin db"
  by (simp add: json_view_def)

lemma ChangeAdminPassword_cases:
  assumes "ChangeAdminPassword path u p rnd now io d = (r, d')"
  obtains (early) e where "r = Inl e" "d' = d"
    | (saves) db adm s' where "dkFile d = DbFile db"
      "NewAdminCredential rnd (if u = [] then admUsername (dbAdmin db) else u) p = Inr adm"
      "saveLocked io \<lparr>stoPath = path, stoDB = normalizeDB ((json_view db)\<lparr>dbAdmin := adm\<lparr>admLastPassword := now\<rparr>\<rparr>)\<rparr> d
         = (r, s', d')"
proof (cases "dkFile d")
  case (DbFile db)
  show ?thesis
  proof (cases "NewAdminCredential rnd (if u = [] then admUsername (dbAdmin db) else u) p")
    case (Inl e)
    with assms DbFile show ?thesis
      by (intro early[of e]) (auto simp: ChangeAdminPassword_eq cong: if_cong)
  next
    case (Inr a)
    with assms DbFile show ?thesis
      by (intro saves[of db a "fst (snd (saveLocked io \<lparr>stoPath = path, stoDB = normalizeDB ((json_view db)\<lparr>dbAdmin := a\<lparr>admLastPassword := now\<rparr>\<rparr>)\<rparr> d))"])
        (auto simp: ChangeAdminPassword_eq normalizeLocked_def split: prod.splits cong: if_cong)
  qed
qed (use assms early in \<open>auto simp: ChangeAdminPassword_eq\<close>)

lemma db_ok_admin [simp]: "db_ok (db\<lparr>dbAdmin := a\<rparr>) = db_ok db"
  by (simp add: db_ok_def)

lemma ChangeAdminPassword_ok:
  assumes "ChangeAdminPassword path u p rnd now io d = (r, d')" and "disk_ok d"
  shows "disk_ok d'"
  using assms(1)
proof (cases rule: ChangeAdminPassword_cases)
  case (saves db adm s')
  then have "db_ok (json_view db)" using assms(2) by (simp add: disk_ok_def)
  then have "db_ok (normalizeDB ((json_view db)\<lparr>dbAdmin := adm\<lparr>admLastPassword := now\<rparr>\<rparr>))"
    by (intro normalizeDB_ok[THEN conjunct1]) simp
  with saveLocked_ok[OF saves(3)] assms(2) show ?thesis by simp
qed (use assms in simp)

section \<open>Reachable stores\<close>

text \<open>
  A running server and its data file: every operation of the store with any arguments (the
  configurations come from JSON, so their unexported fields are empty) and any outcome of the
  file system, a restart that opens the file again, and the command that changes the password
  from another process.
\<close>

inductive store_step :: "store \<times> disk \<Rightarrow> store \<times> disk \<Rightarrow> bool" where
  step_add: "AddInstance rnd cfg io s d = (r, s', d') \<Longrightarrow> json_config cfg = cfg \<Longrightarrow> random_id rnd \<Longrightarrow>
    store_step (s, d) (s', d')"
| step_update: "UpdateInstance i cfg io s d = (r, s', d') \<Longrightarrow> json_config cfg = cfg \<Longrightarrow>
    store_step (s, d) (s', d')"
| step_delete: "DeleteInstance i io s d = (u, s', d') \<Longrightarrow> store_step (s, d) (s', d')"
| step_groups: "UpdateServerGroups g io s d = (q, s', d') \<Longrightarrow> store_step (s, d) (s', d')"
| step_save: "SaveRuntimeStatus i st io s d = (u, s', d') \<Longrightarrow> store_step (s, d) (s', d')"
| step_clear: "ClearRuntimeStatus i io s d = (u, s', d') \<Longrightarrow> store_step (s, d) (s', d')"
| step_admin: "Admin s d = (a, s') \<Longrightarrow> store_step (s, d) (s', d)"
| step_reopen: "OpenStore (stoPath s) name pw r1 r2 now io d = (Inr (s', g'), d') \<Longrightarrow>
    store_step (s, d) (s', d')"
| step_password: "ChangeAdminPassword (stoPath s) name pw r2 now io d = (u, d') \<Longrightarrow>
    store_step (s, d) (s, d')"

inductive_cases store_stepE: "store_step (s, d) (s', d')"

lemma store_step_ok:
  "store_step x y \<Longrightarrow> db_ok (stoDB (fst x)) \<Longrightarrow> disk_ok (snd x) \<Longrightarrow>
     db_ok (stoDB (fst y)) \<and> disk_ok (snd y)"
  by (induction rule: store_step.induct)
    (auto dest: AddInstance_ok UpdateInstance_ok DeleteInstance_ok UpdateServerGroups_ok
      SaveRuntimeStatus_ok ClearRuntimeStatus_ok OpenStore_ok ChangeAdminPassword_ok simp: Admin_def Let_def)

inductive store_reach :: "store \<times> disk \<Rightarrow> bool" where
  reach_open: "OpenStore path name pw r1 r2 now io d = (Inr (s, g), d') \<Longrightarrow> disk_ok d \<Longrightarrow>
    store_reach (s, d')"
| reach_step: "store_reach x \<Longrightarrow> store_step x y \<Longrightarrow> store_reach y"

lemma store_reach_ok: "store_reach x \<Longrightarrow> db_ok (stoDB (fst x)) \<and> disk_ok (snd x)"
proof (induction rule: store_reach.induct)
  case (reach_open path name pw r1 r2 now io d s g d')
  from OpenStore_ok[OF this] show ?case by simp
next
  case (reach_step x y)
  then show ?case using store_step_ok by blast
qed


section \<open>The runtime records as an interface\<close>

text \<open>
  What the manager relies on: a saved public mapping is found again under its identifier and
  no other, and a cleared one is gone.
\<close>

definition saveable :: "string \<Rightarrow> runtimeStatus \<Rightarrow> bool" where
  "saveable i st \<longleftrightarrow> i \<noteq> [] \<and> stPublicAddress st \<noteq> [] \<and> stPublicPort st \<noteq> 0"

locale runtime_store =
  fixes lookup :: "string \<Rightarrow> 's \<Rightarrow> runtimeStatus option"
    and save :: "string \<Rightarrow> runtimeStatus \<Rightarrow> 's \<Rightarrow> 's"
    and clear :: "string \<Rightarrow> 's \<Rightarrow> 's"
  assumes lookup_save: "saveable i st \<Longrightarrow> lookup i (save i st s) = Some (restored (persisted st))"
    and lookup_save_other: "j \<noteq> i \<Longrightarrow> lookup j (save i st s) = lookup j s"
    and save_unsaveable: "\<not> saveable i st \<Longrightarrow> save i st s = s"
    and lookup_clear: "i \<noteq> [] \<Longrightarrow> lookup i (clear i s) = None"
    and lookup_clear_other: "j \<noteq> i \<Longrightarrow> lookup j (clear i s) = lookup j s"
begin

text \<open>A history of saves (\<open>Some\<close>) and clears (\<open>None\<close>).\<close>

fun replay :: "(string \<times> runtimeStatus option) list \<Rightarrow> 's \<Rightarrow> 's" where
  "replay [] s = s"
| "replay ((i, None) # h) s = replay h (clear i s)"
| "replay ((i, Some st) # h) s = replay h (save i st s)"

lemma replay_append: "replay (h @ k) s = replay k (replay h s)"
  by (induction h s rule: replay.induct) simp_all

lemma lookup_replay_other: "i \<notin> fst ` set h \<Longrightarrow> lookup i (replay h s) = lookup i s"
  by (induction h s rule: replay.induct) (simp_all add: lookup_save_other lookup_clear_other)

lemma lookup_last_save:
  assumes "saveable i st" and "i \<notin> fst ` set h"
  shows "lookup i (replay (k @ (i, Some st) # h) s) = Some (restored (persisted st))"
  using assms by (simp add: replay_append lookup_replay_other lookup_save)

lemma lookup_last_clear:
  assumes "i \<noteq> []" and "i \<notin> fst ` set h"
  shows "lookup i (replay (k @ (i, None) # h) s) = None"
  using assms by (simp add: replay_append lookup_replay_other lookup_clear)

end

definition lookupRuntime :: "string \<Rightarrow> store \<times> disk \<Rightarrow> runtimeStatus option" where
  "lookupRuntime i sd = RuntimeStatus i (fst sd)"

definition saveRuntime :: "io \<Rightarrow> string \<Rightarrow> runtimeStatus \<Rightarrow> store \<times> disk \<Rightarrow> store \<times> disk" where
  "saveRuntime io i st sd = snd (SaveRuntimeStatus i st io (fst sd) (snd sd))"

definition clearRuntimeRecord :: "io \<Rightarrow> string \<Rightarrow> store \<times> disk \<Rightarrow> store \<times> disk" where
  "clearRuntimeRecord io i sd = snd (ClearRuntimeStatus i io (fst sd) (snd sd))"

lemma runtimes_saveLocked [simp]: "runtimes (fst (snd (saveLocked io s d))) = runtimes s"
  by (simp add: saveLocked_store)

lemma RuntimeStatus_cong: "runtimes s i = runtimes t i \<Longrightarrow> RuntimeStatus i s = RuntimeStatus i t"
  by (simp add: RuntimeStatus_def)

lemma runtimes_saveRuntime:
  "runtimes (fst (saveRuntime io i st sd)) =
     (if saveable i st then (runtimes (fst sd))(i \<mapsto> persisted st) else runtimes (fst sd))"
  by (auto simp: saveRuntime_def SaveRuntimeStatus_def saveable_def)

lemma runtimes_clearRuntimeRecord:
  "i \<noteq> [] \<Longrightarrow> runtimes (fst (clearRuntimeRecord io i sd)) = (runtimes (fst sd))(i := None)"
  by (auto simp: clearRuntimeRecord_def ClearRuntimeStatus_def)

lemma restored_persisted_simps [simp]:
  "prPublicAddress (persisted st) = stPublicAddress st" "prPublicPort (persisted st) = stPublicPort st"
  by (simp_all add: persisted_def)

interpretation rt: runtime_store lookupRuntime "saveRuntime io" "clearRuntimeRecord io" for io
proof unfold_locales
  fix i j :: string and st :: runtimeStatus and sd :: "store \<times> disk"
  show "saveable i st \<Longrightarrow> lookupRuntime i (saveRuntime io i st sd) = Some (restored (persisted st))"
    by (simp add: lookupRuntime_def RuntimeStatus_def runtimes_saveRuntime) (simp add: saveable_def)
  show "j \<noteq> i \<Longrightarrow> lookupRuntime j (saveRuntime io i st sd) = lookupRuntime j sd"
    by (simp add: lookupRuntime_def RuntimeStatus_def runtimes_saveRuntime)
  show "\<not> saveable i st \<Longrightarrow> saveRuntime io i st sd = sd"
    by (simp add: saveRuntime_def SaveRuntimeStatus_def saveable_def)
  show "i \<noteq> [] \<Longrightarrow> lookupRuntime i (clearRuntimeRecord io i sd) = None"
    by (simp add: lookupRuntime_def RuntimeStatus_def runtimes_clearRuntimeRecord)
  show "j \<noteq> i \<Longrightarrow> lookupRuntime j (clearRuntimeRecord io i sd) = lookupRuntime j sd"
    by (cases "i = []")
      (simp_all add: lookupRuntime_def RuntimeStatus_def runtimes_clearRuntimeRecord,
       simp add: clearRuntimeRecord_def ClearRuntimeStatus_def)
qed

section \<open>What the operations return\<close>

lemma saveThen_Inr:
  assumes "saveThen io f s d = (Inr x, s', d')"
  shows "x = f s' \<and> s' = refreshAdminFromDiskLocked s d \<and> dkFile d' = DbFile (json_view (stoDB s'))"
  using assms by (cases rule: saveThen_cases) simp_all

lemma saveLocked_Inr:
  assumes "saveLocked io s d = (Inr x, s', d')"
  shows "s' = refreshAdminFromDiskLocked s d \<and> dkFile d' = DbFile (json_view (stoDB s'))"
  using assms by (cases rule: saveLocked_cases) simp_all

lemma resolve_id [simp]: "cfgID (resolveConfigLocked opts c) = cfgID c"
  by (simp add: resolveConfigLocked_def Let_def)

lemma AddInstance_Inr:
  assumes "AddInstance rnd cfg io s d = (Inr c, s', d')"
  obtains n where "c = resolveConfigLocked (options s) n" "items s' = items s @ [n]"
    "options s' = options s" "runtimes s' = runtimes s" "cfgID n = cfgID c"
    "cfgID n \<notin> cfgID ` set (items s)" "dkFile d' = DbFile (json_view (stoDB s'))"
    "validateConfigLocked (options s) n = Inr ()"
proof -
  let ?n = "normalizeConfig (if cfgID cfg = [] then cfg\<lparr>cfgID := newID rnd\<rparr> else cfg)"
  from assms have v: "validateConfigLocked (options s) ?n = Inr ()"
    and fresh: "cfgID ?n \<notin> cfgID ` set (items s)"
    and sv: "saveThen io (\<lambda>s'. resolveConfigLocked (options s') ?n) (setItems (items s @ [?n]) s) d = (Inr c, s', d')"
    by (auto simp: AddInstance_def Let_def list_ex_iff split: sum.splits if_splits)
  from saveThen_Inr[OF sv] fresh v show ?thesis by (intro that[of ?n]) simp_all
qed

lemma GetInstance_eq:
  "options s' = options s \<Longrightarrow> find (\<lambda>c. cfgID c = i) (items s') = find (\<lambda>c. cfgID c = i) (items s) \<Longrightarrow>
     GetInstance i s' = GetInstance i s"
  by (simp add: GetInstance_def)

lemma find_append_new:
  "i \<notin> cfgID ` set cs \<Longrightarrow> find (\<lambda>c. cfgID c = i) (cs @ [n]) = (if cfgID n = i then Some n else None)"
  "j \<noteq> cfgID n \<Longrightarrow> find (\<lambda>c. cfgID c = j) (cs @ [n]) = find (\<lambda>c. cfgID c = j) cs"
  by (induction cs) auto

lemma find_id_None: "find (\<lambda>c. cfgID c = i) cs = None \<longleftrightarrow> i \<notin> cfgID ` set cs"
  by (auto simp: find_none_all)

end
