(* ===== verification/Store_Props.thy ===== *)
theory Store_Props
  imports Store_Correct
begin

text \<open>The properties of the store, and a small store to apply them to.\<close>

section \<open>A sample store\<close>

definition demoAdmin :: adminCredential where
  "demoAdmin = \<lparr>admUsername = ''admin'', admSalt = ''AAAA'', admHash = ''AAAA'',
     admIterations = 1, admLastPassword = 5\<rparr>"

definition demoDisk :: disk where
  "demoDisk = \<lparr>dkFile = DbFile (freshDB demoAdmin), dkTmp = NoFile\<rparr>"

definition demoStore :: store where
  "demoStore = normalizeLocked \<lparr>stoPath = ''natcat.json'', stoDB = freshDB demoAdmin\<rparr>"

definition okIO :: io where
  "okIO = \<lparr>ioMkdir = None, ioWrite = None, ioRename = None\<rparr>"

definition fullIO :: io where
  "fullIO = \<lparr>ioMkdir = None, ioWrite = Some (NetError ''no space left on device'' False, NoFile),
     ioRename = None\<rparr>"

lemma demo_open:
  "OpenStore ''natcat.json'' [] [] None None 0 okIO demoDisk = (Inr (demoStore, []), demoDisk)"
  by (simp add: OpenStore_def demoDisk_def demoStore_def freshDB_ok)

lemma demo_disk_ok: "disk_ok demoDisk"
  by (simp add: disk_ok_def demoDisk_def freshDB_ok)

lemma demo_reach: "store_reach (demoStore, demoDisk)"
  by (rule reach_open[OF demo_open demo_disk_ok])

lemma demo_fields [simp]:
  "items demoStore = []" "stoPath demoStore = ''natcat.json''" "runtimes demoStore = (\<lambda>_. None)"
  "dbAdmin (stoDB demoStore) = demoAdmin"
  by (simp_all add: demoStore_def normalizeLocked_def normalizeDB_def freshDB_def)

lemma demo_path: "path_dir ''natcat.json'' = ''.''"
  by code_simp

definition webConfig :: instanceConfig where
  "webConfig = normalizeConfig sampleConfig"

lemma web_valid: "validateConfigLocked (options demoStore) webConfig = Inr ()"
proof -
  have "cfgSTUNMode webConfig = ''custom''" "cfgKeepAliveMode webConfig = ''custom''" by code_simp+
  then show ?thesis using sample_valid by (simp add: validateConfigLocked_Inr webConfig_def)
qed

lemma web_id [simp]: "cfgID webConfig = ''web''"
  by (simp add: webConfig_def sampleConfig_def)

lemma saveLocked_ok_io:
  "path_dir (stoPath s) = ''.'' \<Longrightarrow> saveLocked okIO s d =
     (Inr (), refreshAdminFromDiskLocked s d,
      \<lparr>dkFile = DbFile (json_view (stoDB (refreshAdminFromDiskLocked s d))), dkTmp = NoFile\<rparr>)"
  by (cases d) (simp add: saveLocked_eq okIO_def Let_def)

lemma saveLocked_fst_ok: "fst (saveLocked okIO s d) = Inr ()"
  by (simp add: saveLocked_eq okIO_def Let_def cong: if_cong)

lemma saveLocked_full_io:
  "path_dir (stoPath s) = ''.'' \<Longrightarrow> saveLocked fullIO s d =
     (Inl (NetError ''no space left on device'' False), refreshAdminFromDiskLocked s d, d\<lparr>dkTmp := NoFile\<rparr>)"
  by (cases d) (simp add: saveLocked_eq fullIO_def Let_def)

definition demoStore2 :: store where
  "demoStore2 = refreshAdminFromDiskLocked (setItems [webConfig] demoStore) demoDisk"

definition demoDisk2 :: disk where
  "demoDisk2 = \<lparr>dkFile = DbFile (json_view (stoDB demoStore2)), dkTmp = NoFile\<rparr>"

lemma demo2_fields [simp]:
  "items demoStore2 = [webConfig]" "stoPath demoStore2 = ''natcat.json''"
  "options demoStore2 = options demoStore" "runtimes demoStore2 = (\<lambda>_. None)"
  by (simp_all add: demoStore2_def)

lemma sample_id [simp]: "cfgID sampleConfig = ''web''"
  by (simp add: sampleConfig_def)

lemma demo_add:
  "AddInstance None sampleConfig okIO demoStore demoDisk =
     (Inr (resolveConfigLocked (options demoStore) webConfig), demoStore2, demoDisk2)"
  using web_valid unfolding webConfig_def[symmetric]
  by (simp add: AddInstance_def Let_def saveThen_def saveLocked_ok_io demo_path webConfig_def[symmetric]
      demoStore2_def[symmetric] demoDisk2_def)

lemma demo_reach2: "store_reach (demoStore2, demoDisk2)"
proof -
  have "json_config sampleConfig = sampleConfig"
    by (simp add: json_config_def sampleConfig_def zeroConfig_def)
  from reach_step[OF demo_reach step_add[OF demo_add this]] show ?thesis by (simp add: random_id_def)
qed

section \<open>Properties\<close>

text \<open>
  C7: In every store reachable from any valid or missing data file, through any sequence of
  operations with any arguments, failing saves, restarts and password changes from another
  process, the identifiers of the instances are distinct and not empty, every stored instance
  is normalised and valid, the numbers are in range and every saved public mapping is
  complete; and the data file satisfies the same.
\<close>

theorem store_invariant:
  assumes "store_reach (s, d)"
  shows "db_ok (stoDB s) \<and> disk_ok d \<and> distinct (map cfgID (ListInstances s)) \<and> 1 \<le> SessionHours s"
proof -
  from store_reach_ok[OF assms] have ok: "db_ok (stoDB s)" "disk_ok d" by simp_all
  have "map cfgID (ListInstances s) = map cfgID (items s)" by (simp add: ListInstances_def)
  with ok show ?thesis by (simp add: db_ok_def SessionHours_def)
qed

lemma store_invariant_witness:
  "db_ok (stoDB demoStore2) \<and> disk_ok demoDisk2 \<and> items demoStore2 \<noteq> []"
  using store_invariant[OF demo_reach2] by simp

text \<open>
  A successful \<open>AddInstance\<close> adds exactly the returned configuration at the end of the
  list, under an identifier that was not in use: it is found again under it, every other
  instance and every saved mapping stays, and the data file holds the new database.
\<close>

lemma add_instance_spec:
  assumes "AddInstance rnd cfg io s d = (Inr c, s', d')"
  shows "GetInstance (cfgID c) s = None \<and> GetInstance (cfgID c) s' = Some c \<and>
    ListInstances s' = ListInstances s @ [c] \<and>
    (j \<noteq> cfgID c \<longrightarrow> GetInstance j s' = GetInstance j s) \<and>
    RuntimeStatus j s' = RuntimeStatus j s \<and>
    dkFile d' = DbFile (json_view (stoDB s'))"
  using assms
proof (rule AddInstance_Inr)
  fix n
  assume n: "c = resolveConfigLocked (options s) n" "items s' = items s @ [n]"
    "options s' = options s" "runtimes s' = runtimes s" "cfgID n = cfgID c"
    "cfgID n \<notin> cfgID ` set (items s)" "dkFile d' = DbFile (json_view (stoDB s'))"
  have "find (\<lambda>x. cfgID x = cfgID n) (items s) = None" using n(6) by (simp add: find_id_None)
  then show ?thesis
    using n(1-4,6,7) find_append_new(1)[of "cfgID n" "items s" n] find_append_new(2)[of j n "items s"]
    by (simp add: GetInstance_def ListInstances_def RuntimeStatus_def)
qed

lemma add_instance_spec_witness:
  "GetInstance ''web'' demoStore = None \<and>
   GetInstance ''web'' demoStore2 = Some (resolveConfigLocked (options demoStore) webConfig)"
  using add_instance_spec[OF demo_add] by simp

lemma UpdateInstance_Inr:
  assumes "UpdateInstance i cfg io s d = (Inr c, s', d')"
  obtains n where "c = resolveConfigLocked (options s) n" "cfgID n = i"
    "replaceFirst i n (items s) = Some (items s')" "options s' = options s" "runtimes s' = runtimes s"
    "dkFile d' = DbFile (json_view (stoDB s'))"
proof -
  let ?n = "normalizeConfig (cfg\<lparr>cfgID := i\<rparr>)"
  from assms obtain cs where cs: "replaceFirst i ?n (items s) = Some cs"
    and sv: "saveThen io (\<lambda>s'. resolveConfigLocked (options s') ?n) (setItems cs s) d = (Inr c, s', d')"
    by (auto simp: UpdateInstance_def Let_def split: sum.splits option.splits)
  from saveThen_Inr[OF sv] cs show ?thesis by (intro that[of ?n]) simp_all
qed

text \<open>
  A successful \<open>UpdateInstance\<close> replaces the configuration of its instance and nothing
  else: the identifiers keep their order, every other instance and every saved mapping stays,
  the returned configuration is found under the identifier of the path (whatever identifier
  the body carried), and the data file holds the new database.
\<close>

lemma update_instance_spec:
  assumes "UpdateInstance i cfg io s d = (Inr c, s', d')"
  shows "GetInstance i s' = Some c \<and> map cfgID (items s') = map cfgID (items s) \<and>
    (j \<noteq> i \<longrightarrow> GetInstance j s' = GetInstance j s) \<and>
    RuntimeStatus j s' = RuntimeStatus j s \<and> dkFile d' = DbFile (json_view (stoDB s'))"
  using assms
proof (rule UpdateInstance_Inr)
  fix n
  assume n: "c = resolveConfigLocked (options s) n" "cfgID n = i"
    "replaceFirst i n (items s) = Some (items s')" "options s' = options s" "runtimes s' = runtimes s"
    "dkFile d' = DbFile (json_view (stoDB s'))"
  from replaceFirst_Some[OF n(3,2)] n show ?thesis
    by (simp add: GetInstance_def RuntimeStatus_def)
qed

lemma update_instance_spec_witness:
  "\<exists>c s' d'. UpdateInstance ''web'' sampleConfig okIO demoStore2 demoDisk2 = (Inr c, s', d') \<and>
     GetInstance ''web'' s' = Some c \<and> map cfgID (items s') = [''web'']"
proof -
  have id: "sampleConfig\<lparr>cfgID := ''web''\<rparr> = sampleConfig" by (simp add: sampleConfig_def)
  have "fst (UpdateInstance ''web'' sampleConfig okIO demoStore2 demoDisk2) =
      Inr (resolveConfigLocked (options demoStore) webConfig)"
    using web_valid unfolding UpdateInstance_def id
    by (simp add: Let_def saveThen_def saveLocked_ok_io demo_path webConfig_def[symmetric])
  then obtain c s' d' where u: "UpdateInstance ''web'' sampleConfig okIO demoStore2 demoDisk2 = (Inr c, s', d')"
    by (metis prod.collapse)
  from update_instance_spec[OF u] u show ?thesis by simp
qed

text \<open>
  In a reachable store a successful \<open>DeleteInstance\<close> removes exactly the instance and
  its saved mapping, keeps the order of the others, and saves the result.
\<close>

lemma delete_instance_spec:
  assumes "store_reach (s, d)" and "DeleteInstance i io s d = (Inr u, s', d')"
  shows "GetInstance i s' = None \<and> RuntimeStatus i s' = None \<and>
    ListInstances s' = filter (\<lambda>c. cfgID c \<noteq> i) (ListInstances s) \<and>
    (j \<noteq> i \<longrightarrow> RuntimeStatus j s' = RuntimeStatus j s) \<and>
    dkFile d' = DbFile (json_view (stoDB s'))"
proof -
  from assms(2) obtain cs where cs: "removeFirst i (items s) = Some cs"
    and sv: "saveLocked io (setRuntimes ((runtimes s)(i := None)) (setItems cs s)) d = (Inr u, s', d')"
    by (auto simp: DeleteInstance_def split: option.splits)
  from saveLocked_Inr[OF sv] have s': "items s' = cs" "options s' = options s"
    "runtimes s' = (runtimes s)(i := None)" "dkFile d' = DbFile (json_view (stoDB s'))" by simp_all
  from store_reach_ok[OF assms(1)] have "distinct (map cfgID (items s))" by (simp add: db_ok_def)
  from removeFirst_Some[OF cs this] have cs': "cs = filter (\<lambda>c. cfgID c \<noteq> i) (items s)" .
  then have "find (\<lambda>c. cfgID c = i) cs = None" by (simp add: find_none_all)
  with s' cs' show ?thesis
    by (simp add: GetInstance_def ListInstances_def RuntimeStatus_def filter_map o_def)
qed


lemma delete_instance_spec_witness:
  "\<exists>s' d'. DeleteInstance ''web'' okIO demoStore2 demoDisk2 = (Inr (), s', d') \<and>
     GetInstance ''web'' s' = None \<and> ListInstances s' = []"
proof -
  have "fst (DeleteInstance ''web'' okIO demoStore2 demoDisk2) = Inr ()"
    by (simp add: DeleteInstance_def saveLocked_ok_io demo_path)
  then obtain s' d' where u: "DeleteInstance ''web'' okIO demoStore2 demoDisk2 = (Inr (), s', d')"
    by (metis prod.collapse)
  have "ListInstances demoStore2 = [resolveConfigLocked (options demoStore) webConfig]"
    by (simp add: ListInstances_def)
  with delete_instance_spec[OF demo_reach2 u] u show ?thesis by simp
qed

lemma saveThen_Inl: "saveThen io f s d = (Inl e, s', d') \<Longrightarrow> dkFile d' = dkFile d"
  by (erule saveThen_cases) simp_all

lemma saveLocked_Inl: "saveLocked io s d = (Inl e, s', d') \<Longrightarrow> dkFile d' = dkFile d"
  by (erule saveLocked_cases) simp_all

lemma createStore_Inl: "createStore path u p r1 r2 now io d = (Inl e, d') \<Longrightarrow> dkFile d' = dkFile d"
  unfolding createStore_def
  by (auto split: sum.splits prod.splits dest: saveLocked_Inl)

text \<open>
  Whenever an operation of the store, opening it, or changing the password reports an
  error, the data file is what it was before: a failed or interrupted save never damages it,
  because the new content is written beside it and renamed over it.
\<close>

lemma failed_operation_keeps_file:
  "(AddInstance rnd cfg io s d = (Inl e, s', d') \<longrightarrow> dkFile d' = dkFile d) \<and>
   (UpdateInstance i cfg io s d = (Inl e, s', d') \<longrightarrow> dkFile d' = dkFile d) \<and>
   (DeleteInstance i io s d = (Inl e, s', d') \<longrightarrow> dkFile d' = dkFile d) \<and>
   (UpdateServerGroups g io s d = (Inl e, s', d') \<longrightarrow> dkFile d' = dkFile d) \<and>
   (SaveRuntimeStatus i st io s d = (Inl e, s', d') \<longrightarrow> dkFile d' = dkFile d) \<and>
   (ClearRuntimeStatus i io s d = (Inl e, s', d') \<longrightarrow> dkFile d' = dkFile d) \<and>
   (OpenStore path u p r1 r2 now io d = (Inl e, d') \<longrightarrow> dkFile d' = dkFile d) \<and>
   (ChangeAdminPassword path u p rnd now io d = (Inl e, d') \<longrightarrow> dkFile d' = dkFile d)"
proof (intro conjI impI)
  assume "AddInstance rnd cfg io s d = (Inl e, s', d')"
  then show "dkFile d' = dkFile d"
    by (auto simp: AddInstance_def Let_def split: sum.splits if_splits dest: saveThen_Inl)
next
  assume "UpdateInstance i cfg io s d = (Inl e, s', d')"
  then show "dkFile d' = dkFile d"
    by (auto simp: UpdateInstance_def Let_def split: sum.splits option.splits dest: saveThen_Inl)
next
  assume "DeleteInstance i io s d = (Inl e, s', d')"
  then show "dkFile d' = dkFile d"
    by (auto simp: DeleteInstance_def split: option.splits dest: saveLocked_Inl)
next
  assume "UpdateServerGroups g io s d = (Inl e, s', d')"
  then show "dkFile d' = dkFile d"
    by (auto simp: UpdateServerGroups_def Let_def split: sum.splits dest: saveThen_Inl)
next
  assume "SaveRuntimeStatus i st io s d = (Inl e, s', d')"
  then show "dkFile d' = dkFile d"
    by (auto simp: SaveRuntimeStatus_def split: if_splits dest: saveLocked_Inl)
next
  assume "ClearRuntimeStatus i io s d = (Inl e, s', d')"
  then show "dkFile d' = dkFile d"
    by (auto simp: ClearRuntimeStatus_def split: if_splits dest: saveLocked_Inl)
next
  assume "OpenStore path u p r1 r2 now io d = (Inl e, d')"
  then show "dkFile d' = dkFile d"
    by (auto simp: OpenStore_def split: sum.splits if_splits dest: createStore_Inl)
next
  assume "ChangeAdminPassword path u p rnd now io d = (Inl e, d')"
  then show "dkFile d' = dkFile d"
    by (rule ChangeAdminPassword_cases) (auto dest: saveLocked_Inl)
qed

lemma demo_add_full:
  "\<exists>s' d'. AddInstance None sampleConfig fullIO demoStore demoDisk =
     (Inl (NetError ''no space left on device'' False), s', d') \<and> items s' = [webConfig] \<and>
     options s' = options demoStore"
  using web_valid unfolding webConfig_def[symmetric]
  by (simp add: AddInstance_def Let_def saveThen_def saveLocked_full_io demo_path webConfig_def[symmetric])

lemma failed_operation_keeps_file_witness:
  "\<exists>s' d'. AddInstance None sampleConfig fullIO demoStore demoDisk =
     (Inl (NetError ''no space left on device'' False), s', d') \<and> dkFile d' = dkFile demoDisk"
  using demo_add_full failed_operation_keeps_file[of None sampleConfig fullIO demoStore demoDisk] by blast

text \<open>
  Opening the data file that a successful save of a valid store has written gives back the
  same instances, saved mappings, version and administrator, with the server lists
  normalised once more.
\<close>

lemma save_then_open:
  assumes "db_ok (stoDB s)" and "saveLocked io s d = (Inr u, s', d')"
  shows "OpenStore (stoPath s) name pw r1 r2 now io2 d' =
    (Inr (s'\<lparr>stoDB := (stoDB s')\<lparr>dbOptions := normalizeOptions (options s)\<rparr>\<rparr>, []), d')"
proof -
  from saveLocked_Inr[OF assms(2)] have s': "s' = refreshAdminFromDiskLocked s d"
    and f: "dkFile d' = DbFile (json_view (stoDB s'))" by simp_all
  have ok: "db_ok (stoDB s')" using assms(1) by (simp add: s')
  then have n: "normalizeDB (stoDB s') = (stoDB s')\<lparr>dbOptions := normalizeOptions (options s)\<rparr>"
    using normalizeDB_ok[OF ok] by (simp add: s')
  have "\<lparr>stoPath = stoPath s, stoDB = x\<rparr> = s'\<lparr>stoDB := x\<rparr>" for x
    by (simp add: s' store.equality)
  then show ?thesis
    using ok by (simp add: OpenStore_def f normalizeLocked_def n)
qed

lemma save_then_open_witness:
  "\<exists>s' d'. saveLocked okIO demoStore2 demoDisk2 = (Inr (), s', d') \<and>
     (\<exists>s''. OpenStore ''natcat.json'' [] [] None None 0 okIO d' = (Inr (s'', []), d') \<and>
        items s'' = [webConfig])"
proof -
  obtain s' d' where sv: "saveLocked okIO demoStore2 demoDisk2 = (Inr (), s', d')"
    by (simp add: saveLocked_ok_io demo_path)
  have "db_ok (stoDB demoStore2)" using store_reach_ok[OF demo_reach2] by simp
  from save_then_open[OF this sv, of "[]" "[]" None None 0 okIO] sv saveLocked_Inr[OF sv]
  show ?thesis by auto
qed

text \<open>
  When the save at the end of \<open>AddInstance\<close> fails, the caller gets the error but the
  running server keeps the instance: it is listed, can be started, and is written to disk by
  the next save of anything else.
\<close>

lemma add_failed_save_keeps_instance:
  assumes "AddInstance rnd cfg io s d = (Inl e, s', d')" and "items s' \<noteq> items s"
  shows "\<exists>n. items s' = items s @ [n] \<and> GetInstance (cfgID n) s' = Some (resolveConfigLocked (options s) n) \<and>
    (\<exists>io2 s2 d2. saveLocked io2 s' d' = (Inr (), s2, d2) \<and> items s2 = items s @ [n])"
proof -
  let ?n = "normalizeConfig (if cfgID cfg = [] then cfg\<lparr>cfgID := newID rnd\<rparr> else cfg)"
  from assms have fresh: "cfgID ?n \<notin> cfgID ` set (items s)"
    and sv: "saveThen io (\<lambda>s'. resolveConfigLocked (options s') ?n) (setItems (items s @ [?n]) s) d = (Inl e, s', d')"
    by (auto simp: AddInstance_def Let_def list_ex_iff split: sum.splits if_splits)
  from sv have s': "items s' = items s @ [?n]" "options s' = options s"
    by (cases rule: saveThen_cases; simp)+
  then have "GetInstance (cfgID ?n) s' = Some (resolveConfigLocked (options s) ?n)"
    using find_append_new(1)[OF fresh, of ?n] by (simp add: GetInstance_def)
  moreover obtain s2 d2 where "saveLocked okIO s' d' = (Inr (), s2, d2)"
    using saveLocked_fst_ok by (metis prod.collapse)
  moreover from this s' have "items s2 = items s @ [?n]"
    using saveLocked_store[of okIO s' d'] by simp
  ultimately show ?thesis using s' by blast
qed

lemma add_failed_save_keeps_instance_witness:
  "\<exists>s' d' n. AddInstance None sampleConfig fullIO demoStore demoDisk =
     (Inl (NetError ''no space left on device'' False), s', d') \<and> items s' = [n] \<and>
     GetInstance (cfgID n) s' \<noteq> None"
proof -
  obtain s' d' where a: "AddInstance None sampleConfig fullIO demoStore demoDisk =
     (Inl (NetError ''no space left on device'' False), s', d')" and i: "items s' = [webConfig]"
    using demo_add_full by blast
  have "items s' \<noteq> items demoStore" using i by simp
  from add_failed_save_keeps_instance[OF a this] a i show ?thesis by auto
qed


section \<open>The administrator's password\<close>

definition admin_complete :: "adminCredential \<Rightarrow> bool" where
  "admin_complete a \<longleftrightarrow> admUsername a \<noteq> [] \<and> admSalt a \<noteq> [] \<and> admHash a \<noteq> []"

lemma refresh_admin:
  assumes "dkFile d = DbFile db" and "admin_complete (dbAdmin db)"
  shows "dbAdmin (stoDB (refreshAdminFromDiskLocked s d)) =
    (if admLastPassword (dbAdmin (stoDB s)) = 0 \<or>
        admLastPassword (dbAdmin db) > admLastPassword (dbAdmin (stoDB s))
     then dbAdmin db else dbAdmin (stoDB s))"
  using assms by (simp add: refreshAdminFromDiskLocked_def admin_complete_def Let_def is_zero_time_def)

lemma freshDB_admin [simp]: "dbAdmin (freshDB a) = a"
  by (simp add: freshDB_def)

lemma CheckPassword_time [simp]: "CheckPassword (a\<lparr>admLastPassword := now\<rparr>) = CheckPassword a"
  by (intro ext) (simp add: CheckPassword_def cong: option.case_cong if_cong)

lemma NewAdminCredential_complete:
  assumes "NewAdminCredential (Some salt) u p = Inr adm" and "length salt = 16"
  shows "admin_complete (adm\<lparr>admLastPassword := now\<rparr>) \<and> CheckPassword (adm\<lparr>admLastPassword := now\<rparr>) u p"
proof -
  from assms(1) have ne: "u \<noteq> []" "p \<noteq> []" by (auto simp: NewAdminCredential_def split: if_splits)
  have "salt \<noteq> []" using assms(2) by auto
  from CheckPassword_new[OF ne this] assms(1) ne
  have "CheckPassword adm u p" "admUsername adm = u" "admSalt adm \<noteq> []" "admHash adm \<noteq> []" by auto
  with ne show ?thesis by (simp add: admin_complete_def)
qed

text \<open>
  After the password command reports success, with a clock that has moved on since the
  last change, the running server answers its next login with the new credential: the given
  user name (or the stored one when none was given) and the new password are accepted.
\<close>

lemma changed_password_accepted:
  assumes change: "ChangeAdminPassword path u p (Some salt) now io d = (Inr x, d')"
    and salt: "length salt = 16" and db: "dkFile d = DbFile db"
    and later: "0 < now" "admLastPassword (dbAdmin db) < now" "admLastPassword (dbAdmin (stoDB s)) < now"
  shows "CheckPassword (fst (Admin s d')) (if u = [] then admUsername (dbAdmin db) else u) p"
  using change
proof (cases rule: ChangeAdminPassword_cases)
  case (saves db' adm s')
  let ?adm = "adm\<lparr>admLastPassword := now\<rparr>"
  let ?t = "\<lparr>stoPath = path, stoDB = normalizeDB ((json_view db')\<lparr>dbAdmin := ?adm\<rparr>)\<rparr>"
  from saves(1) db have db': "db' = db" by simp
  note new = NewAdminCredential_complete[OF saves(2) salt, of now]
  have "dbAdmin (stoDB (refreshAdminFromDiskLocked ?t d)) = ?adm"
    using later(1,2) by (simp add: refreshAdminFromDiskLocked_def db Let_def is_zero_time_def normalizeDB_def)
  moreover from saveLocked_Inr[OF saves(3)]
  have "dkFile d' = DbFile (json_view (stoDB (refreshAdminFromDiskLocked ?t d)))" by simp
  ultimately have d': "dkFile d' = DbFile (json_view (stoDB (refreshAdminFromDiskLocked ?t d)))"
    "dbAdmin (json_view (stoDB (refreshAdminFromDiskLocked ?t d))) = ?adm" by simp_all
  have "fst (Admin s d') = ?adm"
    using refresh_admin[OF d'(1), of s] d'(2) new later(3) by (simp add: Admin_def Let_def)
  with new show ?thesis unfolding db' by simp
qed simp

lemma demo_change:
  "\<exists>d'. ChangeAdminPassword ''natcat.json'' [] ''pw'' (Some (replicate 16 1)) t okIO demoDisk = (Inr (), d')"
proof -
  have "fst (ChangeAdminPassword ''natcat.json'' [] ''pw'' (Some (replicate 16 1)) t okIO demoDisk) = Inr ()"
    by (simp add: ChangeAdminPassword_eq demoDisk_def freshDB_ok NewAdminCredential_def
        demoAdmin_def Let_def normalizeLocked_def
        saveLocked_ok_io demo_path case_prod_beta json_view_def)
  then show ?thesis by (metis prod.collapse)
qed

lemma demo_disk_file: "dkFile demoDisk = DbFile (freshDB demoAdmin)"
  by (simp add: demoDisk_def)

lemma demo_admin: "dbAdmin (freshDB demoAdmin) = demoAdmin" "admLastPassword demoAdmin = 5"
  "admUsername demoAdmin = ''admin''" "admin_complete demoAdmin"
  by (simp_all add: freshDB_def demoAdmin_def admin_complete_def)

lemma changed_password_accepted_witness:
  "\<exists>d'. ChangeAdminPassword ''natcat.json'' [] ''pw'' (Some (replicate 16 1)) 9 okIO demoDisk = (Inr (), d') \<and>
     CheckPassword (fst (Admin demoStore d')) ''admin'' ''pw''"
proof -
  obtain d' where c: "ChangeAdminPassword ''natcat.json'' [] ''pw'' (Some (replicate 16 1)) 9 okIO demoDisk
      = (Inr (), d')" using demo_change by blast
  from changed_password_accepted[OF c _ demo_disk_file, of demoStore] c show ?thesis
    by (simp add: demo_admin)
qed

lemma step_saves:
  "store_step x y \<Longrightarrow> dkFile (snd y) = dkFile (snd x) \<or>
     (\<exists>io t u s2. saveLocked io t (snd x) = (u, s2, snd y))"
proof (induction rule: store_step.induct)
  case (step_add rnd cfg io s d r s' d')
  then show ?case
    by (auto simp: AddInstance_def Let_def saveThen_def split: sum.splits if_splits prod.splits)
next
  case (step_update i cfg io s d r s' d')
  then show ?case
    by (auto simp: UpdateInstance_def Let_def saveThen_def split: sum.splits option.splits prod.splits)
next
  case (step_delete i io s d u s' d')
  then show ?case by (auto simp: DeleteInstance_def split: option.splits)
next
  case (step_groups g io s d q s' d')
  then show ?case
    by (auto simp: UpdateServerGroups_def Let_def saveThen_def split: sum.splits prod.splits)
next
  case (step_save i st io s d u s' d')
  then show ?case by (auto simp: SaveRuntimeStatus_def split: if_splits)
next
  case (step_clear i io s d u s' d')
  then show ?case by (auto simp: ClearRuntimeStatus_def split: if_splits)
next
  case (step_admin s d a s')
  then show ?case by simp
next
  case (step_reopen s name pw r1 r2 now io d s' g' d')
  then show ?case
    by (auto simp: OpenStore_def createStore_def split: sum.splits if_splits prod.splits)
next
  case (step_password s name pw r2 now io d u d')
  then show ?case by (auto elim!: ChangeAdminPassword_cases)
qed

lemma step_password_never_older:
  assumes "store_step (s, d) (s', d')" and "dkFile d = DbFile db" and "admin_complete (dbAdmin db)"
  shows "\<exists>db'. dkFile d' = DbFile db' \<and> admLastPassword (dbAdmin db) \<le> admLastPassword (dbAdmin db')"
proof -
  have "\<exists>db'. dkFile d' = DbFile db' \<and> admLastPassword (dbAdmin db) \<le> admLastPassword (dbAdmin db')"
    if "saveLocked io t d = (u, s2, d')" for io t u s2
    using that
  proof (cases rule: saveLocked_cases)
    case saved
    with refresh_admin[OF assms(2,3), of t] show ?thesis by simp
  next
    case (failed e)
    with assms(2) show ?thesis by simp
  qed
  with step_saves[OF assms(1)] assms(2) show ?thesis by auto
qed

section \<open>Two processes\<close>

text \<open>From one disk to the other, the credential of the data file did not get older.\<close>

definition not_older :: "disk \<Rightarrow> disk \<Rightarrow> bool" where
  "not_older x y \<longleftrightarrow> (\<forall>a. dkFile x = DbFile a \<and> admin_complete (dbAdmin a) \<longrightarrow>
     (\<exists>b. dkFile y = DbFile b \<and> admin_complete (dbAdmin b) \<and>
        admLastPassword (dbAdmin a) \<le> admLastPassword (dbAdmin b)))"

lemma not_older_trans: "not_older x y \<Longrightarrow> not_older y z \<Longrightarrow> not_older x z"
  unfolding not_older_def by (meson order_trans)

lemma not_older_tmp: "not_older x (x\<lparr>dkTmp := t\<rparr>)"
  by (simp add: not_older_def)

text \<open>What the rename puts in place: what was in memory, with the administrator that the save read.\<close>

lemma saveAmid_Inr:
  assumes "saveAmid during io s d = (Inr u, s', d')" and "\<And>x. dkTmp (during 2 x) = dkTmp x"
  shows "s' = refreshAdminFromDiskLocked s d" "dkFile d' = DbFile (json_view (stoDB s'))"
  using assms by (auto simp: saveAmid_def Let_def split: option.splits prod.splits)

text \<open>
  C23: A save never leaves the data file with a credential older than the one that the file held
  when the save began, also when another process writes the file in between (the password
  command, say), as long as that process does not make it older itself and leaves the
  temporary file of this save alone. It is not said that a credential
  written in between survives: \<open>password_lost_during_save\<close> shows that it does not.
\<close>

theorem disk_password_never_older:
  assumes "saveAmid during io s d = (r, s', d')" and "dkFile d = DbFile db" and "admin_complete (dbAdmin db)"
    and "\<And>k x. not_older x (during k x)" and "\<And>x. dkTmp (during 2 x) = dkTmp x"
  shows "\<exists>db'. dkFile d' = DbFile db' \<and> admLastPassword (dbAdmin db) \<le> admLastPassword (dbAdmin db')"
proof (cases r)
  case (Inr u)
  from saveAmid_Inr[OF assms(1)[unfolded Inr] assms(5)] refresh_admin[OF assms(2,3), of s] show ?thesis by simp
next
  case (Inl e)
  have two: "not_older d (during 2 ((during 1 d)\<lparr>dkTmp := t\<rparr>))" for t
    by (rule not_older_trans[OF not_older_trans[OF assms(4)[of d 1] not_older_tmp] assms(4)])
  have one: "not_older d ((during 1 d)\<lparr>dkTmp := t\<rparr>)" for t
    by (rule not_older_trans[OF assms(4) not_older_tmp])
  from assms(1) Inl have "not_older d d'"
    using two one assms(4)[of d 1] by (auto simp: saveAmid_def Let_def split: option.splits prod.splits dataFile.splits if_splits)
  with assms(2,3) show ?thesis by (auto simp: not_older_def)
qed

text \<open>The password command as the other process.\<close>

definition commandDuringSave :: intrusion where
  "commandDuringSave k x =
     (if k = 1 then snd (ChangeAdminPassword ''natcat.json'' [] ''pw'' (Some (replicate 16 1)) 9 okIO x) else x)"

lemma ChangeAdminPassword_not_older:
  "not_older x (snd (ChangeAdminPassword path name p (Some salt) now io x))" if salt: "length salt = 16"
proof -
  obtain r d' where c: "ChangeAdminPassword path name p (Some salt) now io x = (r, d')"
    by (cases "ChangeAdminPassword path name p (Some salt) now io x")
  show ?thesis
  proof (unfold not_older_def, intro allI impI, elim conjE)
    fix a assume a: "dkFile x = DbFile a" "admin_complete (dbAdmin a)"
    from c show "\<exists>b. dkFile (snd (ChangeAdminPassword path name p (Some salt) now io x)) = DbFile b \<and>
        admin_complete (dbAdmin b) \<and> admLastPassword (dbAdmin a) \<le> admLastPassword (dbAdmin b)"
    proof (cases rule: ChangeAdminPassword_cases)
      case (early e)
      with a c show ?thesis by simp
    next
      case (saves db adm s')
      note new = NewAdminCredential_complete[OF saves(2) salt, of now]
      from saves(3) show ?thesis
      proof (cases rule: saveLocked_cases)
        case saved
        with refresh_admin[OF a] new c a show ?thesis
          by (auto simp: normalizeDB_def admin_complete_def)
      next
        case (failed e)
        with a c show ?thesis by simp
      qed
    qed
  qed
qed

lemma disk_password_never_older_witness:
  "\<exists>s' d' db'. saveAmid commandDuringSave okIO demoStore demoDisk = (Inr (), s', d') \<and>
     dkFile d' = DbFile db' \<and> 5 \<le> admLastPassword (dbAdmin db')"
proof -
  have newer: "not_older x (commandDuringSave k x)" for k x
    using ChangeAdminPassword_not_older[of "replicate 16 1"] by (simp add: commandDuringSave_def not_older_def)
  have tmp: "dkTmp (commandDuringSave 2 x) = dkTmp x" for x by (simp add: commandDuringSave_def)
  obtain r s' d' where v: "saveAmid commandDuringSave okIO demoStore demoDisk = (r, s', d')"
    by (cases "saveAmid commandDuringSave okIO demoStore demoDisk") auto
  have "r = Inr ()"
    using v by (auto simp: saveAmid_def okIO_def Let_def commandDuringSave_def split: if_splits)
  with disk_password_never_older[OF v demo_disk_file _ newer tmp] v show ?thesis by (auto simp: demo_admin)
qed

text \<open>
  Lost updates between the two processes. A password changed between the read and the rename of a
  save of the server is overwritten, although both report success; and what the server saves
  between the read of the password command and its save is overwritten by the database that
  the command had read.
\<close>

lemma password_lost_during_save:
  "\<exists>s' d' db' d1. ChangeAdminPassword ''natcat.json'' [] ''pw'' (Some (replicate 16 1)) 9 okIO demoDisk = (Inr (), d1) \<and>
     saveAmid commandDuringSave okIO demoStore demoDisk = (Inr (), s', d') \<and>
     dkFile d' = DbFile db' \<and> dbAdmin db' = dbAdmin (stoDB (refreshAdminFromDiskLocked demoStore demoDisk)) \<and>
     admLastPassword (dbAdmin db') < 9"
proof -
  obtain d1 where c: "ChangeAdminPassword ''natcat.json'' [] ''pw'' (Some (replicate 16 1)) 9 okIO demoDisk = (Inr (), d1)"
    using demo_change by blast
  have tmp: "dkTmp (commandDuringSave 2 x) = dkTmp x" for x by (simp add: commandDuringSave_def)
  obtain r s' d' where v: "saveAmid commandDuringSave okIO demoStore demoDisk = (r, s', d')"
    by (cases "saveAmid commandDuringSave okIO demoStore demoDisk") auto
  have r: "r = Inr ()"
    using v by (auto simp: saveAmid_def okIO_def Let_def commandDuringSave_def split: if_splits)
  from saveAmid_Inr[OF v[unfolded r] tmp] refresh_admin[OF demo_disk_file, of demoStore] c v r
  show ?thesis by (auto simp: demo_admin)
qed

lemma instance_lost_during_password_change:
  assumes "dkFile demoDisk2 = DbFile db2"
  shows "dbItems db2 \<noteq> [] \<and>
    (\<exists>d' db'. ChangeAdminPasswordAmid (\<lambda>k x. if k = 0 then demoDisk2 else x) ''natcat.json'' [] ''pw''
        (Some (replicate 16 1)) 9 okIO demoDisk = (Inr (), d') \<and> dkFile d' = DbFile db' \<and> dbItems db' = [])"
proof -
  let ?during = "\<lambda>k x. if k = (0::nat) then demoDisk2 else x"
  obtain adm where adm: "NewAdminCredential (Some (replicate 16 1)) ''admin'' ''pw'' = Inr adm"
    by (simp add: NewAdminCredential_def)
  let ?t = "normalizeLocked \<lparr>stoPath = ''natcat.json'', stoDB = (json_view (freshDB demoAdmin))\<lparr>dbAdmin := adm\<lparr>admLastPassword := 9\<rparr>\<rparr>\<rparr>"
  obtain r s' d' where v: "saveAmid ?during okIO ?t demoDisk2 = (r, s', d')"
    by (cases "saveAmid ?during okIO ?t demoDisk2") auto
  have r: "r = Inr ()" using v by (auto simp: saveAmid_def okIO_def Let_def split: if_splits)
  have c: "ChangeAdminPasswordAmid ?during ''natcat.json'' [] ''pw'' (Some (replicate 16 1)) 9 okIO demoDisk = (Inr (), d')"
    using v r adm by (simp add: ChangeAdminPasswordAmid_def demo_disk_file demo_admin)
  from saveAmid_Inr[OF v[unfolded r]] have "dkFile d' = DbFile (json_view (stoDB s'))" "items s' = items ?t" by auto
  moreover have "items ?t = []" by (simp add: normalizeLocked_def normalizeDB_def json_view_def freshDB_def)
  moreover have "dbItems db2 \<noteq> []" using assms by (auto simp: demoDisk2_def demoStore2_def json_view_def)
  ultimately show ?thesis using c by (auto simp: json_view_def)
qed

text \<open>
  When the clock of the password command is behind the time of the last change on disk,
  the command reports success but the old credential stays on disk: the merge before the save
  takes the administrator of the file for the newer one.
\<close>

lemma password_change_lost_when_clock_behind:
  assumes "ChangeAdminPassword path u p rnd now io d = (Inr x, d')" and "dkFile d = DbFile db"
    and "admin_complete (dbAdmin db)" and "now < admLastPassword (dbAdmin db)"
  shows "\<exists>db'. dkFile d' = DbFile db' \<and> dbAdmin db' = dbAdmin db"
  using assms(1)
proof (cases rule: ChangeAdminPassword_cases)
  case (saves db1 adm s')
  from saveLocked_Inr[OF saves(3)] refresh_admin[OF assms(2,3)] assms(4)
  show ?thesis by (simp add: normalizeDB_def)
qed simp

lemma password_change_lost_when_clock_behind_witness:
  "\<exists>d' db'. ChangeAdminPassword ''natcat.json'' [] ''pw'' (Some (replicate 16 1)) 3 okIO demoDisk = (Inr (), d') \<and>
     dkFile d' = DbFile db' \<and> dbAdmin db' = demoAdmin"
proof -
  obtain d' where c: "ChangeAdminPassword ''natcat.json'' [] ''pw'' (Some (replicate 16 1)) 3 okIO demoDisk
      = (Inr (), d')" using demo_change by blast
  from password_change_lost_when_clock_behind[OF c demo_disk_file] c show ?thesis
    by (simp add: demo_admin)
qed

text \<open>
  On a first start without a configured password, the password that is generated and
  printed has 18 characters of the alphabet and opens the console: the credential of the new
  store accepts it, the store is empty, and the data file was written.
\<close>

lemma first_start_password_works:
  assumes "OpenStore path u [] (Some buf) (Some salt) now io \<lparr>dkFile = NoFile, dkTmp = t\<rparr> = (Inr (s, g), d')"
    and "length buf = 18" and "length salt = 16"
  shows "length g = 18 \<and> set g \<subseteq> set secretAlphabet \<and> CheckPassword (fst (Admin s d')) u g \<and>
    ListInstances s = [] \<and> dkFile d' = DbFile (stoDB s)"
proof -
  let ?d = "\<lparr>dkFile = NoFile, dkTmp = t\<rparr>"
  obtain pw where pw: "randomSecret (Some buf) = Inr pw" by (simp add: randomSecret_def)
  from assms(1) pw obtain adm x
    where adm: "NewAdminCredential (Some salt) u pw = Inr adm"
      and sv: "saveLocked io \<lparr>stoPath = path, stoDB = freshDB (adm\<lparr>admLastPassword := now\<rparr>)\<rparr> ?d = (Inr x, s, d')"
      and g: "g = pw"
    by (auto simp: OpenStore_def createStore_def split: sum.splits prod.splits)
  let ?adm = "adm\<lparr>admLastPassword := now\<rparr>"
  note new = NewAdminCredential_complete[OF adm assms(3), of now]
  from saveLocked_Inr[OF sv] have s: "stoDB s = freshDB ?adm" "dkFile d' = DbFile (stoDB s)"
    by (simp_all add: refreshAdminFromDiskLocked_def freshDB_ok)
  have "dbAdmin (stoDB s) = ?adm" by (simp add: s freshDB_def)
  then have "fst (Admin s d') = ?adm"
    using refresh_admin[OF s(2), of s] new by (simp add: Admin_def Let_def)
  moreover have "ListInstances s = []" by (simp add: ListInstances_def s freshDB_def)
  ultimately show ?thesis
    using new g s(2) randomSecret_Some[OF pw] assms(2) by simp
qed

lemma first_start_password_works_witness:
  "\<exists>s g d'. OpenStore ''natcat.json'' ''admin'' [] (Some (replicate 18 3)) (Some (replicate 16 1)) 9 okIO
       \<lparr>dkFile = NoFile, dkTmp = NoFile\<rparr> = (Inr (s, g), d') \<and> length g = 18 \<and>
     CheckPassword (fst (Admin s d')) ''admin'' g"
proof -
  have "\<exists>s g. fst (OpenStore ''natcat.json'' ''admin'' [] (Some (replicate 18 3)) (Some (replicate 16 1)) 9 okIO
       \<lparr>dkFile = NoFile, dkTmp = NoFile\<rparr>) = Inr (s, g)"
    by (simp add: OpenStore_def createStore_def randomSecret_def NewAdminCredential_def
        saveLocked_ok_io demo_path)
  then obtain s g d' where o: "OpenStore ''natcat.json'' ''admin'' [] (Some (replicate 18 3))
      (Some (replicate 16 1)) 9 okIO \<lparr>dkFile = NoFile, dkTmp = NoFile\<rparr> = (Inr (s, g), d')"
    by (metis prod.collapse)
  from first_start_password_works[OF o] o show ?thesis by simp
qed

section \<open>Saved mappings and server groups\<close>

text \<open>
  The saved public mapping of an instance is what the last save or clear made it, whatever
  was saved or cleared for other instances since, and whatever became of the writes to disk.
\<close>

lemma saved_mapping_last_write:
  assumes "saveable i st" and "i \<notin> fst ` set h"
  shows "lookupRuntime i (runtime_store.replay (saveRuntime io) (clearRuntimeRecord io) (k @ (i, Some st) # h) sd) =
      Some (restored (persisted st)) \<and>
    lookupRuntime i (runtime_store.replay (saveRuntime io) (clearRuntimeRecord io) (k @ (i, None) # h) sd) = None"
  using rt.lookup_last_save[OF assms] rt.lookup_last_clear[OF _ assms(2)] assms(1)
  by (simp add: saveable_def)

lemma saved_mapping_last_write_witness:
  "lookupRuntime ''web'' (runtime_store.replay (saveRuntime fullIO) (clearRuntimeRecord fullIO)
      [(''web'', Some (zeroStatus\<lparr>stPublicAddress := ''1.2.3.4'', stPublicPort := 4000\<rparr>)), (''ssh'', None)]
      (demoStore, demoDisk)) =
    Some (zeroStatus\<lparr>stPublicAddress := ''1.2.3.4'', stPublicPort := 4000\<rparr>)"
proof -
  let ?st = "zeroStatus\<lparr>stPublicAddress := ''1.2.3.4'', stPublicPort := 4000\<rparr>"
  have "saveable ''web'' ?st" by (simp add: saveable_def)
  moreover have "restored (persisted ?st) = ?st"
    by (simp add: restored_def persisted_def zeroStatus_def)
  ultimately show ?thesis
    using saved_mapping_last_write[of "''web''" ?st "[(''ssh'', None)]" fullIO "[]" "(demoStore, demoDisk)"]
    by simp
qed

lemma resolve_stun:
  "resolveConfigLocked opts c = r \<Longrightarrow> cfgSTUNMode r = ''group'' \<Longrightarrow> cfgResolvedSTUN r = optSTUNServers opts"
  by (auto simp: resolveConfigLocked_def Let_def split: if_splits)

lemma resolve_keepalive:
  "resolveConfigLocked opts c = r \<Longrightarrow> cfgKeepAliveMode r = ''group'' \<Longrightarrow>
     cfgResolvedKeepAlive r = (if cfgProtocol r = ''udp'' then optQUICServers opts else optHTTPServers opts)"
  by (auto simp: resolveConfigLocked_def Let_def split: if_splits)

text \<open>
  A successful \<open>UpdateServerGroups\<close> stores three lists that are not empty and hold only
  hosts and valid ports, saves them, leaves the instances alone, and from then on every
  instance in group mode is given exactly the new lists of its protocol.
\<close>

lemma update_server_groups_spec:
  assumes "UpdateServerGroups g io s d = (Inr out, s', d')"
  shows "out = ServerGroups s' \<and>
    validateServerEndpoints (gcSTUNServers out) ''stun'' = Inr () \<and>
    validateServerEndpoints (gcHTTPServers out) ''http'' = Inr () \<and>
    validateServerEndpoints (gcQUICServers out) ''quic'' = Inr () \<and>
    items s' = items s \<and> dkFile d' = DbFile (json_view (stoDB s')) \<and>
    list_all (\<lambda>c. (cfgSTUNMode c = ''group'' \<longrightarrow> stunServers c = gcSTUNServers out) \<and>
       (cfgKeepAliveMode c = ''group'' \<longrightarrow> keepAliveServers c =
          (if cfgProtocol c = ''udp'' then gcQUICServers out else gcHTTPServers out))) (ListInstances s')"
proof -
  let ?opts = "newServerLists g (options s)"
  let ?t = "s\<lparr>stoDB := (stoDB s)\<lparr>dbOptions := ?opts\<rparr>\<rparr>"
  from assms have v: "validateServerEndpoints (optSTUNServers ?opts) ''stun'' = Inr ()"
    "validateServerEndpoints (optHTTPServers ?opts) ''http'' = Inr ()"
    "validateServerEndpoints (optQUICServers ?opts) ''quic'' = Inr ()"
    and sv: "saveThen io (\<lambda>s'. serverGroupsOf (options s')) ?t d = (Inr out, s', d')"
    by (auto simp: UpdateServerGroups_def Let_def split: sum.splits)
  from saveThen_Inr[OF sv] have s': "options s' = ?opts" "items s' = items s"
    "dkFile d' = DbFile (json_view (stoDB s'))" and out: "out = serverGroupsOf ?opts" by simp_all
  from out have o: "gcSTUNServers out = optSTUNServers ?opts" "gcHTTPServers out = optHTTPServers ?opts"
    "gcQUICServers out = optQUICServers ?opts" by (simp_all add: serverGroupsOf_def)
  from v have ne: "optSTUNServers ?opts \<noteq> []" "optHTTPServers ?opts \<noteq> []" "optQUICServers ?opts \<noteq> []"
    by (simp_all add: validateServerEndpoints_Inr)
  have "(cfgSTUNMode c = ''group'' \<longrightarrow> stunServers c = gcSTUNServers out) \<and>
      (cfgKeepAliveMode c = ''group'' \<longrightarrow> keepAliveServers c =
         (if cfgProtocol c = ''udp'' then gcQUICServers out else gcHTTPServers out))"
    if "c \<in> set (ListInstances s')" for c
  proof -
    from that obtain b where "resolveConfigLocked ?opts b = c" by (auto simp: ListInstances_def s')
    from resolve_stun[OF this] resolve_keepalive[OF this] ne show ?thesis
      by (simp add: stunServers_def keepAliveServers_def o)
  qed
  with v s' out o show ?thesis by (simp add: list_all_iff ServerGroups_def)
qed


definition demoGroups :: serverGroupsConfig where
  "demoGroups =
     \<lparr>gcSTUNServers = [\<lparr>epHost = ''s'', epPort = 9\<rparr>, \<lparr>epHost = ''S'', epPort = 9\<rparr>],
      gcHTTPServers = [\<lparr>epHost = ''http://h/'', epPort = 8\<rparr>],
      gcQUICServers = [\<lparr>epHost = ''q'', epPort = 7\<rparr>], gcSTUNGroups = [], gcKeepAliveGroups = []\<rparr>"

lemma demo_lists:
  "normalizeServerEndpoints (gcSTUNServers demoGroups) defaultProbePort = [\<lparr>epHost = ''s'', epPort = 9\<rparr>]"
  "normalizeServerEndpoints (gcHTTPServers demoGroups) 80 = [\<lparr>epHost = ''h'', epPort = 8\<rparr>]"
  "normalizeServerEndpoints (gcQUICServers demoGroups) 443 = [\<lparr>epHost = ''q'', epPort = 7\<rparr>]"
  by code_simp+

lemma update_server_groups_spec_witness:
  "\<exists>out s' d'. UpdateServerGroups demoGroups okIO demoStore demoDisk = (Inr out, s', d') \<and>
     gcSTUNServers out \<noteq> [] \<and> out = ServerGroups s'"
proof -
  let ?opts = "newServerLists demoGroups (options demoStore)"
  have "optSTUNServers ?opts = [\<lparr>epHost = ''s'', epPort = 9\<rparr>]"
    "optHTTPServers ?opts = [\<lparr>epHost = ''h'', epPort = 8\<rparr>]"
    "optQUICServers ?opts = [\<lparr>epHost = ''q'', epPort = 7\<rparr>]"
    using demo_lists by (simp_all add: newServerLists_def Let_def) (simp_all add: demoGroups_def)
  moreover have "validateServerEndpoints [\<lparr>epHost = ''s'', epPort = 9\<rparr>] ''stun'' = Inr ()"
    "validateServerEndpoints [\<lparr>epHost = ''h'', epPort = 8\<rparr>] ''http'' = Inr ()"
    "validateServerEndpoints [\<lparr>epHost = ''q'', epPort = 7\<rparr>] ''quic'' = Inr ()" by code_simp+
  ultimately have "fst (UpdateServerGroups demoGroups okIO demoStore demoDisk) = Inr (serverGroupsOf ?opts)"
    by (simp add: UpdateServerGroups_def Let_def saveThen_def saveLocked_ok_io demo_path)
  then obtain out s' d' where u: "UpdateServerGroups demoGroups okIO demoStore demoDisk = (Inr out, s', d')"
    by (metis prod.collapse)
  from update_server_groups_spec[OF u] u show ?thesis by (auto simp: validateServerEndpoints_Inr)
qed

end
