(* ===== verification/Runner_State.thy ===== *)
theory Runner_State
  imports Store_Props Stun
begin

text \<open>
  The state of a runner and the operations on it that other parts of \<open>internal/core/runner.go\<close>
  use: the local port it binds, the mapping it has published, the order in which it tries
  servers, and the updates it reports. Each operation runs under its own mutex; the instant
  \<open>now\<close> is the answer of \<open>time.Now()\<close> during the operation.
\<close>

section \<open>State\<close>

record mappingEvent =
  mePublicIP :: ip
  mePublicPort :: int
  mePrivateIP :: ip
  mePrivatePort :: int
  meProtocol :: string

text \<open>What a runner opens and closes: TCP connections to a keepalive server and to a STUN server, the
  UDP socket, the transports of QUIC, each with a number of its own, and the connection with which
  a mapping is checked.\<close>

datatype closer =
    KeepConn nat
  | StunConn nat
  | UdpSocket nat
  | QuicTransport nat
  | CheckConn

text \<open>
  \<open>rnDone\<close> tells that \<open>done\<close> is closed, \<open>rnCancelRun\<close> that \<open>cancelRun\<close> is set and
  \<open>rnCancelled\<close> that it was called. \<open>rnPicker\<close> is \<open>None\<close> for a nil picker. \<open>rnOut\<close> holds the updates given to
  \<open>report\<close>, oldest first, and \<open>rnNotified\<close> the events for which the notify script was
  started. A missing key of \<open>serverCursor\<close> reads 0. \<open>rnActive\<close> is the set \<open>active\<close>; \<open>rnOpen\<close> is
  no field of the source: it holds what the runner has opened in the system and not yet closed.
\<close>

record runner =
  rnCfg :: instanceConfig
  rnReport :: bool
  rnDone :: bool
  rnCancelRun :: bool
  rnCancelled :: bool
  rnPicker :: "portPicker option"
  rnCurrentPort :: int
  rnFailedPort :: int
  rnHasPort :: bool
  rnAdvancePort :: bool
  rnActive :: "closer list"
  rnOpen :: "closer list"
  rnLastMap :: "mappingEvent option"
  rnMappingLogEmitted :: bool
  rnUdpQueries :: int
  rnPublicStableSince :: time
  rnPublicUpdatedAt :: time
  rnServerCursor :: "string \<Rightarrow> int"
  rnOut :: "runtimeStatus list"
  rnNotified :: "mappingEvent list"

definition NewRunner :: "instanceConfig \<Rightarrow> bool \<Rightarrow> runner" where
  "NewRunner cfg report =
     \<lparr>rnCfg = cfg, rnReport = report, rnDone = False, rnCancelRun = False, rnCancelled = False,
      rnPicker = (case newPortPicker (cfgBindPort cfg) of Inl e \<Rightarrow> None | Inr p \<Rightarrow> Some p),
      rnCurrentPort = 0, rnFailedPort = -1, rnHasPort = False, rnAdvancePort = False,
      rnActive = [], rnOpen = [], rnLastMap = None, rnMappingLogEmitted = False, rnUdpQueries = 0,
      rnPublicStableSince = 0, rnPublicUpdatedAt = 0, rnServerCursor = (\<lambda>_. 0),
      rnOut = [], rnNotified = []\<rparr>"

text \<open>\<open>append(net.IP(nil), ip...)\<close>: a copy; an empty address is nil.\<close>

definition seedRuntime :: "runtimeStatus \<Rightarrow> runner \<Rightarrow> runner" where
  "seedRuntime st r =
     (if stPublicAddress st = [] \<or> stPublicPort st = 0 then r
      else case parse_ip (stPublicAddress st) of
          None \<Rightarrow> r
        | Some publicIP \<Rightarrow>
            (let protocol = (if stProtocol st = [] then cfgProtocol (rnCfg r) else stProtocol st);
                 privateIP = (case parse_ip (stPrivateAddress st) of None \<Rightarrow> [] | Some a \<Rightarrow> a)
             in r\<lparr>rnLastMap := Some \<lparr>mePublicIP = publicIP, mePublicPort = stPublicPort st,
                    mePrivateIP = privateIP, mePrivatePort = stPrivatePort st, meProtocol = protocol\<rparr>,
                  rnPublicStableSince := stPublicStableSince st,
                  rnPublicUpdatedAt := stPublicUpdatedAt st\<rparr>))"

section \<open>Reports\<close>

definition emit :: "time \<Rightarrow> runtimeStatus \<Rightarrow> runner \<Rightarrow> runner" where
  "emit now update r =
     (if \<not> rnReport r then r else r\<lparr>rnOut := rnOut r @ [update\<lparr>stLastChange := now\<rparr>]\<rparr>)"

definition logEntryOf :: "time \<Rightarrow> string \<Rightarrow> string \<Rightarrow> logEntry" where
  "logEntryOf now level message = \<lparr>logAt = now, logLevel = level, logMessage = message\<rparr>"

definition logUpdate :: "time \<Rightarrow> string \<Rightarrow> string \<Rightarrow> runtimeStatus" where
  "logUpdate now level message = zeroStatus\<lparr>stLogs := [logEntryOf now level message]\<rparr>"

definition rlog :: "string \<Rightarrow> time \<Rightarrow> string \<Rightarrow> runner \<Rightarrow> runner" where
  "rlog level now message r = emit now (logUpdate now level message) r"

abbreviation logInfo :: "time \<Rightarrow> string \<Rightarrow> runner \<Rightarrow> runner" where
  "logInfo \<equiv> rlog ''info''"

abbreviation logWarn :: "time \<Rightarrow> string \<Rightarrow> runner \<Rightarrow> runner" where
  "logWarn \<equiv> rlog ''warn''"

abbreviation logError :: "time \<Rightarrow> string \<Rightarrow> runner \<Rightarrow> runner" where
  "logError \<equiv> rlog ''error''"

text \<open>A resolved remote address (\<open>*net.TCPAddr\<close> or \<open>*net.UDPAddr\<close>), or none.\<close>

type_synonym addr = "ip \<times> int"

definition addrString :: "addr \<Rightarrow> string" where
  "addrString a = hostPort (if fst a = [] then [] else ip_string (fst a)) (snd a)"

definition emitKeepAlive ::
  "time \<Rightarrow> string \<Rightarrow> string \<Rightarrow> addr option \<Rightarrow> string \<Rightarrow> int \<Rightarrow> runner \<Rightarrow> runner" where
  "emitKeepAlive now state protocol remote message latencyMs r =
     (let host = (case remote of None \<Rightarrow> [] | Some a \<Rightarrow> ip_string (fst a));
          port = (case remote of None \<Rightarrow> 0 | Some a \<Rightarrow> snd a)
      in emit now (zeroStatus\<lparr>stKeepAlive :=
           \<lparr>kaState = state, kaProtocol = protocol, kaAddress = host, kaPort = port,
            kaLatencyMs = latencyMs,
            kaConnectedAt = (if state = KeepAliveConnected then now else 0),
            kaConnectedSeconds = 0, kaLastSeenAt = now, kaMessage = message\<rparr>\<rparr>) r)"

section \<open>The local port\<close>

definition bindPort :: "draws \<Rightarrow> runner \<Rightarrow> (int \<times> runner) res" where
  "bindPort draws r =
     (if \<not> rnHasPort r \<or> rnAdvancePort r then
        (case rnPicker r of
           None \<Rightarrow> Inl (GoPanic ''nil port picker'')
         | Some p \<Rightarrow>
             (let (port, q) = nextExcept draws (rnFailedPort r) p
              in Inr (port, r\<lparr>rnPicker := Some q, rnCurrentPort := port, rnFailedPort := -1,
                             rnHasPort := True, rnAdvancePort := False\<rparr>)))
      else Inr (rnCurrentPort r, r))"

definition advanceBindPort :: "runner \<Rightarrow> runner" where
  "advanceBindPort r = r\<lparr>rnFailedPort := rnCurrentPort r, rnAdvancePort := True\<rparr>"

definition keepBindPort :: "int \<Rightarrow> runner \<Rightarrow> runner" where
  "keepBindPort actualPort r =
     (let r1 = (if actualPort > 0
                then r\<lparr>rnCurrentPort := actualPort, rnFailedPort := -1, rnHasPort := True\<rparr> else r)
      in r1\<lparr>rnAdvancePort := False\<rparr>)"

definition isLocalAddressBusy :: "go_error \<Rightarrow> bool" where
  "isLocalAddressBusy e =
     (let text = to_lower (err_text e) in
      contains text ''cannot assign requested address'' \<or>
      contains text ''address already in use'' \<or>
      contains text ''only one usage of each socket address'' \<or>
      contains text ''forbidden by its access permissions'' \<or>
      contains text ''eaddrnotavail'' \<or>
      contains text ''eaddrinuse'')"

definition isLocalPortUnavailable :: "go_error \<Rightarrow> bool" where
  "isLocalPortUnavailable e =
     (let text = to_lower (err_text e) in
      contains text ''address already in use'' \<or>
      contains text ''only one usage of each socket address'' \<or>
      contains text ''forbidden by its access permissions'' \<or>
      contains text ''eaddrinuse'' \<or>
      contains text ''wsaeaddrinuse'')"

section \<open>Open connections\<close>

text \<open>
  \<open>openConn\<close> is a successful dial, listen or transport; \<open>closeConn\<close> is \<open>closeTCP\<close> (whether it
  resets the connection makes no difference here) and the method \<open>Close\<close>. \<open>track\<close> returns the
  function that \<open>untrack\<close> models; \<open>closeActive\<close> closes what is tracked (each stays in the set until
  it is untracked).
\<close>

definition openConn :: "closer \<Rightarrow> runner \<Rightarrow> runner" where
  "openConn c r = r\<lparr>rnOpen := List.insert c (rnOpen r)\<rparr>"

definition closeConn :: "closer \<Rightarrow> runner \<Rightarrow> runner" where
  "closeConn c r = r\<lparr>rnOpen := filter (\<lambda>x. x \<noteq> c) (rnOpen r)\<rparr>"

definition track :: "closer \<Rightarrow> runner \<Rightarrow> runner" where
  "track c r = r\<lparr>rnActive := List.insert c (rnActive r)\<rparr>"

definition untrack :: "closer \<Rightarrow> runner \<Rightarrow> runner" where
  "untrack c r = r\<lparr>rnActive := filter (\<lambda>x. x \<noteq> c) (rnActive r)\<rparr>"

definition closeActive :: "runner \<Rightarrow> runner" where
  "closeActive r = fold closeConn (rnActive r) r"

section \<open>The published mapping\<close>

definition updateMappingLocked :: "time \<Rightarrow> mappingEvent \<Rightarrow> runner \<Rightarrow> (bool \<times> time \<times> time) \<times> runner" where
  "updateMappingLocked now event r =
     (let publicChanged = (case rnLastMap r of
              None \<Rightarrow> True
            | Some m \<Rightarrow> mePublicPort m \<noteq> mePublicPort event \<or> meProtocol m \<noteq> meProtocol event \<or>
                \<not> ip_equal (mePublicIP m) (mePublicIP event));
          r1 = (if publicChanged \<or> is_zero_time (rnPublicStableSince r)
                then r\<lparr>rnPublicStableSince := now\<rparr> else r);
          r2 = (if publicChanged \<or> is_zero_time (rnPublicUpdatedAt r1)
                then r1\<lparr>rnPublicUpdatedAt := now\<rparr> else r1);
          times = (rnPublicStableSince r2, rnPublicUpdatedAt r2);
          same = (case rnLastMap r2 of
              None \<Rightarrow> False
            | Some m \<Rightarrow> mePublicPort m = mePublicPort event \<and> mePrivatePort m = mePrivatePort event \<and>
                meProtocol m = meProtocol event \<and> ip_equal (mePublicIP m) (mePublicIP event) \<and>
                ip_equal (mePrivateIP m) (mePrivateIP event))
      in if same then ((False, times), r2)
         else ((True, times), r2\<lparr>rnLastMap := Some event\<rparr>))"

definition updateMapping :: "time \<Rightarrow> mappingEvent \<Rightarrow> runner \<Rightarrow> (bool \<times> time \<times> time) \<times> runner" where
  "updateMapping now event r = updateMappingLocked now event r"

definition updateMappingForPublish ::
  "time \<Rightarrow> mappingEvent \<Rightarrow> runner \<Rightarrow> (bool \<times> time \<times> time \<times> bool) \<times> runner" where
  "updateMappingForPublish now event r =
     (let ((changed, stableSince, updatedAt), r1) = updateMappingLocked now event r;
          emitMappedLog = (changed \<or> \<not> rnMappingLogEmitted r1);
          r2 = (if emitMappedLog then r1\<lparr>rnMappingLogEmitted := True\<rparr> else r1)
      in ((changed, stableSince, updatedAt, emitMappedLog), r2))"

text \<open>\<open>runNotify\<close> with the outcome of starting the command: an error is reported.\<close>

definition runNotify :: "time \<Rightarrow> go_error option \<Rightarrow> mappingEvent \<Rightarrow> runner \<Rightarrow> runner" where
  "runNotify now startError event r =
     (if cfgNotifyScript (rnCfg r) = [] then r
      else case startError of
          Some e \<Rightarrow>
            emit now (zeroStatus\<lparr>stLastError := err_text e,
              stLogs := [logEntryOf now ''error'' (''notify script failed: '' @ err_text e)]\<rparr>) r
        | None \<Rightarrow> r\<lparr>rnNotified := rnNotified r @ [event]\<rparr>)"

text \<open>The goroutine of \<open>runNotify\<close> when the command ends with an error.\<close>

definition notifyExited :: "time \<Rightarrow> go_error \<Rightarrow> runner \<Rightarrow> runner" where
  "notifyExited now e r =
     emit now (zeroStatus\<lparr>stLastError := err_text e,
       stLogs := [logEntryOf now ''error'' (''notify script exited: '' @ err_text e)]\<rparr>) r"

definition mappedMessage :: "mappingEvent \<Rightarrow> string" where
  "mappedMessage event =
     ''mapped '' @ ip_string (mePublicIP event) @ '':'' @ itoa (mePublicPort event) @ '' -> '' @
     ip_string (mePrivateIP event) @ '':'' @ itoa (mePrivatePort event)"

definition publishMapping :: "time \<Rightarrow> go_error option \<Rightarrow> mappingEvent \<Rightarrow> runner \<Rightarrow> runner" where
  "publishMapping now startError event r =
     (let ((changed, stableSince, updatedAt, emitMappedLog), r1) = updateMappingForPublish now event r;
          logs = (if emitMappedLog then [logEntryOf now ''info'' (mappedMessage event)] else []);
          r2 = emit now (zeroStatus\<lparr>stState := StateRunning,
                 stPublicAddress := ip_string (mePublicIP event), stPublicPort := mePublicPort event,
                 stPublicStableSince := stableSince, stPublicUpdatedAt := updatedAt,
                 stPrivateAddress := ip_string (mePrivateIP event),
                 stPrivatePort := mePrivatePort event, stProtocol := meProtocol event,
                 stLogs := logs\<rparr>) r1
      in if changed then runNotify now startError event r2 else r2)"

text \<open>The mapping checked after a reconnect: the mapping, or the reason why there is none.\<close>

definition currentTCPPublicMapping :: "ip \<Rightarrow> int \<Rightarrow> runner \<Rightarrow> string + mappingEvent" where
  "currentTCPPublicMapping privateIP privatePort r =
     (case rnLastMap r of
        None \<Rightarrow> Inl ''no-current-mapping''
      | Some m \<Rightarrow>
          (if meProtocol m \<noteq> ''tcp'' then Inl ''protocol-mismatch''
           else if mePublicIP m = [] \<or> mePublicPort m \<le> 0 then Inl ''invalid-public-mapping''
           else if mePrivatePort m \<noteq> privatePort then Inl ''private-endpoint-changed''
           else if mePrivateIP m = [] \<or> is_unspecified (mePrivateIP m)
                then Inr (m\<lparr>mePrivateIP := privateIP\<rparr>)
           else Inr m))"

section \<open>The order of servers\<close>

definition sameServerEndpoint :: "serverEndpoint \<Rightarrow> serverEndpoint \<Rightarrow> bool" where
  "sameServerEndpoint a b \<longleftrightarrow> equal_fold (epHost a) (epHost b) \<and> epPort a = epPort b"

fun indexOfServerEndpoint :: "serverEndpoint list \<Rightarrow> serverEndpoint \<Rightarrow> int" where
  "indexOfServerEndpoint [] target = -1"
| "indexOfServerEndpoint (e # es) target =
     (if sameServerEndpoint e target then 0
      else let i = indexOfServerEndpoint es target in if i < 0 then -1 else i + 1)"

text \<open>Go's remainder keeps the sign of the dividend; a negative start would panic.\<close>

definition go_rem :: "int \<Rightarrow> int \<Rightarrow> int" where
  "go_rem a b = (if a \<ge> 0 then a mod b else - ((- a) mod b))"

definition rotateServerEndpoints :: "serverEndpoint list \<Rightarrow> int \<Rightarrow> serverEndpoint list res" where
  "rotateServerEndpoints endpoints start =
     (if endpoints = [] then Inr []
      else let s = go_rem start (int (length endpoints)) in
        if s < 0 then Inl (GoPanic ''slice bounds out of range'')
        else Inr (drop (nat s) endpoints @ take (nat s) endpoints))"

definition setServerCursor :: "string \<Rightarrow> int \<Rightarrow> runner \<Rightarrow> runner" where
  "setServerCursor kind next r = r\<lparr>rnServerCursor := (rnServerCursor r)(kind := next)\<rparr>"

definition nextServerCursorStep :: "string \<Rightarrow> int \<Rightarrow> int \<Rightarrow> runner \<Rightarrow> int \<times> runner" where
  "nextServerCursorStep kind len step0 r =
     (if len \<le> 0 then (0, r)
      else let step = (if step0 \<le> 0 then 1 else step0);
               start = go_rem (rnServerCursor r kind) len
           in (start, setServerCursor kind (start + step) r))"

definition nextServerCursor :: "string \<Rightarrow> int \<Rightarrow> runner \<Rightarrow> int \<times> runner" where
  "nextServerCursor kind len r = nextServerCursorStep kind len 1 r"

definition setServerCursorAfter ::
  "string \<Rightarrow> serverEndpoint list \<Rightarrow> serverEndpoint \<Rightarrow> runner \<Rightarrow> runner" where
  "setServerCursorAfter kind endpoints endpoint r =
     (let idx = indexOfServerEndpoint endpoints endpoint
      in if idx \<ge> 0 then setServerCursor kind (idx + 1) r else r)"

definition orderedServerEndpoints ::
  "string \<Rightarrow> serverEndpoint list \<Rightarrow> serverEndpoint option \<Rightarrow> runner \<Rightarrow>
     serverEndpoint list res \<times> runner" where
  "orderedServerEndpoints kind endpoints after r =
     (if length endpoints \<le> 1 then (Inr endpoints, r)
      else let idx = (case after of None \<Rightarrow> -1 | Some e \<Rightarrow> indexOfServerEndpoint endpoints e);
               start0 = (if idx \<ge> 0 then go_rem (idx + 1) (int (length endpoints)) else -1);
               (start, r1) = (if start0 < 0 then nextServerCursor kind (int (length endpoints)) r
                              else (start0, setServerCursor kind (start0 + 1) r))
           in (rotateServerEndpoints endpoints start, r1))"

definition orderedServerEndpointBatch ::
  "string \<Rightarrow> serverEndpoint list \<Rightarrow> int \<Rightarrow> runner \<Rightarrow> serverEndpoint list res \<times> runner" where
  "orderedServerEndpointBatch kind endpoints limit r =
     (if length endpoints \<le> 1 \<or> limit \<le> 0 \<or> limit \<ge> int (length endpoints)
      then orderedServerEndpoints kind endpoints None r
      else let (start, r1) = nextServerCursorStep kind (int (length endpoints)) limit r
           in (res_bind (rotateServerEndpoints endpoints start)
                 (\<lambda>ordered. slice ordered 0 (nat limit)), r1))"

section \<open>Texts\<close>

definition formatMappingEndpoint :: "mappingEvent \<Rightarrow> string" where
  "formatMappingEndpoint m =
     (if mePublicIP m = [] \<or> mePublicPort m \<le> 0 then ''-''
      else hostPort (ip_string (mePublicIP m)) (mePublicPort m))"

definition formatPublicProbeResult :: "stunResult \<Rightarrow> string" where
  "formatPublicProbeResult x =
     (if srIP x = [] \<or> srPort x \<le> 0 then ''-'' else hostPort (ip_string (srIP x)) (srPort x))"

definition formatPublicProbeSource :: "stunResult \<Rightarrow> string" where
  "formatPublicProbeSource x = (if srSource x = [] then ''-'' else srSource x)"

definition formatPublicProbeServer :: "stunResult \<Rightarrow> string" where
  "formatPublicProbeServer x = (if srServer x = [] then ''-'' else srServer x)"

definition describeServerEndpoint :: "serverEndpoint \<Rightarrow> string" where
  "describeServerEndpoint e =
     (if epHost e = [] \<or> epPort e \<le> 0 then ''-'' else endpointHostPort e)"

text \<open>The messages of \<open>describeRunError\<close> are Chinese text in UTF-8.\<close>

definition utf8 :: "nat list \<Rightarrow> string" where
  "utf8 bs = map char_of bs"

definition zhLocalPort :: string where
  "zhLocalPort =
     utf8 [230, 156, 172, 229, 156, 176, 231, 171, 175, 229, 143, 163, 32]"

definition zhPortBusy :: string where
  "zhPortBusy =
     utf8 [32, 229, 183, 178, 232, 162, 171, 229, 141, 160, 231, 148, 168, 230, 136, 150, 232,
      191, 152, 229, 156, 168, 231, 179, 187, 231, 187, 159, 228, 191, 157, 231, 149, 153, 231,
      138, 182, 230, 128, 129, 227, 128, 130, 232, 175, 183, 230, 141, 162, 228, 184, 128, 228,
      184, 170, 231, 187, 145, 229, 174, 154, 231, 171, 175, 229, 143, 163, 239, 188, 140, 230,
      136, 150, 229, 129, 156, 230, 173, 162, 229, 141, 160, 231, 148, 168, 232, 175, 165, 231,
      171, 175, 229, 143, 163, 231, 154, 132, 231, 168, 139, 229, 186, 143, 229, 144, 142, 229,
      134, 141, 229, 144, 175, 229, 138, 168, 227, 128, 130, 229, 142, 159, 229, 167, 139, 233,
      148, 153, 232, 175, 175, 239, 188, 154]"

definition zhCannotBind :: string where
  "zhCannotBind =
     utf8 [230, 151, 160, 230, 179, 149, 228, 189, 191, 231, 148, 168, 231, 187, 145, 229, 174,
      154, 229, 156, 176, 229, 157, 128, 47, 231, 171, 175, 229, 143, 163, 32]"

definition zhCheckBind :: string where
  "zhCheckBind =
     utf8 [227, 128, 130, 232, 175, 183, 230, 163, 128, 230, 159, 165, 231, 187, 145, 229, 174,
      154, 229, 156, 176, 229, 157, 128, 230, 152, 175, 229, 144, 166, 229, 177, 158, 228, 186,
      142, 230, 156, 172, 230, 156, 186, 239, 188, 140, 230, 136, 150, 231, 173, 137, 229, 190,
      133, 228, 184, 138, 228, 184, 128, 230, 157, 161, 232, 191, 158, 230, 142, 165, 233, 135,
      138, 230, 148, 190, 227, 128, 130, 229, 142, 159, 229, 167, 139, 233, 148, 153, 232, 175,
      175, 239, 188, 154]"

definition zhNoHost :: string where
  "zhNoHost =
     utf8 [229, 159, 159, 229, 144, 141, 232, 167, 163, 230, 158, 144, 229, 164, 177, 232, 180,
      165, 227, 128, 130, 232, 175, 183, 230, 163, 128, 230, 159, 165, 32, 72, 84, 84, 80, 47, 81,
      85, 73, 67, 32, 228, 191, 157, 230, 180, 187, 231, 155, 174, 230, 160, 135, 230, 136, 150,
      229, 133, 172, 231, 189, 145, 230, 142, 162, 230, 181, 139, 230, 156, 141, 229, 138, 161,
      227, 128, 130, 229, 142, 159, 229, 167, 139, 233, 148, 153, 232, 175, 175, 239, 188, 154]"

definition zhTimeout :: string where
  "zhTimeout =
     utf8 [232, 191, 158, 230, 142, 165, 232, 182, 133, 230, 151, 182, 227, 128, 130, 232, 175,
      183, 230, 163, 128, 230, 159, 165, 231, 189, 145, 231, 187, 156, 227, 128, 129, 72, 84, 84,
      80, 47, 81, 85, 73, 67, 32, 228, 191, 157, 230, 180, 187, 231, 155, 174, 230, 160, 135, 227,
      128, 129, 229, 133, 172, 231, 189, 145, 230, 142, 162, 230, 181, 139, 230, 156, 141, 229,
      138, 161, 229, 146, 140, 233, 152, 178, 231, 129, 171, 229, 162, 153, 227, 128, 130, 229,
      142, 159, 229, 167, 139, 233, 148, 153, 232, 175, 175, 239, 188, 154]"

definition zhAny :: string where
  "zhAny =
     utf8 [232, 135, 170, 229, 138, 168]"

definition emptyAsAny :: "string \<Rightarrow> string" where
  "emptyAsAny v = (if v = [] then zhAny else v)"

definition describeRunError :: "instanceConfig \<Rightarrow> go_error \<Rightarrow> string" where
  "describeRunError cfg e =
     (let raw = err_text e; lower = to_lower raw in
      if contains lower ''only one usage of each socket address'' \<or>
         contains lower ''address already in use'' \<or> contains lower ''eaddrinuse''
      then zhLocalPort @ cfgBindPort cfg @ zhPortBusy @ raw
      else if contains lower ''cannot assign requested address'' \<or> contains lower ''eaddrnotavail''
      then zhCannotBind @ emptyAsAny (cfgBindAddress cfg) @ '':'' @ cfgBindPort cfg @ zhCheckBind @ raw
      else if contains lower ''no such host'' then zhNoHost @ raw
      else if contains lower ''timeout'' \<or> contains lower ''timed out'' then zhTimeout @ raw
      else raw)"


section \<open>Running and stopping\<close>

definition stateUpdate :: "string \<Rightarrow> logEntry list \<Rightarrow> runtimeStatus" where
  "stateUpdate state logs = zeroStatus\<lparr>stState := state, stLogs := logs\<rparr>"

text \<open>The part of \<open>Run\<close> before its loop.\<close>

definition runBegin :: "time \<Rightarrow> runner \<Rightarrow> runner" where
  "runBegin now r =
     emit now ((stateUpdate StateStarting [logEntryOf now ''info'' ''instance starting''])
         \<lparr>stStartedAt := Some now, stProtocol := cfgProtocol (rnCfg r)\<rparr>)
       (r\<lparr>rnCancelRun := True\<rparr>)"

text \<open>\<open>Stop\<close>: the context is cancelled only when \<open>Run\<close> has stored its cancel function.\<close>

definition runnerStop :: "runner \<Rightarrow> runner" where
  "runnerStop r = closeActive (if rnCancelRun r then r\<lparr>rnCancelled := True\<rparr> else r)"

definition emitStopped :: "time \<Rightarrow> runner \<Rightarrow> runner" where
  "emitStopped now r = emit now (stateUpdate StateStopped [logEntryOf now ''info'' ''instance stopped'']) r"

definition runReturn :: "runner \<Rightarrow> runner" where
  "runReturn r = r\<lparr>rnDone := True, rnCancelled := True\<rparr>"

definition stopError :: "go_error option \<Rightarrow> bool" where
  "stopError e = (case e of None \<Rightarrow> True | Some x \<Rightarrow> err_is x CtxCanceled \<or> err_is x ErrStopped)"

definition sessionError :: "go_error option \<Rightarrow> bool" where
  "sessionError e = (case e of None \<Rightarrow> False | Some x \<Rightarrow> err_is x ErrSessionClosed)"

end
