(* ===== verification/Runner_Correct.thy ===== *)
theory Runner_Correct
  imports Runner_State "HOL-Library.Multiset"
begin

text \<open>
  What the runner's state operations guarantee: the choice of the next local port, the times
  and notifications of the published mapping, and the order in which servers are tried.
\<close>

section \<open>Local ports\<close>

lemma bindPort_after_advance:
  assumes "rnPicker r = Some p" and "picker_ready draws p"
  shows "\<exists>port r'. bindPort draws (advanceBindPort r) = Inr (port, r') \<and> port \<in> pickerPorts p \<and>
    (pp_start p < pp_end p \<longrightarrow> port \<noteq> rnCurrentPort r) \<and> rnCurrentPort r' = port \<and>
    rnHasPort r' \<and> \<not> rnAdvancePort r'"
proof -
  let ?n = "nextExcept draws (rnCurrentPort r) p"
  have b: "bindPort draws (advanceBindPort r) = Inr (fst ?n, (advanceBindPort r)
      \<lparr>rnPicker := Some (snd ?n), rnCurrentPort := fst ?n, rnFailedPort := -1,
       rnHasPort := True, rnAdvancePort := False\<rparr>)"
    using assms(1) by (simp add: bindPort_def advanceBindPort_def case_prod_beta)
  have "fst ?n \<in> pickerPorts p" using assms(2) by (rule picker.next_in_ports)
  moreover have "fst ?n \<noteq> rnCurrentPort r" if "pp_start p < pp_end p"
  proof (rule picker.next_avoids[OF assms(2)])
    show "\<exists>a b. a \<in> pickerPorts p \<and> b \<in> pickerPorts p \<and> a \<noteq> b"
      using that by (intro exI[of _ "pp_start p"] exI[of _ "pp_end p"]) (simp add: pickerPorts_def)
  qed
  ultimately show ?thesis using b by simp
qed

section \<open>The published mapping\<close>

definition samePublic :: "mappingEvent \<Rightarrow> mappingEvent \<Rightarrow> bool" where
  "samePublic a b \<longleftrightarrow> mePublicPort a = mePublicPort b \<and> meProtocol a = meProtocol b \<and>
     ip_equal (mePublicIP a) (mePublicIP b)"

definition sameMapping :: "mappingEvent \<Rightarrow> mappingEvent \<Rightarrow> bool" where
  "sameMapping a b \<longleftrightarrow> samePublic a b \<and> mePrivatePort a = mePrivatePort b \<and>
     ip_equal (mePrivateIP a) (mePrivateIP b)"

definition lastIs :: "(mappingEvent \<Rightarrow> mappingEvent \<Rightarrow> bool) \<Rightarrow> runner \<Rightarrow> mappingEvent \<Rightarrow> bool" where
  "lastIs f r e \<longleftrightarrow> (case rnLastMap r of None \<Rightarrow> False | Some m \<Rightarrow> f m e)"

lemma samePublic_refl [simp]: "samePublic e e"
  by (simp add: samePublic_def ip_equal_refl)

lemma sameMapping_refl [simp]: "sameMapping e e"
  by (simp add: sameMapping_def ip_equal_refl)

lemma samePublic_sym: "samePublic a b \<longleftrightarrow> samePublic b a"
  by (auto simp: samePublic_def ip_equal_sym)

lemma samePublic_trans: "samePublic a b \<Longrightarrow> samePublic b c \<Longrightarrow> samePublic a c"
  by (auto simp: samePublic_def intro: ip_equal_trans)

lemma sameMapping_public: "sameMapping a b \<Longrightarrow> samePublic a b"
  by (simp add: sameMapping_def)

definition newTime :: "time \<Rightarrow> bool \<Rightarrow> time \<Rightarrow> time" where
  "newTime now keep old = (if keep \<and> old \<noteq> 0 then old else now)"

lemma updateMappingLocked_eq:
  "updateMappingLocked now e r =
     ((\<not> lastIs sameMapping r e, newTime now (lastIs samePublic r e) (rnPublicStableSince r),
       newTime now (lastIs samePublic r e) (rnPublicUpdatedAt r)),
      r\<lparr>rnPublicStableSince := newTime now (lastIs samePublic r e) (rnPublicStableSince r),
        rnPublicUpdatedAt := newTime now (lastIs samePublic r e) (rnPublicUpdatedAt r),
        rnLastMap := (if lastIs sameMapping r e then rnLastMap r else Some e)\<rparr>)"
proof -
  have pub: "(case rnLastMap q of None \<Rightarrow> True
      | Some m \<Rightarrow> mePublicPort m \<noteq> mePublicPort e \<or> meProtocol m \<noteq> meProtocol e \<or>
          \<not> ip_equal (mePublicIP m) (mePublicIP e)) = (\<not> lastIs samePublic q e)" for q
    by (simp add: lastIs_def samePublic_def split: option.split)
  have same: "(case rnLastMap q of None \<Rightarrow> False
      | Some m \<Rightarrow> mePublicPort m = mePublicPort e \<and> mePrivatePort m = mePrivatePort e \<and>
          meProtocol m = meProtocol e \<and> ip_equal (mePublicIP m) (mePublicIP e) \<and>
          ip_equal (mePrivateIP m) (mePrivateIP e)) = lastIs sameMapping q e" for q
    by (simp add: lastIs_def sameMapping_def samePublic_def conj_ac split: option.split)
  have upd: "lastIs f (q\<lparr>rnPublicStableSince := a\<rparr>) e = lastIs f q e"
    "lastIs f (q\<lparr>rnPublicUpdatedAt := a\<rparr>) e = lastIs f q e" for f q a
    by (simp_all add: lastIs_def)
  show ?thesis
    unfolding updateMappingLocked_def pub same Let_def is_zero_time_def newTime_def
    by (cases "lastIs samePublic r e"; cases "lastIs sameMapping r e";
        cases "rnPublicStableSince r = 0"; cases "rnPublicUpdatedAt r = 0"; simp add: upd)
qed

lemma emit_frame [simp]:
  "rnLastMap (emit now u r) = rnLastMap r" "rnPublicStableSince (emit now u r) = rnPublicStableSince r"
  "rnPublicUpdatedAt (emit now u r) = rnPublicUpdatedAt r" "rnCfg (emit now u r) = rnCfg r"
  "rnNotified (emit now u r) = rnNotified r" "rnReport (emit now u r) = rnReport r"
  "rnMappingLogEmitted (emit now u r) = rnMappingLogEmitted r"
  "rnServerCursor (emit now u r) = rnServerCursor r" "rnPicker (emit now u r) = rnPicker r"
  "rnCurrentPort (emit now u r) = rnCurrentPort r" "rnAdvancePort (emit now u r) = rnAdvancePort r"
  "rnDone (emit now u r) = rnDone r"
  by (simp_all add: emit_def)

lemma emit_out: "rnReport r \<Longrightarrow> rnOut (emit now u r) = rnOut r @ [u\<lparr>stLastChange := now\<rparr>]"
  by (simp add: emit_def)

lemma runNotify_frame [simp]:
  "rnLastMap (runNotify now s e r) = rnLastMap r"
  "rnPublicStableSince (runNotify now s e r) = rnPublicStableSince r"
  "rnPublicUpdatedAt (runNotify now s e r) = rnPublicUpdatedAt r"
  "rnCfg (runNotify now s e r) = rnCfg r" "rnReport (runNotify now s e r) = rnReport r"
  "rnMappingLogEmitted (runNotify now s e r) = rnMappingLogEmitted r"
  by (simp_all add: runNotify_def split: option.split)

text \<open>The update a publication reports.\<close>

definition mappingUpdate :: "time \<Rightarrow> mappingEvent \<Rightarrow> time \<Rightarrow> time \<Rightarrow> bool \<Rightarrow> runtimeStatus" where
  "mappingUpdate now e since updated withLog =
     zeroStatus\<lparr>stState := StateRunning, stLastChange := now,
       stPublicAddress := ip_string (mePublicIP e), stPublicPort := mePublicPort e,
       stPublicStableSince := since, stPublicUpdatedAt := updated,
       stPrivateAddress := ip_string (mePrivateIP e), stPrivatePort := mePrivatePort e,
       stProtocol := meProtocol e,
       stLogs := (if withLog then [logEntryOf now ''info'' (mappedMessage e)] else [])\<rparr>"

definition afterUpdate :: "time \<Rightarrow> mappingEvent \<Rightarrow> runner \<Rightarrow> runner" where
  "afterUpdate now e r = (let r1 = snd (updateMappingLocked now e r) in
     if lastIs sameMapping r e \<and> rnMappingLogEmitted r then r1 else r1\<lparr>rnMappingLogEmitted := True\<rparr>)"

lemma publishMapping_eq:
  "publishMapping now s e r =
     (let r2 = emit now (mappingUpdate now e
                 (newTime now (lastIs samePublic r e) (rnPublicStableSince r))
                 (newTime now (lastIs samePublic r e) (rnPublicUpdatedAt r))
                 (\<not> (lastIs sameMapping r e \<and> rnMappingLogEmitted r))) (afterUpdate now e r)
      in if lastIs sameMapping r e then r2 else runNotify now s e r2)"
proof -
  have st: "emit now (zeroStatus\<lparr>stState := StateRunning, stPublicAddress := a, stPublicPort := b,
      stPublicStableSince := c, stPublicUpdatedAt := d, stPrivateAddress := f, stPrivatePort := g,
      stProtocol := h, stLogs := l\<rparr>) q =
    emit now (zeroStatus\<lparr>stState := StateRunning, stLastChange := now, stPublicAddress := a, stPublicPort := b,
      stPublicStableSince := c, stPublicUpdatedAt := d, stPrivateAddress := f, stPrivatePort := g,
      stProtocol := h, stLogs := l\<rparr>) q" for a b c d f g h l q
    by (simp add: emit_def)
  show ?thesis
    unfolding publishMapping_def updateMappingForPublish_def updateMappingLocked_eq Let_def
      mappingUpdate_def afterUpdate_def
    by (cases "lastIs sameMapping r e"; cases "rnMappingLogEmitted r") (simp_all add: st)
qed

lemma publishMapping_fields:
  "rnPublicStableSince (publishMapping now s e r) = newTime now (lastIs samePublic r e) (rnPublicStableSince r)"
  "rnPublicUpdatedAt (publishMapping now s e r) = newTime now (lastIs samePublic r e) (rnPublicUpdatedAt r)"
  "lastIs samePublic (publishMapping now s e r) x = samePublic e x"
  "rnMappingLogEmitted (publishMapping now s e r)"
proof -
  let ?r = "publishMapping now s e r"
  have m: "rnLastMap ?r = (if lastIs sameMapping r e then rnLastMap r else Some e)"
    by (simp add: publishMapping_eq afterUpdate_def updateMappingLocked_eq Let_def)
  show "lastIs samePublic ?r x = samePublic e x"
  proof (cases "lastIs sameMapping r e")
    case False
    with m show ?thesis by (simp add: lastIs_def)
  next
    case True
    then obtain l where l: "rnLastMap r = Some l" "samePublic l e"
      by (auto simp: lastIs_def sameMapping_public split: option.splits)
    with m True show ?thesis
      by (auto simp: lastIs_def[of samePublic] intro: samePublic_trans dest: samePublic_sym[THEN iffD1])
  qed
qed (simp_all add: publishMapping_eq afterUpdate_def updateMappingLocked_eq Let_def)

text \<open>Publications in order, each with its instant and the outcome of starting the script.\<close>

fun publishAll :: "(time \<times> go_error option \<times> mappingEvent) list \<Rightarrow> runner \<Rightarrow> runner" where
  "publishAll [] r = r"
| "publishAll ((now, s, e) # ps) r = publishAll ps (publishMapping now s e r)"

lemma publishAll_append: "publishAll (ps @ qs) r = publishAll qs (publishAll ps r)"
  by (induction ps r rule: publishAll.induct) simp_all

text \<open>The instant of the oldest publication of the last unbroken series with the endpoint of
  \<open>e\<close>, or \<open>d\<close> when the last publication was another.\<close>

fun seriesStart :: "mappingEvent \<Rightarrow> time \<Rightarrow> (time \<times> go_error option \<times> mappingEvent) list \<Rightarrow> time" where
  "seriesStart e d [] = d"
| "seriesStart e d ((now, s, x) # rest) = (if samePublic x e then seriesStart e now rest else d)"

lemma seriesStart_cong: "samePublic a b \<Longrightarrow> seriesStart a d ps = seriesStart b d ps"
  by (induction a d ps rule: seriesStart.induct)
    (auto intro: samePublic_trans dest: samePublic_sym[THEN iffD1])

lemma stable_since_series:
  assumes "\<forall>p \<in> set ps. fst p \<noteq> 0" and "now \<noteq> 0" and "rnLastMap r = None"
  shows "rnPublicStableSince (publishAll (ps @ [(now, s, e)]) r) = seriesStart e now (rev ps)"
  using assms
proof (induction ps arbitrary: now s e rule: rev_induct)
  case Nil
  then show ?case by (simp add: publishMapping_fields newTime_def lastIs_def)
next
  case (snoc p ps)
  obtain t u x where p: "p = (t, u, x)" by (metis prod_cases3)
  from snoc.prems p have t: "t \<noteq> 0" by simp
  have IH: "rnPublicStableSince (publishAll (ps @ [p]) r) = seriesStart x t (rev ps)"
    using snoc.IH[of t u x] snoc.prems p by simp
  have last: "lastIs samePublic (publishAll (ps @ [p]) r) e = samePublic x e"
    by (simp add: publishAll_append p publishMapping_fields)
  have nz: "seriesStart y d qs \<noteq> 0" if "d \<noteq> 0" "\<forall>q \<in> set qs. fst q \<noteq> 0" for y d qs
    using that by (induction y d qs rule: seriesStart.induct) auto
  have "seriesStart x t (rev ps) \<noteq> 0" using nz[OF t, of "rev ps"] snoc.prems by simp
  moreover have "rnPublicStableSince (publishAll ((ps @ [p]) @ [(now, s, e)]) r) =
      newTime now (samePublic x e) (seriesStart x t (rev ps))"
    unfolding publishAll_append[of "ps @ [p]"]
    by (simp only: publishAll.simps publishMapping_fields last IH)
  moreover have "samePublic x e \<Longrightarrow> seriesStart x t (rev ps) = seriesStart e t (rev ps)"
    by (rule seriesStart_cong)
  ultimately show ?case by (simp add: newTime_def p)
qed


section \<open>The order of servers\<close>

definition cursors_ok :: "runner \<Rightarrow> bool" where
  "cursors_ok r \<longleftrightarrow> (\<forall>k. 0 \<le> rnServerCursor r k)"

lemma indexOf_range:
  "-1 \<le> indexOfServerEndpoint es e \<and> indexOfServerEndpoint es e < int (length es)"
  by (induction es e rule: indexOfServerEndpoint.induct) (auto simp: Let_def)

lemma indexOf_found:
  "0 \<le> indexOfServerEndpoint es e \<Longrightarrow> sameServerEndpoint (es ! nat (indexOfServerEndpoint es e)) e"
  by (induction es e rule: indexOfServerEndpoint.induct)
    (auto simp: Let_def nat_add_distrib split: if_splits)

lemma go_rem_nonneg: "0 \<le> a \<Longrightarrow> 0 < b \<Longrightarrow> 0 \<le> go_rem a b \<and> go_rem a b < b \<and> go_rem a b = a mod b"
  by (simp add: go_rem_def)

lemma rotate_ok:
  assumes "0 \<le> s" and "es \<noteq> []"
  shows "rotateServerEndpoints es s = Inr (rotate (nat s) es)"
proof -
  have "nat (s mod int (length es)) = nat s mod length es"
    using assms(1) by (simp add: nat_mod_as_int)
  moreover have "\<not> s mod int (length es) < 0" using assms by (simp add: linorder_not_less)
  ultimately show ?thesis
    using assms by (simp add: rotateServerEndpoints_def go_rem_def Let_def rotate_drop_take)
qed

lemma setServerCursor_ok: "cursors_ok r \<Longrightarrow> 0 \<le> n \<Longrightarrow> cursors_ok (setServerCursor k n r)"
  by (simp add: cursors_ok_def setServerCursor_def)

lemma nextServerCursorStep_eq:
  assumes "cursors_ok r" and "0 < n" and "0 < step"
  shows "nextServerCursorStep k n step r =
    (rnServerCursor r k mod n, setServerCursor k (rnServerCursor r k mod n + step) r)"
  using assms by (simp add: nextServerCursorStep_def cursors_ok_def go_rem_nonneg Let_def)

lemma nextServerCursorStep_ok: "cursors_ok r \<Longrightarrow> cursors_ok (snd (nextServerCursorStep k n step r))"
  by (auto simp: nextServerCursorStep_def Let_def go_rem_def cursors_ok_def setServerCursor_def
      intro!: add_nonneg_nonneg)

lemma setServerCursorAfter_ok: "cursors_ok r \<Longrightarrow> cursors_ok (setServerCursorAfter k es e r)"
  by (simp add: setServerCursorAfter_def Let_def setServerCursor_ok)

text \<open>The position at which \<open>orderedServerEndpoints\<close> starts.\<close>

definition orderStart :: "string \<Rightarrow> serverEndpoint list \<Rightarrow> serverEndpoint option \<Rightarrow> runner \<Rightarrow> int" where
  "orderStart kind es after r =
     (case after of
        None \<Rightarrow> rnServerCursor r kind
      | Some e \<Rightarrow> if indexOfServerEndpoint es e \<ge> 0 then indexOfServerEndpoint es e + 1
                  else rnServerCursor r kind) mod int (length es)"

lemma orderedServerEndpoints_eq:
  assumes "cursors_ok r"
  shows "orderedServerEndpoints kind es after r =
    (if length es \<le> 1 then (Inr es, r)
     else (Inr (rotate (nat (orderStart kind es after r)) es),
           setServerCursor kind (orderStart kind es after r + 1) r))"
proof (cases "length es \<le> 1")
  case True
  then show ?thesis by (simp add: orderedServerEndpoints_def)
next
  case False
  then have n: "0 < int (length es)" "es \<noteq> []" by auto
  let ?s = "orderStart kind es after r"
  have s: "0 \<le> ?s" using n by (simp add: orderStart_def)
  let ?idx = "case after of None \<Rightarrow> -1 | Some e \<Rightarrow> indexOfServerEndpoint es e"
  have "orderedServerEndpoints kind es after r = (rotateServerEndpoints es ?s, setServerCursor kind (?s + 1) r)"
  proof (cases "?idx \<ge> 0")
    case True
    then obtain e where e: "after = Some e" "indexOfServerEndpoint es e \<ge> 0" by (cases after) auto
    with False n go_rem_nonneg[of "indexOfServerEndpoint es e + 1" "int (length es)"] show ?thesis
      by (simp add: orderedServerEndpoints_def orderStart_def Let_def)
  next
    case none: False
    then have "?s = rnServerCursor r kind mod int (length es)" by (cases after) (simp_all add: orderStart_def)
    with none False n nextServerCursorStep_eq[OF assms n(1), of 1 kind] show ?thesis
      by (simp add: orderedServerEndpoints_def nextServerCursor_def Let_def)
  qed
  then show ?thesis using False rotate_ok[OF s n(2)] by simp
qed

lemma orderStart_range: "es \<noteq> [] \<Longrightarrow> 0 \<le> orderStart kind es after r \<and> orderStart kind es after r < int (length es)"
  by (simp add: orderStart_def)

text \<open>Successive batches, as the failing rounds of a probe ask for them.\<close>

fun batchRounds :: "string \<Rightarrow> serverEndpoint list \<Rightarrow> int \<Rightarrow> nat \<Rightarrow> runner \<Rightarrow> serverEndpoint list" where
  "batchRounds kind es limit 0 r = []"
| "batchRounds kind es limit (Suc n) r =
     (case orderedServerEndpointBatch kind es limit r of
        (Inr b, r') \<Rightarrow> b @ batchRounds kind es limit n r'
      | (Inl e, r') \<Rightarrow> [])"

lemma batch_eq:
  assumes "cursors_ok r" and "1 < length es" and "0 < limit" and "limit < int (length es)"
  shows "orderedServerEndpointBatch kind es limit r =
    (Inr (take (nat limit) (rotate (nat (rnServerCursor r kind mod int (length es))) es)),
     setServerCursor kind (rnServerCursor r kind mod int (length es) + limit) r)"
proof -
  have n: "0 < int (length es)" "es \<noteq> []" using assms(2) by auto
  have "slice (rotate k es) 0 (nat limit) = Inr (take (nat limit) (rotate k es))" for k
    using assms(4) by (simp add: Prelude.slice_def)
  with assms n show ?thesis
    by (simp add: orderedServerEndpointBatch_def nextServerCursorStep_eq rotate_ok)
qed

lemma take_rotate_nth:
  assumes "es \<noteq> []" and "m \<le> length es"
  shows "take m (rotate k es) = map (\<lambda>j. es ! ((k + j) mod length es)) [0..<m]"
  using assms by (intro nth_equalityI) (simp_all add: nth_rotate)

lemma batchRounds_nth:
  assumes "cursors_ok r" and "1 < length es" and "0 < limit" and "limit < length es"
  shows "batchRounds kind es (int limit) n r =
    map (\<lambda>j. es ! ((nat (rnServerCursor r kind) + j) mod length es)) [0..<n * limit]"
  using assms
proof (induction n arbitrary: r)
  case 0
  then show ?case by simp
next
  case (Suc n)
  let ?c = "rnServerCursor r kind" and ?L = "length es"
  let ?r = "setServerCursor kind (?c mod int ?L + int limit) r"
  have c: "0 \<le> ?c" using Suc.prems(1) by (simp add: cursors_ok_def)
  then have cm: "nat (?c mod int ?L) = nat ?c mod ?L" by (simp add: nat_mod_as_int)
  have ok: "cursors_ok ?r" using Suc.prems(1,2) by (intro setServerCursor_ok add_nonneg_nonneg pos_mod_sign) auto
  have cur: "nat (rnServerCursor ?r kind) = nat ?c mod ?L + limit"
  proof -
    have "0 < int ?L" using Suc.prems(2) by linarith
    from nat_add_distrib[OF pos_mod_sign[OF this], of "int limit" ?c] show ?thesis
      by (simp add: setServerCursor_def cm)
  qed
  have IH: "batchRounds kind es (int limit) n ?r =
      map (\<lambda>j. es ! ((nat ?c mod ?L + limit + j) mod ?L)) [0..<n * limit]"
    using Suc.IH[OF ok Suc.prems(2-4)] by (simp add: cur)
  have "take limit (rotate (nat ?c mod ?L) es) = map (\<lambda>j. es ! ((nat ?c + j) mod ?L)) [0..<limit]"
    using Suc.prems(2,4) by (subst take_rotate_nth) (auto simp: mod_simps)
  moreover have "map (\<lambda>j. es ! ((nat ?c mod ?L + limit + j) mod ?L)) [0..<n * limit] =
      map (\<lambda>j. es ! ((nat ?c + j) mod ?L)) [limit..<limit + n * limit]"
    by (rule nth_equalityI) (simp_all add: mod_simps add.assoc)
  moreover have "[0..<Suc n * limit] = [0..<limit] @ [limit..<limit + n * limit]"
    by (simp add: upt_add_eq_append[of 0 limit, simplified])
  ultimately show ?case
    using batch_eq[OF Suc.prems(1,2), of "int limit" kind] Suc.prems(3,4) IH cm by simp
qed

lemma residues_covered:
  assumes "i < (n::nat)" and "n \<le> m"
  shows "\<exists>j < m. (c + j) mod n = i"
proof -
  let ?j = "(i + n - c mod n) mod n"
  have "(c + ?j) mod n = (c mod n + (i + n - c mod n)) mod n" by (simp add: mod_simps)
  also have "c mod n + (i + n - c mod n) = i + n"
    using assms(1) by (simp add: le_add_diff_inverse order.trans[OF mod_le_divisor])
  also have "(i + n) mod n = i" using assms(1) by simp
  finally have "(c + ?j) mod n = i" .
  moreover have "?j < m" using assms mod_less_divisor[of n "i + n - c mod n"] by linarith
  ultimately show ?thesis by blast
qed

end
