(* ===== verification/Runner_Props.thy ===== *)
theory Runner_Props
  imports Runner_Correct
begin

text \<open>The properties of the runner's state operations.\<close>

section \<open>Ports\<close>

text \<open>
  C27: After a port was found unavailable, the next session binds another port of the
  configured range when there is one, and from then on every session binds the same port, or
  the one the system really assigned, until it fails in turn.
\<close>

theorem failed_port_is_replaced:
  assumes "rnPicker r = Some p" and "picker_ready draws p"
  shows "\<exists>port r1. bindPort draws (advanceBindPort r) = Inr (port, r1) \<and>
    pp_start p \<le> port \<and> port \<le> pp_end p \<and> (pp_start p < pp_end p \<longrightarrow> port \<noteq> rnCurrentPort r) \<and>
    bindPort draws2 r1 = Inr (port, r1) \<and>
    bindPort draws2 (keepBindPort actual r1) =
      Inr (if actual > 0 then actual else port, keepBindPort actual r1)"
proof -
  obtain port r1 where b: "bindPort draws (advanceBindPort r) = Inr (port, r1)"
    "port \<in> pickerPorts p" "pp_start p < pp_end p \<longrightarrow> port \<noteq> rnCurrentPort r"
    "rnCurrentPort r1 = port" "rnHasPort r1" "\<not> rnAdvancePort r1"
    using bindPort_after_advance[OF assms] by blast
  then have "bindPort draws2 r1 = Inr (port, r1)" by (simp add: bindPort_def)
  moreover have "bindPort draws2 (keepBindPort actual r1) =
      Inr (if actual > 0 then actual else port, keepBindPort actual r1)"
    using b(4-6) by (simp add: bindPort_def keepBindPort_def)
  ultimately show ?thesis using b(1-3) by (auto simp: pickerPorts_def)
qed

lemma failed_port_is_replaced_witness:
  "\<exists>port r1. bindPort (\<lambda>_. Some 1) (advanceBindPort ((NewRunner sampleConfig True)
      \<lparr>rnPicker := Some \<lparr>pp_start = 100, pp_end = 200, pp_randomized = True, pp_next = 100\<rparr>,
       rnCurrentPort := 101\<rparr>)) = Inr (port, r1) \<and> 100 \<le> port \<and> port \<le> 200 \<and> port \<noteq> 101"
proof -
  let ?p = "\<lparr>pp_start = 100, pp_end = 200, pp_randomized = True, pp_next = 100\<rparr>"
  let ?r = "(NewRunner sampleConfig True)\<lparr>rnPicker := Some ?p, rnCurrentPort := 101\<rparr>"
  have "rnPicker ?r = Some ?p" by simp
  moreover have "picker_ready (\<lambda>_. Some 1) ?p"
    by (simp add: picker_ready_def picker_wf_def draws_ok_def)
  ultimately show ?thesis
    using failed_port_is_replaced[of ?r ?p "\<lambda>_. Some 1"] by fastforce
qed

text \<open>
  A new runner of a validated configuration binds a port between 0 and 65535 without a
  panic, although \<open>NewRunner\<close> ignores the error of the port specification.
\<close>

lemma new_runner_binds:
  assumes "newPortPicker (cfgBindPort cfg) = Inr p" and "draws_ok draws (pp_end p - pp_start p + 1)"
  shows "\<exists>port r. bindPort draws (NewRunner cfg report) = Inr (port, r) \<and> 0 \<le> port \<and> port \<le> 65535"
proof -
  have wf: "picker_wf p" using newPortPicker_picker_wf[OF assms(1)] .
  with assms(2) have "picker_ready draws p" by (simp add: picker_ready_def)
  then have "fst (nextExcept draws (-1) p) \<in> pickerPorts p" by (rule picker.next_in_ports)
  with wf have "0 \<le> fst (nextExcept draws (-1) p) \<and> fst (nextExcept draws (-1) p) \<le> 65535"
    by (auto simp: pickerPorts_def picker_wf_def)
  with assms(1) show ?thesis by (simp add: bindPort_def NewRunner_def case_prod_beta)
qed

text \<open>The servers of a configuration that the store accepts.\<close>

definition serverOK :: "serverEndpoint \<Rightarrow> bool" where
  "serverOK e \<longleftrightarrow> epHost e \<noteq> [] \<and> validPort (epPort e)"

lemma resolved_servers:
  assumes v: "validateConfigLocked opts (normalizeConfig cfg) = Inr ()" and "json_config cfg = cfg"
    and lists: "\<forall>e \<in> set (optSTUNServers opts @ optHTTPServers opts @ optQUICServers opts). serverOK e"
    and c: "c = resolveConfigLocked opts (normalizeConfig cfg)"
  shows "keepAliveServers c \<noteq> []" "stunServers c \<noteq> []"
    "\<forall>e \<in> set (keepAliveServers c @ stunServers c). serverOK e"
proof -
  let ?n = "normalizeConfig cfg"
  from v have vc: "validateConfig ?n = Inr ()" by (simp add: validateConfigLocked_Inr)
  have idem: "normalizeConfig ?n = ?n" by (rule normalizeConfig_idem[OF vc])
  have "cfgResolvedSTUN (json_config cfg) = []" "cfgResolvedKeepAlive (json_config cfg) = []"
    by (simp_all add: json_config_def)
  then have none: "cfgResolvedSTUN ?n = []" "cfgResolvedKeepAlive ?n = []" using assms(2) by simp_all
  from vc have bounds: "0 \<le> cfgSTUNPort ?n" "cfgSTUNPort ?n \<le> 65535" "cfgHTTPPort ?n \<le> 65535"
    "cfgKeepAliveMode ?n = ''custom'' \<Longrightarrow> cfgHTTPHost ?n \<noteq> []"
    "cfgKeepAliveMode ?n = ''custom'' \<or> cfgKeepAliveMode ?n = ''group''"
    unfolding validateConfig_Inr by auto
  have stun: "\<forall>e \<in> set (customSTUNServers x). serverOK e" if "0 \<le> cfgSTUNPort x" "cfgSTUNPort x \<le> 65535" for x
    using that by (simp add: customSTUNServers_def serverOK_def validPort_def orDefault_ne defaultProbeHost_def defaultProbePort_def)
  have keep: "\<forall>e \<in> set (customKeepAliveServers x). serverOK e"
    if "cfgHTTPHost x \<noteq> []" "0 < cfgHTTPPort x" "cfgHTTPPort x \<le> 65535" for x
    using that by (simp add: customKeepAliveServers_def serverOK_def validPort_def)
  note fields = c resolveConfigLocked_def idem Let_def
  show "stunServers c \<noteq> []" by (simp add: stunServers_def customSTUNServers_def)
  show "keepAliveServers c \<noteq> []" by (simp add: keepAliveServers_def customKeepAliveServers_def)
  have "\<forall>e \<in> set (stunServers c). serverOK e"
  proof (cases "cfgSTUNMode ?n = ''group''")
    case True
    with v lists show ?thesis by (simp add: stunServers_def fields validateConfigLocked_Inr)
  next
    case False
    with stun[of c] bounds none show ?thesis by (simp add: stunServers_def fields)
  qed
  moreover have "\<forall>e \<in> set (keepAliveServers c). serverOK e"
  proof (cases "cfgKeepAliveMode ?n = ''group''")
    case True
    with v lists show ?thesis by (auto simp: keepAliveServers_def fields validateConfigLocked_Inr)
  next
    case False
    with keep[of c] bounds none normalizeConfig_bounds(1)[of cfg] show ?thesis
      by (auto simp: keepAliveServers_def fields)
  qed
  ultimately show "\<forall>e \<in> set (keepAliveServers c @ stunServers c). serverOK e" by auto
qed

text \<open>
  C25: What the store accepts gives the runner what it needs to begin: with the configuration as
  \<open>GetInstance\<close> resolves it, the protocol is one of the two that the runner knows, the
  first port is bound without a panic (\<open>NewRunner\<close> ignores the error of the port specification)
  and lies between 0 and 65535, there is a keepalive server and a STUN server, each of them has
  a host and a port between 1 and 65535, the bind address is an IPv4 address, and between 1 and
  20 samples confirm a mapping. The server lists of the store are supposed to hold such servers, as
  \<open>UpdateServerGroups\<close> checks. Nothing is said of the keepalive interval, which has no upper bound.
\<close>

theorem validated_config_runnable:
  assumes "validateConfigLocked opts (normalizeConfig cfg) = Inr ()" and "json_config cfg = cfg"
    and "\<forall>e \<in> set (optSTUNServers opts @ optHTTPServers opts @ optQUICServers opts). serverOK e"
    and "c = resolveConfigLocked opts (normalizeConfig cfg)"
    and "\<forall>p. newPortPicker (cfgBindPort c) = Inr p \<longrightarrow> draws_ok draws (pp_end p - pp_start p + 1)"
  shows "(cfgProtocol c = ''tcp'' \<or> cfgProtocol c = ''udp'') \<and>
    (\<exists>port r. bindPort draws (NewRunner c report) = Inr (port, r) \<and> 0 \<le> port \<and> port \<le> 65535) \<and>
    keepAliveServers c \<noteq> [] \<and> stunServers c \<noteq> [] \<and>
    (\<forall>e \<in> set (keepAliveServers c @ stunServers c). epHost e \<noteq> [] \<and> validPort (epPort e)) \<and>
    length (to4 (parseBindIP (cfgBindAddress c))) = 4 \<and>
    cfgMappingConfirmations c \<in> {1..20}"
proof -
  let ?n = "normalizeConfig cfg"
  from assms(1) have vc: "validateConfig ?n = Inr ()" by (simp add: validateConfigLocked_Inr)
  have "normalizeConfig ?n = ?n" by (rule normalizeConfig_idem[OF vc])
  then have c: "cfgProtocol c = cfgProtocol ?n" "cfgBindPort c = cfgBindPort ?n"
    "cfgMappingConfirmations c = cfgMappingConfirmations ?n"
    by (simp_all add: assms(4) resolveConfigLocked_def Let_def)
  from vc have v: "cfgProtocol ?n = ''tcp'' \<or> cfgProtocol ?n = ''udp''" "\<exists>p. newPortPicker (cfgBindPort ?n) = Inr p"
    "0 < cfgMappingConfirmations ?n" "cfgMappingConfirmations ?n \<le> 20"
    unfolding validateConfig_Inr maxMappingConfirmations_def by auto
  from v(2) c assms(5) have "\<exists>port r. bindPort draws (NewRunner c report) = Inr (port, r) \<and> 0 \<le> port \<and> port \<le> 65535"
    using new_runner_binds by auto
  with v c resolved_servers[OF assms(1-4)] length_parseBindIP show ?thesis by (simp add: serverOK_def)
qed

lemma validated_config_runnable_witness:
  "\<exists>port r. bindPort (\<lambda>_. None) (NewRunner (resolveConfigLocked (dbOptions (freshDB demoAdmin)) (normalizeConfig sampleConfig)) True) =
      Inr (port, r) \<and> 0 \<le> port \<and> port \<le> 65535"
proof -
  let ?opts = "dbOptions (freshDB demoAdmin)"
  have "validateConfigLocked ?opts (normalizeConfig sampleConfig) = Inr ()"
    using sample_valid by (simp add: validateConfigLocked_Inr freshDB_def defaultSTUNServers_def defaultHTTPServers_def
        defaultQUICServers_def)
  moreover have "json_config sampleConfig = sampleConfig" by (simp add: json_config_def sampleConfig_def zeroConfig_def)
  moreover have "\<forall>e \<in> set (optSTUNServers ?opts @ optHTTPServers ?opts @ optQUICServers ?opts). serverOK e"
    by (simp add: freshDB_def defaultSTUNServers_def defaultHTTPServers_def defaultQUICServers_def serverOK_def
        validPort_def defaultProbeHost_def defaultProbePort_def)
  ultimately show ?thesis
    using validated_config_runnable[of ?opts sampleConfig _ "\<lambda>_. None" True] by (simp add: draws_ok_def)
qed

text \<open>
  An error after which the runner gives up its port is always one after which a dial is
  first retried until the deadline, and the user is told about the occupied port unless the
  system only forbids it.
\<close>

lemma port_unavailable_is_busy:
  "(isLocalPortUnavailable e \<longrightarrow> isLocalAddressBusy e) \<and>
   (isLocalPortUnavailable e \<and> \<not> contains (to_lower (err_text e)) ''forbidden by its access permissions'' \<longrightarrow>
      describeRunError cfg e = zhLocalPort @ cfgBindPort cfg @ zhPortBusy @ err_text e)"
proof -
  let ?t = "to_lower (err_text e)"
  have "contains ?t ''wsaeaddrinuse'' \<longrightarrow> contains ?t ''eaddrinuse''"
    using contains_trans[of ?t "''wsaeaddrinuse''" "''eaddrinuse''"] by simp
  then show ?thesis
    by (auto simp: isLocalPortUnavailable_def isLocalAddressBusy_def describeRunError_def Let_def)
qed

lemma port_unavailable_is_busy_witness:
  "isLocalAddressBusy (NetError ''bind: EADDRINUSE'' False)"
proof -
  have "isLocalPortUnavailable (NetError ''bind: EADDRINUSE'' False)" by code_simp
  with port_unavailable_is_busy[of "NetError ''bind: EADDRINUSE'' False"] show ?thesis by blast
qed

section \<open>Mappings\<close>

text \<open>
  C11: However often the public endpoint is published, the instant since which it is called
  stable is the first publication of the last unbroken series with the same public address,
  port and protocol; a change of the private endpoint does not restart it.
\<close>

theorem stable_since_is_series_start:
  assumes "\<forall>p \<in> set ps. fst p \<noteq> 0" and "now \<noteq> 0"
  shows "rnPublicStableSince (publishAll (ps @ [(now, s, e)]) (NewRunner cfg report)) =
    seriesStart e now (rev ps)"
  by (rule stable_since_series[OF assms]) (simp add: NewRunner_def)

definition demoEvent :: mappingEvent where
  "demoEvent = \<lparr>mePublicIP = [1, 2, 3, 4], mePublicPort = 4000, mePrivateIP = [10, 0, 0, 2],
     mePrivatePort = 5000, meProtocol = ''tcp''\<rparr>"

lemma stable_since_is_series_start_witness:
  "rnPublicStableSince (publishAll [(7, None, demoEvent\<lparr>mePublicPort := 1\<rparr>), (8, None, demoEvent),
     (9, None, demoEvent\<lparr>mePrivatePort := 6\<rparr>)] (NewRunner sampleConfig True)) = 8"
proof -
  let ?ps = "[(7, None, demoEvent\<lparr>mePublicPort := 1\<rparr>), (8, None, demoEvent)] :: (time \<times> go_error option \<times> mappingEvent) list"
  have "seriesStart (demoEvent\<lparr>mePrivatePort := 6\<rparr>) 9 (rev ?ps) = 8"
    by (simp add: samePublic_def demoEvent_def ip_equal_refl)
  with stable_since_is_series_start[of ?ps 9 None "demoEvent\<lparr>mePrivatePort := 6\<rparr>" sampleConfig True]
  show ?thesis by simp
qed

text \<open>
  C26: The notify script is started exactly when a script is configured and the public or
  private endpoint or the protocol differs from the last published one (so also when only the
  private endpoint has changed); the log line of a mapping is written then and for the first
  publication of a runner, and at no other time.
\<close>

theorem notify_exactly_on_change:
  "rnNotified (publishMapping now None e r) =
     rnNotified r @ (if cfgNotifyScript (rnCfg r) \<noteq> [] \<and> \<not> lastIs sameMapping r e then [e] else []) \<and>
   (rnReport r \<longrightarrow> rnOut (publishMapping now None e r) = rnOut r @
      [mappingUpdate now e (rnPublicStableSince (publishMapping now None e r))
         (rnPublicUpdatedAt (publishMapping now None e r))
         (\<not> lastIs sameMapping r e \<or> \<not> rnMappingLogEmitted r)]) \<and>
   rnNotified (publishMapping now2 None e (publishMapping now None e r)) = rnNotified (publishMapping now None e r)"
proof -
  have n: "rnNotified (afterUpdate now e r) = rnNotified r" "rnCfg (afterUpdate now e r) = rnCfg r"
    "rnReport (afterUpdate now e r) = rnReport r" "rnOut (afterUpdate now e r) = rnOut r"
    by (simp_all add: afterUpdate_def updateMappingLocked_eq Let_def)
  have l: "lastIs sameMapping (publishMapping now s e q) e" for s q
    by (simp add: publishMapping_eq afterUpdate_def updateMappingLocked_eq Let_def lastIs_def[of sameMapping])
  have m: "(mappingUpdate now e a b c)\<lparr>stLastChange := now\<rparr> = mappingUpdate now e a b c" for a b c
    by (simp add: mappingUpdate_def)
  have notified: "rnNotified (publishMapping t None e q) =
      rnNotified q @ (if cfgNotifyScript (rnCfg q) \<noteq> [] \<and> \<not> lastIs sameMapping q e then [e] else [])" for t q
    by (simp add: publishMapping_eq Let_def runNotify_def afterUpdate_def updateMappingLocked_eq)
  have "rnReport r \<longrightarrow> rnOut (publishMapping now None e r) = rnOut r @
      [mappingUpdate now e (rnPublicStableSince (publishMapping now None e r))
         (rnPublicUpdatedAt (publishMapping now None e r))
         (\<not> lastIs sameMapping r e \<or> \<not> rnMappingLogEmitted r)]"
    unfolding publishMapping_fields by (simp add: publishMapping_eq Let_def runNotify_def n emit_out m)
  then show ?thesis using notified[of now r] notified[of now2 "publishMapping now None e r"] l by simp
qed

lemma notify_exactly_on_change_witness:
  "length (rnOut (publishMapping 5 None demoEvent (NewRunner sampleConfig True))) = 1 \<and>
   rnNotified (publishMapping 6 None demoEvent (publishMapping 5 None demoEvent (NewRunner sampleConfig True))) =
   rnNotified (publishMapping 5 None demoEvent (NewRunner sampleConfig True))"
proof -
  have "rnReport (NewRunner sampleConfig True)" "rnOut (NewRunner sampleConfig True) = []"
    by (simp_all add: NewRunner_def)
  then show ?thesis
    using notify_exactly_on_change[of 5 demoEvent "NewRunner sampleConfig True" 6] by simp
qed

text \<open>
  A runner seeded with the saved status of an instance that discovers the same public
  endpoint again reports it as stable since the saved instant, so a restart of the program
  does not reset the age of the mapping.
\<close>

lemma seeded_mapping_keeps_age:
  assumes "stPublicAddress st = ip_string (mePublicIP e)" and "length (mePublicIP e) = 4"
    and "stPublicPort st = mePublicPort e" and "mePublicPort e \<noteq> 0"
    and "(if stProtocol st = [] then cfgProtocol cfg else stProtocol st) = meProtocol e"
    and "stPublicStableSince st \<noteq> 0" and "stPublicUpdatedAt st \<noteq> 0"
  shows "rnPublicStableSince (publishMapping now s e (seedRuntime st (NewRunner cfg report))) = stPublicStableSince st \<and>
    rnPublicUpdatedAt (publishMapping now s e (seedRuntime st (NewRunner cfg report))) = stPublicUpdatedAt st"
proof -
  let ?r = "seedRuntime st (NewRunner cfg report)"
  have p: "parse_ip (stPublicAddress st) = Some (to16 (mePublicIP e))"
    using parse_ip_string_v4[OF assms(2)] assms(1) by simp
  have ne: "stPublicAddress st \<noteq> []"
    using assms(1,2) p by (auto simp: parse_ip_def)
  have "ip_equal (to16 (mePublicIP e)) (mePublicIP e)"
    using assms(2) by (auto elim: length4_cases simp: ip_equal_def to16_def v4_prefix_def)
  then have "lastIs samePublic ?r e"
    using p ne assms(3-5)
    by (simp add: seedRuntime_def NewRunner_def lastIs_def samePublic_def Let_def split: if_splits)
  moreover have "rnPublicStableSince ?r = stPublicStableSince st" "rnPublicUpdatedAt ?r = stPublicUpdatedAt st"
    using p ne assms(3,4) by (simp_all add: seedRuntime_def NewRunner_def Let_def)
  ultimately show ?thesis using assms(6,7) by (simp add: publishMapping_fields newTime_def)
qed

section \<open>Servers\<close>

lemma mset_rotate: "mset (rotate n xs) = mset xs"
proof -
  have "mset (rotate n xs) = mset (take (n mod length xs) xs @ drop (n mod length xs) xs)"
    unfolding rotate_drop_take mset_append by (rule add.commute)
  then show ?thesis by simp
qed

text \<open>
  The servers a session tries are a rotation of the configured list, so each is tried
  once; a list of one server is that server; and after a failed server that is in the list,
  it is the last one to be tried again.
\<close>

lemma ordered_servers_are_a_rotation:
  assumes "cursors_ok r"
  shows "\<exists>out r'. orderedServerEndpoints kind es after r = (Inr out, r') \<and> cursors_ok r' \<and>
    mset out = mset es \<and> (\<exists>n. out = rotate n es) \<and>
    (case after of None \<Rightarrow> True | Some e \<Rightarrow>
       indexOfServerEndpoint es e < 0 \<or> sameServerEndpoint (last out) e)"
proof (cases "length es \<le> 1")
  case True
  have "sameServerEndpoint (last es) e" if "0 \<le> indexOfServerEndpoint es e" for e
  proof -
    from that True obtain a where "es = [a]"
      by (cases es) (auto simp: Let_def)
    with that show ?thesis by (simp split: if_splits)
  qed
  then show ?thesis
    using assms True by (force simp: orderedServerEndpoints_eq intro!: exI[of _ "0::nat"] split: option.split)
next
  case False
  let ?s = "nat (orderStart kind es after r)"
  have ne: "es \<noteq> []" using False by auto
  have ok: "cursors_ok (setServerCursor kind (orderStart kind es after r + 1) r)"
    using orderStart_range[OF ne, of kind after r] assms by (intro setServerCursor_ok) simp_all
  have "sameServerEndpoint (last (rotate ?s es)) e"
    if a: "after = Some e" and i: "0 \<le> indexOfServerEndpoint es e" for e
  proof -
    let ?i = "indexOfServerEndpoint es e" and ?L = "length es"
    have s: "?s = (nat ?i + 1) mod ?L"
      using a i by (simp add: orderStart_def nat_mod_as_int nat_add_distrib add.commute)
    have lt: "nat ?i < ?L" using indexOf_range[of es e] i ne by (simp add: nat_less_iff)
    have "last (rotate ?s es) = es ! ((?s + (?L - 1)) mod ?L)"
      using ne by (simp add: last_conv_nth nth_rotate)
    also have "(?s + (?L - 1)) mod ?L = nat ?i"
    proof -
      have "(?s + (?L - 1)) mod ?L = (nat ?i + 1 + (?L - 1)) mod ?L" unfolding s by (simp add: mod_simps)
      also have "nat ?i + 1 + (?L - 1) = nat ?i + ?L" using lt by linarith
      finally show ?thesis using lt by simp
    qed
    finally show ?thesis using indexOf_found[OF i] by simp
  qed
  then have last: "case after of None \<Rightarrow> True | Some e \<Rightarrow>
      indexOfServerEndpoint es e < 0 \<or> sameServerEndpoint (last (rotate ?s es)) e"
    by (cases after) (auto simp: linorder_not_less[symmetric])
  have "orderedServerEndpoints kind es after r =
      (Inr (rotate ?s es), setServerCursor kind (orderStart kind es after r + 1) r)"
    using False by (simp add: orderedServerEndpoints_eq[OF assms])
  then show ?thesis using ok last mset_rotate by (intro exI conjI) (assumption | rule refl | simp)+
qed

lemma ordered_servers_are_a_rotation_witness:
  "\<exists>out r'. orderedServerEndpoints ''http'' defaultHTTPServers (Some \<lparr>epHost = ''QQ.com'', epPort = 80\<rparr>)
      (NewRunner sampleConfig True) = (Inr out, r') \<and> mset out = mset defaultHTTPServers \<and> cursors_ok r'"
proof -
  have "cursors_ok (NewRunner sampleConfig True)" by (simp add: cursors_ok_def NewRunner_def)
  from ordered_servers_are_a_rotation[OF this] show ?thesis by blast
qed

text \<open>
  C37: The failing rounds of a public probe, which try a batch of servers each and go on where
  the last round stopped, have tried every server of the list once their batches together are
  as long as the list.
\<close>

theorem probe_rounds_cover_all_servers:
  assumes "cursors_ok r" and "1 < length es" and "0 < limit" and "limit < length es"
    and "length es \<le> rounds * limit"
  shows "set (batchRounds kind es (int limit) rounds r) = set es"
proof
  show "set (batchRounds kind es (int limit) rounds r) \<subseteq> set es"
    using assms(2) by (auto simp: batchRounds_nth[OF assms(1-4)] intro!: nth_mem mod_less_divisor)
  show "set es \<subseteq> set (batchRounds kind es (int limit) rounds r)"
  proof
    fix x assume "x \<in> set es"
    then obtain i where i: "i < length es" "x = es ! i" by (auto simp: in_set_conv_nth)
    from residues_covered[OF i(1) assms(5), of "nat (rnServerCursor r kind)"]
    obtain j where "j < rounds * limit" "(nat (rnServerCursor r kind) + j) mod length es = i" by blast
    with i(2) show "x \<in> set (batchRounds kind es (int limit) rounds r)"
      unfolding batchRounds_nth[OF assms(1-4)] set_map set_upt by (intro image_eqI[of _ _ j]) simp_all
  qed
qed

lemma probe_rounds_cover_all_servers_witness:
  "set (batchRounds ''stun'' defaultSTUNServers 3 2 (NewRunner sampleConfig True)) = set defaultSTUNServers"
proof -
  have "cursors_ok (NewRunner sampleConfig True)" by (simp add: cursors_ok_def NewRunner_def)
  from probe_rounds_cover_all_servers[OF this, of defaultSTUNServers 3 2 "''stun''"] show ?thesis
    by (simp add: defaultSTUNServers_def)
qed

end
