(* ===== verification/Manager.thy ===== *)
theory Manager
  imports Runner_Props "HOL-Library.List_Lexorder" "HOL-Library.Char_ord"
begin

text \<open>
  The manager (\<open>internal/core/manager.go\<close>) and the TCP port check (\<open>port_check.go\<close>): the
  runner of every started instance, the runtime status of every instance, and the channels of
  the event subscribers. Each operation is what runs under the manager's mutex; where the code
  releases it and goes on (stopping, replacing a configuration), the operation is split, and
  what other goroutines do meanwhile is a function argument. Runners and channels are objects
  that the maps refer to by number.
\<close>

section \<open>State\<close>

record runtimeEvent =
  evID :: string
  evRuntime :: runtimeStatus

record channel =
  chBuffer :: "runtimeEvent list"
  chClosed :: bool

record manager =
  mgStore :: store
  mgDisk :: disk
  mgRunners :: "string \<rightharpoonup> nat"
  mgObjects :: "nat \<Rightarrow> runner"
  mgNext :: nat
  mgStatus :: "string \<rightharpoonup> runtimeStatus"
  mgSubscribers :: "nat list"
  mgChannels :: "nat \<Rightarrow> channel"
  mgNextChan :: nat
  mgPanicked :: bool

definition NewManager :: "store \<Rightarrow> disk \<Rightarrow> manager" where
  "NewManager s d =
     \<lparr>mgStore = s, mgDisk = d, mgRunners = (\<lambda>_. None), mgObjects = (\<lambda>_. NewRunner zeroConfig False),
      mgNext = 0, mgStatus = (\<lambda>_. None), mgSubscribers = [],
      mgChannels = (\<lambda>_. \<lparr>chBuffer = [], chClosed = False\<rparr>), mgNextChan = 0, mgPanicked = False\<rparr>"

section \<open>Status of an instance\<close>

definition statusForLocked :: "time \<Rightarrow> string \<Rightarrow> manager \<Rightarrow> runtimeStatus" where
  "statusForLocked now i m =
     (case mgStatus m i of
        Some st \<Rightarrow> st
      | None \<Rightarrow> zeroStatus\<lparr>stState := StateStopped, stLastChange := now\<rparr>)"

definition stateClearsKeepAlive :: "string \<Rightarrow> bool" where
  "stateClearsKeepAlive state \<longleftrightarrow> state = StateStarting \<or> state = StateStopping \<or> state = StateStopped"

definition reportClearsKeepAlive :: "runtimeStatus \<Rightarrow> bool" where
  "reportClearsKeepAlive update =
     (if stState update = StateStopping \<or> stState update = StateStopped then True
      else stState update = StateStarting \<and> stStartedAt update \<noteq> None)"

definition stateBlocksKeepAlive :: "string \<Rightarrow> bool" where
  "stateBlocksKeepAlive state \<longleftrightarrow> state = StateStopping \<or> state = StateStopped"

definition keepAliveConnectedAtBelongsToRun :: "runtimeStatus \<Rightarrow> bool" where
  "keepAliveConnectedAtBelongsToRun st =
     (case stStartedAt st of None \<Rightarrow> True | Some t \<Rightarrow> \<not> kaConnectedAt (stKeepAlive st) < t)"

text \<open>\<open>int64(now.Sub(connectedAt).Seconds())\<close>: a difference of instants saturates at the
  largest duration.\<close>

definition connectedSeconds :: "time \<Rightarrow> time \<Rightarrow> int" where
  "connectedSeconds connectedAt now =
     (if now < connectedAt then 0 else min (now - connectedAt) max_int64 div 1000000000)"

definition runtimeWithServerAges :: "runtimeStatus \<Rightarrow> time \<Rightarrow> runtimeStatus" where
  "runtimeWithServerAges st now =
     (let k = stKeepAlive st in
      if kaState k = KeepAliveConnected \<and> \<not> is_zero_time (kaConnectedAt k)
      then st\<lparr>stKeepAlive := k\<lparr>kaConnectedSeconds := connectedSeconds (kaConnectedAt k) now\<rparr>\<rparr>
      else st\<lparr>stKeepAlive := k\<lparr>kaConnectedSeconds := 0\<rparr>\<rparr>)"

section \<open>Subscribers\<close>

definition subscriberBuffer :: nat where
  "subscriberBuffer = 64"

text \<open>The nested \<open>select\<close>s: send, or drop the oldest event and send.\<close>

definition pushEvent :: "runtimeEvent \<Rightarrow> channel \<Rightarrow> channel" where
  "pushEvent e ch =
     (if length (chBuffer ch) < subscriberBuffer then ch\<lparr>chBuffer := chBuffer ch @ [e]\<rparr>
      else let rest = drop 1 (chBuffer ch)
           in ch\<lparr>chBuffer := (if length rest < subscriberBuffer then rest @ [e] else rest)\<rparr>)"

fun pushAll :: "runtimeEvent \<Rightarrow> nat list \<Rightarrow> manager \<Rightarrow> manager" where
  "pushAll e [] m = m"
| "pushAll e (c # cs) m =
     (if chClosed (mgChannels m c) then m\<lparr>mgPanicked := True\<rparr>
      else pushAll e cs (m\<lparr>mgChannels := (mgChannels m)(c := pushEvent e (mgChannels m c))\<rparr>))"

definition notifyStatusLocked :: "time \<Rightarrow> string \<Rightarrow> runtimeStatus \<Rightarrow> manager \<Rightarrow> manager" where
  "notifyStatusLocked now i st m =
     (if mgSubscribers m = [] then m
      else pushAll \<lparr>evID = i, evRuntime = runtimeWithServerAges st now\<rparr> (mgSubscribers m) m)"

definition SubscribeRuntime :: "manager \<Rightarrow> nat \<times> manager" where
  "SubscribeRuntime m =
     (let c = mgNextChan m
      in (c, m\<lparr>mgNextChan := c + 1, mgSubscribers := c # mgSubscribers m,
               mgChannels := (mgChannels m)(c := \<lparr>chBuffer = [], chClosed = False\<rparr>)\<rparr>))"

text \<open>The cancel function of a subscription; \<open>sync.Once\<close> makes later calls do nothing.\<close>

definition unsubscribe :: "nat \<Rightarrow> manager \<Rightarrow> manager" where
  "unsubscribe c m =
     (if chClosed (mgChannels m c) then m
      else m\<lparr>mgSubscribers := filter (\<lambda>x. x \<noteq> c) (mgSubscribers m),
             mgChannels := (mgChannels m)(c := (mgChannels m c)\<lparr>chClosed := True\<rparr>)\<rparr>)"

text \<open>A receive from a subscription: \<open>None\<close> when it is closed and drained; an empty open
  channel blocks, and the state stays.\<close>

definition receiveEvent :: "nat \<Rightarrow> manager \<Rightarrow> runtimeEvent option \<times> manager" where
  "receiveEvent c m =
     (case chBuffer (mgChannels m c) of
        [] \<Rightarrow> (None, m)
      | e # es \<Rightarrow> (Some e, m\<lparr>mgChannels := (mgChannels m)(c := (mgChannels m c)\<lparr>chBuffer := es\<rparr>)\<rparr>))"

section \<open>Changing a status\<close>

definition putStatus :: "time \<Rightarrow> string \<Rightarrow> runtimeStatus \<Rightarrow> manager \<Rightarrow> manager" where
  "putStatus now i st m = notifyStatusLocked now i st (m\<lparr>mgStatus := (mgStatus m)(i \<mapsto> st)\<rparr>)"

definition maxLogs :: nat where
  "maxLogs = 100"

definition setStatusLocked :: "time \<Rightarrow> string \<Rightarrow> string \<Rightarrow> string \<Rightarrow> go_error option \<Rightarrow> manager \<Rightarrow> manager" where
  "setStatusLocked now i state message err m =
     (let st = (statusForLocked now i m)\<lparr>stState := state, stLastChange := now\<rparr>;
          st1 = (if stateClearsKeepAlive state then st\<lparr>stKeepAlive := zeroKeepAlive\<rparr> else st);
          st2 = (case err of
              Some e \<Rightarrow> st1\<lparr>stLastError := err_text e,
                            stLogs := stLogs st1 @ [logEntryOf now ''error'' (err_text e)]\<rparr>
            | None \<Rightarrow> if message \<noteq> []
                then st1\<lparr>stLastError := [], stLogs := stLogs st1 @ [logEntryOf now ''info'' message]\<rparr>
                else st1)
      in putStatus now i (st2\<lparr>stLogs := last_n maxLogs (stLogs st2)\<rparr>) m)"

definition orKeep :: "string \<Rightarrow> string \<Rightarrow> string" where
  "orKeep old new = (if new \<noteq> [] then new else old)"

definition orKeepTime :: "time \<Rightarrow> time \<Rightarrow> time" where
  "orKeepTime old new = (if \<not> is_zero_time new then new else old)"

text \<open>The keepalive a report leaves in the status that already has the reported state.\<close>

definition mergeKeepAlive :: "runtimeStatus \<Rightarrow> keepAlive \<Rightarrow> keepAlive" where
  "mergeKeepAlive current next =
     (let old = stKeepAlive current in
      if kaState next = KeepAliveConnected \<and> kaState old = KeepAliveConnected \<and>
         kaProtocol next = kaProtocol old \<and> kaAddress next = kaAddress old \<and>
         kaPort next = kaPort old \<and> keepAliveConnectedAtBelongsToRun current \<and>
         \<not> is_zero_time (kaConnectedAt old)
      then next\<lparr>kaConnectedAt := kaConnectedAt old\<rparr> else next)"

text \<open>The fields a report sets; those with their zero value leave the status alone.\<close>

definition mergeState :: "runtimeStatus \<Rightarrow> runtimeStatus \<Rightarrow> runtimeStatus" where
  "mergeState update current =
     (if stState update \<noteq> []
      then let c = current\<lparr>stState := stState update\<rparr>;
               c' = (if reportClearsKeepAlive update then c\<lparr>stKeepAlive := zeroKeepAlive\<rparr> else c)
           in (if stState update \<noteq> StateError \<and> stLastError update = [] then c'\<lparr>stLastError := []\<rparr> else c')
      else current)"

definition mergeFields :: "runtimeStatus \<Rightarrow> runtimeStatus \<Rightarrow> runtimeStatus" where
  "mergeFields update c =
     c\<lparr>stStartedAt := (case stStartedAt update of None \<Rightarrow> stStartedAt c | Some t \<Rightarrow> Some t),
       stLastChange := orKeepTime (stLastChange c) (stLastChange update),
       stPublicAddress := orKeep (stPublicAddress c) (stPublicAddress update),
       stPublicPort := (if stPublicPort update \<noteq> 0 then stPublicPort update else stPublicPort c),
       stPublicStableSince := orKeepTime (stPublicStableSince c) (stPublicStableSince update),
       stPublicUpdatedAt := orKeepTime (stPublicUpdatedAt c) (stPublicUpdatedAt update),
       stPrivateAddress := orKeep (stPrivateAddress c) (stPrivateAddress update),
       stPrivatePort := (if stPrivatePort update \<noteq> 0 then stPrivatePort update else stPrivatePort c),
       stProtocol := orKeep (stProtocol c) (stProtocol update),
       stLastError := orKeep (stLastError c) (stLastError update)\<rparr>"

text \<open>The status after a report.\<close>

definition mergeReport :: "time \<Rightarrow> runtimeStatus \<Rightarrow> runtimeStatus \<Rightarrow> runtimeStatus" where
  "mergeReport now update current =
     (let c2 = mergeFields update (mergeState update current);
          c3 = (if kaState (stKeepAlive update) \<noteq> [] \<and> \<not> stateBlocksKeepAlive (stState c2)
                then c2\<lparr>stKeepAlive := mergeKeepAlive c2 (stKeepAlive update)\<rparr> else c2);
          c4 = (if pcState (stPortCheck update) \<noteq> [] then c3\<lparr>stPortCheck := stPortCheck update\<rparr> else c3);
          c5 = (if length (stLogs update) > 0
                then c4\<lparr>stLogs := last_n maxLogs (stLogs c4 @ stLogs update)\<rparr> else c4)
      in if is_zero_time (stLastChange c5) then c5\<lparr>stLastChange := now\<rparr> else c5)"

definition report :: "string \<Rightarrow> runtimeStatus \<Rightarrow> time \<Rightarrow> io \<Rightarrow> manager \<Rightarrow> manager" where
  "report i update now io m =
     (let current = mergeReport now update (statusForLocked now i m);
          m1 = putStatus now i current m
      in if stPublicAddress update \<noteq> [] \<or> stPublicPort update \<noteq> 0 \<or>
            \<not> is_zero_time (stPublicUpdatedAt update)
         then (case saveRuntime io i current (mgStore m1, mgDisk m1) of
                 (s, d) \<Rightarrow> m1\<lparr>mgStore := s, mgDisk := d\<rparr>)
         else m1)"

text \<open>
  \<open>clearRuntime\<close> gives the mutex back between the status and the record of the store; \<open>between\<close>
  is what other goroutines do there.
\<close>

definition clearStatus :: "string \<Rightarrow> time \<Rightarrow> manager \<Rightarrow> manager" where
  "clearStatus i now m =
     (let st = (statusForLocked now i m)
            \<lparr>stPublicAddress := [], stPublicPort := 0, stPublicStableSince := 0, stPublicUpdatedAt := 0,
             stPrivateAddress := [], stPrivatePort := 0, stProtocol := [], stPortCheck := zeroPortCheck\<rparr>
      in putStatus now i st m)"

definition clearRecord :: "string \<Rightarrow> io \<Rightarrow> manager \<Rightarrow> manager" where
  "clearRecord i io m =
     (case clearRuntimeRecord io i (mgStore m, mgDisk m) of
        (s, d) \<Rightarrow> m\<lparr>mgStore := s, mgDisk := d\<rparr>)"

definition clearRuntime :: "string \<Rightarrow> time \<Rightarrow> io \<Rightarrow> (manager \<Rightarrow> manager) \<Rightarrow> manager \<Rightarrow> manager" where
  "clearRuntime i now io between m = clearRecord i io (between (clearStatus i now m))"

section \<open>Starting and stopping\<close>

definition IsRunning :: "string \<Rightarrow> manager \<Rightarrow> bool" where
  "IsRunning i m \<longleftrightarrow> mgRunners m i \<noteq> None"

text \<open>The status a new runner starts from: the one in memory, or the saved one.\<close>

definition startSeed :: "time \<Rightarrow> string \<Rightarrow> manager \<Rightarrow> runtimeStatus" where
  "startSeed now i m =
     (let seed = statusForLocked now i m in
      if stPublicAddress seed = []
      then (case RuntimeStatus i (mgStore m) of None \<Rightarrow> seed | Some p \<Rightarrow> p)
      else seed)"

definition Start :: "string \<Rightarrow> time \<Rightarrow> manager \<Rightarrow> unit res \<times> manager" where
  "Start i now m =
     (case GetInstance i (mgStore m) of
        None \<Rightarrow> (Inl (Sentinel OsErrNotExist), m)
      | Some cfg \<Rightarrow>
          (if mgRunners m i \<noteq> None then (Inr (), m)
           else let rid = mgNext m;
                    runner = seedRuntime (startSeed now i m) (NewRunner cfg True);
                    m1 = m\<lparr>mgRunners := (mgRunners m)(i \<mapsto> rid),
                           mgObjects := (mgObjects m)(rid := runner), mgNext := rid + 1\<rparr>
                in (Inr (), setStatusLocked now i StateStarting [] None m1)))"

text \<open>The end of the goroutine of \<open>Start\<close>, after the runner's \<open>Run\<close> has returned.\<close>

definition runnerFinished :: "string \<Rightarrow> nat \<Rightarrow> time \<Rightarrow> manager \<Rightarrow> manager" where
  "runnerFinished i rid now m =
     (if mgRunners m i = Some rid then
        let m1 = m\<lparr>mgRunners := (mgRunners m)(i := None)\<rparr>
        in if stState (statusForLocked now i m1) \<noteq> StateError
           then setStatusLocked now i StateStopped [] None m1 else m1
      else m)"

definition zhStopTimeout :: string where
  "zhStopTimeout =
     utf8 [229, 174, 158, 228, 190, 139, 229, 129, 156, 230, 173, 162, 232, 182, 133, 230, 151,
      182, 239, 188, 140, 232, 175, 183, 231, 168, 141, 229, 144, 142, 229, 134, 141, 232, 175,
      149]"

definition zhOldStopTimeout :: string where
  "zhOldStopTimeout =
     utf8 [230, 151, 167, 229, 174, 158, 228, 190, 139, 229, 129, 156, 230, 173, 162, 232, 182,
      133, 230, 151, 182, 239, 188, 140, 232, 175, 183, 231, 168, 141, 229, 144, 142, 229, 134,
      141, 232, 175, 149]"

text \<open>\<open>Stop\<close>; \<open>finished\<close> tells whether the runner's \<open>Run\<close> returned within five seconds.\<close>

definition Stop :: "string \<Rightarrow> time \<Rightarrow> bool \<Rightarrow> manager \<Rightarrow> unit res \<times> manager" where
  "Stop i now finished m =
     (case mgRunners m i of
        None \<Rightarrow>
          (let message = (if stState (statusForLocked now i m) = StateStopped then [] else ''instance stopped'')
           in (Inr (), setStatusLocked now i StateStopped message None m))
      | Some rid \<Rightarrow>
          (let m1 = setStatusLocked now i StateStopping ''stopping instance'' None m;
               m2 = m1\<lparr>mgObjects := (mgObjects m1)(rid := runnerStop (mgObjects m1 rid))\<rparr>
           in (if finished then Inr () else Inl (ErrNew zhStopTimeout), m2)))"

definition StopAll :: "nat list \<Rightarrow> manager \<Rightarrow> manager" where
  "StopAll rids m =
     fold (\<lambda>rid q. q\<lparr>mgObjects := (mgObjects q)(rid := runnerStop (mgObjects q rid))\<rparr>) rids m"

fun startAll :: "time \<Rightarrow> instanceConfig list \<Rightarrow> manager \<Rightarrow> manager" where
  "startAll now [] m = m"
| "startAll now (c # cs) m = startAll now cs (if cfgEnabled c then snd (Start (cfgID c) now m) else m)"

definition StartEnabled :: "time \<Rightarrow> manager \<Rightarrow> manager" where
  "StartEnabled now m = startAll now (ListInstances (mgStore m)) m"

definition ApplyConfig :: "instanceConfig \<Rightarrow> time \<Rightarrow> manager \<Rightarrow> manager" where
  "ApplyConfig cfg now m = (if cfgEnabled cfg then snd (Start (cfgID cfg) now m) else m)"

definition publicMappingConfigChanged :: "instanceConfig \<Rightarrow> instanceConfig \<Rightarrow> bool" where
  "publicMappingConfigChanged old new =
     (if cfgID old = [] then True
      else cfgProtocol old \<noteq> cfgProtocol new \<or> cfgBindAddress old \<noteq> cfgBindAddress new \<or>
           cfgBindPort old \<noteq> cfgBindPort new \<or> cfgInterface old \<noteq> cfgInterface new \<or>
           cfgFWMark old \<noteq> cfgFWMark new)"

text \<open>
  What other goroutines do where \<open>ReplaceConfig\<close> does not hold the mutex, by place: 0 while it
  waits for the old runner, 1 before \<open>clearRuntime\<close>, 2 inside it, 3 before \<open>Start\<close>.
\<close>

type_synonym gaps = "nat \<Rightarrow> manager \<Rightarrow> manager"

abbreviation whileWaiting :: nat where "whileWaiting \<equiv> 0"
abbreviation beforeClear :: nat where "beforeClear \<equiv> 1"
abbreviation insideClear :: nat where "insideClear \<equiv> 2"
abbreviation beforeStart :: nat where "beforeStart \<equiv> 3"

definition clearIf :: "bool \<Rightarrow> string \<Rightarrow> time \<Rightarrow> io \<Rightarrow> gaps \<Rightarrow> manager \<Rightarrow> manager" where
  "clearIf b i now io during m =
     (if b then clearRuntime i now io (during insideClear) (during beforeClear m) else m)"

text \<open>\<open>finished\<close> tells whether the old runner returned in time.\<close>

definition ReplaceConfig ::
  "instanceConfig \<Rightarrow> instanceConfig \<Rightarrow> bool \<Rightarrow> time \<Rightarrow> io \<Rightarrow> gaps \<Rightarrow> bool \<Rightarrow> manager \<Rightarrow>
     unit res \<times> manager" where
  "ReplaceConfig old cfg wasRunning now io during finished m =
     (let changed = publicMappingConfigChanged old cfg; i = cfgID cfg in
      if \<not> cfgEnabled cfg then
        (if wasRunning then
           (let (r, m1) = Stop i now finished m; m2 = during whileWaiting m1
            in (r, clearIf changed i now io during m2))
         else (Inr (), m))
      else if \<not> wasRunning then Start i now (during beforeStart (clearIf changed i now io during m))
      else case mgRunners m i of
          None \<Rightarrow> Start i now (during beforeStart (clearIf changed i now io during m))
        | Some rid \<Rightarrow>
            (let m1 = setStatusLocked now i StateStopping ''restarting instance'' None m;
                 m2 = m1\<lparr>mgObjects := (mgObjects m1)(rid := runnerStop (mgObjects m1 rid))\<rparr>;
                 m3 = during whileWaiting m2
             in if \<not> finished then (Inl (ErrNew zhOldStopTimeout), m3)
                else let m4 = (if mgRunners m3 i = Some rid
                               then m3\<lparr>mgRunners := (mgRunners m3)(i := None)\<rparr> else m3)
                     in Start i now (during beforeStart (clearIf changed i now io during m4))))"

section \<open>Views\<close>

record keepAliveAge =
  ageID :: string
  ageSeconds :: int

text \<open>\<open>ids\<close> is the order in which Go iterates over the map, each key once.\<close>

definition KeepAliveAges :: "string list \<Rightarrow> time \<Rightarrow> manager \<Rightarrow> keepAliveAge list" where
  "KeepAliveAges ids now m =
     concat (map (\<lambda>i. case mgStatus m i of
         None \<Rightarrow> []
       | Some st \<Rightarrow>
           if kaState (stKeepAlive st) \<noteq> KeepAliveConnected \<or> is_zero_time (kaConnectedAt (stKeepAlive st))
           then []
           else [\<lparr>ageID = i, ageSeconds = connectedSeconds (kaConnectedAt (stKeepAlive st)) now\<rparr>]) ids)"

definition snapshotOf :: "time \<Rightarrow> manager \<Rightarrow> instanceConfig \<Rightarrow> instanceSnapshot" where
  "snapshotOf now m cfg =
     \<lparr>snapConfig = cfg, snapRuntime = runtimeWithServerAges (statusForLocked now (cfgID cfg) m) now\<rparr>"

text \<open>\<open>sort.Slice\<close> by name; snapshots with equal names keep the order of the store here.\<close>

definition List :: "time \<Rightarrow> manager \<Rightarrow> instanceSnapshot list" where
  "List now m = sort_key (\<lambda>s. cfgName (snapConfig s)) (map (snapshotOf now m) (ListInstances (mgStore m)))"

definition Snapshot :: "string \<Rightarrow> time \<Rightarrow> manager \<Rightarrow> instanceSnapshot option" where
  "Snapshot i now m =
     map_option (\<lambda>cfg. \<lparr>snapConfig = cfg,
        snapRuntime = runtimeWithServerAges (statusForLocked now i m) now\<rparr>) (GetInstance i (mgStore m))"

section \<open>The TCP port check\<close>

text \<open>\<open>errors.As\<close> finds the first network error of the chain.\<close>

fun as_net_timeout :: "go_error \<Rightarrow> bool" where
  "as_net_timeout (NetError t b) = b"
| "as_net_timeout (Wrap t e) = as_net_timeout e"
| "as_net_timeout (Sentinel s) = (s = CtxDeadlineExceeded \<or> s = OsErrDeadlineExceeded)"
| "as_net_timeout (ErrNew t) = False"
| "as_net_timeout (BadPort t) = False"
| "as_net_timeout (GoPanic t) = False"

definition classifyTCPCheckError :: "go_error \<Rightarrow> string" where
  "classifyTCPCheckError e =
     (if err_is e CtxDeadlineExceeded \<or> err_is e OsErrDeadlineExceeded then ''timeout''
      else if as_net_timeout e then ''timeout''
      else ''closed'')"

definition maxInt64 :: "int \<Rightarrow> int \<Rightarrow> int" where
  "maxInt64 a b = (if a > b then a else b)"

text \<open>\<open>dial\<close> is the outcome of the connection attempt: an error, or the milliseconds it
  took.\<close>

definition CheckTCPPort ::
  "string \<Rightarrow> (string \<Rightarrow> int res) \<Rightarrow> time \<Rightarrow> io \<Rightarrow> manager \<Rightarrow> portCheck res \<times> manager" where
  "CheckTCPPort i dial now io m =
     (case GetInstance i (mgStore m) of
        None \<Rightarrow> (Inl (Sentinel OsErrNotExist), m)
      | Some cfg \<Rightarrow>
          (let st = statusForLocked now i m in
           if cfgProtocol cfg \<noteq> ''tcp'' then (Inl (ErrNew ''only tcp reachability check is supported''), m)
           else if stPublicAddress st = [] \<or> stPublicPort st \<le> 0 then
             (let check = zeroPortCheck\<lparr>pcProtocol := ''tcp'', pcState := ''unknown'', pcCheckedAt := now,
                            pcMessage := sentinel_text ErrNoTCPMapping\<rparr>
              in (Inr check, report i (zeroStatus\<lparr>stPortCheck := check\<rparr>) now io m))
           else
             (let base = zeroPortCheck\<lparr>pcProtocol := ''tcp'', pcCheckedAt := now\<rparr>;
                  check = (case dial (hostPort (stPublicAddress st) (stPublicPort st)) of
                      Inl e \<Rightarrow> base\<lparr>pcState := classifyTCPCheckError e, pcMessage := err_text e\<rparr>
                    | Inr ms \<Rightarrow> base\<lparr>pcState := ''open'', pcLatencyMs := maxInt64 1 ms,
                                    pcMessage := ''tcp connect succeeded from NATCat host''\<rparr>)
              in (Inr check, report i (zeroStatus\<lparr>stPortCheck := check\<rparr>) now io m))))"

end
