(* ===== verification/Manager_Correct.thy ===== *)
theory Manager_Correct
  imports Manager
begin

text \<open>
  What the manager guarantees: the invariant of every reachable manager, what subscribers
  receive, and how reports, starts and stops change the status of an instance.
\<close>

section \<open>Publishing an event\<close>

lemma pushEvent_eq:
  "length (chBuffer ch) \<le> subscriberBuffer \<Longrightarrow>
     pushEvent e ch = ch\<lparr>chBuffer := last_n subscriberBuffer (chBuffer ch @ [e])\<rparr>"
  by (auto simp: pushEvent_def last_n_eq_drop subscriberBuffer_def Let_def)

lemma length_pushEvent:
  "length (chBuffer ch) \<le> subscriberBuffer \<Longrightarrow> length (chBuffer (pushEvent e ch)) \<le> subscriberBuffer"
  by (simp add: pushEvent_eq)

lemma pushEvent_closed [simp]: "chClosed (pushEvent e ch) = chClosed ch"
  by (simp add: pushEvent_def Let_def)

lemma pushEvent_last:
  "length (chBuffer ch) \<le> subscriberBuffer \<Longrightarrow> chBuffer (pushEvent e ch) \<noteq> [] \<and> last (chBuffer (pushEvent e ch)) = e"
  by (simp add: pushEvent_eq last_n_eq_drop subscriberBuffer_def)

lemma pushAll_frame [simp]:
  "mgStore (pushAll e cs m) = mgStore m" "mgDisk (pushAll e cs m) = mgDisk m"
  "mgRunners (pushAll e cs m) = mgRunners m" "mgObjects (pushAll e cs m) = mgObjects m"
  "mgNext (pushAll e cs m) = mgNext m" "mgStatus (pushAll e cs m) = mgStatus m"
  "mgSubscribers (pushAll e cs m) = mgSubscribers m" "mgNextChan (pushAll e cs m) = mgNextChan m"
  by (induction e cs m rule: pushAll.induct) simp_all

lemma pushAll_channels:
  assumes "distinct cs" and "\<forall>c \<in> set cs. \<not> chClosed (mgChannels m c)"
  shows "mgPanicked (pushAll e cs m) = mgPanicked m \<and>
    mgChannels (pushAll e cs m) = (\<lambda>c. if c \<in> set cs then pushEvent e (mgChannels m c) else mgChannels m c)"
  using assms
proof (induction e cs m rule: pushAll.induct)
  case (1 e m)
  then show ?case by simp
next
  case (2 e c cs m)
  from 2 have "\<not> chClosed (mgChannels m c)" "distinct cs" "c \<notin> set cs" by simp_all
  moreover have "\<forall>x \<in> set cs. \<not> chClosed (((mgChannels m)(c := pushEvent e (mgChannels m c))) x)"
    using 2 by simp
  ultimately show ?case using 2 by (auto simp: fun_eq_iff)
qed

lemma notify_frame [simp]:
  "mgStore (notifyStatusLocked now i st m) = mgStore m" "mgDisk (notifyStatusLocked now i st m) = mgDisk m"
  "mgRunners (notifyStatusLocked now i st m) = mgRunners m"
  "mgObjects (notifyStatusLocked now i st m) = mgObjects m"
  "mgNext (notifyStatusLocked now i st m) = mgNext m" "mgStatus (notifyStatusLocked now i st m) = mgStatus m"
  "mgSubscribers (notifyStatusLocked now i st m) = mgSubscribers m"
  "mgNextChan (notifyStatusLocked now i st m) = mgNextChan m"
  by (simp_all add: notifyStatusLocked_def)

lemma putStatus_frame [simp]:
  "mgStore (putStatus now i st m) = mgStore m" "mgDisk (putStatus now i st m) = mgDisk m"
  "mgRunners (putStatus now i st m) = mgRunners m" "mgObjects (putStatus now i st m) = mgObjects m"
  "mgNext (putStatus now i st m) = mgNext m" "mgStatus (putStatus now i st m) = (mgStatus m)(i \<mapsto> st)"
  "mgSubscribers (putStatus now i st m) = mgSubscribers m"
  "mgNextChan (putStatus now i st m) = mgNextChan m"
  by (simp_all add: putStatus_def)

section \<open>The invariant\<close>

definition status_ok :: "runtimeStatus \<Rightarrow> bool" where
  "status_ok st \<longleftrightarrow> length (stLogs st) \<le> maxLogs \<and>
     (stateBlocksKeepAlive (stState st) \<longrightarrow> stKeepAlive st = zeroKeepAlive)"

definition channels_ok :: "manager \<Rightarrow> bool" where
  "channels_ok m \<longleftrightarrow> distinct (mgSubscribers m) \<and> \<not> mgPanicked m \<and>
     (\<forall>c \<in> set (mgSubscribers m). c < mgNextChan m \<and> \<not> chClosed (mgChannels m c)) \<and>
     (\<forall>c. length (chBuffer (mgChannels m c)) \<le> subscriberBuffer)"

definition runners_ok :: "manager \<Rightarrow> bool" where
  "runners_ok m \<longleftrightarrow> inj_on (mgRunners m) (dom (mgRunners m)) \<and>
     (\<forall>i rid. mgRunners m i = Some rid \<longrightarrow> rid < mgNext m \<and> cfgID (rnCfg (mgObjects m rid)) = i)"

definition mgr_ok :: "manager \<Rightarrow> bool" where
  "mgr_ok m \<longleftrightarrow> (\<forall>i st. mgStatus m i = Some st \<longrightarrow> status_ok st) \<and> channels_ok m \<and> runners_ok m"

lemma status_ok_for: "mgr_ok m \<Longrightarrow> status_ok (statusForLocked now i m)"
  by (auto simp: mgr_ok_def statusForLocked_def status_ok_def zeroStatus_def split: option.split)

lemma putStatus_channels:
  assumes "channels_ok m"
  shows "mgPanicked (putStatus now i st m) = mgPanicked m \<and>
    mgChannels (putStatus now i st m) = (\<lambda>c. if c \<in> set (mgSubscribers m)
      then pushEvent \<lparr>evID = i, evRuntime = runtimeWithServerAges st now\<rparr> (mgChannels m c)
      else mgChannels m c)"
  using assms pushAll_channels[of "mgSubscribers m" "m\<lparr>mgStatus := (mgStatus m)(i \<mapsto> st)\<rparr>"]
  by (simp add: putStatus_def notifyStatusLocked_def channels_ok_def fun_eq_iff)

lemma putStatus_ok:
  assumes "mgr_ok m" and "status_ok st"
  shows "mgr_ok (putStatus now i st m)"
proof -
  from assms(1) have ch: "channels_ok m" and ru: "runners_ok m" by (simp_all add: mgr_ok_def)
  have "channels_ok (putStatus now i st m)"
    using ch putStatus_channels[OF ch] by (simp add: channels_ok_def length_pushEvent)
  moreover have "runners_ok (putStatus now i st m)" using ru by (simp add: runners_ok_def)
  ultimately show ?thesis using assms by (auto simp: mgr_ok_def)
qed

lemma setStatusLocked_eq:
  "\<exists>st. setStatusLocked now i state message err m = putStatus now i st m \<and> stState st = state \<and>
     length (stLogs st) \<le> maxLogs \<and> stLastChange st = now \<and>
     stKeepAlive st = (if stateClearsKeepAlive state then zeroKeepAlive else stKeepAlive (statusForLocked now i m)) \<and>
     stPublicAddress st = stPublicAddress (statusForLocked now i m) \<and>
     stPublicPort st = stPublicPort (statusForLocked now i m)"
  by (rule exI, unfold setStatusLocked_def Let_def, rule conjI, rule refl)
    (simp split: option.split)

lemma setStatusLocked_ok: "mgr_ok m \<Longrightarrow> mgr_ok (setStatusLocked now i state message err m)"
proof -
  assume ok: "mgr_ok m"
  obtain st where st: "setStatusLocked now i state message err m = putStatus now i st m"
    "stState st = state" "length (stLogs st) \<le> maxLogs"
    "stKeepAlive st = (if stateClearsKeepAlive state then zeroKeepAlive else stKeepAlive (statusForLocked now i m))"
    using setStatusLocked_eq[of now i state message err m] by blast
  then have "status_ok st" by (auto simp: status_ok_def stateBlocksKeepAlive_def stateClearsKeepAlive_def)
  with ok st(1) show ?thesis by (simp add: putStatus_ok)
qed

lemma setStatusLocked_frame [simp]:
  "mgStore (setStatusLocked now i state message err m) = mgStore m"
  "mgDisk (setStatusLocked now i state message err m) = mgDisk m"
  "mgRunners (setStatusLocked now i state message err m) = mgRunners m"
  "mgObjects (setStatusLocked now i state message err m) = mgObjects m"
  "mgNext (setStatusLocked now i state message err m) = mgNext m"
  "mgSubscribers (setStatusLocked now i state message err m) = mgSubscribers m"
  by (simp_all add: setStatusLocked_def Let_def)

lemma setStatusLocked_state:
  "stState (statusForLocked t i (setStatusLocked now i state message err m)) = state"
proof -
  obtain st where "setStatusLocked now i state message err m = putStatus now i st m" "stState st = state"
    using setStatusLocked_eq[of now i state message err m] by blast
  then show ?thesis by (simp add: statusForLocked_def)
qed

lemma setStatusLocked_other:
  "j \<noteq> i \<Longrightarrow> mgStatus (setStatusLocked now i state message err m) j = mgStatus m j"
  by (simp add: setStatusLocked_def Let_def)

section \<open>Reports\<close>

lemma mergeState_fields [simp]:
  "stState (mergeState u c) = (if stState u \<noteq> [] then stState u else stState c)"
  "stLogs (mergeState u c) = stLogs c" "stStartedAt (mergeState u c) = stStartedAt c"
  "stKeepAlive (mergeState u c) =
     (if stState u \<noteq> [] \<and> reportClearsKeepAlive u then zeroKeepAlive else stKeepAlive c)"
  "stPublicAddress (mergeState u c) = stPublicAddress c" "stPublicPort (mergeState u c) = stPublicPort c"
  by (simp_all add: mergeState_def Let_def)

lemma mergeFields_fields [simp]:
  "stState (mergeFields u c) = stState c" "stLogs (mergeFields u c) = stLogs c"
  "stKeepAlive (mergeFields u c) = stKeepAlive c"
  "stStartedAt (mergeFields u c) = (case stStartedAt u of None \<Rightarrow> stStartedAt c | Some t \<Rightarrow> Some t)"
  "stPublicAddress (mergeFields u c) = orKeep (stPublicAddress c) (stPublicAddress u)"
  "stPublicPort (mergeFields u c) = (if stPublicPort u \<noteq> 0 then stPublicPort u else stPublicPort c)"
  by (simp_all add: mergeFields_def)

lemma mergeReport_fields:
  "stState (mergeReport now u c) = (if stState u \<noteq> [] then stState u else stState c)"
  "stLogs (mergeReport now u c) = (if stLogs u = [] then stLogs c else last_n maxLogs (stLogs c @ stLogs u))"
  "stStartedAt (mergeReport now u c) = (case stStartedAt u of None \<Rightarrow> stStartedAt c | Some t \<Rightarrow> Some t)"
  "stPublicAddress (mergeReport now u c) = orKeep (stPublicAddress c) (stPublicAddress u)"
  "stPublicPort (mergeReport now u c) = (if stPublicPort u \<noteq> 0 then stPublicPort u else stPublicPort c)"
  by (simp_all add: mergeReport_def Let_def cong: option.case_cong)

text \<open>The keepalive before the one of the report is merged in.\<close>

definition clearedKeepAlive :: "runtimeStatus \<Rightarrow> runtimeStatus \<Rightarrow> keepAlive" where
  "clearedKeepAlive u c =
     (if stState u \<noteq> [] \<and> reportClearsKeepAlive u then zeroKeepAlive else stKeepAlive c)"

lemma mergeKeepAlive_cong:
  assumes "stKeepAlive a = stKeepAlive b" and "stStartedAt a = stStartedAt b"
  shows "mergeKeepAlive a k = mergeKeepAlive b k"
proof -
  have "keepAliveConnectedAtBelongsToRun a = keepAliveConnectedAtBelongsToRun b"
    using assms by (cases "stStartedAt b") (simp_all add: keepAliveConnectedAtBelongsToRun_def)
  with assms show ?thesis by (simp add: mergeKeepAlive_def Let_def)
qed

lemma mergeReport_keepAlive:
  "stKeepAlive (mergeReport now u c) =
     (if kaState (stKeepAlive u) \<noteq> [] \<and> \<not> stateBlocksKeepAlive (stState (mergeReport now u c))
      then mergeKeepAlive (zeroStatus\<lparr>stKeepAlive := clearedKeepAlive u c,
             stStartedAt := stStartedAt (mergeReport now u c)\<rparr>) (stKeepAlive u)
      else clearedKeepAlive u c)"
proof -
  let ?c = "mergeFields u (mergeState u c)"
  have "mergeKeepAlive ?c (stKeepAlive u) = mergeKeepAlive (zeroStatus\<lparr>stKeepAlive := clearedKeepAlive u c,
      stStartedAt := stStartedAt (mergeReport now u c)\<rparr>) (stKeepAlive u)"
    by (rule mergeKeepAlive_cong)
      (simp_all add: mergeReport_fields clearedKeepAlive_def cong: option.case_cong)
  moreover have "stKeepAlive (mergeReport now u c) =
      (if kaState (stKeepAlive u) \<noteq> [] \<and> \<not> stateBlocksKeepAlive (stState ?c)
       then mergeKeepAlive ?c (stKeepAlive u) else stKeepAlive ?c)"
    unfolding mergeReport_def Let_def by simp
  ultimately show ?thesis by (simp add: mergeReport_fields clearedKeepAlive_def)
qed

lemma mergeReport_ok:
  assumes "status_ok c"
  shows "status_ok (mergeReport now u c)"
proof -
  have "length (stLogs (mergeReport now u c)) \<le> maxLogs"
    using assms by (simp add: mergeReport_fields status_ok_def)
  moreover have "stKeepAlive (mergeReport now u c) = zeroKeepAlive"
    if b: "stateBlocksKeepAlive (stState (mergeReport now u c))"
  proof -
    have "clearedKeepAlive u c = zeroKeepAlive"
      using b assms
      by (auto simp: mergeReport_fields clearedKeepAlive_def reportClearsKeepAlive_def
          stateBlocksKeepAlive_def status_ok_def split: if_splits)
    with b show ?thesis by (simp add: mergeReport_keepAlive)
  qed
  ultimately show ?thesis by (simp add: status_ok_def)
qed

lemma report_fields:
  "mgStatus (report i u now io m) = (mgStatus m)(i \<mapsto> mergeReport now u (statusForLocked now i m))"
  "mgRunners (report i u now io m) = mgRunners m" "mgObjects (report i u now io m) = mgObjects m"
  "mgNext (report i u now io m) = mgNext m" "mgSubscribers (report i u now io m) = mgSubscribers m"
  "mgNextChan (report i u now io m) = mgNextChan m"
  "mgChannels (report i u now io m) = mgChannels (putStatus now i (mergeReport now u (statusForLocked now i m)) m)"
  "mgPanicked (report i u now io m) = mgPanicked (putStatus now i (mergeReport now u (statusForLocked now i m)) m)"
  by (simp_all add: report_def Let_def split: prod.split)

lemma mgr_ok_cong:
  assumes "mgr_ok m" and "mgStatus m' = mgStatus m" and "mgRunners m' = mgRunners m"
    and "mgNext m' = mgNext m" and "mgSubscribers m' = mgSubscribers m" and "mgNextChan m' = mgNextChan m"
    and "mgChannels m' = mgChannels m" and "mgPanicked m' = mgPanicked m"
    and "\<forall>rid. rnCfg (mgObjects m' rid) = rnCfg (mgObjects m rid)"
  shows "mgr_ok m'"
  using assms unfolding mgr_ok_def channels_ok_def runners_ok_def by simp

lemma report_ok:
  assumes "mgr_ok m"
  shows "mgr_ok (report i u now io m)"
proof -
  have "status_ok (mergeReport now u (statusForLocked now i m))"
    using status_ok_for[OF assms] by (rule mergeReport_ok)
  from putStatus_ok[OF assms this, of now i] show ?thesis
    by (rule mgr_ok_cong) (simp_all add: report_fields)
qed

lemma clearStatus_ok:
  assumes "mgr_ok m"
  shows "mgr_ok (clearStatus i now m)"
proof -
  let ?st = "(statusForLocked now i m)\<lparr>stPublicAddress := [], stPublicPort := 0, stPublicStableSince := 0,
     stPublicUpdatedAt := 0, stPrivateAddress := [], stPrivatePort := 0, stProtocol := [],
     stPortCheck := zeroPortCheck\<rparr>"
  have "status_ok ?st" using status_ok_for[OF assms, of now i] by (simp add: status_ok_def)
  from putStatus_ok[OF assms this] show ?thesis by (simp add: clearStatus_def)
qed

lemma clearRecord_ok: "mgr_ok m \<Longrightarrow> mgr_ok (clearRecord i io m)"
  by (erule mgr_ok_cong) (simp_all add: clearRecord_def split: prod.split)

section \<open>Starting and stopping\<close>

lemma GetInstance_ID: "GetInstance i s = Some cfg \<Longrightarrow> cfgID cfg = i"
  by (auto simp: GetInstance_def dest: find_some_in)

lemma seedRuntime_cfg [simp]: "rnCfg (seedRuntime st r) = rnCfg r"
  by (simp add: seedRuntime_def Let_def split: option.split)

lemma runners_ok_insert:
  assumes "runners_ok m" and "mgRunners m i = None" and "cfgID (rnCfg r) = i"
  shows "runners_ok (m\<lparr>mgRunners := (mgRunners m)(i \<mapsto> mgNext m),
    mgObjects := (mgObjects m)(mgNext m := r), mgNext := mgNext m + 1\<rparr>)"
proof -
  have new: "mgRunners m j \<noteq> Some (mgNext m)" for j
    using assms(1) by (auto simp: runners_ok_def)
  show ?thesis
    using assms new unfolding runners_ok_def
    by (auto simp: inj_on_def dom_def split: if_splits) (metis less_SucI)+
qed

lemma Start_ok: "mgr_ok m \<Longrightarrow> mgr_ok (snd (Start i now m))"
proof (cases "GetInstance i (mgStore m)")
  case None
  then show "mgr_ok m \<Longrightarrow> ?thesis" by (simp add: Start_def)
next
  case (Some cfg)
  assume ok: "mgr_ok m"
  show ?thesis
  proof (cases "mgRunners m i")
    case None
    let ?r = "seedRuntime (startSeed now i m) (NewRunner cfg True)"
    let ?m = "m\<lparr>mgRunners := (mgRunners m)(i \<mapsto> mgNext m),
      mgObjects := (mgObjects m)(mgNext m := ?r), mgNext := mgNext m + 1\<rparr>"
    have "cfgID (rnCfg ?r) = i" using GetInstance_ID[OF Some] by (simp add: NewRunner_def)
    with ok None have "runners_ok ?m" by (intro runners_ok_insert) (simp_all add: mgr_ok_def)
    with ok have "mgr_ok ?m" by (simp add: mgr_ok_def channels_ok_def)
    with Some None show ?thesis by (simp add: Start_def Let_def setStatusLocked_ok)
  qed (use ok Some in \<open>simp add: Start_def\<close>)
qed

lemma dropRunner_ok: "mgr_ok m \<Longrightarrow> mgr_ok (m\<lparr>mgRunners := (mgRunners m)(i := None)\<rparr>)"
  by (auto simp: mgr_ok_def channels_ok_def runners_ok_def inj_on_def dom_def)

lemma runnerFinished_ok: "mgr_ok m \<Longrightarrow> mgr_ok (runnerFinished i rid now m)"
  by (simp add: runnerFinished_def Let_def dropRunner_ok setStatusLocked_ok)

lemma closeAll_frame [simp]:
  "rnCfg (fold closeConn cs r) = rnCfg r" "rnCancelled (fold closeConn cs r) = rnCancelled r"
  by (induction cs arbitrary: r) (simp_all add: closeConn_def)

lemma runnerStop_cfg [simp]: "rnCfg (runnerStop r) = rnCfg r"
  by (simp add: runnerStop_def closeActive_def)

lemma setObject_ok:
  "mgr_ok m \<Longrightarrow> rnCfg r = rnCfg (mgObjects m rid) \<Longrightarrow> mgr_ok (m\<lparr>mgObjects := (mgObjects m)(rid := r)\<rparr>)"
  by (erule mgr_ok_cong) simp_all

lemma stopObject_ok:
  "mgr_ok m \<Longrightarrow> mgObjects m = f \<Longrightarrow> mgr_ok (m\<lparr>mgObjects := f(rid := runnerStop (f rid))\<rparr>)"
  using setObject_ok[of m "runnerStop (f rid)" rid] by simp

lemma Stop_ok: "mgr_ok m \<Longrightarrow> mgr_ok (snd (Stop i now fin m))"
  by (auto simp: Stop_def Let_def setStatusLocked_ok intro!: stopObject_ok split: option.split)

lemma StopAll_ok: "mgr_ok m \<Longrightarrow> mgr_ok (StopAll rids m)"
  unfolding StopAll_def by (induction rids arbitrary: m) (auto intro!: stopObject_ok)

lemma clearIf_ok:
  "mgr_ok m \<Longrightarrow> (\<And>k x. mgr_ok x \<Longrightarrow> mgr_ok (during k x)) \<Longrightarrow> mgr_ok (clearIf b i now io during m)"
  by (simp add: clearIf_def clearRuntime_def clearStatus_ok clearRecord_ok)

lemma ReplaceConfig_ok:
  assumes "mgr_ok m" and "\<And>k x. mgr_ok x \<Longrightarrow> mgr_ok (during k x)"
  shows "mgr_ok (snd (ReplaceConfig old cfg w now io during fin m))"
  using assms(1)
  by (auto simp: ReplaceConfig_def Let_def case_prod_beta split: option.split
      intro!: Start_ok assms(2) clearIf_ok dropRunner_ok Stop_ok stopObject_ok setStatusLocked_ok)

section \<open>What other goroutines leave alone\<close>

text \<open>
  The numbers of the runners are given once: no activity puts a runner that is not in charge of
  an instance in charge of it again. The other predicate says that between two managers no other
  request changed or started the instance; its runner may have ended.
\<close>

definition fresh_runners :: "manager \<Rightarrow> manager \<Rightarrow> bool" where
  "fresh_runners x y \<longleftrightarrow> mgNext x \<le> mgNext y \<and>
     (\<forall>i rid. rid < mgNext x \<and> mgRunners x i \<noteq> Some rid \<longrightarrow> mgRunners y i \<noteq> Some rid)"

definition nobody_else :: "string \<Rightarrow> manager \<Rightarrow> manager \<Rightarrow> bool" where
  "nobody_else i x y \<longleftrightarrow> GetInstance i (mgStore y) = GetInstance i (mgStore x) \<and>
     (mgRunners y i = mgRunners x i \<or> mgRunners y i = None)"

text \<open>Once the mapping of an instance that does not run is forgotten, it stays so.\<close>

definition stays_forgotten :: "string \<Rightarrow> manager \<Rightarrow> manager \<Rightarrow> bool" where
  "stays_forgotten i x y \<longleftrightarrow>
     (mgRunners x i = None \<longrightarrow> mgRunners y i = None) \<and>
     ((\<forall>t. stPublicAddress (statusForLocked t i x) = []) \<longrightarrow> (\<forall>t. stPublicAddress (statusForLocked t i y) = [])) \<and>
     (RuntimeStatus i (mgStore x) = None \<longrightarrow> RuntimeStatus i (mgStore y) = None)"

lemma fresh_runners_refl [simp]: "fresh_runners x x"
  by (simp add: fresh_runners_def)

lemma fresh_runners_trans: "fresh_runners x y \<Longrightarrow> fresh_runners y z \<Longrightarrow> fresh_runners x z"
  unfolding fresh_runners_def by (meson less_le_trans order_trans)

lemma fresh_runners_kept:
  assumes "fresh_runners x y" and "rid < mgNext x" and "mgRunners x i \<noteq> Some rid"
  shows "rid < mgNext y" "mgRunners y i \<noteq> Some rid"
  using assms by (auto simp: fresh_runners_def)

lemma fresh_runners_same: "mgRunners y = mgRunners x \<Longrightarrow> mgNext y = mgNext x \<Longrightarrow> fresh_runners x y"
  by (simp add: fresh_runners_def)

lemma fresh_runners_drop: "mgRunners y = (mgRunners x)(i := None) \<Longrightarrow> mgNext y = mgNext x \<Longrightarrow> fresh_runners x y"
  by (simp add: fresh_runners_def)

lemma fresh_runners_Start: "fresh_runners m (snd (Start i now m))"
  by (auto simp: fresh_runners_def Start_def Let_def split: option.split)

lemma clearRuntime_runners:
  "mgRunners (clearStatus i now m) = mgRunners m" "mgNext (clearStatus i now m) = mgNext m"
  "mgRunners (clearRecord i io m) = mgRunners m" "mgNext (clearRecord i io m) = mgNext m"
  by (simp_all add: clearStatus_def clearRecord_def Let_def split: prod.split)

lemma fresh_runners_clearIf:
  assumes "\<And>k x. 0 < k \<Longrightarrow> fresh_runners x (during k x)"
  shows "fresh_runners m (clearIf b i now io during m)"
proof -
  let ?x = "during beforeClear m" and ?y = "during insideClear (clearStatus i now (during beforeClear m))"
  have "fresh_runners m ?x" by (rule assms) simp
  also have "fresh_runners ?x (clearStatus i now ?x)"
    by (rule fresh_runners_same) (simp_all add: clearRuntime_runners)
  also (fresh_runners_trans) have "fresh_runners (clearStatus i now ?x) ?y" by (rule assms) simp
  also (fresh_runners_trans) have "fresh_runners ?y (clearRecord i io ?y)"
    by (rule fresh_runners_same) (simp_all add: clearRuntime_runners)
  finally (fresh_runners_trans) show ?thesis by (simp add: clearIf_def clearRuntime_def)
qed

section \<open>Subscriptions\<close>

lemma SubscribeRuntime_ok: "mgr_ok m \<Longrightarrow> mgr_ok (snd (SubscribeRuntime m))"
  by (force simp: SubscribeRuntime_def Let_def mgr_ok_def channels_ok_def runners_ok_def)

lemma unsubscribe_ok: "mgr_ok m \<Longrightarrow> mgr_ok (unsubscribe c m)"
  by (auto simp: unsubscribe_def mgr_ok_def channels_ok_def runners_ok_def)

lemma receiveEvent_ok: "mgr_ok m \<Longrightarrow> mgr_ok (snd (receiveEvent c m))"
proof (cases "chBuffer (mgChannels m c)")
  case Nil
  then show "mgr_ok m \<Longrightarrow> ?thesis" by (simp add: receiveEvent_def)
next
  case (Cons e es)
  assume ok: "mgr_ok m"
  have "length (e # es) \<le> subscriberBuffer" using ok Cons[symmetric] by (simp add: mgr_ok_def channels_ok_def)
  with ok Cons show ?thesis
    by (auto simp: receiveEvent_def mgr_ok_def channels_ok_def runners_ok_def)
qed

end
