(* ===== verification/Manager_Props.thy ===== *)
theory Manager_Props
  imports Manager_Correct
begin

text \<open>The reachable managers, and the properties of the manager.\<close>

section \<open>Reachable managers\<close>

text \<open>
  Any interleaving of the manager's operations with any arguments, of the activity of its
  runners, and of operations on the store. What happens where \<open>ReplaceConfig\<close> does not hold the
  mutex is any function that keeps the invariant.
\<close>

inductive mgr_step :: "manager \<Rightarrow> manager \<Rightarrow> bool" where
  ms_report: "mgr_step m (report i u now io m)"
| ms_start: "mgr_step m (snd (Start i now m))"
| ms_stop: "mgr_step m (snd (Stop i now fin m))"
| ms_stop_all: "mgr_step m (StopAll rids m)"
| ms_finished: "mgr_step m (runnerFinished i rid now m)"
| ms_replace: "(\<And>k x. mgr_ok x \<Longrightarrow> mgr_ok (during k x)) \<Longrightarrow>
    mgr_step m (snd (ReplaceConfig old cfg w now io during fin m))"
| ms_check: "mgr_step m (snd (CheckTCPPort i dial now io m))"
| ms_subscribe: "mgr_step m (snd (SubscribeRuntime m))"
| ms_unsubscribe: "mgr_step m (unsubscribe c m)"
| ms_receive: "mgr_step m (snd (receiveEvent c m))"
| ms_runner: "rnCfg r = rnCfg (mgObjects m rid) \<Longrightarrow> mgr_step m (m\<lparr>mgObjects := (mgObjects m)(rid := r)\<rparr>)"
| ms_store: "store_step (mgStore m, mgDisk m) (s, d) \<Longrightarrow> mgr_step m (m\<lparr>mgStore := s, mgDisk := d\<rparr>)"

inductive_cases mgr_stepE: "mgr_step m m'"

inductive mgr_reach :: "manager \<Rightarrow> bool" where
  mr_new: "mgr_reach (NewManager s d)"
| mr_step: "mgr_reach m \<Longrightarrow> mgr_step m m' \<Longrightarrow> mgr_reach m'"

lemma CheckTCPPort_ok: "mgr_ok m \<Longrightarrow> mgr_ok (snd (CheckTCPPort i dial now io m))"
  by (simp add: CheckTCPPort_def Let_def report_ok split: option.split)

lemma NewManager_ok: "mgr_ok (NewManager s d)"
  by (simp add: NewManager_def mgr_ok_def channels_ok_def runners_ok_def)

lemma mgr_step_ok: "mgr_step m m' \<Longrightarrow> mgr_ok m \<Longrightarrow> mgr_ok m'"
proof (induction rule: mgr_step.induct)
  case (ms_store m s d)
  from ms_store(2) show ?case by (rule mgr_ok_cong) simp_all
qed (simp_all add: report_ok Start_ok Stop_ok StopAll_ok runnerFinished_ok ReplaceConfig_ok CheckTCPPort_ok
    SubscribeRuntime_ok unsubscribe_ok receiveEvent_ok setObject_ok)

lemma mgr_reach_ok: "mgr_reach m \<Longrightarrow> mgr_ok m"
  by (induction rule: mgr_reach.induct) (simp_all add: NewManager_ok mgr_step_ok)

section \<open>A sample manager\<close>

definition demoManager :: manager where
  "demoManager = snd (SubscribeRuntime (NewManager demoStore2 demoDisk2))"

lemma demo_manager_reach: "mgr_reach demoManager"
  unfolding demoManager_def by (rule mr_step[OF mr_new ms_subscribe])

lemma demo_manager_fields [simp]:
  "mgStore demoManager = demoStore2" "mgDisk demoManager = demoDisk2" "mgRunners demoManager i = None"
  "mgStatus demoManager i = None" "mgSubscribers demoManager = [0]" "mgNext demoManager = 0"
  "mgChannels demoManager 0 = \<lparr>chBuffer = [], chClosed = False\<rparr>"
  by (simp_all add: demoManager_def SubscribeRuntime_def NewManager_def Let_def)

definition webResolved :: instanceConfig where
  "webResolved = resolveConfigLocked (options demoStore) webConfig"

lemma demo_get: "GetInstance ''web'' demoStore2 = Some webResolved"
  by (simp add: GetInstance_def webResolved_def)

lemma web_resolved_id [simp]: "cfgID webResolved = ''web''"
  by (simp add: webResolved_def)

section \<open>Properties\<close>

text \<open>
  C6: In every reachable manager no event was sent on a closed channel, every subscription of
  the list is open and buffers at most 64 events, no instance keeps more than 100 log lines,
  an instance that is stopping or stopped shows no keepalive, and the running instances have
  different runners, each made from the configuration of its instance.
\<close>

theorem manager_invariant:
  assumes "mgr_reach m"
  shows "\<not> mgPanicked m \<and>
    (\<forall>c \<in> set (mgSubscribers m). \<not> chClosed (mgChannels m c) \<and> length (chBuffer (mgChannels m c)) \<le> 64) \<and>
    length (stLogs (statusForLocked now i m)) \<le> 100 \<and>
    (stState (statusForLocked now i m) \<in> {StateStopping, StateStopped} \<longrightarrow>
       stKeepAlive (statusForLocked now i m) = zeroKeepAlive) \<and>
    (mgRunners m i = Some rid \<longrightarrow> cfgID (rnCfg (mgObjects m rid)) = i \<and>
       (\<forall>j. mgRunners m j = Some rid \<longrightarrow> j = i))"
proof -
  from mgr_reach_ok[OF assms] have ok: "mgr_ok m" .
  then have "channels_ok m" and ru: "runners_ok m" by (simp_all add: mgr_ok_def)
  moreover from ru have "mgRunners m i = Some rid \<longrightarrow> cfgID (rnCfg (mgObjects m rid)) = i \<and>
       (\<forall>j. mgRunners m j = Some rid \<longrightarrow> j = i)"
    unfolding runners_ok_def by blast
  ultimately show ?thesis
    using status_ok_for[OF ok, of now i]
    by (simp add: channels_ok_def subscriberBuffer_def status_ok_def maxLogs_def stateBlocksKeepAlive_def)
qed

lemma manager_invariant_witness:
  "mgr_reach (snd (Start ''web'' 7 demoManager)) \<and> \<not> mgPanicked (snd (Start ''web'' 7 demoManager)) \<and>
   IsRunning ''web'' (snd (Start ''web'' 7 demoManager))"
proof -
  have r: "mgr_reach (snd (Start ''web'' 7 demoManager))" by (rule mr_step[OF demo_manager_reach ms_start])
  from manager_invariant[OF r] r show ?thesis
    by (simp add: IsRunning_def Start_def demo_get Let_def)
qed

text \<open>
  C29: Every report reaches every subscriber: its buffer ends with the new status of the
  instance, and when the buffer was full it is the oldest event that was dropped, so a slow
  reader always sees the latest status.
\<close>

theorem report_reaches_subscribers:
  assumes "mgr_reach m" and "c \<in> set (mgSubscribers m)"
  shows "chBuffer (mgChannels (report i u now io m) c) =
    last_n 64 (chBuffer (mgChannels m c) @
      [\<lparr>evID = i, evRuntime = runtimeWithServerAges (statusForLocked now i (report i u now io m)) now\<rparr>])"
proof -
  have "channels_ok m" using mgr_reach_ok[OF assms(1)] by (simp add: mgr_ok_def)
  moreover from this have "length (chBuffer (mgChannels m c)) \<le> subscriberBuffer"
    by (simp add: channels_ok_def)
  moreover have "statusForLocked now i (report i u now io m) = mergeReport now u (statusForLocked now i m)"
    by (simp add: statusForLocked_def[of _ _ "report i u now io m"] report_fields)
  ultimately show ?thesis
    using assms(2) by (simp add: report_fields putStatus_channels pushEvent_eq) (simp add: subscriberBuffer_def)
qed

lemma report_reaches_subscribers_witness:
  "length (chBuffer (mgChannels (report ''web'' (zeroStatus\<lparr>stState := StateError\<rparr>) 9 okIO demoManager) 0)) = 1"
proof -
  have "0 \<in> set (mgSubscribers demoManager)" by simp
  from report_reaches_subscribers[OF demo_manager_reach this] show ?thesis by simp
qed

definition keepReport :: "time \<Rightarrow> string \<Rightarrow> string \<Rightarrow> runtimeStatus" where
  "keepReport now state host = zeroStatus\<lparr>stKeepAlive := zeroKeepAlive\<lparr>kaState := state, kaProtocol := ''tcp'',
     kaAddress := host, kaPort := 80, kaConnectedAt := now\<rparr>\<rparr>"

section \<open>The instant since which an instance is connected\<close>

text \<open>A series of reports, of any instances; and what the reports of one instance say of its keepalive,
  the latest first.\<close>

type_synonym reportCall = "string \<times> runtimeStatus \<times> time \<times> io"

definition reports :: "reportCall list \<Rightarrow> manager \<Rightarrow> manager" where
  "reports rs m = fold (\<lambda>(j, u, now, io). report j u now io) rs m"

definition keepAlivesOf :: "string \<Rightarrow> reportCall list \<Rightarrow> keepAlive list" where
  "keepAlivesOf i rs =
     rev (filter (\<lambda>k. kaState k \<noteq> []) (map (\<lambda>(j, u, now, io). stKeepAlive u) (filter (\<lambda>(j, _). j = i) rs)))"

text \<open>The start of the series of reports that the latest one belongs to.\<close>

definition sameConnection :: "keepAlive \<Rightarrow> keepAlive \<Rightarrow> bool" where
  "sameConnection k k' \<longleftrightarrow> kaState k = KeepAliveConnected \<and> kaState k' = KeepAliveConnected \<and>
     kaProtocol k = kaProtocol k' \<and> kaAddress k = kaAddress k' \<and> kaPort k = kaPort k'"

fun connectedSince :: "keepAlive list \<Rightarrow> time" where
  "connectedSince [] = 0"
| "connectedSince [k] = kaConnectedAt k"
| "connectedSince (k # k' # ks) = (if sameConnection k k' then connectedSince (k' # ks) else kaConnectedAt k)"

definition shownKeepAlive :: "keepAlive list \<Rightarrow> keepAlive" where
  "shownKeepAlive ks = (case ks of [] \<Rightarrow> zeroKeepAlive | k # _ \<Rightarrow> k\<lparr>kaConnectedAt := connectedSince ks\<rparr>)"

text \<open>A report that a run begun at \<open>s\<close> makes before it ends.\<close>

definition reportOfRun :: "time \<Rightarrow> runtimeStatus \<Rightarrow> bool" where
  "reportOfRun s u \<longleftrightarrow> stStartedAt u = None \<and> stState u \<notin> {StateStopping, StateStopped} \<and>
     (kaState (stKeepAlive u) = KeepAliveConnected \<longrightarrow>
        kaConnectedAt (stKeepAlive u) \<noteq> 0 \<and> s \<le> kaConnectedAt (stKeepAlive u))"

lemma connectedSince_run:
  "\<forall>k \<in> set ks. kaState k = KeepAliveConnected \<longrightarrow> kaConnectedAt k \<noteq> 0 \<and> s \<le> kaConnectedAt k \<Longrightarrow>
     ks \<noteq> [] \<Longrightarrow> kaState (hd ks) = KeepAliveConnected \<Longrightarrow> connectedSince ks \<noteq> 0 \<and> s \<le> connectedSince ks"
  by (induction ks rule: connectedSince.induct) (auto simp: sameConnection_def)

lemma merge_in_run:
  assumes "stStartedAt c = Some s" and "\<not> stateBlocksKeepAlive (stState c)"
    and "stKeepAlive c = shownKeepAlive ks" and "reportOfRun s u"
    and "\<forall>k \<in> set ks. kaState k = KeepAliveConnected \<longrightarrow> kaConnectedAt k \<noteq> 0 \<and> s \<le> kaConnectedAt k"
  shows "stStartedAt (mergeReport now u c) = Some s" "\<not> stateBlocksKeepAlive (stState (mergeReport now u c))"
    "stKeepAlive (mergeReport now u c) =
      shownKeepAlive (if kaState (stKeepAlive u) = [] then ks else stKeepAlive u # ks)"
proof -
  show 1: "stStartedAt (mergeReport now u c) = Some s" "\<not> stateBlocksKeepAlive (stState (mergeReport now u c))"
    using assms(1,2,4) by (auto simp: mergeReport_fields reportOfRun_def stateBlocksKeepAlive_def)
  have "clearedKeepAlive u c = shownKeepAlive ks"
    using assms(3,4) by (auto simp: clearedKeepAlive_def reportClearsKeepAlive_def reportOfRun_def)
  moreover have "mergeKeepAlive (zeroStatus\<lparr>stKeepAlive := shownKeepAlive ks, stStartedAt := Some s\<rparr>) k =
      shownKeepAlive (k # ks)" for k
  proof (cases ks)
    case Nil
    then show ?thesis by (simp add: mergeKeepAlive_def shownKeepAlive_def Let_def zeroKeepAlive_def)
  next
    case (Cons k' ks')
    with connectedSince_run[OF assms(5)] show ?thesis
      by (auto simp: mergeKeepAlive_def shownKeepAlive_def sameConnection_def Let_def is_zero_time_def
          keepAliveConnectedAtBelongsToRun_def)
  qed
  ultimately show "stKeepAlive (mergeReport now u c) =
      shownKeepAlive (if kaState (stKeepAlive u) = [] then ks else stKeepAlive u # ks)"
    using 1 by (simp add: mergeReport_keepAlive)
qed

lemma reports_in_run:
  assumes "mgStatus m i = Some c" and "stStartedAt c = Some s" and "\<not> stateBlocksKeepAlive (stState c)"
    and "stKeepAlive c = zeroKeepAlive"
    and "\<forall>(j, u, now, io) \<in> set rs. j = i \<longrightarrow> reportOfRun s u"
  shows "\<exists>c'. mgStatus (reports rs m) i = Some c' \<and> stStartedAt c' = Some s \<and>
    \<not> stateBlocksKeepAlive (stState c') \<and> stKeepAlive c' = shownKeepAlive (keepAlivesOf i rs)"
  using assms(5)
proof (induction rs rule: rev_induct)
  case Nil
  with assms show ?case by (simp add: reports_def keepAlivesOf_def shownKeepAlive_def)
next
  case (snoc r rs)
  obtain j u now io where r: "r = (j, u, now, io)" by (cases r)
  from snoc obtain c' where c': "mgStatus (reports rs m) i = Some c'" "stStartedAt c' = Some s"
    "\<not> stateBlocksKeepAlive (stState c')" "stKeepAlive c' = shownKeepAlive (keepAlivesOf i rs)" by auto
  have step: "reports (rs @ [r]) m = report j u now io (reports rs m)" by (simp add: reports_def r)
  have ks: "keepAlivesOf i (rs @ [r]) = (if j = i \<and> kaState (stKeepAlive u) \<noteq> []
      then stKeepAlive u # keepAlivesOf i rs else keepAlivesOf i rs)" by (simp add: keepAlivesOf_def r)
  show ?case
  proof (cases "j = i")
    case True
    have all: "\<forall>k \<in> set (keepAlivesOf i rs). kaState k = KeepAliveConnected \<longrightarrow> kaConnectedAt k \<noteq> 0 \<and> s \<le> kaConnectedAt k"
      using snoc.prems by (auto simp: keepAlivesOf_def reportOfRun_def)
    have "reportOfRun s u" using snoc.prems r True by simp
    from merge_in_run[OF c'(2-4) this all, of now] True c'(1) show ?thesis
      unfolding step ks by (auto simp: report_fields statusForLocked_def)
  next
    case False
    with c' show ?thesis unfolding step ks by (simp add: report_fields)
  qed
qed

text \<open>
  C9: Over a whole run, with reports of other instances in between, the keepalive that is shown is the
  latest one reported, and the instant since which it is connected is the one of the first report
  of the series of reports of the same connection: it stays while the connection lasts, and is a
  new one after a lost connection or when another server is used. Nothing is left from before the
  run. The connections of the run are reported with instants not before its start.
\<close>

theorem connected_since_is_kept:
  assumes "stState b = StateStarting" and "stStartedAt b = Some s" and "kaState (stKeepAlive b) = []"
    and "\<forall>(j, u, now, io) \<in> set rs. j = i \<longrightarrow> reportOfRun s u"
  shows "stKeepAlive (statusForLocked t i (reports rs (report i b now0 io0 m))) =
    shownKeepAlive (keepAlivesOf i rs)"
proof -
  let ?c = "mergeReport now0 b (statusForLocked now0 i m)"
  have "mgStatus (report i b now0 io0 m) i = Some ?c" by (simp add: report_fields)
  moreover have "stStartedAt ?c = Some s" "\<not> stateBlocksKeepAlive (stState ?c)"
    using assms(1,2) by (simp_all add: mergeReport_fields stateBlocksKeepAlive_def)
  moreover have "stKeepAlive ?c = zeroKeepAlive"
    using assms(1-3) by (simp add: mergeReport_keepAlive clearedKeepAlive_def reportClearsKeepAlive_def)
  ultimately obtain c' where "mgStatus (reports rs (report i b now0 io0 m)) i = Some c'"
    "stKeepAlive c' = shownKeepAlive (keepAlivesOf i rs)" using reports_in_run[OF _ _ _ _ assms(4)] by blast
  then show ?thesis by (simp add: statusForLocked_def)
qed

lemma connected_since_is_kept_witness:
  "kaConnectedAt (stKeepAlive (statusForLocked 90 ''web'' (reports
      [(''web'', keepReport 4 KeepAliveConnected ''1.2.3.4'', 4, okIO), (''dns'', keepReport 5 ''closed'' [], 5, okIO),
       (''web'', keepReport 6 ''closed'' ''1.2.3.4'', 6, okIO), (''web'', keepReport 7 KeepAliveConnected ''1.2.3.4'', 7, okIO),
       (''web'', zeroStatus, 8, okIO), (''web'', keepReport 9 KeepAliveConnected ''1.2.3.4'', 9, okIO)]
      (report ''web'' (zeroStatus\<lparr>stState := StateStarting, stStartedAt := Some 3\<rparr>) 3 okIO demoManager)))) = 7"
  by (subst connected_since_is_kept[where s = 3])
    (simp_all add: zeroStatus_def zeroKeepAlive_def keepReport_def reportOfRun_def keepAlivesOf_def
      shownKeepAlive_def sameConnection_def)

text \<open>The effect of a start on an instance that is not running.\<close>

lemma Start_new:
  assumes "GetInstance i (mgStore m) = Some cfg" and "mgRunners m i = None"
  shows "fst (Start i now m) = Inr () \<and> mgRunners (snd (Start i now m)) = (mgRunners m)(i \<mapsto> mgNext m) \<and>
    mgObjects (snd (Start i now m)) (mgNext m) = seedRuntime (startSeed now i m) (NewRunner cfg True) \<and>
    stState (statusForLocked t i (snd (Start i now m))) = StateStarting \<and>
    mgStore (snd (Start i now m)) = mgStore m"
  using assms by (simp add: Start_def Let_def setStatusLocked_state)

lemma Start_inv: "Start i now m = (Inr u, m') \<Longrightarrow> \<exists>cfg. GetInstance i (mgStore m) = Some cfg"
  by (auto simp: Start_def split: option.splits)

lemma Start_running: "Start i now m = (Inr u, m') \<Longrightarrow> mgRunners m i = Some x \<Longrightarrow> m' = m"
  by (simp add: Start_def split: option.splits)

text \<open>
  C10: Replacing the configuration of a running instance ends with another runner than the
  old one in charge, whatever happened while it waited; and when the goroutine of the old
  runner finishes late, it changes nothing. After the wait, where the mutex is free, others do
  not put the old runner in charge again, which no operation of the manager does
  (\<open>operations_are_fresh\<close>, \<open>replacements_are_fresh\<close>).
\<close>

theorem replaced_runner_is_safe:
  assumes "mgr_reach m" and "mgRunners m (cfgID cfg) = Some old" and "cfgEnabled cfg"
    and "\<And>x. mgNext x \<le> mgNext (during whileWaiting x)"
    and "\<And>k x. 0 < k \<Longrightarrow> fresh_runners x (during k x)"
    and "ReplaceConfig oldCfg cfg True now io during True m = (Inr u, m')"
  shows "\<exists>new. mgRunners m' (cfgID cfg) = Some new \<and> new \<noteq> old \<and>
    runnerFinished (cfgID cfg) old t m' = m'"
proof -
  let ?i = "cfgID cfg"
  let ?m1 = "setStatusLocked now ?i StateStopping ''restarting instance'' None m"
  define m3 where "m3 = during whileWaiting (?m1\<lparr>mgObjects := (mgObjects ?m1)(old := runnerStop (mgObjects ?m1 old))\<rparr>)"
  define m4 where "m4 = (if mgRunners m3 ?i = Some old then m3\<lparr>mgRunners := (mgRunners m3)(?i := None)\<rparr> else m3)"
  define m5 where "m5 = clearIf (publicMappingConfigChanged oldCfg cfg) ?i now io during m4"
  define m6 where "m6 = during beforeStart m5"
  from assms(2,3,6) have st: "Start ?i now m6 = (Inr u, m')"
    by (simp add: ReplaceConfig_def Let_def m6_def m5_def m4_def m3_def split del: if_split cong: if_cong)
  from mgr_reach_ok[OF assms(1)] assms(2) have "old < mgNext m" by (auto simp: mgr_ok_def runners_ok_def)
  also have "mgNext m \<le> mgNext m3" unfolding m3_def by (rule order_trans[OF _ assms(4)]) simp
  finally have "old < mgNext m4" "mgRunners m4 ?i \<noteq> Some old" by (simp_all add: m4_def)
  moreover have "fresh_runners m4 m6"
    unfolding m6_def m5_def
    by (rule fresh_runners_trans[OF fresh_runners_clearIf assms(5)]) (simp_all add: assms(5))
  ultimately have ne: "mgRunners m6 ?i \<noteq> Some old" and lt: "old < mgNext m6"
    using fresh_runners_kept by blast+
  obtain new where new: "mgRunners m' ?i = Some new" "new \<noteq> old"
  proof (cases "mgRunners m6 ?i")
    case None
    obtain c where c: "GetInstance ?i (mgStore m6) = Some c" using Start_inv[OF st] by blast
    from Start_new[OF c None, of now] st lt show ?thesis by (intro that[of "mgNext m6"]) auto
  next
    case (Some x)
    with Start_running[OF st Some] ne show ?thesis by (intro that[of x]) simp_all
  qed
  then show ?thesis by (simp add: runnerFinished_def)
qed

text \<open>The two conditions hold for every operation of the manager.\<close>

lemma operations_are_fresh:
  "fresh_runners m (report i u now io m)" "fresh_runners m (snd (Start i now m))"
  "fresh_runners m (snd (Stop i now fin m))" "fresh_runners m (runnerFinished i rid now m)"
  "fresh_runners m (snd (CheckTCPPort i dial now io m))" "fresh_runners m (snd (SubscribeRuntime m))"
  "fresh_runners m (unsubscribe c m)" "fresh_runners m (snd (receiveEvent c m))"
proof -
  show "fresh_runners m (snd (Stop i now fin m))"
    by (rule fresh_runners_same) (simp_all add: Stop_def Let_def split: option.split)
  show "fresh_runners m (runnerFinished i rid now m)"
    by (cases "mgRunners m i = Some rid")
      (auto simp: runnerFinished_def Let_def intro!: fresh_runners_drop[of _ _ i])
  show "fresh_runners m (snd (CheckTCPPort i dial now io m))"
    by (rule fresh_runners_same) (simp_all add: CheckTCPPort_def Let_def report_fields split: option.split)
qed (rule fresh_runners_Start fresh_runners_same; simp add: report_fields SubscribeRuntime_def unsubscribe_def
    receiveEvent_def Let_def split: list.split)+

lemma replacements_are_fresh:
  assumes "\<And>k x. fresh_runners x (during k x)"
  shows "fresh_runners m (snd (ReplaceConfig old cfg w now io during fin m))"
proof -
  let ?i = "cfgID cfg" and ?b = "publicMappingConfigChanged old cfg"
  have clear: "fresh_runners x (clearIf ?b ?i now io during x)" for x by (rule fresh_runners_clearIf) (rule assms)
  have start: "fresh_runners x (snd (Start ?i now (during k (clearIf ?b ?i now io during x))))" for x k
    using clear assms[of "clearIf ?b ?i now io during x" k] fresh_runners_Start by (meson fresh_runners_trans)
  have stop: "fresh_runners m (clearIf ?b ?i now io during (during k (snd (Stop ?i now fin m))))" for k
    using operations_are_fresh(3)[of m] assms clear by (meson fresh_runners_trans)
  have wait: "fresh_runners m (during k ((setStatusLocked now ?i st msg None m)\<lparr>mgObjects := f\<rparr>))" for k st msg f
    by (rule fresh_runners_trans[OF fresh_runners_same assms]) simp_all
  have drop: "fresh_runners m (snd (Start ?i now (during k (clearIf ?b ?i now io during (x\<lparr>mgRunners := (mgRunners x)(?i := None)\<rparr>)))))"
    if "fresh_runners m x" for x k
    by (rule fresh_runners_trans[OF that fresh_runners_trans[OF fresh_runners_drop start]]) simp_all
  show ?thesis
    using start stop wait drop[OF wait] fresh_runners_trans[OF wait start]
    by (auto simp: ReplaceConfig_def Let_def case_prod_beta split: option.split)
qed

lemma start_web: "Start ''web'' 7 demoManager = (Inr (), snd (Start ''web'' 7 demoManager))"
  by (simp add: Start_def demo_get Let_def)

lemma start_web_runs: "mgRunners (snd (Start ''web'' 7 demoManager)) ''web'' = Some 0"
  by (simp add: Start_def demo_get Let_def)

definition webEnabled :: instanceConfig where
  "webEnabled = webResolved\<lparr>cfgEnabled := True, cfgBindPort := ''7000''\<rparr>"

lemma web_enabled_fields [simp]:
  "cfgID webEnabled = ''web''" "cfgEnabled webEnabled" "cfgBindPort webEnabled = ''7000''"
  by (simp_all add: webEnabled_def)

lemma clearStatus_fields [simp]:
  "mgObjects (clearStatus i now m) = mgObjects m" "mgStore (clearStatus i now m) = mgStore m"
  "mgRunners (clearStatus i now m) = mgRunners m"
  "stPublicAddress (statusForLocked t i (clearStatus i now m)) = []"
  by (simp_all add: clearStatus_def statusForLocked_def Let_def)

lemma clearRecord_fields [simp]:
  "mgObjects (clearRecord i io m) = mgObjects m" "mgRunners (clearRecord i io m) = mgRunners m"
  "statusForLocked t j (clearRecord i io m) = statusForLocked t j m"
  by (simp_all add: clearRecord_def statusForLocked_def split: prod.split)

lemma clearRecord_record: "i \<noteq> [] \<Longrightarrow> RuntimeStatus i (mgStore (clearRecord i io m)) = None"
  using rt.lookup_clear[of i io "(mgStore m, mgDisk m)"]
  by (cases "clearRuntimeRecord io i (mgStore m, mgDisk m)") (simp add: clearRecord_def lookupRuntime_def)

lemma GetInstance_clear [simp]: "GetInstance j (mgStore (clearRecord i io m)) = GetInstance j (mgStore m)"
proof -
  obtain s d where sd: "clearRuntimeRecord io i (mgStore m, mgDisk m) = (s, d)"
    by (cases "clearRuntimeRecord io i (mgStore m, mgDisk m)")
  then have "s = fst (snd (ClearRuntimeStatus i io (mgStore m) (mgDisk m)))" by (simp add: clearRuntimeRecord_def)
  then have "items s = items (mgStore m) \<and> options s = options (mgStore m)"
    by (simp add: ClearRuntimeStatus_def saveLocked_store)
  with sd show ?thesis by (simp add: GetInstance_def clearRecord_def)
qed

lemma GetInstance_report: "GetInstance j (mgStore (report i u now io m)) = GetInstance j (mgStore m)"
proof -
  let ?st = "mergeReport now u (statusForLocked now i m)"
  obtain s d where sd: "saveRuntime io i ?st (mgStore m, mgDisk m) = (s, d)"
    by (cases "saveRuntime io i ?st (mgStore m, mgDisk m)")
  then have "s = fst (snd (SaveRuntimeStatus i ?st io (mgStore m) (mgDisk m)))" by (simp add: saveRuntime_def)
  then have "items s = items (mgStore m) \<and> options s = options (mgStore m)"
    by (simp add: SaveRuntimeStatus_def Let_def saveLocked_store split: option.split)
  with sd show ?thesis by (simp add: GetInstance_def report_def Let_def)
qed

text \<open>
  What stays forgotten: the end of a runner, a report that names no public endpoint (the check of the
  port, say), and whatever is done for other instances change nothing of it.
\<close>

lemma address_setStatus:
  "stPublicAddress (statusForLocked t i (setStatusLocked now i s msg e m)) = stPublicAddress (statusForLocked now i m)"
  using setStatusLocked_eq[of now i s msg e m] by (auto simp: statusForLocked_def)

lemma stays_forgotten_same:
  "mgRunners y i = mgRunners x i \<or> mgRunners y i = None \<Longrightarrow>
   (\<And>t. \<exists>t'. stPublicAddress (statusForLocked t i y) = stPublicAddress (statusForLocked t' i x)) \<Longrightarrow>
   RuntimeStatus i (mgStore y) = RuntimeStatus i (mgStore x) \<Longrightarrow> stays_forgotten i x y"
  unfolding stays_forgotten_def by metis

lemma activity_stays_forgotten:
  "stays_forgotten i m (runnerFinished j rid now m)"
  "stPublicAddress u = [] \<Longrightarrow> stPublicPort u = 0 \<Longrightarrow> stPublicUpdatedAt u = 0 \<Longrightarrow>
     stays_forgotten i m (report i u now io m)"
  "j \<noteq> i \<Longrightarrow> stays_forgotten i m (report j u now io m)"
  "j \<noteq> i \<Longrightarrow> stays_forgotten i m (snd (Start j now m))"
proof -
  have drop: "statusForLocked t i (m\<lparr>mgRunners := f\<rparr>) = statusForLocked t i m" for t f by (simp add: statusForLocked_def)
  have other: "statusForLocked t i (setStatusLocked now j s msg e x) = statusForLocked t i x" if "j \<noteq> i" for t s msg e x
    using that by (simp add: statusForLocked_def setStatusLocked_other)
  show "stays_forgotten i m (runnerFinished j rid now m)"
  proof (rule stays_forgotten_same)
    show "\<exists>t'. stPublicAddress (statusForLocked t i (runnerFinished j rid now m)) = stPublicAddress (statusForLocked t' i m)" for t
      by (cases "j = i")
        (auto simp: runnerFinished_def Let_def address_setStatus other drop intro: exI[of _ now] exI[of _ t])
  qed (simp_all add: runnerFinished_def Let_def)
  show "stays_forgotten i m (report i u now io m)"
    if "stPublicAddress u = []" "stPublicPort u = 0" "stPublicUpdatedAt u = 0"
  proof (rule stays_forgotten_same)
    show "\<exists>t'. stPublicAddress (statusForLocked t i (report i u now io m)) = stPublicAddress (statusForLocked t' i m)" for t
      using that by (intro exI[of _ now]) (simp add: statusForLocked_def[of t] report_fields mergeReport_fields orKeep_def)
  qed (use that in \<open>simp_all add: report_fields, simp add: report_def Let_def is_zero_time_def\<close>)
  show "stays_forgotten i m (report j u now io m)" if ji: "j \<noteq> i"
  proof (rule stays_forgotten_same)
    show "\<exists>t'. stPublicAddress (statusForLocked t i (report j u now io m)) = stPublicAddress (statusForLocked t' i m)" for t
      using ji by (intro exI[of _ t]) (simp add: statusForLocked_def report_fields)
    let ?st = "mergeReport now u (statusForLocked now j m)"
    have "lookupRuntime i (saveRuntime io j ?st (mgStore m, mgDisk m)) = lookupRuntime i (mgStore m, mgDisk m)"
      using rt.lookup_save_other[of i j io ?st "(mgStore m, mgDisk m)"] ji by simp
    then show "RuntimeStatus i (mgStore (report j u now io m)) = RuntimeStatus i (mgStore m)"
      by (cases "saveRuntime io j ?st (mgStore m, mgDisk m)") (simp add: report_def Let_def lookupRuntime_def)
  qed (simp add: report_fields)
  show "stays_forgotten i m (snd (Start j now m))" if "j \<noteq> i"
  proof (rule stays_forgotten_same)
    show "\<exists>t'. stPublicAddress (statusForLocked t i (snd (Start j now m))) = stPublicAddress (statusForLocked t' i m)" for t
      using that by (intro exI[of _ t]) (simp add: Start_def Let_def other statusForLocked_def[of t] setStatusLocked_other split: option.split)
  qed (use that in \<open>simp_all add: Start_def Let_def split: option.split\<close>)
qed

text \<open>A stopped instance whose mapping is known nowhere.\<close>

definition forgotten :: "string \<Rightarrow> manager \<Rightarrow> bool" where
  "forgotten i m \<longleftrightarrow> RuntimeStatus i (mgStore m) = None \<and> (\<forall>t. stPublicAddress (statusForLocked t i m) = [])"

lemma clearIf_forgets:
  assumes "i \<noteq> []" and "\<And>k x. 0 < k \<Longrightarrow> stays_forgotten i x (during k x)"
  shows "forgotten i (clearIf True i now io during m)"
    "mgRunners m i = None \<Longrightarrow> mgRunners (clearIf True i now io during m) i = None"
proof -
  let ?x = "clearStatus i now (during beforeClear m)"
  have 1: "stays_forgotten i m (during beforeClear m)" "stays_forgotten i ?x (during insideClear ?x)"
    by (rule assms(2), simp)+
  then have "\<forall>t. stPublicAddress (statusForLocked t i (during insideClear ?x)) = []"
    by (simp add: stays_forgotten_def)
  then show "forgotten i (clearIf True i now io during m)"
    by (simp add: forgotten_def clearIf_def clearRuntime_def clearRecord_record assms(1))
  show "mgRunners m i = None \<Longrightarrow> mgRunners (clearIf True i now io during m) i = None"
    using 1 by (simp add: stays_forgotten_def clearIf_def clearRuntime_def)
qed

lemma Start_forgotten:
  assumes "mgRunners m i = None" and "forgotten i m" and "Start i now m = (Inr u, m')"
  shows "\<exists>rid. mgRunners m' i = Some rid \<and> rnLastMap (mgObjects m' rid) = None \<and> forgotten i m'"
proof -
  obtain cfg where cfg: "GetInstance i (mgStore m) = Some cfg" using Start_inv[OF assms(3)] by blast
  let ?r = "seedRuntime (startSeed now i m) (NewRunner cfg True)"
  let ?x = "m\<lparr>mgRunners := (mgRunners m)(i \<mapsto> mgNext m), mgObjects := (mgObjects m)(mgNext m := ?r),
    mgNext := mgNext m + 1\<rparr>"
  have x: "statusForLocked t i ?x = statusForLocked t i m" for t by (simp add: statusForLocked_def)
  obtain st where st: "setStatusLocked now i StateStarting [] None ?x = putStatus now i st ?x"
      "stPublicAddress st = stPublicAddress (statusForLocked now i ?x)"
    using setStatusLocked_eq[of now i StateStarting "[]" None ?x] by blast
  have "startSeed now i m = statusForLocked now i m" using assms(2) by (simp add: startSeed_def forgotten_def)
  then have "rnLastMap ?r = None" using assms(2) by (simp add: seedRuntime_def NewRunner_def forgotten_def)
  moreover have m': "m' = putStatus now i st ?x" using assms(1,3) cfg st(1) by (simp add: Start_def Let_def)
  moreover have "stPublicAddress (statusForLocked t i m') = []" for t
    using st(2) x assms(2) unfolding m' by (simp add: statusForLocked_def forgotten_def)
  ultimately show ?thesis using assms(2) by (simp add: forgotten_def)
qed

lemma ReplaceConfig_ok_run:
  assumes "mgRunners m (cfgID cfg) = Some old" and "cfgEnabled cfg"
    and "GetInstance (cfgID cfg) (mgStore m) = Some c"
  shows "\<exists>m'. ReplaceConfig oldCfg cfg True now io (\<lambda>_. id) True m = (Inr (), m')"
proof -
  let ?i = "cfgID cfg"
  let ?m1 = "setStatusLocked now ?i StateStopping ''restarting instance'' None m"
  let ?m2 = "?m1\<lparr>mgObjects := (mgObjects ?m1)(old := runnerStop (mgObjects ?m1 old))\<rparr>"
  let ?m4 = "?m2\<lparr>mgRunners := (mgRunners ?m2)(?i := None)\<rparr>"
  let ?m5 = "clearIf (publicMappingConfigChanged oldCfg cfg) ?i now io (\<lambda>_. id) ?m4"
  have "GetInstance ?i (mgStore ?m5) = Some c" using assms(3) by (simp add: clearIf_def clearRuntime_def)
  then have "fst (Start ?i now ?m5) = Inr ()" by (simp add: Start_def Let_def)
  with assms(1,2) show ?thesis
    by (intro exI[of _ "snd (Start ?i now ?m5)"]) (simp add: ReplaceConfig_def Let_def prod_eq_iff)
qed

lemma replaced_runner_is_safe_witness:
  "\<exists>m' new. ReplaceConfig webResolved webEnabled True 9 okIO (\<lambda>_. id) True (snd (Start ''web'' 7 demoManager)) = (Inr (), m') \<and>
     mgRunners m' ''web'' = Some new \<and> new \<noteq> 0 \<and> runnerFinished ''web'' 0 20 m' = m'"
proof -
  let ?m = "snd (Start ''web'' 7 demoManager)"
  have reach: "mgr_reach ?m" by (rule mr_step[OF demo_manager_reach ms_start])
  have run: "mgRunners ?m (cfgID webEnabled) = Some 0" using start_web_runs by simp
  have "mgStore ?m = demoStore2" by (simp add: Start_def demo_get Let_def)
  then have "GetInstance (cfgID webEnabled) (mgStore ?m) = Some webResolved" by (simp add: demo_get)
  from ReplaceConfig_ok_run[OF run web_enabled_fields(2) this] obtain m' where
    m': "ReplaceConfig webResolved webEnabled True 9 okIO (\<lambda>_. id) True ?m = (Inr (), m')" by blast
  from replaced_runner_is_safe[OF reach run _ _ _ m', of 20] m' show ?thesis by auto
qed

text \<open>
  C24: When a change of protocol, bind address, bind port, interface or mark can have changed
  the public mapping, replacing the configuration forgets the old mapping everywhere before
  the new runner starts: in the status, in the saved records and in the runner's seed. An
  instance that is disabled forgets it when it was running; when it was not, nothing is done
  at all, and the mapping of the old configuration stays. This is so under the condition that no
  other request starts the instance while \<open>ReplaceConfig\<close> waits for the old runner (whose
  reports and end are allowed then), and that from then on nothing starts it or reports a mapping
  of it in the places where the mutex is free (\<open>activity_stays_forgotten\<close>); \<open>start_during_replace_keeps_mapping\<close> shows what
  happens otherwise.
\<close>

theorem changed_config_forgets_mapping:
  assumes "publicMappingConfigChanged oldCfg cfg" and "cfgID cfg \<noteq> []"
    and "\<And>x. mgRunners (during whileWaiting x) (cfgID cfg) = None \<or>
      mgRunners (during whileWaiting x) (cfgID cfg) = mgRunners x (cfgID cfg)"
    and "\<And>k x. 0 < k \<Longrightarrow> stays_forgotten (cfgID cfg) x (during k x)"
    and "w = (mgRunners m (cfgID cfg) \<noteq> None)"
    and "ReplaceConfig oldCfg cfg w now io during True m = (Inr u, m')"
  shows "if cfgEnabled cfg
    then \<exists>rid. mgRunners m' (cfgID cfg) = Some rid \<and> rnLastMap (mgObjects m' rid) = None \<and>
      RuntimeStatus (cfgID cfg) (mgStore m') = None \<and>
      stPublicAddress (statusForLocked t (cfgID cfg) m') = []
    else if w then RuntimeStatus (cfgID cfg) (mgStore m') = None \<and>
      stPublicAddress (statusForLocked t (cfgID cfg) m') = []
    else m' = m"
proof (cases "cfgEnabled cfg")
  case False
  show ?thesis
  proof (cases w)
    case True
    obtain r m1 where s: "Stop (cfgID cfg) now True m = (r, m1)" by (cases "Stop (cfgID cfg) now True m")
    from False True assms(1,6) have "m' = clearIf True (cfgID cfg) now io during (during whileWaiting m1)"
      by (simp add: ReplaceConfig_def Let_def s)
    with clearIf_forgets(1)[OF assms(2,4)] False True show ?thesis by (simp add: forgotten_def)
  next
    case w: False
    from assms(6) False w have "m' = m" by (simp add: ReplaceConfig_def Let_def)
    with False w show ?thesis by simp
  qed
next
  case True
  let ?i = "cfgID cfg"
  have "\<exists>q. mgRunners q ?i = None \<and> Start ?i now (during beforeStart (clearIf True ?i now io during q)) = (Inr u, m')"
  proof (cases "mgRunners m ?i")
    case None
    with True assms(1,5,6) show ?thesis by (intro exI[of _ m]) (simp add: ReplaceConfig_def Let_def)
  next
    case (Some old)
    let ?m1 = "setStatusLocked now ?i StateStopping ''restarting instance'' None m"
    let ?m2 = "?m1\<lparr>mgObjects := (mgObjects ?m1)(old := runnerStop (mgObjects ?m1 old))\<rparr>"
    let ?m3 = "during whileWaiting ?m2"
    let ?m4 = "if mgRunners ?m3 ?i = Some old then ?m3\<lparr>mgRunners := (mgRunners ?m3)(?i := None)\<rparr> else ?m3"
    have "mgRunners ?m2 ?i = Some old" using Some by simp
    with assms(3)[of ?m2] have "mgRunners ?m4 ?i = None" by auto
    moreover have "Start ?i now (during beforeStart (clearIf True ?i now io during ?m4)) = (Inr u, m')"
      using Some True assms(1,5,6) by (simp add: ReplaceConfig_def Let_def)
    ultimately show ?thesis by blast
  qed
  then obtain q where q: "mgRunners q ?i = None"
    "Start ?i now (during beforeStart (clearIf True ?i now io during q)) = (Inr u, m')" by blast
  have "stays_forgotten ?i (clearIf True ?i now io during q) (during beforeStart (clearIf True ?i now io during q))"
    by (rule assms(4)) simp
  with clearIf_forgets[OF assms(2,4), where m = q and now = now and io = io] q(1)
  have "mgRunners (during beforeStart (clearIf True ?i now io during q)) ?i = None"
    "forgotten ?i (during beforeStart (clearIf True ?i now io during q))"
    by (simp_all add: stays_forgotten_def forgotten_def)
  from Start_forgotten[OF this q(2)] True show ?thesis by (auto simp: forgotten_def)
qed

lemma changed_config_forgets_mapping_witness:
  "\<exists>m' rid. ReplaceConfig webResolved webEnabled True 9 okIO (\<lambda>_. id) True (snd (Start ''web'' 7 demoManager)) = (Inr (), m') \<and>
     mgRunners m' ''web'' = Some rid \<and> rnLastMap (mgObjects m' rid) = None \<and>
     RuntimeStatus ''web'' (mgStore m') = None"
proof -
  let ?m = "snd (Start ''web'' 7 demoManager)"
  have run: "mgRunners ?m (cfgID webEnabled) = Some 0" using start_web_runs by simp
  have "mgStore ?m = demoStore2" by (simp add: Start_def demo_get Let_def)
  then have "GetInstance (cfgID webEnabled) (mgStore ?m) = Some webResolved" by (simp add: demo_get)
  from ReplaceConfig_ok_run[OF run web_enabled_fields(2) this] obtain m' where
    m': "ReplaceConfig webResolved webEnabled True 9 okIO (\<lambda>_. id) True ?m = (Inr (), m')" by blast
  have "cfgBindPort (normalizeConfig webConfig) \<noteq> ''7000''" by code_simp
  then have "publicMappingConfigChanged webResolved webEnabled"
    by (simp add: publicMappingConfigChanged_def webEnabled_def webResolved_def resolveConfigLocked_def Let_def)
  from changed_config_forgets_mapping[OF this _ _ _ _ m'] run m' show ?thesis
    by (auto simp: stays_forgotten_def)
qed

text \<open>
  C40: A race: when the old runner has ended and another request starts the instance while
  \<open>ReplaceConfig\<close> still waits, the mapping is not forgotten. \<open>ReplaceConfig\<close> returns without an error,
  the runner in charge is the one of the other request, and it was seeded with the old mapping.
\<close>

theorem start_during_replace_keeps_mapping:
  assumes "mgr_reach m" and "mgRunners m (cfgID cfg) = Some old" and "cfgEnabled cfg" and "cfgID cfg \<noteq> []"
    and "publicMappingConfigChanged oldCfg cfg" and "GetInstance (cfgID cfg) (mgStore m) = Some c"
    and "parse_ip (stPublicAddress (statusForLocked t (cfgID cfg) m)) = Some a"
    and "stPublicAddress (statusForLocked t (cfgID cfg) m) \<noteq> []"
    and "stPublicPort (statusForLocked t (cfgID cfg) m) = p" and "p \<noteq> 0"
    and "during = (\<lambda>k x. if k = whileWaiting then snd (Start (cfgID cfg) t (runnerFinished (cfgID cfg) old t x)) else x)"
  shows "\<exists>m' new e. ReplaceConfig oldCfg cfg True t io during True m = (Inr (), m') \<and>
    mgRunners m' (cfgID cfg) = Some new \<and> new \<noteq> old \<and>
    rnLastMap (mgObjects m' new) = Some e \<and> mePublicIP e = a \<and> mePublicPort e = p"
proof -
  let ?i = "cfgID cfg"
  let ?m1 = "setStatusLocked t ?i StateStopping ''restarting instance'' None m"
  let ?m2 = "?m1\<lparr>mgObjects := (mgObjects ?m1)(old := runnerStop (mgObjects ?m1 old))\<rparr>"
  let ?q = "runnerFinished ?i old t ?m2" and ?b = "publicMappingConfigChanged oldCfg cfg"
  let ?m3 = "snd (Start ?i t ?q)"
  let ?m5 = "clearIf ?b ?i t io during ?m3"
  have addr: "stPublicAddress (statusForLocked u ?i (setStatusLocked t ?i s msg None x)) = stPublicAddress (statusForLocked t ?i x) \<and>
      stPublicPort (statusForLocked u ?i (setStatusLocked t ?i s msg None x)) = stPublicPort (statusForLocked t ?i x)" for u s msg x
    using setStatusLocked_eq[of t ?i s msg None x] by (auto simp: statusForLocked_def)
  have "mgNext ?q = mgNext m" by (simp add: runnerFinished_def Let_def)
  have q: "mgRunners ?q ?i = None" "mgStore ?q = mgStore m" "mgNext ?q = mgNext m"
    using assms(2) by (simp_all add: runnerFinished_def Let_def)
  have s: "statusForLocked u ?i (x\<lparr>mgRunners := f\<rparr>) = statusForLocked u ?i x"
    "statusForLocked u ?i (x\<lparr>mgObjects := g\<rparr>) = statusForLocked u ?i x" for u x f g
    by (simp_all add: statusForLocked_def)
  have seed: "stPublicAddress (startSeed t ?i ?q) = stPublicAddress (statusForLocked t ?i m)"
    "stPublicPort (startSeed t ?i ?q) = p"
    using assms(2,8,9) by (simp_all add: startSeed_def runnerFinished_def Let_def addr s)
  have old: "old < mgNext m" using mgr_reach_ok[OF assms(1)] assms(2) by (auto simp: mgr_ok_def runners_ok_def)
  have g: "GetInstance ?i (mgStore ?q) = Some c" using q(2) assms(6) by simp
  note new = Start_new[OF g q(1), of t]
  have five: "mgRunners ?m5 = mgRunners ?m3" "mgObjects ?m5 = mgObjects ?m3"
    "GetInstance ?i (mgStore ?m5) = Some c"
    using new g assms(11) by (simp_all add: clearIf_def clearRuntime_def)
  have "ReplaceConfig oldCfg cfg True t io during True m = Start ?i t ?m5"
    using assms(2,3,11) new old q(3) by (simp add: ReplaceConfig_def Let_def)
  also have "\<dots> = (Inr (), ?m5)" using five new by (simp add: Start_def)
  finally have rep: "ReplaceConfig oldCfg cfg True t io during True m = (Inr (), ?m5)" .
  have last: "\<exists>e. rnLastMap (seedRuntime st r) = Some e \<and> mePublicIP e = a \<and> mePublicPort e = p"
    if "stPublicAddress st = stPublicAddress (statusForLocked t ?i m)" "stPublicPort st = p" for st r
    using that assms(7,8,10) by (simp add: seedRuntime_def Let_def)
  from last[OF seed] new five rep old q(3) show ?thesis
    by (intro exI[of _ ?m5] exI[of _ "mgNext m"]) auto
qed

lemma start_during_replace_keeps_mapping_witness:
  "\<exists>m during m' new e. ReplaceConfig webResolved webEnabled True 9 okIO during True m = (Inr (), m') \<and>
     mgRunners m' ''web'' = Some new \<and> new \<noteq> 0 \<and> rnLastMap (mgObjects m' new) = Some e \<and> mePublicPort e = 4000"
proof -
  let ?m0 = "snd (Start ''web'' 7 demoManager)"
  let ?u = "zeroStatus\<lparr>stState := StateRunning, stPublicAddress := ip_string [1, 2, 3, 4], stPublicPort := 4000\<rparr>"
  define m where "m = report ''web'' ?u 8 okIO ?m0"
  have reach: "mgr_reach m"
    unfolding m_def by (rule mr_step[OF mr_step[OF demo_manager_reach ms_start] ms_report])
  have run: "mgRunners m (cfgID webEnabled) = Some 0" using start_web_runs by (simp add: m_def report_fields)
  have "mgStore ?m0 = demoStore2" by (simp add: Start_def demo_get Let_def)
  then have get: "GetInstance (cfgID webEnabled) (mgStore m) = Some webResolved"
    by (simp add: m_def GetInstance_report demo_get)
  have ne: "ip_string [1, 2, 3, 4] \<noteq> []" by code_simp
  have "parse_ip (ip_string [1, 2, 3, 4]) \<noteq> None" by code_simp
  then obtain a where a: "parse_ip (ip_string [1, 2, 3, 4]) = Some a" by blast
  have st: "stPublicAddress (statusForLocked 9 (cfgID webEnabled) m) = ip_string [1, 2, 3, 4]"
    "stPublicPort (statusForLocked 9 (cfgID webEnabled) m) = 4000"
    using ne by (simp_all add: m_def statusForLocked_def[of 9] report_fields mergeReport_fields orKeep_def)
  have "cfgBindPort (normalizeConfig webConfig) \<noteq> ''7000''" by code_simp
  then have ch: "publicMappingConfigChanged webResolved webEnabled"
    by (simp add: publicMappingConfigChanged_def webEnabled_def webResolved_def resolveConfigLocked_def Let_def)
  let ?d = "\<lambda>k x. if k = whileWaiting
    then snd (Start (cfgID webEnabled) 9 (runnerFinished (cfgID webEnabled) 0 9 x)) else x"
  have "parse_ip (stPublicAddress (statusForLocked 9 (cfgID webEnabled) m)) = Some a"
    "stPublicAddress (statusForLocked 9 (cfgID webEnabled) m) \<noteq> []" using st(1) a ne by simp_all
  from start_during_replace_keeps_mapping[OF reach run _ _ ch get this st(2) _ refl, of okIO]
  obtain m' new e where "ReplaceConfig webResolved webEnabled True 9 okIO ?d True m = (Inr (), m')"
    "mgRunners m' (cfgID webEnabled) = Some new" "new \<noteq> 0" "rnLastMap (mgObjects m' new) = Some e" "mePublicPort e = 4000"
    by auto
  then show ?thesis
    by (intro exI[of _ m] exI[of _ ?d] exI[of _ m'] exI[of _ new] exI[of _ e]) simp
qed

text \<open>
  A restart of the program does not reset the age of a mapping: when the saved status of
  an instance names the public endpoint that its new runner discovers, the runner reports the
  endpoint as stable since the saved instant, and changed at the saved instant.
\<close>

lemma restart_keeps_mapping_age:
  assumes "GetInstance i s = Some cfg" and "RuntimeStatus i s = Some st"
    and "stPublicAddress st = ip_string (mePublicIP e)" and "length (mePublicIP e) = 4"
    and "stPublicPort st = mePublicPort e"
    and "(if stProtocol st = [] then cfgProtocol cfg else stProtocol st) = meProtocol e"
    and "stPublicStableSince st \<noteq> 0" and "stPublicUpdatedAt st \<noteq> 0"
  shows "\<exists>rid. mgRunners (snd (Start i now (NewManager s d))) i = Some rid \<and>
    (let r = publishMapping t out e (mgObjects (snd (Start i now (NewManager s d))) rid)
     in rnPublicStableSince r = stPublicStableSince st \<and> rnPublicUpdatedAt r = stPublicUpdatedAt st)"
proof -
  let ?m = "NewManager s d"
  have free: "mgRunners ?m i = None" "mgStore ?m = s" by (simp_all add: NewManager_def)
  have "mePublicPort e \<noteq> 0"
    using assms(2,5) by (auto simp: RuntimeStatus_def restored_def split: option.splits if_splits)
  moreover have "startSeed now i ?m = st"
    using assms(2) by (simp add: startSeed_def statusForLocked_def NewManager_def zeroStatus_def)
  ultimately show ?thesis
    using Start_new[of i ?m cfg now] assms(1) free seeded_mapping_keeps_age[OF assms(3,4,5) _ assms(6,7,8)]
    by (simp add: Let_def)
qed

lemma restart_keeps_mapping_age_witness:
  "\<exists>s rid. RuntimeStatus ''web'' s \<noteq> None \<and>
     rnPublicStableSince (publishMapping 100 None demoEvent
       (mgObjects (snd (Start ''web'' 90 (NewManager s demoDisk2))) rid)) = 3"
proof -
  let ?st = "zeroStatus\<lparr>stPublicAddress := ip_string [1, 2, 3, 4], stPublicPort := 4000, stProtocol := ''tcp'',
     stPublicStableSince := 3, stPublicUpdatedAt := 4\<rparr>"
  let ?s = "setRuntimes ((runtimes demoStore2)(''web'' \<mapsto> persisted ?st)) demoStore2"
  have ne: "ip_string [1, 2, 3, 4] \<noteq> []" by code_simp
  have g: "GetInstance ''web'' ?s = Some webResolved" using demo_get by (simp add: GetInstance_def setRuntimes_def)
  have r: "RuntimeStatus ''web'' ?s = Some (restored (persisted ?st))"
    using ne by (simp add: RuntimeStatus_def persisted_def setRuntimes_def)
  show ?thesis
    using restart_keeps_mapping_age[OF g r, of demoEvent 90 demoDisk2 100 None] r
    by (intro exI[of _ ?s]) (auto simp: restored_def persisted_def demoEvent_def Let_def)
qed

text \<open>
  A \<open>Stop\<close> that comes after a \<open>Start\<close> but before its goroutine has entered \<open>Run\<close> is
  lost: the instance is shown as stopping, but the context under which \<open>Run\<close> then works is
  not cancelled.
\<close>

lemma stop_before_run_is_lost:
  assumes "mgRunners m i = None" and "Start i t1 m = (Inr u, m1)" and "Stop i t2 fin m1 = (r, m2)"
  shows "\<exists>rid. mgRunners m2 i = Some rid \<and> \<not> rnCancelled (runBegin t3 (mgObjects m2 rid)) \<and>
    stState (statusForLocked t2 i m2) = StateStopping"
proof -
  obtain cfg where cfg: "GetInstance i (mgStore m) = Some cfg" using Start_inv[OF assms(2)] by blast
  note new = Start_new[OF cfg assms(1), of t1]
  let ?o = "seedRuntime (startSeed t1 i m) (NewRunner cfg True)"
  from new assms(2) have m1: "mgRunners m1 i = Some (mgNext m)" "mgObjects m1 (mgNext m) = ?o" by simp_all
  have "\<not> rnCancelRun ?o" "\<not> rnCancelled ?o" "rnActive ?o = []"
    by (simp_all add: seedRuntime_def NewRunner_def Let_def split: option.split)
  then have o: "runnerStop ?o = ?o" "\<not> rnCancelled (runBegin t3 ?o)"
    by (simp_all add: runnerStop_def closeActive_def runBegin_def emit_def)
  from assms(3) m1 have m2: "m2 = (setStatusLocked t2 i StateStopping ''stopping instance'' None m1)
      \<lparr>mgObjects := (mgObjects m1)(mgNext m := runnerStop ?o)\<rparr>"
    by (simp add: Stop_def Let_def)
  then have "statusForLocked t2 i m2 = statusForLocked t2 i (setStatusLocked t2 i StateStopping ''stopping instance'' None m1)"
    by (simp add: statusForLocked_def)
  with m1 m2 o show ?thesis by (simp add: setStatusLocked_state)
qed

lemma stop_before_run_is_lost_witness:
  "\<exists>m2. Stop ''web'' 8 False (snd (Start ''web'' 7 demoManager)) = (Inl (ErrNew zhStopTimeout), m2) \<and>
     mgRunners m2 ''web'' \<noteq> None \<and> stState (statusForLocked 8 ''web'' m2) = StateStopping"
proof -
  have "mgRunners demoManager ''web'' = None" by simp
  moreover have s: "Start ''web'' 7 demoManager = (Inr (), snd (Start ''web'' 7 demoManager))"
    by (simp add: Start_def demo_get Let_def)
  moreover obtain m2 where m2: "Stop ''web'' 8 False (snd (Start ''web'' 7 demoManager)) =
      (Inl (ErrNew zhStopTimeout), m2)"
    by (simp add: Stop_def Start_def demo_get Let_def)
  ultimately show ?thesis using stop_before_run_is_lost[of demoManager "''web''" 7 "()"] by fastforce
qed

end
