(* ===== verification/Sessions.thy ===== *)
theory Sessions
  imports Manager_Props
begin

text \<open>
  The session store of the console (\<open>internal/server/sessions.go\<close>): tokens with the instant
  at which they expire, extended by every use. The cookie of a request is the value of
  \<open>natcat_session\<close>, or none.
\<close>

section \<open>Operations\<close>

record sessionStore =
  ssLifetime :: int
  ssItems :: "string \<rightharpoonup> time"

text \<open>\<open>time.Duration(hours) * time.Hour\<close> is a 64-bit product.\<close>

definition newSessionStore :: "int \<Rightarrow> sessionStore" where
  "newSessionStore hours =
     (let h = (if hours \<le> 0 then 12 else hours)
      in \<lparr>ssLifetime = wrap64 (h * 3600000000000), ssItems = (\<lambda>_. None)\<rparr>)"

record cookie =
  ckName :: string
  ckValue :: string
  ckPath :: string
  ckExpires :: time
  ckMaxAge :: int
  ckHttpOnly :: bool
  ckSameSiteStrict :: bool
  ckSecure :: bool

definition newToken :: "byte list res \<Rightarrow> string res" where
  "newToken random = res_bind random (\<lambda>buf. Inr (hexEncode buf))"

definition cleanupLocked :: "time \<Rightarrow> sessionStore \<Rightarrow> sessionStore" where
  "cleanupLocked now s =
     s\<lparr>ssItems := (\<lambda>token. case ssItems s token of
        None \<Rightarrow> None
      | Some expires \<Rightarrow> if now > expires then None else Some expires)\<rparr>"

text \<open>\<open>int(s.lifetime.Seconds())\<close> cuts towards zero.\<close>

definition wholeSeconds :: "int \<Rightarrow> int" where
  "wholeSeconds d = (if d \<ge> 0 then d div 1000000000 else - ((- d) div 1000000000))"

definition create :: "byte list res \<Rightarrow> bool \<Rightarrow> time \<Rightarrow> sessionStore \<Rightarrow> cookie res \<times> sessionStore" where
  "create random tls now s =
     (case newToken random of
        Inl e \<Rightarrow> (Inl e, s)
      | Inr token \<Rightarrow>
          (let expires = now + ssLifetime s;
               s1 = cleanupLocked now (s\<lparr>ssItems := (ssItems s)(token \<mapsto> expires)\<rparr>)
           in (Inr \<lparr>ckName = ''natcat_session'', ckValue = token, ckPath = ''/'', ckExpires = expires,
                    ckMaxAge = wholeSeconds (ssLifetime s), ckHttpOnly = True, ckSameSiteStrict = True,
                    ckSecure = tls\<rparr>, s1)))"

definition valid :: "string option \<Rightarrow> time \<Rightarrow> sessionStore \<Rightarrow> bool \<times> sessionStore" where
  "valid ck now s =
     (case ck of
        None \<Rightarrow> (False, s)
      | Some v \<Rightarrow>
          (if v = [] then (False, s)
           else case ssItems s v of
               None \<Rightarrow> (False, s\<lparr>ssItems := (ssItems s)(v := None)\<rparr>)
             | Some expires \<Rightarrow>
                 (if now > expires then (False, s\<lparr>ssItems := (ssItems s)(v := None)\<rparr>)
                  else (True, s\<lparr>ssItems := (ssItems s)(v \<mapsto> now + ssLifetime s)\<rparr>))))"

definition clear :: "string option \<Rightarrow> bool \<Rightarrow> sessionStore \<Rightarrow> cookie \<times> sessionStore" where
  "clear ck tls s =
     (\<lparr>ckName = ''natcat_session'', ckValue = [], ckPath = ''/'', ckExpires = 0, ckMaxAge = -1,
       ckHttpOnly = True, ckSameSiteStrict = True, ckSecure = tls\<rparr>,
      (case ck of None \<Rightarrow> s | Some v \<Rightarrow> s\<lparr>ssItems := (ssItems s)(v := None)\<rparr>))"

section \<open>Histories\<close>

text \<open>
  What happened to the store, the latest event first, and the contract of sliding expiry: a
  token counts from its creation, every use within the lifetime starts the lifetime anew, and
  clearing it ends it. A creation has its random bytes and whether the request came over TLS.
\<close>

datatype sessionEvent =
    Created "byte list" bool time
  | Used string time
  | Cleared string time

fun eventTime :: "sessionEvent \<Rightarrow> time" where
  "eventTime (Created rnd tls t) = t"
| "eventTime (Used k t) = t"
| "eventTime (Cleared k t) = t"

fun replay :: "int \<Rightarrow> sessionEvent list \<Rightarrow> sessionStore" where
  "replay life [] = \<lparr>ssLifetime = life, ssItems = (\<lambda>_. None)\<rparr>"
| "replay life (Created rnd tls t # h) = snd (create (Inr rnd) tls t (replay life h))"
| "replay life (Used k t # h) = snd (valid (Some k) t (replay life h))"
| "replay life (Cleared k t # h) = snd (clear (Some k) False (replay life h))"

fun lastTouch :: "int \<Rightarrow> string \<Rightarrow> sessionEvent list \<Rightarrow> time option" where
  "lastTouch life tok [] = None"
| "lastTouch life tok (Created rnd tls t # h) =
     (if hexEncode rnd = tok then Some t else lastTouch life tok h)"
| "lastTouch life tok (Used k t # h) =
     (case lastTouch life tok h of
        None \<Rightarrow> None
      | Some u \<Rightarrow> if k = tok \<and> k \<noteq> [] \<and> t \<le> u + life then Some t else Some u)"
| "lastTouch life tok (Cleared k t # h) = (if k = tok then None else lastTouch life tok h)"

fun newest_first :: "sessionEvent list \<Rightarrow> bool" where
  "newest_first [] = True"
| "newest_first (e # h) = ((\<forall>x \<in> set h. eventTime x \<le> eventTime e) \<and> newest_first h)"

text \<open>What a creation leaves in the store.\<close>

lemma create_items:
  "snd (create (Inr rnd) tls t s) = cleanupLocked t (s\<lparr>ssItems := (ssItems s)(hexEncode rnd \<mapsto> t + ssLifetime s)\<rparr>)"
  by (simp add: create_def newToken_def Let_def)

lemma replay_lifetime [simp]: "ssLifetime (replay life h) = life"
proof (induction h)
  case (Cons e h)
  then show ?case
    by (cases e) (auto simp: create_items cleanupLocked_def valid_def clear_def split: option.split)
qed simp

text \<open>What is stored is the last touch and the lifetime; what counts is stored.\<close>

lemma replay_stored:
  "ssItems (replay life h) tok = Some e \<Longrightarrow> lastTouch life tok h = Some (e - life)"
proof (induction h arbitrary: e)
  case (Cons ev h)
  show ?case
  proof (cases ev)
    case (Created rnd tls t)
    with Cons show ?thesis
      by (cases "hexEncode rnd = tok") (auto simp: create_items cleanupLocked_def split: option.splits if_splits)
  next
    case (Used k t)
    show ?thesis
    proof (cases "k = tok \<and> k \<noteq> []")
      case True
      with Cons.prems Used obtain e0 where e0: "ssItems (replay life h) tok = Some e0" "t \<le> e0" "e = t + life"
        by (cases "ssItems (replay life h) tok") (auto simp: valid_def split: if_splits)
      from Cons.IH[OF e0(1)] e0 Used True show ?thesis by auto
    next
      case False
      with Cons.prems Used have "ssItems (replay life h) tok = Some e"
        by (auto simp: valid_def split: option.splits if_splits)
      from Cons.IH[OF this] Used False show ?thesis by auto
    qed
  next
    case (Cleared k t)
    with Cons show ?thesis by (cases "k = tok") (simp_all add: clear_def)
  qed
qed simp

lemma replay_keeps:
  assumes "0 \<le> life"
  shows "newest_first h \<Longrightarrow> \<forall>x \<in> set h. eventTime x \<le> now \<Longrightarrow> lastTouch life tok h = Some u \<Longrightarrow>
    now \<le> u + life \<Longrightarrow> ssItems (replay life h) tok = Some (u + life)"
proof (induction h arbitrary: u now)
  case (Cons ev h)
  from Cons.prems(1,2) have old: "newest_first h" "\<forall>x \<in> set h. eventTime x \<le> now"
    "\<forall>x \<in> set h. eventTime x \<le> eventTime ev" "eventTime ev \<le> now" by simp_all
  show ?case
  proof (cases ev)
    case (Created rnd tls t)
    with Cons.IH[OF old(1,2)] Cons.prems(3,4) old(4) assms show ?thesis
      by (cases "hexEncode rnd = tok") (simp_all add: create_items cleanupLocked_def)
  next
    case (Used k t)
    with Cons.prems(3) obtain u0 where u0: "lastTouch life tok h = Some u0" by (auto split: option.splits)
    show ?thesis
    proof (cases "k = tok \<and> k \<noteq> [] \<and> t \<le> u0 + life")
      case True
      with Cons.IH[OF old(1,3), of u0] u0 Used have "ssItems (replay life h) tok = Some (u0 + life)" by simp
      with True Used u0 Cons.prems(3) show ?thesis by (auto simp: valid_def)
    next
      case False
      with Used u0 Cons.prems(3,4) old(4) have u: "u = u0" "k \<noteq> tok \<or> k = []" by auto
      with Cons.IH[OF old(1,2)] u0 Cons.prems(4) have "ssItems (replay life h) tok = Some (u + life)" by simp
      with u(2) Used show ?thesis by (auto simp: valid_def split: option.split)
    qed
  next
    case (Cleared k t)
    with Cons.IH[OF old(1,2)] Cons.prems(3,4) show ?thesis by (cases "k = tok") (simp_all add: clear_def)
  qed
qed simp

text \<open>
  C21: Whatever happened to the sessions before, a cookie is accepted exactly when its token
  was created, was not cleared since, and at most the lifetime has passed since its creation
  or its last accepted use; and a login removes every session that has expired by then.
\<close>

theorem session_valid_iff:
  assumes "0 \<le> life" and "newest_first h" and "\<forall>x \<in> set h. eventTime x \<le> now"
  shows "(fst (valid (Some tok) now (replay life h)) \<longleftrightarrow>
      tok \<noteq> [] \<and> (case lastTouch life tok h of None \<Rightarrow> False | Some u \<Rightarrow> now \<le> u + life)) \<and>
    (\<forall>rnd tls k e. ssItems (replay life (Created rnd tls now # h)) k = Some e \<longrightarrow> now \<le> e)"
proof (intro conjI allI impI)
  show "fst (valid (Some tok) now (replay life h)) \<longleftrightarrow>
      tok \<noteq> [] \<and> (case lastTouch life tok h of None \<Rightarrow> False | Some u \<Rightarrow> now \<le> u + life)"
  proof (cases "ssItems (replay life h) tok")
    case None
    with replay_keeps[OF assms, of tok] show ?thesis
      by (cases "lastTouch life tok h") (auto simp: valid_def)
  next
    case (Some e)
    from replay_stored[OF Some] Some show ?thesis by (simp add: valid_def)
  qed
qed (auto simp: create_items cleanupLocked_def split: option.splits if_splits)

lemma session_valid_iff_witness:
  "fst (valid (Some (hexEncode [7])) 14 (replay 10 [Used (hexEncode [7]) 9, Created [2] True 2, Created [7] False 1]))"
proof -
  have "hexEncode [7] \<noteq> [] \<and> hexEncode [2] \<noteq> hexEncode [7]" by code_simp
  with session_valid_iff[of 10 "[Used (hexEncode [7]) 9, Created [2] True 2, Created [7] False 1]" 14 "hexEncode [7]"]
  show ?thesis by simp
qed

end
