(* ===== verification/Notify.thy ===== *)
theory Notify
  imports Manager_Props
begin

text \<open>
  The notify script (\<open>internal/core/runner.go\<close> from \<open>runNotify\<close> on): which command runs, with
  which environment, and how the placeholders of the public mapping are filled in; and the
  test run that the console offers. Starting processes is outside of the model: whether a
  path is a file, the operating system and the outcome of the command are arguments.
\<close>

section \<open>Placeholders\<close>

definition isShellVarStart :: "char \<Rightarrow> bool" where
  "isShellVarStart c \<longleftrightarrow>
     c = CHR ''_'' \<or> (of_char c \<ge> (65::nat) \<and> of_char c \<le> (90::nat)) \<or>
     (of_char c \<ge> (97::nat) \<and> of_char c \<le> (122::nat))"

definition isShellVarChar :: "char \<Rightarrow> bool" where
  "isShellVarChar c \<longleftrightarrow> isShellVarStart c \<or> (of_char c \<ge> (48::nat) \<and> of_char c \<le> (57::nat))"

text \<open>\<open>bracedVar\<close>: the value of a known variable in braces after the dollar sign, and the
  text behind the closing brace.\<close>

definition bracedVar :: "(string \<rightharpoonup> string) \<Rightarrow> string \<Rightarrow> (string \<times> string) option" where
  "bracedVar vars s =
     (case s of
        CHR ''{'' # d # ds \<Rightarrow>
          (case index_byte (d # ds) (CHR ''}'') of
             None \<Rightarrow> None
           | Some n \<Rightarrow>
               (case vars (take n (d # ds)) of
                  None \<Rightarrow> None
                | Some v \<Rightarrow> Some (v, drop (Suc n) (d # ds))))
      | _ \<Rightarrow> None)"

lemma bracedVar_shorter: "bracedVar vars s = Some (v, rest) \<Longrightarrow> length rest < length s"
  by (auto simp: bracedVar_def split: list.splits char.splits bool.splits option.splits if_splits)

text \<open>The loop of \<open>expandNotifyScript\<close> over the rest of the script.\<close>

function expandNotifyScript :: "(string \<rightharpoonup> string) \<Rightarrow> string \<Rightarrow> string" where
  "expandNotifyScript vars [] = []"
| "expandNotifyScript vars (c # s) =
     (if c \<noteq> CHR ''$'' then c # expandNotifyScript vars s
      else case bracedVar vars s of
          Some (v, rest) \<Rightarrow> v @ expandNotifyScript vars rest
        | None \<Rightarrow>
            (if s = [] \<or> \<not> isShellVarStart (hd s) then c # expandNotifyScript vars s
             else let name = hd s # takeWhile isShellVarChar (tl s);
                      rest = dropWhile isShellVarChar (tl s)
                  in (case vars name of Some v \<Rightarrow> v | None \<Rightarrow> c # name) @
                     expandNotifyScript vars rest))"
  by pat_completeness auto

termination
proof (relation "measure (\<lambda>(vars, s). length s)")
  fix vars :: "string \<rightharpoonup> string" and c s p v rest
  assume "\<not> c \<noteq> CHR ''$''" and "bracedVar vars s = Some p" and "(v, rest) = p"
  then show "((vars, rest), (vars, c # s)) \<in> measure (\<lambda>(vars, s). length s)"
    using bracedVar_shorter[of vars s v rest] by simp
next
  fix vars :: "string \<rightharpoonup> string" and c s name rest
  assume "rest = dropWhile isShellVarChar (tl s)" and "\<not> (s = [] \<or> \<not> isShellVarStart (hd s))"
  then show "((vars, rest), (vars, c # s)) \<in> measure (\<lambda>(vars, s). length s)"
    using length_dropWhile_le[of isShellVarChar "tl s"] by (cases s) simp_all
qed simp_all

section \<open>Variables and commands\<close>

definition publicEndpoint :: "mappingEvent \<Rightarrow> string" where
  "publicEndpoint event = join_host_port (ip_string (mePublicIP event)) (itoa (mePublicPort event))"

definition notifyTemplateVars :: "mappingEvent \<Rightarrow> (string \<rightharpoonup> string)" where
  "notifyTemplateVars event =
     map_of [(''NATCAT_PUBLIC_ADDRESS'', ip_string (mePublicIP event)),
             (''NATCAT_PUBLIC_IP'', ip_string (mePublicIP event)),
             (''NATCAT_PUBLIC_PORT'', itoa (mePublicPort event)),
             (''NATCAT_PUBLIC_ENDPOINT'', publicEndpoint event)]"

definition notifyEnvVars :: "instanceConfig \<Rightarrow> mappingEvent \<Rightarrow> (string \<rightharpoonup> string)" where
  "notifyEnvVars cfg event =
     map_of [(''NATCAT_INSTANCE_ID'', cfgID cfg), (''NATCAT_INSTANCE_NAME'', cfgName cfg),
             (''NATCAT_PROTOCOL'', meProtocol event),
             (''NATCAT_PUBLIC_ADDRESS'', ip_string (mePublicIP event)),
             (''NATCAT_PUBLIC_IP'', ip_string (mePublicIP event)),
             (''NATCAT_PUBLIC_PORT'', itoa (mePublicPort event)),
             (''NATCAT_PUBLIC_ENDPOINT'', publicEndpoint event),
             (''NATCAT_PRIVATE_ADDRESS'', ip_string (mePrivateIP event)),
             (''NATCAT_PRIVATE_PORT'', itoa (mePrivatePort event))]"

text \<open>Reading a missing key of the map gives the empty string.\<close>

definition envLine :: "(string \<rightharpoonup> string) \<Rightarrow> string \<Rightarrow> string" where
  "envLine vars name = name @ ''='' @ (case vars name of None \<Rightarrow> [] | Some v \<Rightarrow> v)"

definition notifyEnv :: "string list \<Rightarrow> instanceConfig \<Rightarrow> mappingEvent \<Rightarrow> string list" where
  "notifyEnv environ cfg event =
     environ @ map (envLine (notifyEnvVars cfg event))
       [''NATCAT_INSTANCE_ID'', ''NATCAT_INSTANCE_NAME'', ''NATCAT_PROTOCOL'',
        ''NATCAT_PUBLIC_ADDRESS'', ''NATCAT_PUBLIC_IP'', ''NATCAT_PUBLIC_PORT'',
        ''NATCAT_PUBLIC_ENDPOINT'', ''NATCAT_PRIVATE_ADDRESS'', ''NATCAT_PRIVATE_PORT'']"

text \<open>The host: its operating system is Windows or not, which paths are files, and the
  environment of the program.\<close>

record host =
  hoWindows :: bool
  hoIsFile :: "string \<Rightarrow> bool"
  hoEnviron :: "string list"

record command =
  cmArgs :: "string list"
  cmEnv :: "string list"

definition notifyScriptIsFile :: "host \<Rightarrow> string \<Rightarrow> bool" where
  "notifyScriptIsFile h script =
     (if char_of (13::nat) \<in> set script \<or> char_of (10::nat) \<in> set script then False
      else hoIsFile h script)"

definition notifyCommandContext :: "host \<Rightarrow> string \<Rightarrow> string list" where
  "notifyCommandContext h script =
     (if notifyScriptIsFile h script then
        (if hoWindows h \<and> has_suffix (to_lower script) ''.ps1''
         then [''powershell'', ''-ExecutionPolicy'', ''Bypass'', ''-File'', script]
         else [script])
      else if hoWindows h
      then [''powershell'', ''-NoProfile'', ''-ExecutionPolicy'', ''Bypass'', ''-Command'', script]
      else [''sh'', ''-c'', script])"

definition notifyExecCommand :: "host \<Rightarrow> instanceConfig \<Rightarrow> mappingEvent \<Rightarrow> string \<Rightarrow> command" where
  "notifyExecCommand h cfg event script =
     \<lparr>cmArgs = notifyCommandContext h (expandNotifyScript (notifyTemplateVars event) script),
      cmEnv = notifyEnv (hoEnviron h) cfg event\<rparr>"

section \<open>The test run\<close>

text \<open>
  How a command ends: its combined output, the error of waiting for it, its exit code when
  there was a process, whether the context was done by then, and the milliseconds it took.
\<close>

record commandEnd =
  ceOutput :: string
  ceError :: "go_error option"
  ceExit :: "int option"
  ceCtxDone :: bool
  ceMillis :: int

definition zhScriptTimeout :: string where
  "zhScriptTimeout =
     utf8 [233, 128, 154, 231, 159, 165, 232, 132, 154, 230, 156, 172, 230, 181, 139, 232, 175,
      149, 232, 182, 133, 230, 151, 182]"

definition zhScriptEmpty :: string where
  "zhScriptEmpty =
     utf8 [233, 128, 154, 231, 159, 165, 232, 132, 154, 230, 156, 172, 228, 184, 186, 231, 169,
      186]"

definition zhNoMapping :: string where
  "zhNoMapping =
     utf8 [229, 189, 147, 229, 137, 141, 229, 174, 158, 228, 190, 139, 232, 191, 152, 230, 178,
      161, 230, 156, 137, 229, 133, 172, 231, 189, 145, 230, 152, 160, 229, 176, 132, 239,
      188, 140, 230, 151, 160, 230, 179, 149, 228, 188, 160, 229, 133, 165, 229, 133, 172,
      231, 189, 145, 229, 143, 152, 233, 135, 143]"

definition zhBadPublicIP :: string where
  "zhBadPublicIP =
     utf8 [229, 189, 147, 229, 137, 141, 229, 133, 172, 231, 189, 145, 32, 73, 80, 32, 230, 151,
      160, 230, 149, 136]"

definition trim_right_newlines :: "string \<Rightarrow> string" where
  "trim_right_newlines s =
     rev (dropWhile (\<lambda>c. c = char_of (13::nat) \<or> c = char_of (10::nat)) (rev s))"

definition runNotifyScriptCommand ::
  "host \<Rightarrow> (command \<Rightarrow> commandEnd) \<Rightarrow> instanceConfig \<Rightarrow> mappingEvent \<Rightarrow> string \<Rightarrow> notifyTestResult" where
  "runNotifyScriptCommand h execute cfg event script =
     (let cmd = notifyExecCommand h cfg event script;
          fin = execute cmd;
          result = \<lparr>ntOK = (ceError fin = None), ntExitCode = 0, ntDurationMs = maxInt64 1 (ceMillis fin),
                    ntOutput = trim_right_newlines (ceOutput fin),
                    ntCommand = expandNotifyScript (notifyTemplateVars event) script\<rparr>
      in if ceCtxDone fin
         then result\<lparr>ntOK := False, ntExitCode := -1,
                ntOutput := (if ntOutput result = [] then zhScriptTimeout else ntOutput result)\<rparr>
         else
           (let r1 = (case ceExit fin of
                  Some code \<Rightarrow> result\<lparr>ntExitCode := code\<rparr>
                | None \<Rightarrow> (if ceError fin \<noteq> None then result\<lparr>ntExitCode := -1\<rparr> else result))
            in case ceError fin of
                 None \<Rightarrow> r1
               | Some e \<Rightarrow> (if ntOutput r1 = [] then r1\<lparr>ntOutput := err_text e\<rparr> else r1)))"

definition RunNotifyScriptTest ::
  "host \<Rightarrow> (command \<Rightarrow> commandEnd) \<Rightarrow> instanceConfig \<Rightarrow> runtimeStatus \<Rightarrow> string \<Rightarrow> notifyTestResult res" where
  "RunNotifyScriptTest h execute cfg st script0 =
     (let script = trim_space script0 in
      if script = [] then Inl (ErrNew zhScriptEmpty)
      else if stPublicAddress st = [] \<or> stPublicPort st \<le> 0 then Inl (ErrNew zhNoMapping)
      else case parse_ip (stPublicAddress st) of
          None \<Rightarrow> Inl (ErrNew zhBadPublicIP)
        | Some publicIP \<Rightarrow>
            Inr (runNotifyScriptCommand h execute cfg
              \<lparr>mePublicIP = publicIP, mePublicPort = stPublicPort st,
               mePrivateIP = (case parse_ip (stPrivateAddress st) of None \<Rightarrow> to16 ipv4_zero | Some a \<Rightarrow> a),
               mePrivatePort = stPrivatePort st,
               meProtocol = (if stProtocol st = [] then cfgProtocol cfg else stProtocol st)\<rparr> script))"

section \<open>What the placeholders expand to\<close>

text \<open>
  A script as its author reads it: literal text without a dollar sign, a variable with or
  without braces, and a lone dollar sign.
\<close>

datatype segment =
    Literal string
  | Variable string
  | Braced string

fun segmentSource :: "segment \<Rightarrow> string" where
  "segmentSource (Literal t) = t"
| "segmentSource (Variable x) = CHR ''$'' # x"
| "segmentSource (Braced x) = CHR ''$'' # CHR ''{'' # x @ ''}''"

fun segmentValue :: "(string \<rightharpoonup> string) \<Rightarrow> segment \<Rightarrow> string" where
  "segmentValue vars (Literal t) = t"
| "segmentValue vars (Variable x) = (case vars x of None \<Rightarrow> CHR ''$'' # x | Some v \<Rightarrow> v)"
| "segmentValue vars (Braced x) = (case vars x of None \<Rightarrow> CHR ''$'' # CHR ''{'' # x @ ''}'' | Some v \<Rightarrow> v)"

definition isShellName :: "string \<Rightarrow> bool" where
  "isShellName x \<longleftrightarrow> x \<noteq> [] \<and> isShellVarStart (hd x) \<and> list_all isShellVarChar x"

definition script_source :: "segment list \<Rightarrow> string" where
  "script_source segs = concat (map segmentSource segs)"

fun script_wf :: "segment list \<Rightarrow> bool" where
  "script_wf [] = True"
| "script_wf (Literal t # segs) = (CHR ''$'' \<notin> set t \<and> script_wf segs)"
| "script_wf (Variable x # segs) =
     (isShellName x \<and> (script_source segs = [] \<or> \<not> isShellVarChar (hd (script_source segs))) \<and> script_wf segs)"
| "script_wf (Braced x # segs) = (isShellName x \<and> script_wf segs)"

lemma expand_literal:
  "CHR ''$'' \<notin> set t \<Longrightarrow> expandNotifyScript vars (t @ s) = t @ expandNotifyScript vars s"
  by (induction t) auto

lemma shell_start_plain: "isShellVarStart c \<Longrightarrow> c \<noteq> CHR ''{'' \<and> c \<noteq> CHR ''$''"
  by (auto simp: isShellVarStart_def)

lemma shell_char_plain: "isShellVarChar c \<Longrightarrow> c \<noteq> CHR ''}'' \<and> c \<noteq> CHR ''$''"
  by (auto simp: isShellVarChar_def isShellVarStart_def)

lemma bracedVar_plain: "s = [] \<or> hd s \<noteq> CHR ''{'' \<Longrightarrow> bracedVar vars s = None"
  by (auto simp: bracedVar_def split: list.split char.split bool.split)

lemma bracedVar_name:
  assumes "isShellName x"
  shows "bracedVar vars (CHR ''{'' # x @ CHR ''}'' # s) =
    (case vars x of None \<Rightarrow> None | Some v \<Rightarrow> Some (v, s))"
proof -
  have "CHR ''}'' \<notin> set x" using assms shell_char_plain by (auto simp: isShellName_def list_all_iff)
  then have "index_byte (x @ CHR ''}'' # s) (CHR ''}'') = Some (length x)" by (rule index_byte_append)
  moreover obtain d ds where "x = d # ds" using assms by (cases x) (simp_all add: isShellName_def)
  ultimately show ?thesis by (simp add: bracedVar_def cong: option.case_cong)
qed

lemma takeWhile_name:
  assumes "list_all P x" and "s = [] \<or> \<not> P (hd s)"
  shows "takeWhile P (x @ s) = x" and "dropWhile P (x @ s) = s"
  using assms by (induction x) (cases s; simp)+

lemma expand_variable:
  assumes "isShellName x" and "s = [] \<or> \<not> isShellVarChar (hd s)"
  shows "expandNotifyScript vars (CHR ''$'' # x @ s) = segmentValue vars (Variable x) @ expandNotifyScript vars s"
proof -
  obtain c cs where x: "x = c # cs" using assms(1) by (cases x) (simp_all add: isShellName_def)
  with assms(1) have c: "isShellVarStart c" "list_all isShellVarChar cs" by (simp_all add: isShellName_def)
  then have "bracedVar vars (x @ s) = None" using shell_start_plain x by (intro bracedVar_plain) auto
  with c x takeWhile_name[OF c(2) assms(2)] show ?thesis by (simp add: Let_def split: option.split)
qed

lemma expand_braced:
  assumes "isShellName x"
  shows "expandNotifyScript vars (CHR ''$'' # CHR ''{'' # x @ CHR ''}'' # s) =
    segmentValue vars (Braced x) @ expandNotifyScript vars s"
proof (cases "vars x")
  case (Some v)
  with bracedVar_name[OF assms] show ?thesis by simp
next
  case None
  have "\<not> isShellVarStart (CHR ''{'')" by code_simp
  moreover have "CHR ''$'' \<notin> set ([CHR ''{''] @ x @ [CHR ''}''])"
    using assms shell_char_plain by (auto simp: isShellName_def list_all_iff)
  ultimately show ?thesis
    using expand_literal[of "[CHR ''{''] @ x @ [CHR ''}'']" vars s] bracedVar_name[OF assms] None by simp
qed

lemma script_source_Cons: "script_source (seg # segs) = segmentSource seg @ script_source segs"
  by (simp add: script_source_def)

text \<open>
  A script expands piece by piece: literal text is kept, a variable with or without braces
  is replaced by its value when it is one of the known ones, and any other variable is left
  as it is written, for the shell to expand.
\<close>

lemma expand_script_spec:
  assumes "script_wf segs"
  shows "expandNotifyScript vars (script_source segs) = concat (map (segmentValue vars) segs)"
  using assms
proof (induction segs rule: script_wf.induct)
  case (2 t segs)
  then show ?case by (simp add: script_source_Cons expand_literal)
next
  case (3 x segs)
  then have "isShellName x" "script_source segs = [] \<or> \<not> isShellVarChar (hd (script_source segs))" by simp_all
  from expand_variable[OF this, of vars] 3 show ?case by (simp add: script_source_Cons)
next
  case (4 x segs)
  then have "isShellName x" by simp
  from expand_braced[OF this, of vars "script_source segs"] 4 show ?case by (simp add: script_source_Cons)
qed (simp add: script_source_def)

lemma expand_script_spec_witness:
  "expandNotifyScript (map_of [(''IP'', ''1.2.3.4'')]) ''set $IP ${IP} $HOME'' = ''set 1.2.3.4 1.2.3.4 $HOME''"
proof -
  let ?segs = "[Literal ''set '', Variable ''IP'', Literal '' '', Braced ''IP'', Literal '' '', Variable ''HOME'']"
  have "script_wf ?segs" by code_simp
  from expand_script_spec[OF this, of "map_of [(''IP'', ''1.2.3.4'')]"] show ?thesis
    by (simp add: script_source_def)
qed

section \<open>Values are harmless to a shell\<close>

definition safeValueChar :: "char \<Rightarrow> bool" where
  "safeValueChar c \<longleftrightarrow>
     is_digit c \<or> ((of_char c :: nat) \<ge> 97 \<and> (of_char c :: nat) \<le> 102) \<or> c \<in> set ''.:-[]''"

lemma safe_digit: "is_digit c \<Longrightarrow> safeValueChar c"
  by (simp add: safeValueChar_def)

lemma safe_punctuation [simp]:
  "safeValueChar CHR ''.''" "safeValueChar CHR '':''" "safeValueChar CHR ''-''"
  "safeValueChar CHR ''[''" "safeValueChar CHR '']''"
  by (simp_all add: safeValueChar_def)

lemma safe_hex_digit: "d < 16 \<Longrightarrow> safeValueChar (hex_digit d)"
  by (simp add: safeValueChar_def hex_digit_def is_digit_def)

lemma safe_hex_nat: "list_all safeValueChar (hex_nat n)"
proof (induction n rule: hex_nat.induct)
  case (1 n)
  then show ?case by (cases "n < 16") (simp_all add: hex_nat.simps[of n] safe_hex_digit)
qed

lemma safe_dec_nat: "list_all safeValueChar (dec_nat n)"
  using dec_nat_digits safe_digit by (auto simp: list_all_iff)

lemma safe_itoa: "list_all safeValueChar (itoa i)"
  using safe_dec_nat by (simp add: itoa_def)

lemma safe_concat: "(\<And>x. x \<in> set xs \<Longrightarrow> list_all P (f x)) \<Longrightarrow> list_all P (concat (map f xs))"
  by (induction xs) simp_all

lemma safe_dotted: "list_all safeValueChar (dotted a)"
  unfolding dotted_def by (rule safe_concat) (auto simp: safe_dec_nat)

lemma safe_join_colon: "list_all safeValueChar (join_colon ws)"
  unfolding join_colon_def by (rule safe_concat) (auto simp: safe_hex_nat)

lemma safe_ip_string: "length a = 4 \<or> length a = 16 \<Longrightarrow> list_all safeValueChar (ip_string a)"
  by (auto simp: ip_string_def v6_string_def Let_def safe_dotted safe_join_colon split: option.split)

lemma safe_join_host_port:
  "list_all safeValueChar h \<Longrightarrow> list_all safeValueChar p \<Longrightarrow> list_all safeValueChar (join_host_port h p)"
  by (simp add: join_host_port_def)

text \<open>
  C32: For a public address of four or sixteen bytes, every value that is substituted into a
  notify script consists of digits, the letters a to f, dots, colons, minus signs and
  brackets, so it can neither end a word nor a quotation nor start a command of the shell.
\<close>

theorem notify_values_harmless:
  assumes "length (mePublicIP event) = 4 \<or> length (mePublicIP event) = 16"
    and "notifyTemplateVars event name = Some v"
  shows "list_all safeValueChar v"
  using assms(2) safe_ip_string[OF assms(1)] safe_itoa safe_join_host_port
  by (auto simp: notifyTemplateVars_def publicEndpoint_def split: if_splits)

lemma notify_values_harmless_witness:
  "\<exists>v. notifyTemplateVars demoEvent ''NATCAT_PUBLIC_ENDPOINT'' = Some v \<and> list_all safeValueChar v"
proof -
  have "length (mePublicIP demoEvent) = 4 \<or> length (mePublicIP demoEvent) = 16" by (simp add: demoEvent_def)
  moreover have "notifyTemplateVars demoEvent ''NATCAT_PUBLIC_ENDPOINT'' = Some (publicEndpoint demoEvent)"
    by (simp add: notifyTemplateVars_def)
  ultimately show ?thesis using notify_values_harmless by blast
qed

end
