(* ===== verification/Server.thy ===== *)
theory Server
  imports Sessions Notify
begin

text \<open>
  The HTTP interface (\<open>internal/server/server.go\<close>): routing, the check of the session, and one
  function per handler, from a request and the state of the server to a response and the new
  state. What the standard library makes of the wire (methods, cleaned paths, the decoded
  body or its error) is the request; what it makes of a response (JSON, event stream) is a
  payload.
\<close>

section \<open>Requests and responses\<close>

text \<open>
  \<open>rqRedirects\<close> tells that the mux answers a path that is not clean with a redirect. The
  body is given as the result of decoding it into the type a handler asks for.
\<close>

record request =
  rqMethod :: string
  rqPath :: string
  rqRedirects :: bool
  rqTLS :: bool
  rqCookie :: "string option"
  rqLogin :: "(string \<times> string) res"
  rqGroups :: "serverGroupsConfig res"
  rqConfig :: "instanceConfig res"
  rqNotify :: "(string \<times> instanceConfig option) res"

datatype sseFrame =
    SseReady
  | SseRuntime runtimeEvent
  | SseAges "keepAliveAge list"
  | SsePing

datatype payload =
    PError string
  | PUsername string
  | POk
  | PGroups serverGroupsConfig
  | PList "instanceSnapshot list"
  | PSnapshot instanceSnapshot
  | PCheck portCheck
  | PNotify notifyTestResult
  | PNotFound
  | PRedirect
  | PFile string
  | PStream "sseFrame list"

record response =
  rsStatus :: int
  rsBody :: payload
  rsCookie :: "cookie option"
  rsHeaders :: "(string \<times> string) list"

definition writeJSON :: "int \<Rightarrow> payload \<Rightarrow> response" where
  "writeJSON status v = \<lparr>rsStatus = status, rsBody = v, rsCookie = None, rsHeaders = []\<rparr>"

definition writeError :: "int \<Rightarrow> string \<Rightarrow> response" where
  "writeError status message = writeJSON status (PError message)"

definition methodNotAllowed :: response where
  "methodNotAllowed = writeError 405 ''method not allowed''"

definition httpNotFound :: response where
  "httpNotFound = writeJSON 404 PNotFound"

text \<open>\<open>decodeJSON\<close>: a body that does not decode is answered, any other handled further.\<close>

definition decodeJSON :: "'a res \<Rightarrow> 's \<Rightarrow> ('a \<Rightarrow> response \<times> 's) \<Rightarrow> response \<times> 's" where
  "decodeJSON body s k = (case body of Inl e \<Rightarrow> (writeError 400 (err_text e), s) | Inr v \<Rightarrow> k v)"

text \<open>The status of an error that may say that the instance does not exist.\<close>

definition errorStatus :: "go_error \<Rightarrow> int" where
  "errorStatus e = (if err_is e OsErrNotExist then 404 else 400)"

section \<open>State and surroundings\<close>

record server =
  svManager :: manager
  svStatic :: "string \<Rightarrow> bool"
  svSession :: sessionStore
  svPending :: nat

definition New :: "manager \<Rightarrow> (string \<Rightarrow> bool) \<Rightarrow> server" where
  "New m static =
     \<lparr>svManager = m, svStatic = static, svSession = newSessionStore (SessionHours (mgStore m)),
      svPending = 0\<rparr>"

text \<open>What one select of an event stream finds ready, with the success of the write.\<close>

datatype streamEvent =
    ClientGone
  | EventReady bool
  | AgeTick "string list" time bool
  | Heartbeat bool
  | Elsewhere "manager \<Rightarrow> manager"

text \<open>
  The surroundings of a request: the instant, the outcome of saving, the random bytes for a
  token and for an identifier, what other goroutines do where the manager waits for a runner or
  does not hold its mutex, and whether that runner ends in time, the outcome of a connection attempt, the host and
  the outcome of a command, and for an event stream whether it can be flushed, whether its
  first write succeeds, and what happens then.
\<close>

record environ =
  enNow :: time
  enIO :: io
  enToken :: "byte list res"
  enID :: "byte list option"
  enDuring :: gaps
  enFinished :: bool
  enDial :: "string \<Rightarrow> int res"
  enHost :: host
  enExecute :: "command \<Rightarrow> commandEnd"
  enFlusher :: bool
  enReadyWrite :: bool
  enStream :: "streamEvent list"

definition setManager :: "manager \<Rightarrow> server \<Rightarrow> server" where
  "setManager m s = s\<lparr>svManager := m\<rparr>"

definition storeDisk :: "manager \<Rightarrow> store \<times> disk \<Rightarrow> manager" where
  "storeDisk m sd = m\<lparr>mgStore := fst sd, mgDisk := snd sd\<rparr>"

section \<open>Administrator\<close>

definition zhBadLogin :: string where
  "zhBadLogin =
     utf8 [231, 148, 168, 230, 136, 183, 229, 144, 141, 230, 136, 150, 229, 175, 134, 231, 160,
      129, 233, 148, 153, 232, 175, 175]"

definition zhLoginNeeded :: string where
  "zhLoginNeeded =
     utf8 [233, 156, 128, 232, 166, 129, 231, 153, 187, 229, 189, 149]"

definition currentAdmin :: "server \<Rightarrow> adminCredential \<times> server" where
  "currentAdmin s =
     (let m = svManager s; (adm, store') = Admin (mgStore m) (mgDisk m)
      in (adm, setManager (m\<lparr>mgStore := store'\<rparr>) s))"

definition login :: "environ \<Rightarrow> request \<Rightarrow> server \<Rightarrow> response \<times> server" where
  "login env rq s =
     (if rqMethod rq \<noteq> ''POST'' then (methodNotAllowed, s)
      else decodeJSON (rqLogin rq) s (\<lambda>(username, password).
        let (adm, s1) = currentAdmin s in
        if \<not> CheckPassword adm username password then (writeError 401 zhBadLogin, s1)
        else (case create (enToken env) (rqTLS rq) (enNow env) (svSession s1) of
                (Inl e, ses) \<Rightarrow> (writeError 500 (err_text e), s1\<lparr>svSession := ses\<rparr>)
              | (Inr ck, ses) \<Rightarrow>
                  ((writeJSON 200 (PUsername username))\<lparr>rsCookie := Some ck\<rparr>, s1\<lparr>svSession := ses\<rparr>))))"

definition logout :: "environ \<Rightarrow> request \<Rightarrow> server \<Rightarrow> response \<times> server" where
  "logout env rq s =
     (if rqMethod rq \<noteq> ''POST'' then (methodNotAllowed, s)
      else let (ck, ses) = clear (rqCookie rq) (rqTLS rq) (svSession s)
           in ((writeJSON 200 POk)\<lparr>rsCookie := Some ck\<rparr>, s\<lparr>svSession := ses\<rparr>))"

definition me :: "environ \<Rightarrow> request \<Rightarrow> server \<Rightarrow> response \<times> server" where
  "me env rq s =
     (if rqMethod rq \<noteq> ''GET'' then (methodNotAllowed, s)
      else let (adm, s1) = currentAdmin s in (writeJSON 200 (PUsername (admUsername adm)), s1))"

section \<open>Events\<close>

fun changedLoop :: "keepAliveAge list \<Rightarrow> (string \<rightharpoonup> int) \<Rightarrow> keepAliveAge list \<times> (string \<rightharpoonup> int)" where
  "changedLoop [] last' = ([], last')"
| "changedLoop (a # as) last' =
     (if last' (ageID a) = Some (ageSeconds a) then changedLoop as last'
      else let (changed, l) = changedLoop as (last'(ageID a \<mapsto> ageSeconds a)) in (a # changed, l))"

definition changedKeepAliveAges ::
  "(string \<rightharpoonup> int) \<Rightarrow> keepAliveAge list \<Rightarrow> keepAliveAge list \<times> (string \<rightharpoonup> int)" where
  "changedKeepAliveAges last' current =
     (let (changed, l) = changedLoop current last'
      in (changed, l |` (ageID ` set current)))"

text \<open>
  The loop of \<open>events\<close>; the deferred \<open>unsubscribe\<close> runs when it returns. A script that is
  used up leaves the stream open.
\<close>

fun eventsLoop ::
  "streamEvent list \<Rightarrow> nat \<Rightarrow> (string \<rightharpoonup> int) \<Rightarrow> manager \<Rightarrow> sseFrame list \<times> manager" where
  "eventsLoop [] c last' m = ([], m)"
| "eventsLoop (ClientGone # es) c last' m = ([], unsubscribe c m)"
| "eventsLoop (EventReady ok # es) c last' m =
     (case receiveEvent c m of
        (None, m1) \<Rightarrow>
          (if chClosed (mgChannels m1 c) then ([], unsubscribe c m1) else eventsLoop es c last' m1)
      | (Some e, m1) \<Rightarrow>
          (if ok then let (fs, m2) = eventsLoop es c last' m1 in (SseRuntime e # fs, m2)
           else ([], unsubscribe c m1)))"
| "eventsLoop (AgeTick ids now ok # es) c last' m =
     (let (ages, l) = changedKeepAliveAges last' (KeepAliveAges ids now m) in
      if length ages > 0
      then (if ok then let (fs, m2) = eventsLoop es c l m in (SseAges ages # fs, m2)
            else ([], unsubscribe c m))
      else eventsLoop es c l m)"
| "eventsLoop (Heartbeat ok # es) c last' m =
     (if ok then let (fs, m2) = eventsLoop es c last' m in (SsePing # fs, m2)
      else ([], unsubscribe c m))"
| "eventsLoop (Elsewhere f # es) c last' m = eventsLoop es c last' (f m)"

definition events :: "environ \<Rightarrow> request \<Rightarrow> server \<Rightarrow> response \<times> server" where
  "events env rq s =
     (if rqMethod rq \<noteq> ''GET'' then (methodNotAllowed, s)
      else if \<not> enFlusher env then (writeError 500 ''event stream is not supported'', s)
      else let (c, m1) = SubscribeRuntime (svManager s);
               (fs, m2) = (if \<not> enReadyWrite env then ([], unsubscribe c m1)
                           else let (fs, m2) = eventsLoop (enStream env) c (\<lambda>_. None) m1
                                in (SseReady # fs, m2))
           in (\<lparr>rsStatus = 200, rsBody = PStream fs, rsCookie = None,
                rsHeaders = [(''Content-Type'', ''text/event-stream; charset=utf-8''),
                  (''Cache-Control'', ''no-cache''), (''Connection'', ''keep-alive''),
                  (''X-Accel-Buffering'', ''no'')]\<rparr>, setManager m2 s))"

section \<open>Server groups\<close>

text \<open>The goroutine that a change of the groups starts counts as pending until it has run.\<close>

definition serverGroups :: "environ \<Rightarrow> request \<Rightarrow> server \<Rightarrow> response \<times> server" where
  "serverGroups env rq s =
     (if rqMethod rq = ''GET'' then (writeJSON 200 (PGroups (ServerGroups (mgStore (svManager s)))), s)
      else if rqMethod rq = ''PUT'' then
        decodeJSON (rqGroups rq) s (\<lambda>groups.
          let m = svManager s in
          case UpdateServerGroups groups (enIO env) (mgStore m) (mgDisk m) of
            (Inl e, sd) \<Rightarrow> (writeError 400 (err_text e), setManager (storeDisk m sd) s)
          | (Inr saved, sd) \<Rightarrow>
              (writeJSON 200 (PGroups saved),
               (setManager (storeDisk m sd) s)\<lparr>svPending := svPending s + 1\<rparr>))
      else (methodNotAllowed, s))"

fun applyGroupsLoop :: "(nat \<Rightarrow> environ) \<Rightarrow> nat \<Rightarrow> instanceConfig list \<Rightarrow> manager \<Rightarrow> manager" where
  "applyGroupsLoop envs n [] m = m"
| "applyGroupsLoop envs n (cfg # cfgs) m =
     (if \<not> cfgEnabled cfg \<or> (cfgSTUNMode cfg \<noteq> ''group'' \<and> cfgKeepAliveMode cfg \<noteq> ''group'') \<or>
         \<not> IsRunning (cfgID cfg) m
      then applyGroupsLoop envs (n + 1) cfgs m
      else let env = envs n
           in applyGroupsLoop envs (n + 1) cfgs
                (snd (ReplaceConfig cfg cfg True (enNow env) (enIO env) (enDuring env) (enFinished env) m)))"

text \<open>Each instance has its own surroundings: time passes while the instances are restarted.\<close>

definition applyServerGroupsToRunningInstances :: "(nat \<Rightarrow> environ) \<Rightarrow> server \<Rightarrow> server" where
  "applyServerGroupsToRunningInstances envs s =
     setManager (applyGroupsLoop envs 0 (ListInstances (mgStore (svManager s))) (svManager s))
       (s\<lparr>svPending := svPending s - 1\<rparr>)"

section \<open>Instances\<close>

definition zeroSnapshot :: instanceSnapshot where
  "zeroSnapshot = \<lparr>snapConfig = zeroConfig, snapRuntime = zeroStatus\<rparr>"

definition snapshotOrZero :: "string \<Rightarrow> time \<Rightarrow> manager \<Rightarrow> instanceSnapshot" where
  "snapshotOrZero i now m = (case Snapshot i now m of None \<Rightarrow> zeroSnapshot | Some x \<Rightarrow> x)"

definition instances :: "environ \<Rightarrow> request \<Rightarrow> server \<Rightarrow> response \<times> server" where
  "instances env rq s =
     (if rqMethod rq = ''GET'' then (writeJSON 200 (PList (List (enNow env) (svManager s))), s)
      else if rqMethod rq = ''POST'' then
        decodeJSON (rqConfig rq) s (\<lambda>cfg.
          let m = svManager s in
          case AddInstance (enID env) cfg (enIO env) (mgStore m) (mgDisk m) of
            (Inl e, sd) \<Rightarrow> (writeError 400 (err_text e), setManager (storeDisk m sd) s)
          | (Inr created, sd) \<Rightarrow>
              (let m1 = ApplyConfig created (enNow env) (storeDisk m sd)
               in (writeJSON 201 (PSnapshot (snapshotOrZero (cfgID created) (enNow env) m1)),
                   setManager m1 s)))
      else (methodNotAllowed, s))"

definition startInstance :: "environ \<Rightarrow> request \<Rightarrow> string \<Rightarrow> server \<Rightarrow> response \<times> server" where
  "startInstance env rq i s =
     (if rqMethod rq \<noteq> ''POST'' then (methodNotAllowed, s)
      else case Start i (enNow env) (svManager s) of
          (Inl e, m) \<Rightarrow> (writeError (errorStatus e) (err_text e), setManager m s)
        | (Inr _, m) \<Rightarrow> (writeJSON 200 (PSnapshot (snapshotOrZero i (enNow env) m)), setManager m s))"

definition stopInstance :: "environ \<Rightarrow> request \<Rightarrow> string \<Rightarrow> server \<Rightarrow> response \<times> server" where
  "stopInstance env rq i s =
     (if rqMethod rq \<noteq> ''POST'' then (methodNotAllowed, s)
      else let (r, m0) = Stop i (enNow env) (enFinished env) (svManager s); m = enDuring env whileWaiting m0
           in case r of
                Inl e \<Rightarrow> (writeError 400 (err_text e), setManager m s)
              | Inr _ \<Rightarrow> (writeJSON 200 (PSnapshot (snapshotOrZero i (enNow env) m)), setManager m s))"

definition checkInstance :: "environ \<Rightarrow> request \<Rightarrow> string \<Rightarrow> server \<Rightarrow> response \<times> server" where
  "checkInstance env rq i s =
     (if rqMethod rq \<noteq> ''POST'' then (methodNotAllowed, s)
      else case CheckTCPPort i (enDial env) (enNow env) (enIO env) (svManager s) of
          (Inl e, m) \<Rightarrow> (writeError (errorStatus e) (err_text e), setManager m s)
        | (Inr found, m) \<Rightarrow> (writeJSON 200 (PCheck found), setManager m s))"

definition testNotifyScript :: "environ \<Rightarrow> request \<Rightarrow> string \<Rightarrow> server \<Rightarrow> response \<times> server" where
  "testNotifyScript env rq i s =
     (if rqMethod rq \<noteq> ''POST'' then (methodNotAllowed, s)
      else decodeJSON (rqNotify rq) s (\<lambda>(script, config).
        case Snapshot i (enNow env) (svManager s) of
          None \<Rightarrow> (writeError 404 ''instance not found'', s)
        | Some snapshot \<Rightarrow>
            (let cfg = (case config of
                   None \<Rightarrow> snapConfig snapshot
                 | Some c \<Rightarrow> (if cfgID c = [] then c\<lparr>cfgID := cfgID (snapConfig snapshot)\<rparr> else c))
             in case RunNotifyScriptTest (enHost env) (enExecute env) cfg (snapRuntime snapshot) script of
                  Inl e \<Rightarrow>
                    (if err_is e CtxDeadlineExceeded then (writeError 400 zhScriptTimeout, s)
                     else (writeError 400 (err_text e), s))
                | Inr result \<Rightarrow> (writeJSON 200 (PNotify result), s))))"

definition putInstance :: "environ \<Rightarrow> request \<Rightarrow> string \<Rightarrow> server \<Rightarrow> response \<times> server" where
  "putInstance env rq i s =
     (let m = svManager s; wasRunning = IsRunning i m in
      case GetInstance i (mgStore m) of
        None \<Rightarrow> (writeError 404 ''instance not found'', s)
      | Some oldCfg \<Rightarrow>
          decodeJSON (rqConfig rq) s (\<lambda>cfg.
            case UpdateInstance i cfg (enIO env) (mgStore m) (mgDisk m) of
              (Inl e, sd) \<Rightarrow> (writeError (errorStatus e) (err_text e), setManager (storeDisk m sd) s)
            | (Inr updated, sd) \<Rightarrow>
                (case ReplaceConfig oldCfg updated wasRunning (enNow env) (enIO env) (enDuring env)
                        (enFinished env) (storeDisk m sd) of
                   (Inl e, m1) \<Rightarrow> (writeError 500 (err_text e), setManager m1 s)
                 | (Inr _, m1) \<Rightarrow>
                     (writeJSON 200 (PSnapshot (snapshotOrZero (cfgID updated) (enNow env) m1)),
                      setManager m1 s))))"

definition deleteInstance :: "environ \<Rightarrow> string \<Rightarrow> server \<Rightarrow> response \<times> server" where
  "deleteInstance env i s =
     (let m = enDuring env whileWaiting (snd (Stop i (enNow env) (enFinished env) (svManager s))) in
      case DeleteInstance i (enIO env) (mgStore m) (mgDisk m) of
        (Inl e, sd) \<Rightarrow> (writeError (errorStatus e) (err_text e), setManager (storeDisk m sd) s)
      | (Inr _, sd) \<Rightarrow> (writeJSON 200 POk, setManager (storeDisk m sd) s))"

definition instanceByID :: "environ \<Rightarrow> request \<Rightarrow> server \<Rightarrow> response \<times> server" where
  "instanceByID env rq s =
     (let parts = split_on (CHR ''/'') (trim_byte (CHR ''/'') (trim_prefix (rqPath rq) ''/api/instances/''))
      in case parts of
           [] \<Rightarrow> (httpNotFound, s)
         | i # rest \<Rightarrow>
             (if i = [] then (httpNotFound, s)
              else if rest = [''start''] then startInstance env rq i s
              else if rest = [''stop''] then stopInstance env rq i s
              else if rest = [''check''] then checkInstance env rq i s
              else if rest = [''notify-test''] then testNotifyScript env rq i s
              else if rest \<noteq> [] then (httpNotFound, s)
              else if rqMethod rq = ''GET'' then
                (case Snapshot i (enNow env) (svManager s) of
                   None \<Rightarrow> (httpNotFound, s)
                 | Some snapshot \<Rightarrow> (writeJSON 200 (PSnapshot snapshot), s))
              else if rqMethod rq = ''PUT'' then putInstance env rq i s
              else if rqMethod rq = ''DELETE'' then deleteInstance env i s
              else (methodNotAllowed, s)))"

section \<open>Routing\<close>

definition requireAuth ::
  "(environ \<Rightarrow> request \<Rightarrow> server \<Rightarrow> response \<times> server) \<Rightarrow> environ \<Rightarrow> request \<Rightarrow> server \<Rightarrow> response \<times> server" where
  "requireAuth next' env rq s =
     (let (ok, ses) = valid (rqCookie rq) (enNow env) (svSession s); s1 = s\<lparr>svSession := ses\<rparr>
      in if \<not> ok then (writeError 401 zhLoginNeeded, s1) else next' env rq s1)"

definition staticHandler :: "request \<Rightarrow> server \<Rightarrow> response" where
  "staticHandler rq s =
     (if has_prefix (rqPath rq) ''/api/'' then httpNotFound
      else let path = trim_prefix (rqPath rq) ''/'';
               name = (if path = [] then ''index.html'' else path)
           in writeJSON 200 (PFile (if svStatic s name then rqPath rq else ''/'')))"

definition secureHeaders :: "response \<Rightarrow> response" where
  "secureHeaders rs =
     rs\<lparr>rsHeaders := [(''X-Content-Type-Options'', ''nosniff''), (''Referrer-Policy'', ''same-origin''),
                     (''X-Frame-Options'', ''DENY'')] @ rsHeaders rs\<rparr>"

definition serveMux :: "environ \<Rightarrow> request \<Rightarrow> server \<Rightarrow> response \<times> server" where
  "serveMux env rq s =
     (if rqRedirects rq then (writeJSON 301 PRedirect, s)
      else if rqPath rq = ''/api/login'' then login env rq s
      else if rqPath rq = ''/api/logout'' then requireAuth logout env rq s
      else if rqPath rq = ''/api/me'' then requireAuth me env rq s
      else if rqPath rq = ''/api/events'' then requireAuth events env rq s
      else if rqPath rq = ''/api/server-groups'' then requireAuth serverGroups env rq s
      else if rqPath rq = ''/api/instances'' then requireAuth instances env rq s
      else if has_prefix (rqPath rq) ''/api/instances/'' then requireAuth instanceByID env rq s
      else (staticHandler rq s, s))"

definition Handler :: "environ \<Rightarrow> request \<Rightarrow> server \<Rightarrow> response \<times> server" where
  "Handler env rq s = (let (rs, s1) = serveMux env rq s in (secureHeaders rs, s1))"

end
