(* ===== verification/Server_Correct.thy ===== *)
theory Server_Correct
  imports Server
begin

text \<open>
  What every request keeps: an invariant of the manager that each operation of the manager
  and of the store keeps is kept by every handler. The interface is a locale; it is
  interpreted for the invariant of the manager and for the invariant of the store.
\<close>

section \<open>Surroundings and requests that occur\<close>

text \<open>The decoder leaves the two resolved lists of a configuration empty, because they have no
  JSON form; random identifiers are not empty; and whatever runs elsewhere keeps the invariant.\<close>

definition request_ok :: "request \<Rightarrow> bool" where
  "request_ok rq \<longleftrightarrow> (\<forall>cfg. rqConfig rq = Inr cfg \<longrightarrow> json_config cfg = cfg)"

definition stream_ok :: "(manager \<Rightarrow> bool) \<Rightarrow> streamEvent list \<Rightarrow> bool" where
  "stream_ok I es \<longleftrightarrow> (\<forall>f m. Elsewhere f \<in> set es \<longrightarrow> I m \<longrightarrow> I (f m))"

definition environ_ok :: "(manager \<Rightarrow> bool) \<Rightarrow> environ \<Rightarrow> bool" where
  "environ_ok I env \<longleftrightarrow> random_id (enID env) \<and> (\<forall>k m. I m \<longrightarrow> I (enDuring env k m)) \<and> stream_ok I (enStream env)"

lemma stream_ok_Cons [simp]:
  "stream_ok I (e # es) \<longleftrightarrow> (\<forall>f m. e = Elsewhere f \<longrightarrow> I m \<longrightarrow> I (f m)) \<and> stream_ok I es"
  by (auto simp: stream_ok_def)

lemma setManager_simps [simp]:
  "svManager (setManager m s) = m" "svSession (setManager m s) = svSession s"
  "svPending (setManager m s) = svPending s" "svStatic (setManager m s) = svStatic s"
  by (simp_all add: setManager_def)

text \<open>What a handler leaves behind when the body is decoded.\<close>

lemma decodeJSON_cases:
  "decodeJSON body s k = (case body of Inl e \<Rightarrow> (writeError 400 (err_text e), s) | Inr v \<Rightarrow> k v)"
  by (rule decodeJSON_def)

section \<open>The interface\<close>

locale handler_invariant =
  fixes I :: "manager \<Rightarrow> bool"
  assumes I_start: "I m \<Longrightarrow> I (snd (Start i now m))"
    and I_stop: "I m \<Longrightarrow> I (snd (Stop i now fin m))"
    and I_replace: "I m \<Longrightarrow> (\<And>k x. I x \<Longrightarrow> I (during k x)) \<Longrightarrow>
      I (snd (ReplaceConfig old cfg w now io during fin m))"
    and I_check: "I m \<Longrightarrow> I (snd (CheckTCPPort i dial now io m))"
    and I_subscribe: "I m \<Longrightarrow> I (snd (SubscribeRuntime m))"
    and I_unsubscribe: "I m \<Longrightarrow> I (unsubscribe c m)"
    and I_receive: "I m \<Longrightarrow> I (snd (receiveEvent c m))"
    and I_store: "I m \<Longrightarrow> store_step (mgStore m, mgDisk m) sd \<Longrightarrow> I (storeDisk m sd)"
begin

lemma I_apply: "I m \<Longrightarrow> I (ApplyConfig cfg now m)"
  by (simp add: ApplyConfig_def I_start)

lemma I_admin: "I (svManager s) \<Longrightarrow> I (svManager (snd (currentAdmin s)))"
  using I_store[of "svManager s" "(snd (Admin (mgStore (svManager s)) (mgDisk (svManager s))), mgDisk (svManager s))"]
  by (cases "Admin (mgStore (svManager s)) (mgDisk (svManager s))")
    (simp add: currentAdmin_def Let_def storeDisk_def step_admin)

lemma I_stream: "stream_ok I es \<Longrightarrow> I m \<Longrightarrow> I (snd (eventsLoop es c l m))"
proof (induction es c l m rule: eventsLoop.induct)
  case (3 ok es c l m)
  with I_receive[of m c] show ?case
    by (cases "receiveEvent c m") (auto simp: I_unsubscribe split: option.split prod.split)
next
  case (4 ids now ok es c l m)
  then show ?case by (cases ok) (auto simp: I_unsubscribe Let_def split: prod.split)
next
  case (5 ok es c l m)
  then show ?case by (cases ok) (auto simp: I_unsubscribe split: prod.split)
qed (simp_all add: I_unsubscribe)

lemma I_login: "I (svManager s) \<Longrightarrow> I (svManager (snd (login env rq s)))"
  using I_admin[of s]
  by (auto simp: login_def decodeJSON_def Let_def split: sum.split prod.split)

lemma I_me: "I (svManager s) \<Longrightarrow> I (svManager (snd (me env rq s)))"
  using I_admin[of s] by (auto simp: me_def split: prod.split)

lemma I_logout: "I (svManager s) \<Longrightarrow> I (svManager (snd (logout env rq s)))"
  by (simp add: logout_def split: prod.split)

lemma I_events: "environ_ok I env \<Longrightarrow> I (svManager s) \<Longrightarrow> I (svManager (snd (events env rq s)))"
  using I_subscribe[of "svManager s"] I_stream[of "enStream env"] I_unsubscribe
  by (cases "SubscribeRuntime (svManager s)"; cases "eventsLoop (enStream env) (fst (SubscribeRuntime (svManager s)))
      (\<lambda>_. None) (snd (SubscribeRuntime (svManager s)))")
    (auto simp: events_def environ_ok_def dest: spec split: prod.split, (metis snd_conv)+)

lemma I_serverGroups: "I (svManager s) \<Longrightarrow> I (svManager (snd (serverGroups env rq s)))"
  using I_store[OF _ step_groups]
  by (auto simp: serverGroups_def decodeJSON_def Let_def split: sum.split prod.split)

lemma I_instances:
  assumes "environ_ok I env" and "request_ok rq" and "I (svManager s)"
  shows "I (svManager (snd (instances env rq s)))"
  using assms I_store[OF assms(3) step_add] I_apply
  by (fastforce simp: instances_def decodeJSON_def Let_def environ_ok_def request_ok_def split: sum.split prod.split)

lemma I_startInstance: "I (svManager s) \<Longrightarrow> I (svManager (snd (startInstance env rq i s)))"
  using I_start[of "svManager s" i "enNow env"] by (auto simp: startInstance_def split: prod.split sum.split)

lemma I_stopInstance:
  "environ_ok I env \<Longrightarrow> I (svManager s) \<Longrightarrow> I (svManager (snd (stopInstance env rq i s)))"
  using I_stop[of "svManager s" i "enNow env" "enFinished env"]
  by (auto simp: stopInstance_def environ_ok_def Let_def split: prod.split sum.split)

lemma I_checkInstance: "I (svManager s) \<Longrightarrow> I (svManager (snd (checkInstance env rq i s)))"
  using I_check[of "svManager s" i "enDial env" "enNow env" "enIO env"]
  by (auto simp: checkInstance_def split: prod.split sum.split)

lemma testNotifyScript_keeps [simp]: "snd (testNotifyScript env rq i s) = s"
  by (simp add: testNotifyScript_def decodeJSON_def Let_def split: prod.split sum.split option.split)

lemma I_putInstance:
  assumes "environ_ok I env" and "request_ok rq" and "I (svManager s)"
  shows "I (svManager (snd (putInstance env rq i s)))"
proof (cases "GetInstance i (mgStore (svManager s))")
  case None
  with assms(3) show ?thesis by (simp add: putInstance_def Let_def)
next
  case (Some old)
  let ?m = "svManager s"
  show ?thesis
  proof (cases "rqConfig rq")
    case (Inl e)
    with Some assms(3) show ?thesis by (simp add: putInstance_def Let_def decodeJSON_def)
  next
    case (Inr cfg)
    obtain r sd where u: "UpdateInstance i cfg (enIO env) (mgStore ?m) (mgDisk ?m) = (r, sd)"
      by (cases "UpdateInstance i cfg (enIO env) (mgStore ?m) (mgDisk ?m)")
    with Inr assms(2) have "store_step (mgStore ?m, mgDisk ?m) sd"
      by (cases sd) (auto simp: request_ok_def intro: step_update)
    from I_store[OF assms(3) this] have sd: "I (storeDisk ?m sd)" .
    show ?thesis
    proof (cases r)
      case (Inl e)
      with Some Inr u sd show ?thesis by (simp add: putInstance_def Let_def decodeJSON_def)
    next
      case (Inr updated)
      from assms(1) have "I x \<Longrightarrow> I (enDuring env k x)" for k x by (simp add: environ_ok_def)
      from I_replace[where during = "enDuring env", OF sd this] have
        "I (snd (ReplaceConfig old updated w (enNow env) (enIO env) (enDuring env) (enFinished env) (storeDisk ?m sd)))"
        for w by blast
      with Some \<open>rqConfig rq = Inr cfg\<close> u Inr show ?thesis
        by (auto simp: putInstance_def Let_def decodeJSON_def split: prod.split sum.split) (metis snd_conv)+
    qed
  qed
qed

lemma I_deleteInstance:
  assumes "environ_ok I env" and "I (svManager s)"
  shows "I (svManager (snd (deleteInstance env i s)))"
proof -
  let ?m = "enDuring env whileWaiting (snd (Stop i (enNow env) (enFinished env) (svManager s)))"
  have m: "I ?m" using assms I_stop by (simp add: environ_ok_def)
  obtain r st d where sd: "DeleteInstance i (enIO env) (mgStore ?m) (mgDisk ?m) = (r, st, d)"
    by (cases "DeleteInstance i (enIO env) (mgStore ?m) (mgDisk ?m)") auto
  from I_store[OF m step_delete[OF sd]] sd show ?thesis
    by (simp add: deleteInstance_def Let_def split: sum.split)
qed

lemma I_instanceByID:
  assumes "environ_ok I env" and "request_ok rq" and "I (svManager s)"
  shows "I (svManager (snd (instanceByID env rq s)))"
  using assms I_putInstance[OF assms] I_deleteInstance[OF assms(1,3)] I_checkInstance[OF assms(3)]
    I_stopInstance[OF assms(1,3)] I_startInstance[OF assms(3)]
  by (simp add: instanceByID_def Let_def split: list.split option.split)

lemma I_requireAuth:
  "(\<And>q. I (svManager q) \<Longrightarrow> I (svManager (snd (h env rq q)))) \<Longrightarrow> I (svManager s) \<Longrightarrow>
     I (svManager (snd (requireAuth h env rq s)))"
  by (simp add: requireAuth_def Let_def split: prod.split)

lemma handler_keeps:
  assumes "environ_ok I env" and "request_ok rq" and "I (svManager s)"
  shows "I (svManager (snd (Handler env rq s)))"
proof -
  have "I (svManager (snd (requireAuth h env rq s)))"
    if "h \<in> {logout, me, events, serverGroups, instances, instanceByID}" for h
    using that assms(3) I_logout I_me I_events[OF assms(1)] I_serverGroups I_instances[OF assms(1,2)]
      I_instanceByID[OF assms(1,2)]
    by (intro I_requireAuth) auto
  then have "I (svManager (snd (serveMux env rq s)))"
    using assms(3) I_login by (simp add: serveMux_def)
  then show ?thesis by (cases "serveMux env rq s") (simp add: Handler_def)
qed

lemma groups_loop_keeps:
  assumes "\<And>n. environ_ok I (envs n)"
  shows "I m \<Longrightarrow> I (applyGroupsLoop envs n cfgs m)"
proof (induction cfgs arbitrary: n m)
  case (Cons cfg cfgs)
  from assms[of n] have "I x \<Longrightarrow> I (enDuring (envs n) k x)" for k x by (simp add: environ_ok_def)
  from I_replace[where during = "enDuring (envs n)", OF Cons.prems this] Cons show ?case by (simp add: Let_def)
qed simp

end

section \<open>The manager and the store behind the console\<close>

text \<open>Every operation of the manager touches the store through its operations only.\<close>

definition store_good :: "manager \<Rightarrow> bool" where
  "store_good m \<longleftrightarrow> db_ok (stoDB (mgStore m)) \<and> disk_ok (mgDisk m)"

lemma store_good_step:
  "store_good m \<Longrightarrow> store_step (mgStore m, mgDisk m) sd \<Longrightarrow> store_good (storeDisk m sd)"
  using store_step_ok[of "(mgStore m, mgDisk m)" sd] by (simp add: store_good_def storeDisk_def)

lemma store_good_cong:
  "mgStore m' = mgStore m \<Longrightarrow> mgDisk m' = mgDisk m \<Longrightarrow> store_good m' = store_good m"
  by (simp add: store_good_def)

lemma store_good_putStatus [simp]: "store_good (putStatus now i st m) = store_good m"
  by (rule store_good_cong) simp_all

lemma store_good_setStatus [simp]: "store_good (setStatusLocked now i s msg e m) = store_good m"
  by (rule store_good_cong) simp_all

lemma store_good_fields [simp]:
  "store_good (m\<lparr>mgRunners := a\<rparr>) = store_good m" "store_good (m\<lparr>mgObjects := b\<rparr>) = store_good m"
  "store_good (m\<lparr>mgNext := n\<rparr>) = store_good m" "store_good (m\<lparr>mgSubscribers := u\<rparr>) = store_good m"
  "store_good (m\<lparr>mgChannels := v\<rparr>) = store_good m" "store_good (m\<lparr>mgNextChan := k\<rparr>) = store_good m"
  by (simp_all add: store_good_def)

lemma store_good_saved:
  assumes "store_good m"
  shows "store_good (case saveRuntime io i st (mgStore m, mgDisk m) of (s, d) \<Rightarrow> m'\<lparr>mgStore := s, mgDisk := d\<rparr>)"
    and "store_good (case clearRuntimeRecord io i (mgStore m, mgDisk m) of (s, d) \<Rightarrow> m'\<lparr>mgStore := s, mgDisk := d\<rparr>)"
  using assms
  by (cases "SaveRuntimeStatus i st io (mgStore m) (mgDisk m)", cases "ClearRuntimeStatus i io (mgStore m) (mgDisk m)",
      simp add: saveRuntime_def clearRuntimeRecord_def store_good_def SaveRuntimeStatus_ok ClearRuntimeStatus_ok)+

lemma store_good_report [simp]: "store_good m \<Longrightarrow> store_good (report i u now io m)"
  by (simp add: report_def Let_def store_good_saved)

lemma store_good_clear [simp]:
  "store_good (clearStatus i now m) = store_good m" "store_good m \<Longrightarrow> store_good (clearRecord i io m)"
  by (simp_all add: clearStatus_def clearRecord_def Let_def store_good_saved)

lemma store_good_Start [simp]: "store_good m \<Longrightarrow> store_good (snd (Start i now m))"
  by (simp add: Start_def Let_def split: option.split)

lemma store_good_Stop [simp]: "store_good m \<Longrightarrow> store_good (snd (Stop i now fin m))"
  by (simp add: Stop_def Let_def split: option.split)

lemma store_good_clearIf:
  "store_good m \<Longrightarrow> (\<And>k x. store_good x \<Longrightarrow> store_good (during k x)) \<Longrightarrow> store_good (clearIf b i now io during m)"
  by (simp add: clearIf_def clearRuntime_def)

lemma store_good_replace:
  assumes "store_good m" and "\<And>k x. store_good x \<Longrightarrow> store_good (during k x)"
  shows "store_good (snd (ReplaceConfig old cfg w now io during fin m))"
  using assms store_good_Stop[OF assms(1), of "cfgID cfg" now fin] store_good_clearIf[OF _ assms(2)]
  by (cases "Stop (cfgID cfg) now fin m") (simp add: ReplaceConfig_def Let_def split: option.split)

interpretation ms: handler_invariant mgr_ok
proof
  fix m sd assume "mgr_ok m" "store_step (mgStore m, mgDisk m) sd"
  then show "mgr_ok (storeDisk m sd)" by (auto intro: mgr_ok_cong simp: storeDisk_def)
qed (simp_all add: Start_ok Stop_ok ReplaceConfig_ok CheckTCPPort_ok SubscribeRuntime_ok unsubscribe_ok receiveEvent_ok)

interpretation sg: handler_invariant store_good
proof
  fix m old cfg w now io and during :: gaps and fin
  assume "store_good m" "\<And>k x. store_good x \<Longrightarrow> store_good (during k x)"
  then show "store_good (snd (ReplaceConfig old cfg w now io during fin m))" by (rule store_good_replace)
qed (simp_all add: store_good_step CheckTCPPort_def SubscribeRuntime_def unsubscribe_def receiveEvent_def Let_def
    split: option.split list.split)

section \<open>Reachable servers\<close>

text \<open>
  A server starts on an opened store with the enabled instances started. Then come requests,
  the restart of the instances after a change of the server groups, the reports and the ends
  of runners, and the password command, which writes the data file of the running server.
\<close>

inductive server_step :: "server \<Rightarrow> server \<Rightarrow> bool" where
  ss_request: "environ_ok mgr_ok env \<Longrightarrow> environ_ok store_good env \<Longrightarrow> request_ok rq \<Longrightarrow>
    server_step s (snd (Handler env rq s))"
| ss_groups: "(\<And>n. environ_ok mgr_ok (envs n)) \<Longrightarrow> (\<And>n. environ_ok store_good (envs n)) \<Longrightarrow>
    server_step s (applyServerGroupsToRunningInstances envs s)"
| ss_report: "server_step s (setManager (report i u now io (svManager s)) s)"
| ss_finished: "server_step s (setManager (runnerFinished i rid now (svManager s)) s)"
| ss_runner: "rnCfg r = rnCfg (mgObjects (svManager s) rid) \<Longrightarrow>
    server_step s (setManager ((svManager s)\<lparr>mgObjects := (mgObjects (svManager s))(rid := r)\<rparr>) s)"
| ss_password: "ChangeAdminPassword (stoPath (mgStore (svManager s))) name pw salt now io (mgDisk (svManager s)) = (r, d) \<Longrightarrow>
    server_step s (setManager ((svManager s)\<lparr>mgDisk := d\<rparr>) s)"

inductive server_reach :: "server \<Rightarrow> bool" where
  sr_new: "OpenStore path name pw r1 r2 now io d = (Inr (st, generated), d') \<Longrightarrow> disk_ok d \<Longrightarrow>
    server_reach (New (StartEnabled t (NewManager st d')) static)"
| sr_step: "server_reach s \<Longrightarrow> server_step s s' \<Longrightarrow> server_reach s'"

lemma startAll_keeps:
  "mgr_ok m \<Longrightarrow> mgr_ok (startAll now cfgs m)" "store_good m \<Longrightarrow> store_good (startAll now cfgs m)"
  by (induction cfgs arbitrary: m) (simp_all add: Start_ok)

lemma store_good_finished: "store_good m \<Longrightarrow> store_good (runnerFinished i rid now m)"
  by (simp add: runnerFinished_def Let_def)

lemma server_step_ok:
  "server_step s s' \<Longrightarrow> mgr_ok (svManager s) \<and> store_good (svManager s) \<Longrightarrow>
     mgr_ok (svManager s') \<and> store_good (svManager s')"
proof (induction rule: server_step.induct)
  case (ss_request env rq s)
  then show ?case using ms.handler_keeps sg.handler_keeps by blast
next
  case (ss_groups envs s)
  from ms.groups_loop_keeps[OF ss_groups(1)] sg.groups_loop_keeps[OF ss_groups(2)] ss_groups(3) show ?case
    by (simp add: applyServerGroupsToRunningInstances_def)
next
  case (ss_password s name pw salt now io r d)
  from ChangeAdminPassword_ok[OF ss_password(1)] ss_password(2)
  have "store_good ((svManager s)\<lparr>mgDisk := d\<rparr>)" by (simp add: store_good_def)
  moreover have "mgr_ok ((svManager s)\<lparr>mgDisk := d\<rparr>)" using ss_password(2) by (auto intro: mgr_ok_cong)
  ultimately show ?case by simp
qed (simp_all add: report_ok runnerFinished_ok setObject_ok store_good_finished)

lemma server_reach_ok: "server_reach s \<Longrightarrow> mgr_ok (svManager s) \<and> store_good (svManager s)"
proof (induction rule: server_reach.induct)
  case (sr_new path name pw r1 r2 now io d st generated d' t static)
  from OpenStore_ok[OF sr_new(1,2)] have "store_good (NewManager st d')"
    by (simp add: store_good_def NewManager_def)
  then show ?case by (simp add: New_def StartEnabled_def startAll_keeps NewManager_ok)
qed (use server_step_ok in blast)

end
