(* ===== verification/Server_Props.thy ===== *)
theory Server_Props
  imports Server_Correct
begin

text \<open>The properties of the HTTP interface, over the components behind it.\<close>

section \<open>The whole program keeps its invariants\<close>

text \<open>
  C16: Whatever requests arrive, in any order, with any bodies, with any outcome of saving,
  and whatever the runners report in between: the instances of the running server and of its
  data file stay valid and have different identifiers, no event is sent on a closed channel,
  no subscriber's buffer exceeds its bound, and the running instances have different runners.
\<close>

theorem server_invariant:
  assumes "server_reach s" and "m = svManager s"
  shows "db_ok (stoDB (mgStore m)) \<and> disk_ok (mgDisk m) \<and> distinct (map cfgID (ListInstances (mgStore m))) \<and>
    \<not> mgPanicked m \<and> (\<forall>c \<in> set (mgSubscribers m). \<not> chClosed (mgChannels m c)) \<and>
    (\<forall>c. length (chBuffer (mgChannels m c)) \<le> 64) \<and>
    (\<forall>i j rid. mgRunners m i = Some rid \<and> mgRunners m j = Some rid \<longrightarrow> i = j)"
proof -
  from server_reach_ok[OF assms(1)] assms(2) have ok: "mgr_ok m" "store_good m" by simp_all
  then have "channels_ok m" "runners_ok m" by (simp_all add: mgr_ok_def)
  then have "\<not> mgPanicked m" "\<forall>c \<in> set (mgSubscribers m). \<not> chClosed (mgChannels m c)"
    "\<forall>c. length (chBuffer (mgChannels m c)) \<le> 64"
    "\<forall>i j rid. mgRunners m i = Some rid \<and> mgRunners m j = Some rid \<longrightarrow> i = j"
    by (simp_all add: channels_ok_def subscriberBuffer_def runners_ok_def) (metis)
  moreover from ok(2) have "db_ok (stoDB (mgStore m))" "disk_ok (mgDisk m)" by (simp_all add: store_good_def)
  moreover from this(1) have "distinct (map cfgID (ListInstances (mgStore m)))"
    by (simp add: db_ok_def ListInstances_def comp_def)
  ultimately show ?thesis by blast
qed

definition demoServer :: server where
  "demoServer = New (StartEnabled 3 (NewManager demoStore demoDisk)) (\<lambda>_. False)"

definition demoEnv :: environ where
  "demoEnv =
     \<lparr>enNow = 100, enIO = okIO, enToken = Inr [7], enID = None, enDuring = (\<lambda>_. id), enFinished = False,
      enDial = (\<lambda>_. Inr 1), enHost = \<lparr>hoWindows = False, hoIsFile = (\<lambda>_. False), hoEnviron = []\<rparr>,
      enExecute = (\<lambda>_. \<lparr>ceOutput = [], ceError = None, ceExit = Some 0, ceCtxDone = False, ceMillis = 1\<rparr>),
      enFlusher = True, enReadyWrite = True, enStream = []\<rparr>"

definition plainRequest :: request where
  "plainRequest =
     \<lparr>rqMethod = ''GET'', rqPath = ''/'', rqRedirects = False, rqTLS = False, rqCookie = None,
      rqLogin = Inl (Sentinel IoEOF), rqGroups = Inl (Sentinel IoEOF), rqConfig = Inl (Sentinel IoEOF),
      rqNotify = Inl (Sentinel IoEOF)\<rparr>"

lemma demo_server_reach: "server_reach demoServer"
  unfolding demoServer_def by (rule sr_new[OF demo_open demo_disk_ok])

lemma demo_env_ok: "environ_ok I demoEnv"
  by (simp add: environ_ok_def demoEnv_def random_id_def stream_ok_def)

lemma demo_env_fields [simp]:
  "enNow demoEnv = 100" "enIO demoEnv = okIO" "enToken demoEnv = Inr [7]" "enDuring demoEnv = (\<lambda>_. id)"
  "enFinished demoEnv = False" "enID demoEnv = None"
  by (simp_all add: demoEnv_def)

lemma demo_server_fields [simp]:
  "svManager demoServer = NewManager demoStore demoDisk" "svPending demoServer = 0"
  "svSession demoServer = newSessionStore (SessionHours demoStore)"
  by (simp_all add: demoServer_def New_def StartEnabled_def ListInstances_def) (simp_all add: NewManager_def ListInstances_def)

lemma server_invariant_witness:
  "\<exists>s. server_reach s \<and> distinct (map cfgID (ListInstances (mgStore (svManager s)))) \<and> \<not> mgPanicked (svManager s)"
proof -
  have "request_ok plainRequest" by (simp add: request_ok_def plainRequest_def)
  from sr_step[OF demo_server_reach ss_request[OF demo_env_ok demo_env_ok this]]
  have "server_reach (snd (Handler demoEnv plainRequest demoServer))" .
  with server_invariant[OF this refl] show ?thesis by blast
qed

section \<open>Sessions\<close>

text \<open>
  C5: Without a valid session no request under \<open>/api/\<close> except the login does anything: the
  instances, the runners, the data file and the subscriptions stay as they are, no command
  runs, no session starts, and the answer carries no data.
\<close>

theorem api_requires_session:
  assumes "has_prefix (rqPath rq) ''/api/''" and "rqPath rq \<noteq> ''/api/login''"
    and "\<not> fst (valid (rqCookie rq) (enNow env) (svSession s))"
    and "Handler env rq s = (rs, s')"
  shows "svManager s' = svManager s \<and> svPending s' = svPending s \<and> rsCookie rs = None \<and>
    (\<forall>tok e. ssItems (svSession s') tok = Some e \<longrightarrow> ssItems (svSession s) tok = Some e) \<and>
    rsBody rs \<in> {PError zhLoginNeeded, PNotFound, PRedirect} \<and> rsStatus rs \<in> {401, 404, 301}"
proof -
  obtain ses where v: "valid (rqCookie rq) (enNow env) (svSession s) = (False, ses)"
    using assms(3) by (cases "valid (rqCookie rq) (enNow env) (svSession s)") auto
  then have keep: "ssItems ses tok = Some e \<longrightarrow> ssItems (svSession s) tok = Some e" for tok e
    by (auto simp: valid_def split: option.splits if_splits)
  from v have auth: "requireAuth h env rq s = (writeError 401 zhLoginNeeded, s\<lparr>svSession := ses\<rparr>)" for h
    by (simp add: requireAuth_def Let_def)
  obtain raw s1 where r: "serveMux env rq s = (raw, s1)" by (cases "serveMux env rq s")
  have "(raw, s1) \<in> {(writeJSON 301 PRedirect, s), (writeError 401 zhLoginNeeded, s\<lparr>svSession := ses\<rparr>), (httpNotFound, s)}"
    using r assms(1,2) by (auto simp: serveMux_def auth staticHandler_def split: if_splits)
  moreover have "rs = secureHeaders raw" "s' = s1" using r assms(4) by (simp_all add: Handler_def)
  ultimately show ?thesis using keep
    by (auto simp: secureHeaders_def writeJSON_def writeError_def httpNotFound_def)
qed

text \<open>The administrator that is in force: the one of the data file when that is readable, complete and
  newer than the one in memory (or the one in memory has no time), and otherwise the one in memory.\<close>

definition currentCredential :: "adminCredential \<Rightarrow> dataFile \<Rightarrow> adminCredential" where
  "currentCredential mem file =
     (case file of
        DbFile db \<Rightarrow>
          (if admin_complete (dbAdmin db) \<and> (admLastPassword mem = 0 \<or> admLastPassword mem < admLastPassword (dbAdmin db))
           then dbAdmin db else mem)
      | _ \<Rightarrow> mem)"

lemma Admin_current: "fst (Admin s d) = currentCredential (dbAdmin (stoDB s)) (dkFile d)"
  by (cases "dkFile d")
    (auto simp: Admin_def refreshAdminFromDiskLocked_def currentCredential_def admin_complete_def is_zero_time_def Let_def)

text \<open>
  C22: A login succeeds exactly when the credentials are those of the administrator in force: the
  one of the data file when the file is readable and complete and newer than the memory of
  the server, and otherwise the one in memory. Only then is a session started, and its cookie is
  accepted from then on until the lifetime has passed.
\<close>

theorem login_opens_session:
  assumes "rqPath rq = ''/api/login''" and "rqMethod rq = ''POST''" and "\<not> rqRedirects rq"
    and "rqLogin rq = Inr (u, p)" and "enToken env = Inr tok" and "tok \<noteq> []" and "0 \<le> ssLifetime (svSession s)"
    and "Handler env rq s = (rs, s')"
  shows "if CheckPassword (currentCredential (dbAdmin (stoDB (mgStore (svManager s)))) (dkFile (mgDisk (svManager s)))) u p
    then rsStatus rs = 200 \<and> (\<exists>ck. rsCookie rs = Some ck \<and> ckHttpOnly ck \<and>
        ssItems (svSession s') (ckValue ck) = Some (enNow env + ssLifetime (svSession s)) \<and>
        (\<forall>t. t \<le> enNow env + ssLifetime (svSession s) \<longrightarrow> fst (valid (Some (ckValue ck)) t (svSession s'))))
    else rsStatus rs = 401 \<and> rsCookie rs = None \<and> svSession s' = svSession s"
proof -
  obtain adm st where a: "Admin (mgStore (svManager s)) (mgDisk (svManager s)) = (adm, st)"
    by (cases "Admin (mgStore (svManager s)) (mgDisk (svManager s))")
  then have cur: "currentCredential (dbAdmin (stoDB (mgStore (svManager s)))) (dkFile (mgDisk (svManager s))) = adm"
    by (metis Admin_current fst_conv)
  define s1 where "s1 = setManager ((svManager s)\<lparr>mgStore := st\<rparr>) s"
  from a have ca: "currentAdmin s = (adm, s1)" by (simp add: currentAdmin_def s1_def)
  have ses: "svSession s1 = svSession s" by (simp add: s1_def)
  from assms(1-4) have m: "serveMux env rq s = (let (adm, s1) = currentAdmin s in
      if \<not> CheckPassword adm u p then (writeError 401 zhBadLogin, s1)
      else (case create (enToken env) (rqTLS rq) (enNow env) (svSession s1) of
              (Inl e, ses) \<Rightarrow> (writeError 500 (err_text e), s1\<lparr>svSession := ses\<rparr>)
            | (Inr ck, ses) \<Rightarrow> ((writeJSON 200 (PUsername u))\<lparr>rsCookie := Some ck\<rparr>, s1\<lparr>svSession := ses\<rparr>)))"
    by (simp add: serveMux_def login_def decodeJSON_def)
  show ?thesis
  proof (cases "CheckPassword adm u p")
    case False
    with m ca ses assms(8) cur show ?thesis
      by (auto simp: Handler_def secureHeaders_def writeError_def writeJSON_def)
  next
    case True
    let ?k = "hexEncode tok"
    from assms(6) have k: "?k \<noteq> []" by (cases tok) (simp_all add: hexEncode_def hex_byte_def)
    obtain ck ses1 where c: "create (enToken env) (rqTLS rq) (enNow env) (svSession s) = (Inr ck, ses1)"
      "ckValue ck = ?k" "ckHttpOnly ck" "ssLifetime ses1 = ssLifetime (svSession s)"
      "ssItems ses1 ?k = Some (enNow env + ssLifetime (svSession s))"
      using assms(5,7) by (simp add: create_def newToken_def Let_def cleanupLocked_def)
    have "fst (valid (Some ?k) t ses1)" if "t \<le> enNow env + ssLifetime (svSession s)" for t
      using c(5) k that by (simp add: valid_def)
    with True m ca ses c assms(8) cur show ?thesis
      by (auto simp: Handler_def secureHeaders_def writeJSON_def)
  qed
qed

section \<open>Changing an instance\<close>

lemma route_instance:
  assumes "rqPath rq = ''/api/instances/'' @ i" and "i \<noteq> []" and "CHR ''/'' \<notin> set i" and "\<not> rqRedirects rq"
    and "valid (rqCookie rq) (enNow env) (svSession s) = (True, ses)"
  shows "serveMux env rq s =
    (if rqMethod rq = ''GET'' then
       (case Snapshot i (enNow env) (svManager s) of None \<Rightarrow> (httpNotFound, s\<lparr>svSession := ses\<rparr>)
        | Some x \<Rightarrow> (writeJSON 200 (PSnapshot x), s\<lparr>svSession := ses\<rparr>))
     else if rqMethod rq = ''PUT'' then putInstance env rq i (s\<lparr>svSession := ses\<rparr>)
     else if rqMethod rq = ''DELETE'' then deleteInstance env i (s\<lparr>svSession := ses\<rparr>)
     else (methodNotAllowed, s\<lparr>svSession := ses\<rparr>))"
proof -
  have "trim_byte (CHR ''/'') i = i"
    using assms(2,3) by (intro trim_byte_id) (auto dest: hd_in_set last_in_set)
  moreover have "trim_prefix (''/api/instances/'' @ i) ''/api/instances/'' = i"
    by (simp add: trim_prefix_def)
  moreover have "split_on (CHR ''/'') i = [i]" using assms(3) by (rule split_on_no_sep)
  ultimately have "instanceByID env rq q =
    (if rqMethod rq = ''GET'' then
       (case Snapshot i (enNow env) (svManager q) of None \<Rightarrow> (httpNotFound, q)
        | Some x \<Rightarrow> (writeJSON 200 (PSnapshot x), q))
     else if rqMethod rq = ''PUT'' then putInstance env rq i q
     else if rqMethod rq = ''DELETE'' then deleteInstance env i q
     else (methodNotAllowed, q))" for q
    using assms(1,2) by (simp add: instanceByID_def)
  with assms show ?thesis
    by (simp add: serveMux_def requireAuth_def Let_def)
qed

lemma UpdateInstance_result:
  "UpdateInstance i body io s d = (Inr cfg, st, d') \<Longrightarrow>
     cfg = resolveConfigLocked (options s) (normalizeConfig (body\<lparr>cfgID := i\<rparr>))"
  by (auto simp: UpdateInstance_def Let_def split: sum.splits option.splits dest!: saveThen_Inr)

lemma Stop_store [simp]: "mgStore (snd (Stop i now fin m)) = mgStore m"
  by (simp add: Stop_def Let_def split: option.split)

text \<open>A restart with the configuration of the store, when no other request changes the instance.\<close>

lemma Start_current:
  assumes "GetInstance i (mgStore m) = Some cfg" and "mgRunners m i = None" and "Start i now m = (r, m')"
  shows "\<exists>rid. mgRunners m' i = Some rid \<and> rnCfg (mgObjects m' rid) = cfg \<and> mgStore m' = mgStore m"
  using Start_new[OF assms(1,2), of now] assms(3) by (intro exI[of _ "mgNext m"]) (auto simp: NewRunner_def)

lemma nobody_else_refl [simp]: "nobody_else i x x"
  by (simp add: nobody_else_def)

lemma nobody_else_trans: "nobody_else i x y \<Longrightarrow> nobody_else i y z \<Longrightarrow> nobody_else i x z"
  by (auto simp: nobody_else_def)

lemma nobody_else_clear: "nobody_else i x (clearStatus j now x)" "nobody_else i x (clearRecord j io x)"
  by (simp_all add: nobody_else_def)

lemma nobody_else_clearIf:
  assumes "\<And>k x. nobody_else i x (during k x)"
  shows "nobody_else i m (clearIf b j now io during m)"
proof -
  let ?x = "clearStatus j now (during beforeClear m)"
  have "nobody_else i m ?x" by (rule nobody_else_trans[OF assms nobody_else_clear(1)])
  then have "nobody_else i m (during insideClear ?x)" by (rule nobody_else_trans[OF _ assms])
  then have "nobody_else i m (clearRecord j io (during insideClear ?x))" by (rule nobody_else_trans[OF _ nobody_else_clear(2)])
  then show ?thesis by (simp add: clearIf_def clearRuntime_def)
qed

text \<open>What the runner itself does meanwhile leaves the instance alone in this sense.\<close>

lemma runner_activity_leaves_instance:
  "nobody_else i m (report j u now io m)" "nobody_else i m (runnerFinished j rid now m)"
  by (simp_all add: nobody_else_def GetInstance_report report_fields)
    (simp add: runnerFinished_def Let_def)

lemma ReplaceConfig_current:
  assumes "GetInstance (cfgID cfg) (mgStore m) = Some c" and "cfgEnabled cfg"
    and "\<And>k x. nobody_else (cfgID cfg) x (during k x)"
    and "ReplaceConfig old cfg (IsRunning (cfgID cfg) m) now io during fin m = (Inr u, m')"
  shows "\<exists>rid. mgRunners m' (cfgID cfg) = Some rid \<and> rnCfg (mgObjects m' rid) = c \<and>
    GetInstance (cfgID cfg) (mgStore m') = Some c"
proof -
  let ?i = "cfgID cfg" and ?b = "publicMappingConfigChanged old cfg"
  have clear: "nobody_else ?i x (during beforeStart (clearIf ?b ?i now io during x))" for x
    using nobody_else_trans[OF nobody_else_clearIf[of ?i during, OF assms(3)] assms(3)] .
  obtain q where q: "GetInstance ?i (mgStore q) = Some c" "mgRunners q ?i = None" "Start ?i now q = (Inr u, m')"
  proof (cases "mgRunners m ?i")
    case None
    define q where "q = during beforeStart (clearIf ?b ?i now io during m)"
    have "Start ?i now q = (Inr u, m')"
      using assms(2,4) None by (simp add: ReplaceConfig_def Let_def IsRunning_def q_def)
    moreover have "nobody_else ?i m q" unfolding q_def by (rule clear)
    ultimately show ?thesis using None assms(1) by (intro that[of q]) (auto simp: nobody_else_def)
  next
    case (Some rid)
    let ?m1 = "setStatusLocked now ?i StateStopping ''restarting instance'' None m"
    let ?m2 = "?m1\<lparr>mgObjects := (mgObjects ?m1)(rid := runnerStop (mgObjects ?m1 rid))\<rparr>"
    define m3 where "m3 = during whileWaiting ?m2"
    define m4 where "m4 = (if mgRunners m3 ?i = Some rid then m3\<lparr>mgRunners := (mgRunners m3)(?i := None)\<rparr> else m3)"
    define q where "q = during beforeStart (clearIf ?b ?i now io during m4)"
    have fin using assms(2,4) Some by (auto simp: ReplaceConfig_def Let_def IsRunning_def split: if_splits)
    with assms(2,4) Some have "Start ?i now q = (Inr u, m')"
      by (simp add: ReplaceConfig_def Let_def IsRunning_def q_def m4_def m3_def split del: if_split cong: if_cong)
    moreover have "nobody_else ?i ?m2 m3" unfolding m3_def by (rule assms(3))
    then have "mgRunners m4 ?i = None" "GetInstance ?i (mgStore m4) = Some c"
      using assms(1) Some by (auto simp: nobody_else_def m4_def)
    moreover have "nobody_else ?i m4 q" unfolding q_def by (rule clear)
    ultimately show ?thesis by (intro that[of q]) (auto simp: nobody_else_def)
  qed
  from Start_current[OF q] q(1) show ?thesis by auto
qed

text \<open>A restart succeeds when no other request changes the instance.\<close>

lemma ReplaceConfig_restarts:
  assumes "mgRunners m (cfgID cfg) = Some rid" and "cfgEnabled cfg"
    and "GetInstance (cfgID cfg) (mgStore m) = Some c" and "\<And>k x. nobody_else (cfgID cfg) x (during k x)"
  shows "\<exists>m'. ReplaceConfig old cfg True now io during True m = (Inr (), m')"
proof -
  let ?i = "cfgID cfg" and ?b = "publicMappingConfigChanged old cfg"
  let ?m1 = "setStatusLocked now ?i StateStopping ''restarting instance'' None m"
  let ?m2 = "?m1\<lparr>mgObjects := (mgObjects ?m1)(rid := runnerStop (mgObjects ?m1 rid))\<rparr>"
  define m3 where "m3 = during whileWaiting ?m2"
  define m4 where "m4 = (if mgRunners m3 ?i = Some rid then m3\<lparr>mgRunners := (mgRunners m3)(?i := None)\<rparr> else m3)"
  define q where "q = during beforeStart (clearIf ?b ?i now io during m4)"
  have "nobody_else ?i ?m2 m3" unfolding m3_def by (rule assms(4))
  then have "GetInstance ?i (mgStore m4) = Some c" using assms(3) by (simp add: nobody_else_def m4_def)
  moreover have "nobody_else ?i m4 q"
    unfolding q_def by (rule nobody_else_trans[OF nobody_else_clearIf]) (rule assms(4))+
  ultimately have "\<exists>m'. Start ?i now q = (Inr (), m')" by (simp add: nobody_else_def Start_def Let_def)
  with assms(1,2) show ?thesis
    by (simp add: ReplaceConfig_def Let_def q_def m4_def m3_def split del: if_split cong: if_cong)
qed

lemma ReplaceConfig_disabled:
  assumes "\<not> cfgEnabled cfg" and "\<And>k x. nobody_else (cfgID cfg) x (during k x)"
    and "ReplaceConfig old cfg w now io during fin m = (r, m')"
  shows "GetInstance (cfgID cfg) (mgStore m') = GetInstance (cfgID cfg) (mgStore m)"
proof -
  obtain x m1 where s: "Stop (cfgID cfg) now fin m = (x, m1)" by (cases "Stop (cfgID cfg) now fin m")
  with Stop_store[of "cfgID cfg" now fin m] have st: "mgStore m1 = mgStore m" by simp
  have "nobody_else (cfgID cfg) m1
      (clearIf (publicMappingConfigChanged old cfg) (cfgID cfg) now io during (during whileWaiting m1))"
    by (rule nobody_else_trans[OF assms(2) nobody_else_clearIf]) (rule assms(2))
  with assms(1,3) s st show ?thesis by (auto simp: ReplaceConfig_def Let_def nobody_else_def split: if_splits)
qed

text \<open>
  C20: A \<open>PUT\<close> of an instance that is answered with success has done all of it: the store holds the
  posted configuration under the identifier of the path, normalised and valid, and if it is
  enabled, the runner in charge was made from it. The condition is that no other request changes,
  deletes or starts this instance where the mutex is free; what its old runner does there, its last
  reports and its end included, and what happens to other instances is arbitrary
  (\<open>runner_activity_leaves_instance\<close>).
\<close>

theorem put_instance_applies:
  assumes "rqPath rq = ''/api/instances/'' @ i" and "i \<noteq> []" and "CHR ''/'' \<notin> set i" and "\<not> rqRedirects rq"
    and "rqMethod rq = ''PUT''" and "fst (valid (rqCookie rq) (enNow env) (svSession s))"
    and "\<And>k x. nobody_else i x (enDuring env k x)"
    and "Handler env rq s = (rs, s')" and "rsStatus rs = 200"
  shows "\<exists>body cfg. rqConfig rq = Inr body \<and>
    GetInstance i (mgStore (svManager s')) = Some cfg \<and>
    cfg = resolveConfigLocked (options (mgStore (svManager s))) (normalizeConfig (body\<lparr>cfgID := i\<rparr>)) \<and>
    (cfgEnabled cfg \<longrightarrow>
       (\<exists>rid. mgRunners (svManager s') i = Some rid \<and> rnCfg (mgObjects (svManager s') rid) = cfg))"
proof -
  obtain ses where v: "valid (rqCookie rq) (enNow env) (svSession s) = (True, ses)"
    using assms(6) by (cases "valid (rqCookie rq) (enNow env) (svSession s)") auto
  let ?m = "svManager s" and ?s1 = "s\<lparr>svSession := ses\<rparr>"
  obtain raw where r: "putInstance env rq i ?s1 = (raw, s')" "rsStatus raw = 200"
    using assms(5,8,9) route_instance[OF assms(1-4) v] by (auto simp: Handler_def secureHeaders_def split: prod.splits)
  from r obtain old where old: "GetInstance i (mgStore ?m) = Some old"
    by (cases "GetInstance i (mgStore ?m)") (auto simp: putInstance_def writeError_def writeJSON_def Let_def)
  from r old obtain body where body: "rqConfig rq = Inr body"
    by (cases "rqConfig rq") (auto simp: putInstance_def decodeJSON_def writeError_def writeJSON_def Let_def)
  obtain u sd where u: "UpdateInstance i body (enIO env) (mgStore ?m) (mgDisk ?m) = (u, sd)"
    by (cases "UpdateInstance i body (enIO env) (mgStore ?m) (mgDisk ?m)")
  from r old body u obtain cfg where cfg: "u = Inr cfg"
    by (cases u) (auto simp: putInstance_def decodeJSON_def writeError_def writeJSON_def Let_def errorStatus_def split: if_splits)
  obtain st d where sd: "sd = (st, d)" by (cases sd)
  let ?q = "storeDisk ?m sd"
  from update_instance_spec[of i body "enIO env" "mgStore ?m" "mgDisk ?m" cfg st d] u cfg sd
  have g: "GetInstance i (mgStore ?q) = Some cfg" by (simp add: storeDisk_def)
  from u cfg sd have n: "cfg = resolveConfigLocked (options (mgStore ?m)) (normalizeConfig (body\<lparr>cfgID := i\<rparr>))"
    using UpdateInstance_result by simp
  from n have i: "cfgID cfg = i" by simp
  let ?rep = "ReplaceConfig old cfg (IsRunning i ?m) (enNow env) (enIO env) (enDuring env) (enFinished env) ?q"
  obtain v m' where rep: "?rep = (v, m')" by (cases ?rep)
  from r old body u cfg rep have v: "\<exists>w. v = Inr w" and s': "svManager s' = m'"
    by (auto simp: putInstance_def decodeJSON_def writeError_def writeJSON_def Let_def split: sum.splits)
  have run: "IsRunning i ?q = IsRunning i ?m" by (simp add: IsRunning_def storeDisk_def)
  have quiet: "\<And>k x. nobody_else (cfgID cfg) x (enDuring env k x)" using assms(7) i by simp
  have "GetInstance i (mgStore m') = Some cfg \<and>
    (cfgEnabled cfg \<longrightarrow> (\<exists>rid. mgRunners m' i = Some rid \<and> rnCfg (mgObjects m' rid) = cfg))"
  proof (cases "cfgEnabled cfg")
    case True
    with ReplaceConfig_current[of cfg ?q cfg "enDuring env" old "enNow env" "enIO env" "enFinished env"] quiet g i rep v run
    show ?thesis by auto
  next
    case False
    have "GetInstance (cfgID cfg) (mgStore m') = GetInstance (cfgID cfg) (mgStore ?q)"
      by (rule ReplaceConfig_disabled[OF False _ rep]) (rule quiet)
    with False g i show ?thesis by simp
  qed
  with body n s' show ?thesis by blast
qed

section \<open>The event stream\<close>

definition agePairs :: "keepAliveAge list \<Rightarrow> (string \<times> int) list" where
  "agePairs as = map (\<lambda>a. (ageID a, ageSeconds a)) as"

lemma changedLoop_eq:
  "distinct (map ageID cur) \<Longrightarrow> changedLoop cur seen =
     (filter (\<lambda>a. seen (ageID a) \<noteq> Some (ageSeconds a)) cur, seen ++ map_of (agePairs cur))"
proof (induction cur arbitrary: seen)
  case (Cons a cur)
  have ne: "ageID x \<noteq> ageID a" if "x \<in> set cur" for x using Cons.prems that by (auto simp: rev_image_eqI)
  have "filter (\<lambda>x. (seen(ageID a \<mapsto> ageSeconds a)) (ageID x) \<noteq> Some (ageSeconds x)) cur =
      filter (\<lambda>x. seen (ageID x) \<noteq> Some (ageSeconds x)) cur"
    using ne by (intro filter_cong) simp_all
  moreover have none: "map_of (agePairs cur) (ageID a) = None"
    using ne by (force simp: agePairs_def map_of_eq_None_iff)
  moreover have "seen ++ map_of (agePairs cur) = (seen ++ map_of (agePairs cur))(ageID a \<mapsto> ageSeconds a)"
    if "seen (ageID a) = Some (ageSeconds a)"
    using that none by (auto simp: map_add_def fun_eq_iff split: option.split)
  moreover have "seen(ageID a \<mapsto> ageSeconds a) ++ map_of (agePairs cur) =
      (seen ++ map_of (agePairs cur))(ageID a \<mapsto> ageSeconds a)"
    using none by (auto simp: map_add_def fun_eq_iff split: option.split)
  moreover have "seen ++ map_of (agePairs (a # cur)) = (seen ++ map_of (agePairs cur))(ageID a \<mapsto> ageSeconds a)"
    by (auto simp: agePairs_def fun_eq_iff map_add_def split: option.split)
  ultimately show ?case using Cons by (simp add: fun_upd_def)
qed (simp add: agePairs_def)

text \<open>
  A client that remembers the ages it was sent knows the current ones: what a tick sends
  is exactly the ages that differ from those sent before, and what the server remembers
  afterwards is the current ages, so that instances which lost their connection are sent
  again when they come back.
\<close>

lemma changed_ages_keep_view:
  assumes "distinct (map ageID current)" and "changedKeepAliveAges sent current = (changed, sent')"
  shows "changed = filter (\<lambda>a. sent (ageID a) \<noteq> Some (ageSeconds a)) current \<and>
    sent' = map_of (agePairs current) \<and>
    (sent ++ map_of (agePairs changed)) |` (ageID ` set current) = sent'"
proof -
  from assms have c: "changed = filter (\<lambda>a. sent (ageID a) \<noteq> Some (ageSeconds a)) current"
    and s: "sent' = (sent ++ map_of (agePairs current)) |` (ageID ` set current)"
    by (simp_all add: changedKeepAliveAges_def changedLoop_eq)
  have dom: "i \<in> ageID ` set current \<longleftrightarrow> map_of (agePairs current) i \<noteq> None" for i
    by (auto simp: agePairs_def map_of_eq_None_iff image_image comp_def)
  from s dom have s': "sent' = map_of (agePairs current)"
    by (auto simp: restrict_map_def map_add_def fun_eq_iff split: option.split)
  have "(sent ++ map_of (agePairs changed)) i = map_of (agePairs current) i" if i: "i \<in> ageID ` set current" for i
  proof -
    from i obtain a where a: "a \<in> set current" "ageID a = i" by auto
    have uniq: "x = a" if "x \<in> set current" "ageID x = i" for x
      using assms(1) a that by (auto simp: distinct_map dest: inj_onD)
    have cur: "map_of (agePairs current) i = Some (ageSeconds a)"
      using a assms(1) by (intro map_of_is_SomeI) (auto simp: agePairs_def comp_def)
    show ?thesis
    proof (cases "a \<in> set changed")
      case True
      have "distinct (map ageID changed)" using assms(1) c by (simp add: distinct_map_filter)
      then have "map_of (agePairs changed) i = Some (ageSeconds a)"
        using True a by (intro map_of_is_SomeI) (auto simp: agePairs_def comp_def)
      with cur show ?thesis by (simp add: map_add_def)
    next
      case False
      with a c have "sent i = Some (ageSeconds a)" by auto
      moreover have "map_of (agePairs changed) i = None"
        using False uniq c by (auto simp: agePairs_def map_of_eq_None_iff)
      ultimately show ?thesis using cur by (simp add: map_add_def)
    qed
  qed
  moreover have "map_of (agePairs current) i = None" if "i \<notin> ageID ` set current" for i using dom that by blast
  ultimately have "(sent ++ map_of (agePairs changed)) |` (ageID ` set current) = sent'"
    unfolding s' by (auto simp: restrict_map_def fun_eq_iff)
  with c s' show ?thesis by blast
qed

lemma changed_ages_keep_view_witness:
  "snd (changedKeepAliveAges [''a'' \<mapsto> 3, ''b'' \<mapsto> 4] [\<lparr>ageID = ''a'', ageSeconds = 3\<rparr>, \<lparr>ageID = ''c'', ageSeconds = 0\<rparr>]) =
     [''c'' \<mapsto> 0, ''a'' \<mapsto> 3]"
proof -
  let ?cur = "[\<lparr>ageID = ''a'', ageSeconds = 3\<rparr>, \<lparr>ageID = ''c'', ageSeconds = 0\<rparr>]"
  obtain ch l where "changedKeepAliveAges [''a'' \<mapsto> 3, ''b'' \<mapsto> 4] ?cur = (ch, l)" by fastforce
  from changed_ages_keep_view[OF _ this] this show ?thesis by (simp add: agePairs_def)
qed

section \<open>Deleting a running instance\<close>

lemma report_saves:
  assumes "i \<noteq> []" and "stPublicAddress u \<noteq> []" and "stPublicPort u \<noteq> 0"
  shows "RuntimeStatus i (mgStore (report i u now io m)) \<noteq> None"
proof -
  let ?st = "mergeReport now u (statusForLocked now i m)"
  obtain s d where sd: "saveRuntime io i ?st (mgStore m, mgDisk m) = (s, d)"
    by (cases "saveRuntime io i ?st (mgStore m, mgDisk m)")
  have "saveable i ?st" using assms by (simp add: saveable_def mergeReport_fields orKeep_def)
  from rt.lookup_save[OF this, of io "(mgStore m, mgDisk m)"] sd assms show ?thesis
    by (simp add: report_def Let_def lookupRuntime_def)
qed

text \<open>
  When the runner of an instance does not stop in time, deleting the instance still
  succeeds: the instance is gone from the store, but its runner stays in charge of the
  identifier, and its next report of a mapping writes a record for the deleted instance.
\<close>

lemma delete_leaves_runner:
  assumes "rqPath rq = ''/api/instances/'' @ i" and "i \<noteq> []" and "CHR ''/'' \<notin> set i" and "\<not> rqRedirects rq"
    and "rqMethod rq = ''DELETE''" and "fst (valid (rqCookie rq) (enNow env) (svSession s))"
    and "enDuring env = (\<lambda>_. id)" and "\<not> enFinished env"
    and "distinct (map cfgID (ListInstances (mgStore (svManager s))))" and "mgRunners (svManager s) i = Some rid"
    and "Handler env rq s = (rs, s')" and "rsStatus rs = 200"
    and "stPublicAddress u \<noteq> []" and "stPublicPort u \<noteq> 0"
  shows "GetInstance i (mgStore (svManager s')) = None \<and> mgRunners (svManager s') i = Some rid \<and>
    RuntimeStatus i (mgStore (report i u now io (svManager s'))) \<noteq> None"
proof -
  obtain ses where v: "valid (rqCookie rq) (enNow env) (svSession s) = (True, ses)"
    using assms(6) by (cases "valid (rqCookie rq) (enNow env) (svSession s)") auto
  let ?m = "snd (Stop i (enNow env) False (svManager s))"
  obtain raw where r: "deleteInstance env i (s\<lparr>svSession := ses\<rparr>) = (raw, s')" "rsStatus raw = 200"
    using assms(5,11,12) route_instance[OF assms(1-4) v] by (auto simp: Handler_def secureHeaders_def split: prod.splits)
  obtain res st d where del: "DeleteInstance i (enIO env) (mgStore ?m) (mgDisk ?m) = (res, st, d)"
    by (cases "DeleteInstance i (enIO env) (mgStore ?m) (mgDisk ?m)") auto
  from r del assms(7,8) have res: "\<exists>x. res = Inr x" and m': "svManager s' = storeDisk ?m (st, d)"
    by (auto simp: deleteInstance_def Let_def writeError_def writeJSON_def errorStatus_def split: sum.splits if_splits)
  have run: "mgRunners ?m i = Some rid" using assms(10) by (simp add: Stop_def Let_def)
  have ok: "distinct (map cfgID (items (mgStore ?m)))" using assms(9) by (simp add: ListInstances_def comp_def)
  have "GetInstance i st = None"
  proof -
    from del res obtain cs where cs: "removeFirst i (items (mgStore ?m)) = Some cs"
      by (auto simp: DeleteInstance_def split: option.splits)
    with del res have "items st = cs" by (auto simp: DeleteInstance_def dest!: saveLocked_Inr)
    with removeFirst_Some[OF cs ok] show ?thesis by (auto simp: GetInstance_def find_none_all)
  qed
  moreover have "RuntimeStatus i (mgStore (report i u now io (svManager s'))) \<noteq> None"
    using assms(2,13,14) by (rule report_saves)
  ultimately show ?thesis using run m' by (simp add: storeDisk_def)
qed


section \<open>Sample requests\<close>

text \<open>A server with one stored instance, and a session with the token \<open>k\<close>.\<close>

definition sampleServer :: "manager \<Rightarrow> server" where
  "sampleServer m = \<lparr>svManager = m, svStatic = (\<lambda>_. False),
     svSession = \<lparr>ssLifetime = 1000, ssItems = [''k'' \<mapsto> 500]\<rparr>, svPending = 0\<rparr>"

definition webRequest :: "string \<Rightarrow> string option \<Rightarrow> request" where
  "webRequest method ck = plainRequest\<lparr>rqMethod := method, rqPath := ''/api/instances/'' @ ''web'',
     rqCookie := ck, rqConfig := Inr (sampleConfig\<lparr>cfgEnabled := True\<rparr>)\<rparr>"

lemma sample_server_fields [simp]:
  "svManager (sampleServer m) = m" "svPending (sampleServer m) = 0"
  "svSession (sampleServer m) = \<lparr>ssLifetime = 1000, ssItems = [''k'' \<mapsto> 500]\<rparr>"
  by (simp_all add: sampleServer_def)

lemma web_request_fields [simp]:
  "rqMethod (webRequest mth ck) = mth" "rqPath (webRequest mth ck) = ''/api/instances/'' @ ''web''"
  "rqCookie (webRequest mth ck) = ck" "\<not> rqRedirects (webRequest mth ck)"
  "rqConfig (webRequest mth ck) = Inr (sampleConfig\<lparr>cfgEnabled := True\<rparr>)"
  by (simp_all add: webRequest_def plainRequest_def)

lemma sample_session: "fst (valid (Some ''k'') 100 (svSession (sampleServer m)))"
  by (simp add: valid_def)

lemma api_requires_session_witness:
  "svManager (snd (Handler demoEnv (webRequest ''DELETE'' None) (sampleServer demoManager))) = demoManager"
proof -
  obtain rs s' where h: "Handler demoEnv (webRequest ''DELETE'' None) (sampleServer demoManager) = (rs, s')"
    by (cases "Handler demoEnv (webRequest ''DELETE'' None) (sampleServer demoManager)")
  have "has_prefix (rqPath (webRequest ''DELETE'' None)) ''/api/''" "rqPath (webRequest ''DELETE'' None) \<noteq> ''/api/login''"
    by simp_all
  moreover have "\<not> fst (valid (rqCookie (webRequest ''DELETE'' None)) (enNow demoEnv) (svSession (sampleServer demoManager)))"
    by (simp add: valid_def)
  ultimately show ?thesis using api_requires_session[OF _ _ _ h] h by simp
qed

lemma login_opens_session_witness:
  "\<exists>d rs s' ck. dkFile d \<noteq> NoFile \<and> Handler demoEnv (plainRequest\<lparr>rqMethod := ''POST'', rqPath := ''/api/login'',
      rqLogin := Inr (''root'', ''secret'')\<rparr>) (sampleServer (NewManager demoStore d)) = (rs, s') \<and> rsStatus rs = 200 \<and>
     rsCookie rs = Some ck \<and> fst (valid (Some (ckValue ck)) 600 (svSession s'))"
proof -
  let ?rq = "plainRequest\<lparr>rqMethod := ''POST'', rqPath := ''/api/login'', rqLogin := Inr (''root'', ''secret'')\<rparr>"
  obtain cred where cred: "NewAdminCredential (Some (replicate 16 1)) ''root'' ''secret'' = Inr cred"
    by (simp add: NewAdminCredential_def)
  define now where "now = 1 + \<bar>admLastPassword (dbAdmin (stoDB demoStore))\<bar>"
  let ?adm = "cred\<lparr>admLastPassword := now\<rparr>"
  let ?d = "\<lparr>dkFile = DbFile ((stoDB demoStore)\<lparr>dbAdmin := ?adm\<rparr>), dkTmp = NoFile\<rparr>"
  let ?m = "NewManager demoStore ?d"
  have ok: "admin_complete ?adm" "CheckPassword ?adm ''root'' ''secret''"
    using NewAdminCredential_complete[OF cred] by simp_all
  moreover have "admLastPassword (dbAdmin (stoDB demoStore)) < now" by (simp add: now_def)
  ultimately have "currentCredential (dbAdmin (stoDB (mgStore ?m))) (dkFile (mgDisk ?m)) = ?adm"
    by (simp add: currentCredential_def NewManager_def)
  with ok(2) have cur: "CheckPassword (currentCredential (dbAdmin (stoDB (mgStore (svManager (sampleServer ?m)))))
      (dkFile (mgDisk (svManager (sampleServer ?m))))) ''root'' ''secret''" by simp
  obtain rs s' where h: "Handler demoEnv ?rq (sampleServer ?m) = (rs, s')" by (cases "Handler demoEnv ?rq (sampleServer ?m)")
  from login_opens_session[OF _ _ _ _ _ _ _ h, of "''root''" "''secret''" "[7]"] cur h show ?thesis
    by (intro exI[of _ ?d]) (auto simp: plainRequest_def)
qed

lemma web_update:
  "fst (UpdateInstance ''web'' (sampleConfig\<lparr>cfgEnabled := True\<rparr>) okIO demoStore2 demoDisk2) =
     Inr (resolveConfigLocked (options demoStore) (webConfig\<lparr>cfgEnabled := True\<rparr>))"
proof -
  have id: "sampleConfig\<lparr>cfgEnabled := True, cfgID := ''web''\<rparr> = sampleConfig\<lparr>cfgEnabled := True\<rparr>"
    by (simp add: sampleConfig_def)
  have n: "normalizeConfig (sampleConfig\<lparr>cfgEnabled := True\<rparr>) = webConfig\<lparr>cfgEnabled := True\<rparr>"
    by (simp add: webConfig_def normalizeConfig_def Let_def)
  have v: "validateConfigLocked (options demoStore) (webConfig\<lparr>cfgEnabled := True\<rparr>) = Inr ()"
    using web_valid by (simp add: validateConfigLocked_Inr validateConfig_Inr)
  show ?thesis
    using v unfolding UpdateInstance_def id n
    by (simp add: Let_def saveThen_def saveLocked_ok_io demo_path)
qed

lemma resolve_enabled: "cfgEnabled (resolveConfigLocked opts c) = cfgEnabled c"
  by (simp add: resolveConfigLocked_def normalizeConfig_def Let_def)

lemma normalize_enabled: "cfgEnabled (normalizeConfig c) = cfgEnabled c"
  by (simp add: normalizeConfig_def Let_def)

text \<open>The restart of a running instance, with the last report of its runner and its end during the wait.\<close>

definition endingRunner :: gaps where
  "endingRunner k x =
     (if k = whileWaiting
      then runnerFinished ''web'' 0 9 (report ''web'' (stateUpdate StateStopped [logEntryOf 9 ''info'' ''instance stopped'']) 9 okIO x)
      else x)"

lemma endingRunner_leaves: "nobody_else ''web'' x (endingRunner k x)"
  using nobody_else_trans[OF runner_activity_leaves_instance] by (simp add: endingRunner_def)

lemma put_instance_applies_witness:
  "\<exists>rs s' rid. Handler (demoEnv\<lparr>enDuring := endingRunner, enFinished := True\<rparr>) (webRequest ''PUT'' (Some ''k''))
       (sampleServer (snd (Start ''web'' 7 demoManager))) = (rs, s') \<and>
     IsRunning ''web'' (snd (Start ''web'' 7 demoManager)) \<and>
     rsStatus rs = 200 \<and> mgRunners (svManager s') ''web'' = Some rid \<and>
     cfgEnabled (rnCfg (mgObjects (svManager s') rid))"
proof -
  let ?env = "demoEnv\<lparr>enDuring := endingRunner, enFinished := True\<rparr>" and ?m = "snd (Start ''web'' 7 demoManager)"
  let ?rq = "webRequest ''PUT'' (Some ''k'')" and ?s = "sampleServer ?m"
  obtain rs s' where h: "Handler ?env ?rq ?s = (rs, s')" by (cases "Handler ?env ?rq ?s")
  obtain ses where v: "valid (rqCookie ?rq) (enNow ?env) (svSession ?s) = (True, ses)"
    by (simp add: valid_def)
  have m: "mgStore ?m = demoStore2" "mgDisk ?m = demoDisk2" "IsRunning ''web'' ?m"
    using start_web_runs by (simp_all add: Start_def demo_get Let_def IsRunning_def)
  obtain u st d where u: "UpdateInstance ''web'' (sampleConfig\<lparr>cfgEnabled := True\<rparr>) okIO demoStore2 demoDisk2 = (u, st, d)"
    by (cases "UpdateInstance ''web'' (sampleConfig\<lparr>cfgEnabled := True\<rparr>) okIO demoStore2 demoDisk2") auto
  let ?c = "resolveConfigLocked (options demoStore) (webConfig\<lparr>cfgEnabled := True\<rparr>)"
  from web_update u have c: "u = Inr ?c" by simp
  with update_instance_spec u have g: "GetInstance ''web'' st = Some ?c" by blast
  have e: "cfgEnabled ?c" "cfgID ?c = ''web''" by (simp_all add: resolve_enabled)
  let ?q = "storeDisk ?m (st, d)"
  have run: "mgRunners ?q ''web'' = Some 0" using start_web_runs by (simp add: storeDisk_def)
  have "\<exists>m1. ReplaceConfig webResolved ?c True 100 okIO endingRunner True ?q = (Inr (), m1)"
    using ReplaceConfig_restarts[of ?q ?c 0 ?c endingRunner] e run g endingRunner_leaves by (simp add: storeDisk_def)
  then obtain m1 where rep: "ReplaceConfig webResolved ?c True 100 okIO endingRunner True ?q = (Inr (), m1)" ..
  have ok: "rsStatus rs = 200"
    using h route_instance[of ?rq "''web''" ?env ?s ses] v u c rep m
    by (auto simp: Handler_def putInstance_def demo_get decodeJSON_def Let_def secureHeaders_def writeJSON_def)
  from put_instance_applies[OF _ _ _ _ _ _ _ h ok, of "''web''"] endingRunner_leaves e h ok m(3)
  show ?thesis by (auto simp: valid_def resolve_enabled normalize_enabled)
qed

lemma delete_leaves_runner_witness:
  "\<exists>rs s'. Handler demoEnv (webRequest ''DELETE'' (Some ''k'')) (sampleServer (snd (Start ''web'' 7 demoManager))) = (rs, s') \<and>
     rsStatus rs = 200 \<and> GetInstance ''web'' (mgStore (svManager s')) = None \<and>
     mgRunners (svManager s') ''web'' = Some 0"
proof -
  let ?m = "snd (Start ''web'' 7 demoManager)"
  let ?rq = "webRequest ''DELETE'' (Some ''k'')" and ?s = "sampleServer ?m"
  obtain rs s' where h: "Handler demoEnv ?rq ?s = (rs, s')" by (cases "Handler demoEnv ?rq ?s")
  have m: "mgStore ?m = demoStore2" "mgDisk ?m = demoDisk2" by (simp_all add: Start_def demo_get Let_def)
  obtain ses where v: "valid (rqCookie ?rq) (enNow demoEnv) (svSession ?s) = (True, ses)"
    by (simp add: valid_def)
  let ?m2 = "snd (Stop ''web'' 100 False ?m)"
  have m2: "mgStore ?m2 = demoStore2" "mgDisk ?m2 = demoDisk2" using m start_web_runs by (simp_all add: Stop_def Let_def)
  have "fst (DeleteInstance ''web'' okIO demoStore2 demoDisk2) = Inr ()"
    by (simp add: DeleteInstance_def saveLocked_fst_ok)
  then obtain st d where "DeleteInstance ''web'' okIO demoStore2 demoDisk2 = (Inr (), st, d)"
    by (metis prod.collapse)
  with h route_instance[of ?rq "''web''" demoEnv ?s ses] v m2 have ok: "rsStatus rs = 200"
    by (auto simp: Handler_def deleteInstance_def Let_def secureHeaders_def writeJSON_def)
  have "distinct (map cfgID (ListInstances (mgStore (svManager ?s))))" by (simp add: m ListInstances_def)
  from delete_leaves_runner[OF _ _ _ _ _ _ _ _ this _ h ok, of "''web''" 0
      "zeroStatus\<lparr>stPublicAddress := ''1.2.3.4'', stPublicPort := 1\<rparr>" 0 okIO] h ok start_web_runs
  show ?thesis by (auto simp: valid_def)
qed

end
