(* ===== verification/Probe.thy ===== *)
theory Probe
  imports Manager_Props
begin

text \<open>
  Discovering the public endpoint (\<open>internal/core/runner.go\<close>): one probe over TCP or over the
  shared UDP socket, the confirmation of its result by repeated samples, and the goroutine
  that probes until a result is confirmed and published. What the network does is an argument
  of each function: what names resolve to, how connections and sends end, what arrives, and
  whether the context is done at each place where the code asks.
\<close>

section \<open>Dialling\<close>

text \<open>
  One attempt of \<open>dialTCP\<close>: its outcome, \<open>ctx.Err()\<close> after a failure, and the error of the
  context when it ends during the pause.
\<close>

record 'c dialTry =
  dtResult :: "'c res"
  dtCtx :: "go_error option"
  dtWait :: "go_error option"

text \<open>The attempts of a call; the last one ends behind the deadline of 30 seconds.\<close>

fun dialTCP :: "'c dialTry \<Rightarrow> 'c dialTry list \<Rightarrow> 'c res" where
  "dialTCP t ts =
     (case dtResult t of
        Inr c \<Rightarrow> Inr c
      | Inl e \<Rightarrow>
          (case dtCtx t of
             Some x \<Rightarrow> Inl x
           | None \<Rightarrow>
               (if \<not> isLocalAddressBusy e then Inl e
                else case ts of
                    [] \<Rightarrow> Inl e
                  | u # us \<Rightarrow> (case dtWait t of Some x \<Rightarrow> Inl x | None \<Rightarrow> dialTCP u us))))"

declare dialTCP.simps [simp del]

section \<open>A probe over TCP\<close>

text \<open>A dialled connection: its identity for \<open>track\<close>, and what it delivers.\<close>

type_synonym probeConn = "nat \<times> stunConn"

record tcpProbeEnv =
  tpLocal :: addr
  tpResolve :: "serverEndpoint \<Rightarrow> addr res"
  tpDial :: "addr \<Rightarrow> probeConn dialTry \<times> probeConn dialTry list"
  tpCtx :: "addr \<Rightarrow> bool"
  tpRandom :: "addr \<Rightarrow> tid res"

text \<open>The loop over the servers of a round: the mapping, or the last error if there is one.\<close>

fun tcpProbeLoop ::
  "tcpProbeEnv \<Rightarrow> serverEndpoint list \<Rightarrow> serverEndpoint list \<Rightarrow> go_error option \<Rightarrow> runner \<Rightarrow>
     (go_error option + stunResult) \<times> runner" where
  "tcpProbeLoop env servers [] lastErr r = (Inl lastErr, r)"
| "tcpProbeLoop env servers (endpoint # rest) lastErr r =
     (case tpResolve env endpoint of
        Inl e \<Rightarrow> tcpProbeLoop env servers rest (Some e) r
      | Inr stunAddr \<Rightarrow>
          (case dialTCP (fst (tpDial env stunAddr)) (snd (tpDial env stunAddr)) of
             Inl e \<Rightarrow>
               (let failure = wrap_prefix (''tcp public probe connect from '' @ addrString (tpLocal env) @
                      '' to '' @ addrString stunAddr @ '': '') e
                in if isLocalPortUnavailable e \<or> tpCtx env stunAddr then (Inl (Some failure), r)
                   else tcpProbeLoop env servers rest (Some failure) r)
           | Inr (i, conn) \<Rightarrow>
               (let r0 = track (StunConn i) (openConn (StunConn i) r);
                    r1 = closeConn (StunConn i) (untrack (StunConn i) r0) in
                case stunTCP (tpRandom env stunAddr) conn of
                  Inr mapping \<Rightarrow>
                    (Inr (mapping\<lparr>srSource := addrString stunAddr, srServer := describeServerEndpoint endpoint\<rparr>),
                     setServerCursorAfter ''stun'' servers endpoint r1)
                | Inl e \<Rightarrow>
                    tcpProbeLoop env servers rest
                      (Some (wrap_prefix (''tcp public probe query '' @ addrString stunAddr @ '': '') e)) r1)))"

definition tcpPublicProbeBatchSize :: int where
  "tcpPublicProbeBatchSize = 4"

definition tcpPublicProbe :: "tcpProbeEnv \<Rightarrow> serverEndpoint list \<Rightarrow> runner \<Rightarrow> stunResult res \<times> runner" where
  "tcpPublicProbe env endpoints r =
     (if endpoints = [] then (Inl (ErrNew ''no tcp public probe servers configured''), r)
      else case orderedServerEndpointBatch ''stun'' endpoints tcpPublicProbeBatchSize r of
          (Inl e, r1) \<Rightarrow> (Inl e, r1)
        | (Inr batch, r1) \<Rightarrow>
            (case tcpProbeLoop env endpoints batch None r1 of
               (Inr result, r2) \<Rightarrow> (Inr result, r2)
             | (Inl lastErr, r2) \<Rightarrow>
                 (let e = (case lastErr of
                      None \<Rightarrow> ErrNew ''no tcp public probe servers configured'' | Some e \<Rightarrow> e)
                  in (Inl (wrap_w_v (Sentinel ErrPublicProbeRoundFailed) (err_text e)), r2))))"

section \<open>The shared UDP socket\<close>

text \<open>
  \<open>ReadFrom\<close> of the socket that QUIC and STUN share: \<open>input\<close> is what arrives, cut to the
  buffer of 2048 bytes; STUN packets go to the channel of eight results and are lost when it
  is full, any other packet is the result, cut to the caller's buffer. \<open>None\<close> waits.
\<close>

definition stunQueueSize :: nat where
  "stunQueueSize = 8"

definition offerStun :: "stunResult \<Rightarrow> stunResult list \<Rightarrow> stunResult list" where
  "offerStun x q = (if length q < stunQueueSize then q @ [x] else q)"

fun ReadFrom ::
  "nat \<Rightarrow> (byte list \<times> addr option) res list \<Rightarrow> stunResult list \<Rightarrow>
     (byte list \<times> addr option) res option \<times> (byte list \<times> addr option) res list \<times> stunResult list" where
  "ReadFrom len [] q = (None, [], q)"
| "ReadFrom len (Inl e # input) q = (Some (Inl e), input, q)"
| "ReadFrom len (Inr (packet0, source) # input) q =
     (let packet = take 2048 packet0 in
      case parseSTUN packet of
        Inr result \<Rightarrow>
          ReadFrom len input
            (offerStun (case source of None \<Rightarrow> result | Some a \<Rightarrow> result\<lparr>srSource := addrString a\<rparr>) q)
      | Inl e \<Rightarrow> (Some (Inr (take len packet, source)), input, q))"

section \<open>A probe over UDP\<close>

record udpSTUNRequest =
  uqEndpoint :: serverEndpoint
  uqAddr :: addr
  uqPacket :: "byte list"
  uqTID :: tid

text \<open>
  What one retry of a query meets: the context before it, the sends, whether the context is
  done after a failed send, and what the select finds until the timer fires.
\<close>

datatype fanEvent =
    FanCtx go_error
  | FanClosed
  | FanResponse stunResult

record fanTry =
  faCtx :: "go_error option"
  faSend :: "addr \<Rightarrow> go_error option"
  faSendCtx :: "addr \<Rightarrow> go_error option"
  faEvents :: "fanEvent list"

text \<open>\<open>net.ResolveUDPAddr\<close> is the resolver's; a source without text or no expected address
  matches.\<close>

definition stunSourceMatches :: "(string \<Rightarrow> addr res) \<Rightarrow> string \<Rightarrow> addr option \<Rightarrow> bool" where
  "stunSourceMatches resolve source expected =
     (case expected of
        None \<Rightarrow> True
      | Some x \<Rightarrow>
          (if source = [] then True
           else case resolve source of
               Inl e \<Rightarrow> False
             | Inr actual \<Rightarrow> snd actual = snd x \<and> ip_equal (fst actual) (fst x)))"

text \<open>The sends of one retry: an error that ends the query, or the number sent and the last
  error.\<close>

fun sendAll :: "fanTry \<Rightarrow> udpSTUNRequest list \<Rightarrow> nat \<Rightarrow> go_error option \<Rightarrow> go_error + nat \<times> go_error option" where
  "sendAll f [] sent lastErr = Inr (sent, lastErr)"
| "sendAll f (q # qs) sent lastErr =
     (case faSend f (uqAddr q) of
        None \<Rightarrow> sendAll f qs (sent + 1) lastErr
      | Some e \<Rightarrow>
          (case faSendCtx f (uqAddr q) of
             Some x \<Rightarrow> Inl x
           | None \<Rightarrow> sendAll f qs sent (Some e)))"

definition byTID :: "udpSTUNRequest list \<Rightarrow> (tid \<rightharpoonup> udpSTUNRequest)" where
  "byTID requests = foldl (\<lambda>m q. m(uqTID q \<mapsto> q)) (\<lambda>_. None) requests"

text \<open>Waiting for a response: \<open>None\<close> is the timer.\<close>

fun awaitSTUN ::
  "(string \<Rightarrow> addr res) \<Rightarrow> (tid \<rightharpoonup> udpSTUNRequest) \<Rightarrow> fanEvent list \<Rightarrow>
     (stunResult \<times> serverEndpoint) res option" where
  "awaitSTUN resolve pending [] = None"
| "awaitSTUN resolve pending (FanCtx e # es) = Some (Inl e)"
| "awaitSTUN resolve pending (FanClosed # es) = Some (Inl (ErrNew ''stun response channel closed''))"
| "awaitSTUN resolve pending (FanResponse x # es) =
     (case pending (srTID x) of
        Some q \<Rightarrow>
          (if stunSourceMatches resolve (srSource x) (Some (uqAddr q)) then Some (Inr (x, uqEndpoint q))
           else awaitSTUN resolve pending es)
      | None \<Rightarrow> awaitSTUN resolve pending es)"

definition nextUDPQueryIndex :: "runner \<Rightarrow> int \<times> runner" where
  "nextUDPQueryIndex r = (rnUdpQueries r, r\<lparr>rnUdpQueries := rnUdpQueries r + 1\<rparr>)"

text \<open>The timeout in milliseconds and the number of retries.\<close>

definition udpSTUNTiming :: "bool \<Rightarrow> runner \<Rightarrow> (int \<times> nat) \<times> runner" where
  "udpSTUNTiming windows r =
     (let (queryIndex, r1) = nextUDPQueryIndex r
      in (if windows then (100, if queryIndex = 0 then 30 else 3) else (1200, 3), r1))"

text \<open>The retries left, and the surroundings of the one that comes.\<close>

fun fanoutLoop ::
  "(string \<Rightarrow> addr res) \<Rightarrow> (nat \<Rightarrow> fanTry) \<Rightarrow> udpSTUNRequest list \<Rightarrow> nat \<Rightarrow> nat \<Rightarrow> go_error option \<Rightarrow>
     (stunResult \<times> serverEndpoint) res" where
  "fanoutLoop resolve tries requests 0 attempt lastErr =
     (case lastErr of
        Some e \<Rightarrow> Inl (wrap_prefix ''stun response timeout: '' e)
      | None \<Rightarrow> Inl (ErrNew ''stun response timeout''))"
| "fanoutLoop resolve tries requests (Suc left) attempt lastErr =
     (let f = tries attempt in
      case faCtx f of
        Some e \<Rightarrow> Inl e
      | None \<Rightarrow>
          (case sendAll f requests 0 lastErr of
             Inl e \<Rightarrow> Inl e
           | Inr (sent, lastErr1) \<Rightarrow>
               (if sent = 0
                then Inl (case lastErr1 of None \<Rightarrow> ErrNew ''stun send failed'' | Some e \<Rightarrow> e)
                else case awaitSTUN resolve (byTID requests) (faEvents f) of
                    Some res \<Rightarrow> res
                  | None \<Rightarrow> fanoutLoop resolve tries requests left (attempt + 1) lastErr1)))"

definition stunUDPSharedFanout ::
  "bool \<Rightarrow> (string \<Rightarrow> addr res) \<Rightarrow> (nat \<Rightarrow> fanTry) \<Rightarrow> udpSTUNRequest list \<Rightarrow> runner \<Rightarrow>
     (stunResult \<times> serverEndpoint) res \<times> runner" where
  "stunUDPSharedFanout windows resolve tries requests r =
     (if requests = [] then (Inl (ErrNew ''no udp public probe servers configured''), r)
      else let ((timeout, retries), r1) = udpSTUNTiming windows r
           in (fanoutLoop resolve tries requests retries 0 None, r1))"

text \<open>The query of a single server, \<open>stunUDPShared\<close>, which no other function calls.\<close>

fun awaitTID :: "(string \<Rightarrow> addr res) \<Rightarrow> tid \<Rightarrow> addr \<Rightarrow> fanEvent list \<Rightarrow> stunResult res option" where
  "awaitTID resolve tid a [] = None"
| "awaitTID resolve tid a (FanCtx e # es) = Some (Inl e)"
| "awaitTID resolve tid a (FanClosed # es) = Some (Inl (ErrNew ''stun response channel closed''))"
| "awaitTID resolve tid a (FanResponse x # es) =
     (if srTID x = tid \<and> stunSourceMatches resolve (srSource x) (Some a) then Some (Inr x)
      else awaitTID resolve tid a es)"

fun sharedLoop :: "(string \<Rightarrow> addr res) \<Rightarrow> (nat \<Rightarrow> fanTry) \<Rightarrow> tid \<Rightarrow> addr \<Rightarrow> nat \<Rightarrow> nat \<Rightarrow> stunResult res" where
  "sharedLoop resolve tries tid a 0 attempt = Inl (ErrNew ''stun response timeout'')"
| "sharedLoop resolve tries tid a (Suc left) attempt =
     (let f = tries attempt in
      case faCtx f of
        Some e \<Rightarrow> Inl e
      | None \<Rightarrow>
          (case faSend f a of
             Some e \<Rightarrow> (case faSendCtx f a of Some x \<Rightarrow> Inl x | None \<Rightarrow> Inl e)
           | None \<Rightarrow>
               (case awaitTID resolve tid a (faEvents f) of
                  Some res \<Rightarrow> res
                | None \<Rightarrow> sharedLoop resolve tries tid a left (attempt + 1))))"

definition stunUDPShared ::
  "bool \<Rightarrow> (string \<Rightarrow> addr res) \<Rightarrow> tid res \<Rightarrow> (nat \<Rightarrow> fanTry) \<Rightarrow> addr \<Rightarrow> runner \<Rightarrow> stunResult res \<times> runner" where
  "stunUDPShared windows resolve random tries a r =
     (case stunRequest random of
        Inl e \<Rightarrow> (Inl e, r)
      | Inr (packet, tid) \<Rightarrow>
          (let ((timeout, retries), r1) = udpSTUNTiming windows r
           in (sharedLoop resolve tries tid a retries 0, r1)))"

record udpProbeEnv =
  upWindows :: bool
  upResolve :: "serverEndpoint \<Rightarrow> addr res"
  upResolveText :: "string \<Rightarrow> addr res"
  upRandom :: "serverEndpoint \<Rightarrow> tid res"
  upTries :: "nat \<Rightarrow> fanTry"
  upCtx :: bool

fun udpRequests ::
  "udpProbeEnv \<Rightarrow> serverEndpoint list \<Rightarrow> go_error option \<Rightarrow> udpSTUNRequest list \<times> go_error option" where
  "udpRequests env [] lastErr = ([], lastErr)"
| "udpRequests env (endpoint # rest) lastErr =
     (case upResolve env endpoint of
        Inl e \<Rightarrow> udpRequests env rest (Some e)
      | Inr a \<Rightarrow>
          (case stunRequest (upRandom env endpoint) of
             Inl e \<Rightarrow> udpRequests env rest (Some e)
           | Inr (packet, tid) \<Rightarrow>
               (let (qs, err) = udpRequests env rest lastErr
                in (\<lparr>uqEndpoint = endpoint, uqAddr = a, uqPacket = packet, uqTID = tid\<rparr> # qs, err))))"

definition udpPublicProbeFanout :: int where
  "udpPublicProbeFanout = 3"

definition udpPublicProbe :: "udpProbeEnv \<Rightarrow> serverEndpoint list \<Rightarrow> runner \<Rightarrow> stunResult res \<times> runner" where
  "udpPublicProbe env endpoints r =
     (if endpoints = [] then (Inl (ErrNew ''no udp public probe servers configured''), r)
      else case orderedServerEndpointBatch ''stun'' endpoints udpPublicProbeFanout r of
          (Inl e, r1) \<Rightarrow> (Inl e, r1)
        | (Inr batch, r1) \<Rightarrow>
            (let (requests, lastErr) = udpRequests env batch None in
             if requests = [] then
               (let e = (case lastErr of
                    None \<Rightarrow> ErrNew ''no udp public probe servers configured'' | Some e \<Rightarrow> e)
                in (Inl (wrap_w_v (Sentinel ErrPublicProbeRoundFailed) (err_text e)), r1))
             else
               (case stunUDPSharedFanout (upWindows env) (upResolveText env) (upTries env) requests r1 of
                  (Inr (result, endpoint), r2) \<Rightarrow>
                    (Inr (result\<lparr>srServer := describeServerEndpoint endpoint\<rparr>),
                     setServerCursorAfter ''stun'' endpoints endpoint r2)
                | (Inl e, r2) \<Rightarrow>
                    (if upCtx env then (Inl e, r2)
                     else (let text = (case lastErr of
                                None \<Rightarrow> err_text e | Some l \<Rightarrow> err_text l @ ''; '' @ err_text e)
                           in (Inl (wrap_w_v (Sentinel ErrPublicProbeRoundFailed) text), r2))))))"

end
