(* ===== verification/Confirm.thy ===== *)
theory Confirm
  imports Probe
begin

text \<open>
  Confirming a public endpoint (\<open>confirmPublicProbeWithProgress\<close> in
  \<open>internal/core/runner.go\<close>): samples are taken until enough of them in a row agree, within a
  bounded number of attempts and across rounds that failed as a whole; and the goroutine that
  repeats this every five seconds until a confirmed mapping is published.
\<close>

section \<open>Taking samples\<close>

record publicProbeConfirmationProgress =
  pgCandidate :: stunResult
  pgCount :: int

definition publicProbeMaxAttempts :: "int \<Rightarrow> int \<Rightarrow> int" where
  "publicProbeMaxAttempts confirmations endpointCount =
     (if confirmations \<le> 1 then 1
      else let n = (if endpointCount < 1 then 1 else endpointCount);
               attempts = confirmations * n * 2;
               minAttempts = confirmations + 2
           in if attempts < minAttempts then minAttempts else attempts)"

definition samePublicProbeResult :: "stunResult \<Rightarrow> stunResult \<Rightarrow> bool" where
  "samePublicProbeResult a b \<longleftrightarrow> srPort a = srPort b \<and> ip_equal (srIP a) (srIP b)"

text \<open>
  The surroundings of a call, per attempt (the first is 1): the probe, \<open>ctx.Err()\<close> after it,
  the error of the context when it ends during the pause, and the instant.
\<close>

record confirmEnv =
  cePrb :: "nat \<Rightarrow> runner \<Rightarrow> stunResult res \<times> runner"
  ceCtx :: "nat \<Rightarrow> go_error option"
  ceWait :: "nat \<Rightarrow> go_error option"
  ceNow :: "nat \<Rightarrow> time"

text \<open>The local variables of the loop; \<open>csProgress\<close> is what the pointer refers to.\<close>

record confirmState =
  csCandidate :: stunResult
  csCount :: int
  csLastErr :: "go_error option"
  csProgress :: "publicProbeConfirmationProgress option"
  csRunner :: runner

definition setProgress ::
  "stunResult \<Rightarrow> int \<Rightarrow> publicProbeConfirmationProgress option \<Rightarrow> publicProbeConfirmationProgress option" where
  "setProgress c n p = map_option (\<lambda>_. \<lparr>pgCandidate = c, pgCount = n\<rparr>) p"

definition protoOf :: "runner \<Rightarrow> string" where
  "protoOf r = cfgProtocol (rnCfg r)"

definition ofTotal :: "int \<Rightarrow> int \<Rightarrow> string" where
  "ofTotal a b = itoa a @ ''/'' @ itoa b"

definition sampleText :: "stunResult \<Rightarrow> string" where
  "sampleText x =
     '' --mapped '' @ formatPublicProbeResult x @ '' --server '' @ formatPublicProbeServer x @
     '' --source '' @ formatPublicProbeSource x"

text \<open>One pass through the loop body up to its check of the context: a result to return, or
  the next state.\<close>

definition confirmSample ::
  "confirmEnv \<Rightarrow> int \<Rightarrow> nat \<Rightarrow> nat \<Rightarrow> confirmState \<Rightarrow> stunResult res option \<times> confirmState" where
  "confirmSample env confirmations maxAttempts attempt s =
     (let now = ceNow env attempt;
          (res, r) = cePrb env attempt (csRunner s);
          position = ofTotal (int attempt) (int maxAttempts)
      in case res of
           Inl e \<Rightarrow>
             (let r1 = logWarn now (''! stun sample failed --proto '' @ protoOf r @ '' --attempt '' @
                         position @ '' --error '' @ err_text e) r
              in if err_is e ErrPublicProbeRoundFailed
                 then (Some (Inl e), s\<lparr>csLastErr := Some e,
                         csProgress := setProgress (csCandidate s) (csCount s) (csProgress s), csRunner := r1\<rparr>)
                 else (None, s\<lparr>csCandidate := zeroStunResult, csCount := 0, csLastErr := Some e,
                         csProgress := setProgress zeroStunResult 0 (csProgress s), csRunner := r1\<rparr>))
         | Inr result \<Rightarrow>
             (let fresh = (csCount s = 0 \<or> \<not> samePublicProbeResult (csCandidate s) result);
                  r1 = (if fresh \<and> csCount s > 0
                        then logWarn now (''! stun candidate changed --proto '' @ protoOf r @ '' --from '' @
                               formatPublicProbeResult (csCandidate s) @ '' --to '' @
                               formatPublicProbeResult result @ '' --reset 1/'' @ itoa confirmations) r
                        else r);
                  candidate = (if fresh then result else csCandidate s);
                  count = (if fresh then 1 else csCount s + 1);
                  s1 = s\<lparr>csCandidate := candidate, csCount := count, csLastErr := None,
                         csProgress := setProgress candidate count (csProgress s),
                         csRunner := logInfo now (''> stun sample --proto '' @ protoOf r @ '' --attempt '' @
                           position @ sampleText result @ '' --confirm '' @ ofTotal count confirmations) r1\<rparr>
              in if count \<ge> confirmations
                 then (Some (Inr result),
                       s1\<lparr>csProgress := setProgress zeroStunResult 0 (csProgress s1),
                          csRunner := logInfo now (''[ok] stun confirmed --proto '' @ protoOf r @
                            sampleText result @ '' --samples '' @ ofTotal count confirmations) (csRunner s1)\<rparr>)
                 else (None, s1)))"

definition confirmFail :: "confirmEnv \<Rightarrow> int \<Rightarrow> nat \<Rightarrow> confirmState \<Rightarrow> stunResult res \<times> confirmState" where
  "confirmFail env confirmations maxAttempts s =
     (let now = ceNow env maxAttempts; r = csRunner s; total = itoa (int maxAttempts) in
      if csCount s > 0 then
        (Inl (ErrNew (''public probe confirmation failed: '' @ formatPublicProbeResult (csCandidate s) @
           '' confirmed '' @ ofTotal (csCount s) confirmations @ '' times'')),
         s\<lparr>csRunner := logWarn now (''! stun confirm failed --proto '' @ protoOf r @ '' --mapped '' @
           formatPublicProbeResult (csCandidate s) @ '' --confirm '' @ ofTotal (csCount s) confirmations) r\<rparr>)
      else case csLastErr s of
          Some e \<Rightarrow>
            (Inl (wrap_prefix (''public probe confirmation failed after '' @ total @ '' attempts: '') e),
             s\<lparr>csRunner := logWarn now (''! stun confirm failed --proto '' @ protoOf r @ '' --attempts '' @
               total @ '' --error '' @ err_text e) r\<rparr>)
        | None \<Rightarrow>
            (Inl (ErrNew (''public probe confirmation failed after '' @ total @ '' attempts'')),
             s\<lparr>csRunner := logWarn now (''! stun confirm failed --proto '' @ protoOf r @ '' --attempts '' @ total) r\<rparr>))"

text \<open>The loop with the number of attempts that are left.\<close>

fun confirmLoop :: "confirmEnv \<Rightarrow> int \<Rightarrow> nat \<Rightarrow> nat \<Rightarrow> confirmState \<Rightarrow> stunResult res \<times> confirmState" where
  "confirmLoop env confirmations maxAttempts 0 s = confirmFail env confirmations maxAttempts s"
| "confirmLoop env confirmations maxAttempts (Suc left) s =
     (let attempt = maxAttempts - left;
          (fin, s1) = confirmSample env confirmations maxAttempts attempt s
      in case fin of
           Some res \<Rightarrow> (res, s1)
         | None \<Rightarrow>
             (case ceCtx env attempt of
                Some e \<Rightarrow> (Inl e, s1)
              | None \<Rightarrow>
                  (case (if left = 0 then None else ceWait env attempt) of
                     Some e \<Rightarrow> (Inl e, s1)
                   | None \<Rightarrow> confirmLoop env confirmations maxAttempts left s1)))"

definition confirmOnce :: "confirmEnv \<Rightarrow> runner \<Rightarrow> stunResult res \<times> runner" where
  "confirmOnce env r0 =
     (let now = ceNow env 1;
          (res, r) = cePrb env 1 (logInfo now (''$ stun confirm --proto '' @ protoOf r0 @ '' --need 1'') r0)
      in case res of
           Inl e \<Rightarrow>
             (Inl e, logWarn now (''! stun sample failed --proto '' @ protoOf r @ '' --attempt 1/1 --error '' @ err_text e) r)
         | Inr result \<Rightarrow>
             (Inr result, logInfo now (''[ok] stun confirmed --proto '' @ protoOf r @ sampleText result @ '' --sample 1/1'') r))"

definition confirmPublicProbeWithProgress ::
  "confirmEnv \<Rightarrow> int \<Rightarrow> publicProbeConfirmationProgress option \<Rightarrow> runner \<Rightarrow>
     stunResult res \<times> publicProbeConfirmationProgress option \<times> runner" where
  "confirmPublicProbeWithProgress env endpointCount progress r =
     (let confirmations = cfgMappingConfirmations (rnCfg r) in
      if confirmations \<le> 1 then (let (res, r1) = confirmOnce env r in (res, progress, r1))
      else
        (let maxAttempts = nat (publicProbeMaxAttempts confirmations endpointCount);
             s = \<lparr>csCandidate = (case progress of None \<Rightarrow> zeroStunResult | Some p \<Rightarrow> pgCandidate p),
                  csCount = (case progress of None \<Rightarrow> 0 | Some p \<Rightarrow> pgCount p),
                  csLastErr = None, csProgress = progress,
                  csRunner = logInfo (ceNow env 0) (''$ stun confirm --proto '' @ protoOf r @ '' --need '' @
                    itoa confirmations @ '' --max-attempts '' @ itoa (int maxAttempts)) r\<rparr>;
             (res, s1) = confirmLoop env confirmations maxAttempts maxAttempts s
         in (res, csProgress s1, csRunner s1)))"

definition confirmPublicProbe :: "confirmEnv \<Rightarrow> int \<Rightarrow> runner \<Rightarrow> stunResult res \<times> runner" where
  "confirmPublicProbe env endpointCount r =
     (let (res, p, r1) = confirmPublicProbeWithProgress env endpointCount None r in (res, r1))"

definition confirmedTCPPublicProbe ::
  "confirmEnv \<Rightarrow> (nat \<Rightarrow> tcpProbeEnv) \<Rightarrow> serverEndpoint list \<Rightarrow> publicProbeConfirmationProgress option \<Rightarrow> runner \<Rightarrow>
     stunResult res \<times> publicProbeConfirmationProgress option \<times> runner" where
  "confirmedTCPPublicProbe env nets endpoints progress r =
     confirmPublicProbeWithProgress (env\<lparr>cePrb := (\<lambda>n. tcpPublicProbe (nets n) endpoints)\<rparr>)
       (int (length endpoints)) progress r"

definition confirmedUDPPublicProbe ::
  "confirmEnv \<Rightarrow> (nat \<Rightarrow> udpProbeEnv) \<Rightarrow> serverEndpoint list \<Rightarrow> publicProbeConfirmationProgress option \<Rightarrow> runner \<Rightarrow>
     stunResult res \<times> publicProbeConfirmationProgress option \<times> runner" where
  "confirmedUDPPublicProbe env nets endpoints progress r =
     confirmPublicProbeWithProgress (env\<lparr>cePrb := (\<lambda>n. udpPublicProbe (nets n) endpoints)\<rparr>)
       (int (length endpoints)) progress r"

section \<open>Probing until the mapping is published\<close>

text \<open>
  One round of the probing goroutine: whether the context is done before and after it, the
  confirmation, whether the context ends during the pause, the instant, and the outcome of
  starting the notify script. The confirmation keeps its progress from round to round.
\<close>

record probeRound =
  prCtx :: bool
  prConfirm :: "publicProbeConfirmationProgress option \<Rightarrow> runner \<Rightarrow>
    stunResult res \<times> publicProbeConfirmationProgress option \<times> runner"
  prAfter :: bool
  prWait :: bool
  prNow :: time
  prNotify :: "go_error option"

definition retryUpdate :: "string \<Rightarrow> time \<Rightarrow> nat \<Rightarrow> go_error \<Rightarrow> runtimeStatus" where
  "retryUpdate proto now attempt e =
     zeroStatus\<lparr>stLastError := err_text e,
       stLogs := [logEntryOf now ''warn'' (''! stun retry scheduled --proto '' @ proto @ '' --attempt '' @
         itoa (int attempt) @ '' --after 5s --error '' @ err_text e)]\<rparr>"

fun probeRounds ::
  "string \<Rightarrow> ip \<Rightarrow> int \<Rightarrow> probeRound list \<Rightarrow> nat \<Rightarrow> publicProbeConfirmationProgress option \<Rightarrow> runner \<Rightarrow> runner" where
  "probeRounds proto privateIP privatePort [] attempt progress r = r"
| "probeRounds proto privateIP privatePort (rd # rds) attempt progress r =
     (if prCtx rd then r
      else case prConfirm rd progress r of
          (Inr result, p, r1) \<Rightarrow>
            (if prAfter rd then r1
             else publishMapping (prNow rd) (prNotify rd)
               \<lparr>mePublicIP = srIP result, mePublicPort = srPort result, mePrivateIP = privateIP,
                mePrivatePort = privatePort, meProtocol = proto\<rparr> r1)
        | (Inl e, p, r1) \<Rightarrow>
            (if prAfter rd \<or> err_is e CtxCanceled \<or> err_is e ErrStopped then r1
             else let r2 = (if isLocalPortUnavailable e then advanceBindPort r1 else r1);
                      r3 = emit (prNow rd) (retryUpdate proto (prNow rd) attempt e) r2
                  in if prWait rd then r3
                     else probeRounds proto privateIP privatePort rds (attempt + 1) p r3))"

definition zeroProgress :: publicProbeConfirmationProgress where
  "zeroProgress = \<lparr>pgCandidate = zeroStunResult, pgCount = 0\<rparr>"

definition startTCPPublicProbe ::
  "ip \<Rightarrow> int \<Rightarrow> (probeRound \<times> confirmEnv \<times> (nat \<Rightarrow> tcpProbeEnv)) list \<Rightarrow> runner \<Rightarrow> runner" where
  "startTCPPublicProbe privateIP privatePort rounds r =
     probeRounds ''tcp'' privateIP privatePort
       (map (\<lambda>(rd, env, nets). rd\<lparr>prConfirm :=
          (\<lambda>p q. confirmedTCPPublicProbe env nets (stunServers (rnCfg q)) p q)\<rparr>) rounds)
       1 (Some zeroProgress) r"

definition startUDPPublicProbe ::
  "ip \<Rightarrow> int \<Rightarrow> (probeRound \<times> confirmEnv \<times> (nat \<Rightarrow> udpProbeEnv)) list \<Rightarrow> runner \<Rightarrow> runner" where
  "startUDPPublicProbe privateIP privatePort rounds r =
     probeRounds ''udp'' privateIP privatePort
       (map (\<lambda>(rd, env, nets). rd\<lparr>prConfirm :=
          (\<lambda>p q. confirmedUDPPublicProbe env nets (stunServers (rnCfg q)) p q)\<rparr>) rounds)
       1 (Some zeroProgress) r"

end
