(* ===== verification/Confirm_Correct.thy ===== *)
theory Confirm_Correct
  imports Confirm
begin

text \<open>
  What a confirmed public endpoint is worth, that a stable one is confirmed, and what the
  probes and the shared socket promise.
\<close>

section \<open>Counting votes\<close>

text \<open>
  The contract of the confirmation, over the outcomes of all probes, the oldest first: a
  round that failed as a whole says nothing, any other error starts anew, and a result counts
  when it names the endpoint of the candidate.
\<close>

fun vote :: "stunResult \<times> int \<Rightarrow> stunResult res \<Rightarrow> stunResult \<times> int" where
  "vote (c, n) (Inr x) = (if n = 0 \<or> \<not> samePublicProbeResult c x then (x, 1) else (c, n + 1))"
| "vote (c, n) (Inl e) = (if err_is e ErrPublicProbeRoundFailed then (c, n) else (zeroStunResult, 0))"

definition streak :: "stunResult res list \<Rightarrow> stunResult \<times> int" where
  "streak h = foldl vote (zeroStunResult, 0) h"

definition informative :: "stunResult res \<Rightarrow> bool" where
  "informative p = (case p of Inl e \<Rightarrow> \<not> err_is e ErrPublicProbeRoundFailed | Inr x \<Rightarrow> True)"

definition names :: "stunResult \<Rightarrow> stunResult res \<Rightarrow> bool" where
  "names c p = (case p of Inl e \<Rightarrow> False | Inr x \<Rightarrow> samePublicProbeResult c x)"

lemma informative_simps [simp]:
  "informative (Inr x)" "informative (Inl e) \<longleftrightarrow> \<not> err_is e ErrPublicProbeRoundFailed"
  "names c (Inr x) \<longleftrightarrow> samePublicProbeResult c x" "\<not> names c (Inl e)"
  by (simp_all add: informative_def names_def)

lemma last_n_last_n: "m \<le> n \<Longrightarrow> last_n m (last_n n xs) = last_n m xs"
  by (cases "n \<le> length xs") (simp_all add: last_n_short last_n_eq_drop)

lemma same_refl [simp]: "samePublicProbeResult x x"
  by (simp add: samePublicProbeResult_def)

lemma same_sym: "samePublicProbeResult x y \<Longrightarrow> samePublicProbeResult y x"
  by (simp add: samePublicProbeResult_def ip_equal_sym)

lemma same_trans: "samePublicProbeResult x y \<Longrightarrow> samePublicProbeResult y z \<Longrightarrow> samePublicProbeResult x z"
  by (auto simp: samePublicProbeResult_def intro: ip_equal_trans)

lemma streak_simps [simp]: "streak [] = (zeroStunResult, 0)" "streak (h @ [p]) = vote (streak h) p"
  by (simp_all add: streak_def)

lemma streak_append: "streak (h @ os) = foldl vote (streak h) os"
  by (simp add: streak_def)

text \<open>The count is the number of the last informative outcomes that name the candidate.\<close>

lemma streak_meaning:
  "streak h = (c, n) \<Longrightarrow> 0 \<le> n \<and> nat n \<le> length (filter informative h) \<and>
     list_all (names c) (last_n (nat n) (filter informative h))"
proof (induction h arbitrary: c n rule: rev_induct)
  case Nil
  then show ?case by (simp add: last_n_eq_drop)
next
  case (snoc p h)
  obtain c0 n0 where s: "streak h = (c0, n0)" by (cases "streak h")
  note IH = snoc.IH[OF s]
  have one: "last_n (nat (k + 1)) (xs @ [p]) = last_n (nat k) xs @ [p]" if "0 \<le> k" for k and xs :: "stunResult res list"
    using that by (simp add: last_n_eq_drop nat_add_distrib)
  show ?case
  proof (cases p)
    case (Inl e)
    with snoc.prems s IH show ?thesis
      by (auto simp: last_n_eq_drop split: if_splits)
  next
    case (Inr x)
    show ?thesis
    proof (cases "n0 = 0 \<or> \<not> samePublicProbeResult c0 x")
      case True
      with snoc.prems s Inr have "c = x" "n = 1" by auto
      with Inr show ?thesis by (simp add: last_n_eq_drop)
    next
      case False
      with snoc.prems s Inr have "c = c0" "n = n0 + 1" by auto
      with False Inr IH one[of n0 "filter informative h"] show ?thesis
        by (simp add: nat_add_distrib)
    qed
  qed
qed

section \<open>The loop counts votes\<close>

definition votesOf :: "confirmState \<Rightarrow> stunResult \<times> int" where
  "votesOf s = (csCandidate s, csCount s)"

definition progressOf :: "stunResult \<times> int \<Rightarrow> publicProbeConfirmationProgress" where
  "progressOf v = \<lparr>pgCandidate = fst v, pgCount = snd v\<rparr>"

lemma setProgress_simps [simp]:
  "setProgress c n None = None" "setProgress c n (Some p) = Some (progressOf (c, n))"
  by (simp_all add: setProgress_def progressOf_def)

lemma confirmSample_vote:
  assumes "confirmSample env c maxA a s = (fin, s1)" and "csProgress s = Some (progressOf (votesOf s))"
  shows "votesOf s1 = vote (votesOf s) (fst (cePrb env a (csRunner s))) \<and>
    (case fin of
       None \<Rightarrow> csProgress s1 = Some (progressOf (votesOf s1))
     | Some (Inl e) \<Rightarrow> csProgress s1 = Some (progressOf (votesOf s1))
     | Some (Inr x) \<Rightarrow> csProgress s1 = Some zeroProgress \<and> c \<le> csCount s1 \<and> samePublicProbeResult (csCandidate s1) x)"
proof (cases "cePrb env a (csRunner s)")
  case (Pair res r)
  with assms show ?thesis
    by (cases res) (auto simp: confirmSample_def votesOf_def Let_def progressOf_def zeroProgress_def split: if_splits)
qed

text \<open>The outcomes of the probes that a call makes, from attempt \<open>a + 1\<close> on.\<close>

definition probedFrom :: "confirmEnv \<Rightarrow> nat \<Rightarrow> stunResult res list \<Rightarrow> bool" where
  "probedFrom env a os \<longleftrightarrow> (\<forall>i < length os. \<exists>q. os ! i = fst (cePrb env (a + i + 1) q))"

lemma probedFrom_Cons:
  "os0 = fst (cePrb env (a + 1) q) \<Longrightarrow> probedFrom env (a + 1) os \<Longrightarrow> probedFrom env a (os0 # os)"
  by (auto simp: probedFrom_def nth_Cons split: nat.splits)

lemma confirmLoop_votes:
  assumes "confirmLoop env c maxA left s = (res, s')" and "csProgress s = Some (progressOf (votesOf s))" and "left \<le> maxA"
  shows "\<exists>os. length os \<le> left \<and> probedFrom env (maxA - left) os \<and> votesOf s' = foldl vote (votesOf s) os \<and>
    (case res of
       Inl e \<Rightarrow> csProgress s' = Some (progressOf (votesOf s'))
     | Inr x \<Rightarrow> csProgress s' = Some zeroProgress \<and> c \<le> csCount s' \<and> samePublicProbeResult (csCandidate s') x)"
  using assms
proof (induction left arbitrary: s)
  case 0
  then show ?case
    by (intro exI[of _ "[]"])
      (auto simp: confirmFail_def Let_def probedFrom_def votesOf_def split: if_splits option.splits)
next
  case (Suc left)
  let ?a = "maxA - left"
  obtain fin s1 where st: "confirmSample env c maxA ?a s = (fin, s1)" by (cases "confirmSample env c maxA ?a s")
  let ?p = "fst (cePrb env ?a (csRunner s))"
  note v = confirmSample_vote[OF st Suc.prems(2)]
  from Suc.prems(3) have a: "?a = maxA - Suc left + 1" by simp
  have one: "probedFrom env (maxA - Suc left) [?p]" using a by (auto simp: probedFrom_def)
  show ?case
  proof (cases "\<exists>s2. fin = None \<and> confirmLoop env c maxA left s1 = (res, s2) \<and> s2 = s' \<and>
      ceCtx env ?a = None \<and> (left = 0 \<or> ceWait env ?a = None)")
    case True
    with v have "csProgress s1 = Some (progressOf (votesOf s1))" by simp
    from Suc.IH[OF _ this] True Suc.prems(3) obtain os where os: "length os \<le> left" "probedFrom env ?a os"
      "votesOf s' = foldl vote (votesOf s1) os"
      "case res of Inl e \<Rightarrow> csProgress s' = Some (progressOf (votesOf s'))
       | Inr x \<Rightarrow> csProgress s' = Some zeroProgress \<and> c \<le> csCount s' \<and> samePublicProbeResult (csCandidate s') x"
      by auto
    have "probedFrom env (maxA - Suc left) (?p # os)"
      using os(2) a by (intro probedFrom_Cons[of _ _ _ "csRunner s"]) simp_all
    with os v show ?thesis by (intro exI[of _ "?p # os"]) simp
  next
    case False
    with Suc.prems(1) st have "s' = s1" "(\<exists>e. res = Inl e \<and> fin = None) \<or> fin = Some res"
      by (auto simp: Let_def split: option.splits if_splits)
    with v one show ?thesis
      by (intro exI[of _ "[?p]"]) (auto split: sum.splits option.splits)
  qed
qed

text \<open>
  With a progress that stands for the outcomes \<open>h\<close> of earlier rounds, a confirmation makes at
  most \<open>publicProbeMaxAttempts\<close> probes; if it succeeds, the last \<open>confirmations\<close> outcomes that
  say anything all name the same endpoint as the result, and otherwise its progress stands for
  all outcomes up to now.
\<close>

lemma confirmed_endpoint_was_repeated:
  assumes "confirmPublicProbeWithProgress env k (Some (progressOf (streak h))) r = (res, p, r')"
    and "c = cfgMappingConfirmations (rnCfg r)" and "2 \<le> c"
  shows "\<exists>os. probedFrom env 0 os \<and> int (length os) \<le> publicProbeMaxAttempts c k \<and>
    (case res of
       Inl e \<Rightarrow> p = Some (progressOf (streak (h @ os)))
     | Inr x \<Rightarrow> p = Some zeroProgress \<and> nat c \<le> length (filter informative (h @ os)) \<and>
         list_all (names x) (last_n (nat c) (filter informative (h @ os))))"
proof -
  let ?n = "nat (publicProbeMaxAttempts c k)"
  from assms obtain s s' where loop: "confirmLoop env c ?n ?n s = (res, s')" and p: "p = csProgress s'"
    and s: "csProgress s = Some (progressOf (votesOf s))" "votesOf s = streak h"
    by (auto simp: confirmPublicProbeWithProgress_def Let_def votesOf_def progressOf_def split: prod.splits)
  from confirmLoop_votes[OF loop s(1)] s(2) obtain os where os: "length os \<le> ?n" "probedFrom env 0 os"
    "votesOf s' = streak (h @ os)"
    "case res of Inl e \<Rightarrow> csProgress s' = Some (progressOf (votesOf s'))
     | Inr x \<Rightarrow> csProgress s' = Some zeroProgress \<and> c \<le> csCount s' \<and> samePublicProbeResult (csCandidate s') x"
    by (auto simp: streak_append)
  have "0 \<le> publicProbeMaxAttempts c k"
    using assms(3) by (simp add: publicProbeMaxAttempts_def Let_def)
  with os(1) have "int (length os) \<le> publicProbeMaxAttempts c k" by simp
  moreover have "nat c \<le> length (filter informative (h @ os)) \<and>
      list_all (names x) (last_n (nat c) (filter informative (h @ os)))"
    if res: "res = Inr x" for x
  proof -
    let ?f = "filter informative (h @ os)"
    from os(3,4) res have v: "streak (h @ os) = (csCandidate s', csCount s')" "c \<le> csCount s'"
      "samePublicProbeResult (csCandidate s') x" by (simp_all add: votesOf_def)
    from streak_meaning[OF v(1)] have m: "nat (csCount s') \<le> length ?f"
      "list_all (names (csCandidate s')) (last_n (nat (csCount s')) ?f)" by simp_all
    have "last_n (nat c) ?f = last_n (nat c) (last_n (nat (csCount s')) ?f)"
      using v(2) by (simp add: last_n_last_n nat_mono)
    then have "set (last_n (nat c) ?f) \<subseteq> set (last_n (nat (csCount s')) ?f)"
      by (metis last_n_eq_drop set_drop_subset)
    with m(2) v(3) have "list_all (names x) (last_n (nat c) ?f)"
      by (auto simp: list_all_iff names_def split: sum.splits dest!: subsetD intro: same_trans[OF same_sym])
    with v(2) m(1) show ?thesis by simp
  qed
  ultimately show ?thesis using os p by (intro exI[of _ os]) (auto split: sum.split)
qed

section \<open>What probing leaves alone\<close>

definition undisturbed :: "runner \<Rightarrow> runner \<Rightarrow> bool" where
  "undisturbed r r' \<longleftrightarrow> rnCfg r' = rnCfg r \<and> rnLastMap r' = rnLastMap r \<and> rnNotified r' = rnNotified r"

lemma undisturbed_refl [simp]: "undisturbed r r"
  by (simp add: undisturbed_def)

lemma undisturbed_trans: "undisturbed r r' \<Longrightarrow> undisturbed r' r'' \<Longrightarrow> undisturbed r r''"
  by (simp add: undisturbed_def)

lemma undisturbed_emit [simp]: "undisturbed r (emit now u r') \<longleftrightarrow> undisturbed r r'"
  by (simp add: undisturbed_def)

lemma undisturbed_log [simp]: "undisturbed r (rlog level now msg r') \<longleftrightarrow> undisturbed r r'"
  by (simp add: rlog_def)

lemma undisturbed_cursor [simp]: "undisturbed r (setServerCursor kind n r') \<longleftrightarrow> undisturbed r r'"
  by (simp add: setServerCursor_def undisturbed_def)

lemma undisturbed_track [simp]:
  "undisturbed r (track i r') \<longleftrightarrow> undisturbed r r'" "undisturbed r (untrack i r') \<longleftrightarrow> undisturbed r r'"
  "undisturbed r (openConn i r') \<longleftrightarrow> undisturbed r r'" "undisturbed r (closeConn i r') \<longleftrightarrow> undisturbed r r'"
  by (simp_all add: track_def untrack_def openConn_def closeConn_def undisturbed_def)

lemma undisturbed_cursorAfter [simp]: "undisturbed r (setServerCursorAfter kind es e r') \<longleftrightarrow> undisturbed r r'"
  by (simp add: setServerCursorAfter_def Let_def)

lemma undisturbed_step: "undisturbed r (snd (nextServerCursorStep kind n step r))"
  by (simp add: nextServerCursorStep_def Let_def)

lemma undisturbed_next: "undisturbed r (snd (nextServerCursor kind n r))"
  by (simp add: nextServerCursor_def undisturbed_step)

lemma undisturbed_ordered: "undisturbed r (snd (orderedServerEndpoints kind es after r))"
  using undisturbed_next[of r kind "int (length es)"]
  by (auto simp: orderedServerEndpoints_def Let_def split: prod.splits)

lemma undisturbed_batch: "undisturbed r (snd (orderedServerEndpointBatch kind es limit r))"
  using undisturbed_ordered[of r kind es None]
    undisturbed_step[of r kind "int (length es)" limit]
  by (auto simp: orderedServerEndpointBatch_def Let_def split: prod.splits sum.splits)

lemma undisturbed_tcpLoop: "undisturbed r (snd (tcpProbeLoop env servers batch e r))"
proof (induction batch arbitrary: e r)
  case Nil
  then show ?case by simp
next
  case (Cons a batch)
  have "undisturbed r (snd (tcpProbeLoop env servers batch x (closeConn i (untrack i (track i (openConn i r))))))" for i x
    by (rule undisturbed_trans[OF _ Cons.IH]) simp
  with Cons.IH show ?case
    by (auto simp: Let_def split: sum.splits prod.splits)
qed

lemma undisturbed_tcpProbe: "undisturbed r (snd (tcpPublicProbe env es r))"
proof -
  obtain b r1 where b: "orderedServerEndpointBatch ''stun'' es tcpPublicProbeBatchSize r = (b, r1)"
    by (cases "orderedServerEndpointBatch ''stun'' es tcpPublicProbeBatchSize r")
  with undisturbed_batch[of r "''stun''" es tcpPublicProbeBatchSize] have u: "undisturbed r r1" by simp
  have "undisturbed r r2" if "tcpProbeLoop env es xs None r1 = (x, r2)" for xs x r2
    using undisturbed_trans[OF u undisturbed_tcpLoop[of r1 env es xs None]] that by simp
  with u b show ?thesis
    by (auto simp: tcpPublicProbe_def Let_def split: prod.splits sum.splits)
qed

lemma undisturbed_fanout: "undisturbed r (snd (stunUDPSharedFanout windows resolve tries requests r))"
  by (simp add: stunUDPSharedFanout_def udpSTUNTiming_def nextUDPQueryIndex_def Let_def undisturbed_def)

lemma undisturbed_udpProbe: "undisturbed r (snd (udpPublicProbe env es r))"
proof -
  obtain b r1 where b: "orderedServerEndpointBatch ''stun'' es udpPublicProbeFanout r = (b, r1)"
    by (cases "orderedServerEndpointBatch ''stun'' es udpPublicProbeFanout r")
  with undisturbed_batch[of r "''stun''" es udpPublicProbeFanout] have u: "undisturbed r r1" by simp
  have "undisturbed r r2" if "stunUDPSharedFanout w res tr qs r1 = (x, r2)" for w res tr qs x r2
    using undisturbed_trans[OF u undisturbed_fanout[of r1 w res tr qs]] that by simp
  with u b show ?thesis
    by (auto simp: udpPublicProbe_def Let_def split: prod.splits sum.splits)
qed

end
