(* ===== verification/Probe_Props.thy ===== *)
theory Probe_Props
  imports Confirm_Correct
begin

text \<open>
  What a published public endpoint is worth, that a stable one is confirmed, and what the
  probes and the shared socket promise.
\<close>

section \<open>Rounds of probes\<close>

lemma confirmSample_undisturbed:
  assumes "\<And>a q. undisturbed q (snd (cePrb env a q))"
  shows "undisturbed (csRunner s) (csRunner (snd (confirmSample env c maxA a s)))"
  using assms[of "csRunner s" a]
  by (cases "cePrb env a (csRunner s)"; cases "fst (cePrb env a (csRunner s))")
    (simp_all add: confirmSample_def Let_def)

lemma confirmLoop_undisturbed:
  assumes "\<And>a q. undisturbed q (snd (cePrb env a q))"
  shows "undisturbed (csRunner s) (csRunner (snd (confirmLoop env c maxA left s)))"
proof (induction left arbitrary: s)
  case 0
  then show ?case by (simp add: confirmFail_def Let_def split: option.split)
next
  case (Suc left)
  obtain fin s1 where st: "confirmSample env c maxA (maxA - left) s = (fin, s1)"
    by (cases "confirmSample env c maxA (maxA - left) s")
  with confirmSample_undisturbed[of env s c maxA "maxA - left", OF assms] have u: "undisturbed (csRunner s) (csRunner s1)"
    by simp
  from undisturbed_trans[OF u Suc.IH] have v: "undisturbed (csRunner s) (csRunner (snd (confirmLoop env c maxA left s1)))" .
  from st u v show ?case
    by (cases fin; cases "ceCtx env (maxA - left)"; cases "ceWait env (maxA - left)"; cases "left = 0")
      (simp_all add: Let_def)
qed

lemma confirm_undisturbed:
  assumes "\<And>a q. undisturbed q (snd (cePrb env a q))"
  shows "undisturbed r (snd (snd (confirmPublicProbeWithProgress env k p r)))"
proof (cases "cfgMappingConfirmations (rnCfg r) \<le> 1")
  case True
  let ?q = "logInfo (ceNow env 1) (''$ stun confirm --proto '' @ protoOf r @ '' --need 1'') r"
  from assms[of ?q 1] have "undisturbed r (snd (cePrb env 1 ?q))"
    by (rule undisturbed_trans[rotated]) simp
  with True show ?thesis
    by (auto simp: confirmPublicProbeWithProgress_def confirmOnce_def Let_def split: prod.splits sum.splits)
next
  case False
  have "undisturbed r (csRunner (snd (confirmLoop env c maxA left s)))" if "undisturbed r (csRunner s)" for c maxA left s
    using undisturbed_trans[OF that confirmLoop_undisturbed[of env s c maxA left, OF assms]] .
  with False show ?thesis
    by (simp add: confirmPublicProbeWithProgress_def Let_def case_prod_beta)
qed

text \<open>The outcomes of the rounds, and what they say of a mapping.\<close>

definition seenInRow :: "nat \<Rightarrow> mappingEvent \<Rightarrow> stunResult res list \<Rightarrow> bool" where
  "seenInRow c m h \<longleftrightarrow> c \<le> length (filter informative h) \<and>
     list_all (\<lambda>p. case p of Inl e \<Rightarrow> False
       | Inr x \<Rightarrow> srPort x = mePublicPort m \<and> ip_equal (mePublicIP m) (srIP x))
       (last_n c (filter informative h))"

definition confirmRounds ::
  "(probeRound \<times> (instanceConfig \<Rightarrow> confirmEnv) \<times> (instanceConfig \<Rightarrow> int)) list \<Rightarrow> probeRound list" where
  "confirmRounds rounds =
     map (\<lambda>(rd, env, k). rd\<lparr>prConfirm := (\<lambda>p q. confirmPublicProbeWithProgress (env (rnCfg q)) (k (rnCfg q)) p q)\<rparr>) rounds"

definition calmRounds ::
  "instanceConfig \<Rightarrow> (probeRound \<times> (instanceConfig \<Rightarrow> confirmEnv) \<times> (instanceConfig \<Rightarrow> int)) list \<Rightarrow> bool" where
  "calmRounds cfg rounds \<longleftrightarrow> (\<forall>(rd, env, k) \<in> set rounds. \<forall>a q. undisturbed q (snd (cePrb (env cfg) a q)))"

lemma publish_lastMap:
  "rnLastMap (publishMapping now s e r) = rnLastMap r \<or> rnLastMap (publishMapping now s e r) = Some e"
  by (simp add: publishMapping_eq afterUpdate_def updateMappingLocked_eq Let_def)

lemma probeRounds_seen:
  assumes "2 \<le> cfgMappingConfirmations cfg" and "rnCfg r = cfg"
    and "calmRounds cfg rounds"
    and "rnLastMap (probeRounds proto privateIP privatePort (confirmRounds rounds) n (Some (progressOf (streak h))) r) = M"
    and "M \<noteq> rnLastMap r"
  shows "\<exists>m hs. M = Some m \<and> mePrivateIP m = privateIP \<and> mePrivatePort m = privatePort \<and> meProtocol m = proto \<and>
    list_all2 (\<lambda>(rd, env, k) os. probedFrom (env cfg) 0 os) (take (length hs) rounds) hs \<and>
    seenInRow (nat (cfgMappingConfirmations cfg)) m (h @ concat hs)"
  using assms(2-)
proof (induction rounds arbitrary: n h r)
  case Nil
  then show ?case by (simp add: confirmRounds_def)
next
  case (Cons x rounds)
  obtain rd env k where x: "x = (rd, env, k)" by (cases x)
  let ?c = "cfgMappingConfirmations cfg"
  obtain res p r1 where conf: "confirmPublicProbeWithProgress (env cfg) (k cfg) (Some (progressOf (streak h))) r = (res, p, r1)"
    by (cases "confirmPublicProbeWithProgress (env cfg) (k cfg) (Some (progressOf (streak h))) r")
  have "undisturbed q (snd (cePrb (env cfg) a q))" for a q using Cons.prems(2) x by (simp add: calmRounds_def)
  from confirm_undisturbed[OF this, of r "k cfg" "Some (progressOf (streak h))"] conf Cons.prems(1)
  have u: "rnCfg r1 = cfg" "rnLastMap r1 = rnLastMap r"
    by (simp_all add: undisturbed_def)
  from confirmed_endpoint_was_repeated[OF conf _ assms(1)] Cons.prems(1) obtain os where os: "probedFrom (env cfg) 0 os"
    "case res of Inl e \<Rightarrow> p = Some (progressOf (streak (h @ os)))
     | Inr y \<Rightarrow> p = Some zeroProgress \<and> nat ?c \<le> length (filter informative (h @ os)) \<and>
         list_all (names y) (last_n (nat ?c) (filter informative (h @ os)))" by auto
  show ?case
  proof (cases res)
    case (Inr y)
    let ?m = "\<lparr>mePublicIP = srIP y, mePublicPort = srPort y, mePrivateIP = privateIP,
                mePrivatePort = privatePort, meProtocol = proto\<rparr>"
    from Cons.prems(1,3,4) x conf Inr u have "M = Some ?m"
      using publish_lastMap[of "prNow rd" "prNotify rd" ?m r1]
      by (auto simp: confirmRounds_def split: if_splits)
    moreover have "seenInRow (nat ?c) ?m (h @ os)"
      using os(2) Inr
      by (auto simp: seenInRow_def list_all_iff names_def samePublicProbeResult_def split: sum.splits)
    ultimately show ?thesis using os(1) x by (intro exI[of _ ?m] exI[of _ "[os]"]) simp
  next
    case (Inl e)
    define r2 where "r2 = emit (prNow rd) (retryUpdate proto (prNow rd) n e)
        (if isLocalPortUnavailable e then advanceBindPort r1 else r1)"
    have r2: "rnCfg r2 = cfg" "rnLastMap r2 = rnLastMap r"
      using u by (simp_all add: r2_def advanceBindPort_def)
    from Cons.prems(1,3,4) x conf Inl u r2 os(2)
    have M: "rnLastMap (probeRounds proto privateIP privatePort (confirmRounds rounds) (n + 1)
        (Some (progressOf (streak (h @ os)))) r2) = M"
      by (auto simp: confirmRounds_def r2_def[symmetric] Let_def split: if_splits)
    have "calmRounds cfg rounds" using Cons.prems(2) by (simp add: calmRounds_def)
    from Cons.IH[OF r2(1) this M] Cons.prems(4) r2(2) obtain m hs where
      "M = Some m" "mePrivateIP m = privateIP" "mePrivatePort m = privatePort" "meProtocol m = proto"
      "list_all2 (\<lambda>(rd, env, k) os. probedFrom (env cfg) 0 os) (take (length hs) rounds) hs"
      "seenInRow (nat ?c) m ((h @ os) @ concat hs)" by auto
    then show ?thesis using os(1) x by (intro exI[of _ m] exI[of _ "os # hs"]) simp
  qed
qed

text \<open>The outcomes of one round over UDP.\<close>

definition udpOutcomes :: "serverEndpoint list \<Rightarrow> (nat \<Rightarrow> udpProbeEnv) \<Rightarrow> stunResult res list \<Rightarrow> bool" where
  "udpOutcomes servers nets os \<longleftrightarrow> (\<forall>i < length os. \<exists>q. os ! i = fst (udpPublicProbe (nets (i + 1)) servers q))"

text \<open>
  C1: A published UDP endpoint was confirmed: when the probing goroutine of a session changes
  the mapping of its runner, the mapping has the local endpoint of the session, and among
  the outcomes of the probes of its rounds (whole rounds that failed not counted) the last
  \<open>mappingConfirmations\<close> ones all are successes that name the published endpoint.
\<close>

theorem published_endpoint_was_repeated:
  assumes "rnLastMap (startUDPPublicProbe privateIP privatePort rounds r) \<noteq> rnLastMap r"
    and "2 \<le> cfgMappingConfirmations (rnCfg r)"
  shows "\<exists>m hs. rnLastMap (startUDPPublicProbe privateIP privatePort rounds r) = Some m \<and>
    mePrivateIP m = privateIP \<and> mePrivatePort m = privatePort \<and> meProtocol m = ''udp'' \<and>
    list_all2 (\<lambda>(rd, env, nets) os. udpOutcomes (stunServers (rnCfg r)) nets os) (take (length hs) rounds) hs \<and>
    seenInRow (nat (cfgMappingConfirmations (rnCfg r))) m (concat hs)"
proof -
  define conv where "conv = (\<lambda>(rd :: probeRound, env :: confirmEnv, nets).
    (rd, (\<lambda>cfg. env\<lparr>cePrb := (\<lambda>n. udpPublicProbe (nets n) (stunServers cfg))\<rparr>),
     (\<lambda>cfg :: instanceConfig. int (length (stunServers cfg)))))"
  let ?cs = "map conv rounds"
  have s: "startUDPPublicProbe privateIP privatePort rounds r =
      probeRounds ''udp'' privateIP privatePort (confirmRounds ?cs) 1 (Some (progressOf (streak []))) r"
  proof -
    have "confirmRounds ?cs = map (\<lambda>(rd, env, nets). rd\<lparr>prConfirm :=
        (\<lambda>p q. confirmedUDPPublicProbe env nets (stunServers (rnCfg q)) p q)\<rparr>) rounds"
      unfolding confirmRounds_def map_map
      by (rule map_cong[OF refl]) (auto simp: conv_def confirmedUDPPublicProbe_def)
    then show ?thesis by (simp add: startUDPPublicProbe_def zeroProgress_def progressOf_def)
  qed
  have u: "calmRounds (rnCfg r) ?cs"
    by (auto simp: calmRounds_def conv_def undisturbed_udpProbe)
  from probeRounds_seen[OF assms(2) refl u refl, of "''udp''" privateIP privatePort 1 "[]"] assms(1)
  obtain m hs where "rnLastMap (startUDPPublicProbe privateIP privatePort rounds r) = Some m"
    "mePrivateIP m = privateIP" "mePrivatePort m = privatePort" "meProtocol m = ''udp''"
    "list_all2 (\<lambda>(rd, env, k) os. probedFrom (env (rnCfg r)) 0 os) (take (length hs) ?cs) hs"
    "seenInRow (nat (cfgMappingConfirmations (rnCfg r))) m (concat hs)"
    unfolding s by auto
  moreover from this(5)
  have "list_all2 (\<lambda>(rd, env, nets) os. udpOutcomes (stunServers (rnCfg r)) nets os) (take (length hs) rounds) hs"
    unfolding take_map list_all2_map1
    by (elim list_all2_mono) (auto simp: conv_def probedFrom_def udpOutcomes_def)
  ultimately show ?thesis by blast
qed

section \<open>Stable endpoints\<close>

lemma confirmSample_agrees:
  assumes "fst (cePrb env a (csRunner s)) = Inr y" and "csCount s > 0 \<longrightarrow> samePublicProbeResult x (csCandidate s)"
    and "samePublicProbeResult x y" and "confirmSample env c maxA a s = (fin, s1)" and "0 \<le> csCount s"
  shows "if csCount s + 1 \<ge> c then fin = Some (Inr y) \<and> csProgress s1 = map_option (\<lambda>_. zeroProgress) (csProgress s)
    else fin = None \<and> csCount s1 = csCount s + 1 \<and> samePublicProbeResult x (csCandidate s1) \<and>
      (csProgress s1 = None \<longleftrightarrow> csProgress s = None)"
proof (cases "cePrb env a (csRunner s)")
  case (Pair res r)
  have same: "csCount s \<noteq> 0 \<longrightarrow> samePublicProbeResult (csCandidate s) y"
    using assms(2,3,5) by (auto intro: same_trans same_sym)
  from Pair same assms show ?thesis
    by (cases "csProgress s") (auto simp: confirmSample_def Let_def setProgress_def zeroProgress_def split: if_splits)
qed

lemma confirmLoop_stable:
  assumes "left \<le> maxA" and "0 \<le> csCount s" and "csCount s < c" and "nat (c - csCount s) \<le> left"
    and "csCount s > 0 \<longrightarrow> samePublicProbeResult x (csCandidate s)"
    and "\<And>a q. \<exists>y. fst (cePrb env a q) = Inr y \<and> samePublicProbeResult x y"
    and "\<And>a. ceCtx env a = None \<and> ceWait env a = None"
  shows "\<exists>y s'. confirmLoop env c maxA left s = (Inr y, s') \<and> samePublicProbeResult x y \<and>
    csProgress s' = map_option (\<lambda>_. zeroProgress) (csProgress s)"
  using assms(1-5)
proof (induction left arbitrary: s)
  case 0
  then show ?case by simp
next
  case (Suc left)
  let ?a = "maxA - left"
  obtain fin s1 where st: "confirmSample env c maxA ?a s = (fin, s1)" by (cases "confirmSample env c maxA ?a s")
  from assms(6) obtain y where y: "fst (cePrb env ?a (csRunner s)) = Inr y" "samePublicProbeResult x y" by blast
  note ag = confirmSample_agrees[OF y(1) Suc.prems(5) y(2) st Suc.prems(2)]
  show ?case
  proof (cases "csCount s + 1 \<ge> c")
    case True
    with ag st y(2) show ?thesis by simp
  next
    case False
    with ag have s1: "fin = None" "csCount s1 = csCount s + 1" "samePublicProbeResult x (csCandidate s1)"
      "csProgress s1 = None \<longleftrightarrow> csProgress s = None" by simp_all
    have "nat (c - csCount s1) \<le> left" using Suc.prems(4) s1(2) by linarith
    with Suc.IH[of s1] s1 Suc.prems(1,2) False obtain z s' where
      "confirmLoop env c maxA left s1 = (Inr z, s')" "samePublicProbeResult x z"
      "csProgress s' = map_option (\<lambda>_. zeroProgress) (csProgress s1)" by fastforce
    moreover have "map_option (\<lambda>_. zeroProgress) (csProgress s1) = map_option (\<lambda>_. zeroProgress) (csProgress s)"
      using s1(4) by (cases "csProgress s"; cases "csProgress s1") simp_all
    ultimately show ?thesis using st s1(1) assms(7) by (cases "left = 0") (simp_all add: Let_def)
  qed
qed

text \<open>
  Probes that agree with the progress of former rounds, whose count is below the number that is
  asked for: the attempts that \<open>publicProbeMaxAttempts\<close> allows are always enough.
\<close>

lemma stable_endpoint_is_confirmed:
  assumes "\<And>a q. \<exists>y. fst (cePrb env a q) = Inr y \<and> samePublicProbeResult x y"
    and "\<And>a. ceCtx env a = None \<and> ceWait env a = None"
    and "0 \<le> pgCount p" and "pgCount p < max 1 (cfgMappingConfirmations (rnCfg r))"
    and "pgCount p > 0 \<longrightarrow> samePublicProbeResult x (pgCandidate p)"
  shows "\<exists>y p' r'. confirmPublicProbeWithProgress env k (Some p) r = (Inr y, Some p', r') \<and>
    samePublicProbeResult x y \<and> pgCount p' = 0"
proof (cases "cfgMappingConfirmations (rnCfg r) \<le> 1")
  case True
  let ?q = "logInfo (ceNow env 1) (''$ stun confirm --proto '' @ protoOf r @ '' --need 1'') r"
  from assms(1) obtain y where "fst (cePrb env 1 ?q) = Inr y" "samePublicProbeResult x y" by blast
  with True assms(3,4) show ?thesis
    by (cases "cePrb env 1 ?q") (auto simp: confirmPublicProbeWithProgress_def confirmOnce_def Let_def)
next
  case False
  let ?c = "cfgMappingConfirmations (rnCfg r)"
  let ?n = "nat (publicProbeMaxAttempts ?c k)"
  define s where "s = \<lparr>csCandidate = pgCandidate p, csCount = pgCount p, csLastErr = None, csProgress = Some p,
    csRunner = logInfo (ceNow env 0) (''$ stun confirm --proto '' @ protoOf r @ '' --need '' @
                    itoa ?c @ '' --max-attempts '' @ itoa (int ?n)) r\<rparr>"
  have "?c + 2 \<le> publicProbeMaxAttempts ?c k"
    using False by (simp add: publicProbeMaxAttempts_def Let_def)
  then have "nat (?c - csCount s) \<le> ?n" using assms(3) by (simp add: s_def)
  from confirmLoop_stable[OF order_refl _ _ this, of x env] assms False obtain y s' where
    "confirmLoop env ?c ?n ?n s = (Inr y, s')" "samePublicProbeResult x y" "csProgress s' = Some zeroProgress"
    by (auto simp: s_def)
  moreover have "pgCount zeroProgress = 0" by (simp add: zeroProgress_def)
  ultimately show ?thesis
    using False unfolding confirmPublicProbeWithProgress_def by (simp add: Let_def s_def)
qed

text \<open>
  C19: A stable endpoint is published: when the context of a session stays alive and every probe
  of the first round answers with the same public endpoint, the probing goroutine confirms it
  within the attempts of that round, whatever number of confirmations is asked for, and the
  mapping of the runner is then this endpoint.
\<close>

theorem stable_endpoint_is_published:
  assumes "\<And>n q. \<exists>y. fst (udpPublicProbe (nets n) (stunServers (rnCfg r)) q) = Inr y \<and> samePublicProbeResult x y"
    and "\<And>a. ceCtx env a = None \<and> ceWait env a = None" and "\<not> prCtx rd" and "\<not> prAfter rd"
  shows "\<exists>m. rnLastMap (startUDPPublicProbe privateIP privatePort ((rd, env, nets) # rounds) r) = Some m \<and>
    mePublicPort m = srPort x \<and> ip_equal (mePublicIP m) (srIP x) \<and> mePrivatePort m = privatePort \<and> meProtocol m = ''udp''"
proof -
  let ?env = "env\<lparr>cePrb := (\<lambda>n. udpPublicProbe (nets n) (stunServers (rnCfg r)))\<rparr>"
  let ?k = "int (length (stunServers (rnCfg r)))"
  have "\<exists>y p' r'. confirmPublicProbeWithProgress ?env ?k (Some zeroProgress) r = (Inr y, Some p', r') \<and>
      samePublicProbeResult x y \<and> pgCount p' = 0"
    using assms(1,2) by (intro stable_endpoint_is_confirmed) (simp_all add: zeroProgress_def)
  then obtain y p r1 where c: "confirmPublicProbeWithProgress ?env ?k (Some zeroProgress) r = (Inr y, p, r1)"
    "samePublicProbeResult x y" by blast
  let ?e = "\<lparr>mePublicIP = srIP y, mePublicPort = srPort y, mePrivateIP = privateIP,
                mePrivatePort = privatePort, meProtocol = ''udp''\<rparr>"
  have m: "rnLastMap (publishMapping (prNow rd) (prNotify rd) ?e r1) =
      (if lastIs sameMapping r1 ?e then rnLastMap r1 else Some ?e)"
    by (simp add: publishMapping_eq afterUpdate_def updateMappingLocked_eq Let_def)
  have s: "startUDPPublicProbe privateIP privatePort ((rd, env, nets) # rounds) r =
      publishMapping (prNow rd) (prNotify rd) ?e r1"
    using c(1) assms(3,4) by (simp add: startUDPPublicProbe_def confirmedUDPPublicProbe_def)
  have f: "ip_equal (srIP y) (srIP x)" "srPort y = srPort x"
    using c(2) by (auto simp: samePublicProbeResult_def ip_equal_sym)
  show ?thesis
  proof (cases "lastIs sameMapping r1 ?e")
    case False
    with m f show ?thesis unfolding s by simp
  next
    case True
    then obtain l where l: "rnLastMap r1 = Some l" "sameMapping l ?e" by (auto simp: lastIs_def split: option.splits)
    with m True f show ?thesis unfolding s
      by (auto simp: sameMapping_def samePublic_def intro: ip_equal_trans)
  qed
qed

section \<open>Answers of the right server\<close>

lemma byTID_set: "byTID qs t = Some q \<Longrightarrow> q \<in> set qs \<and> uqTID q = t"
proof (induction qs rule: rev_induct)
  case Nil
  then show ?case by (simp add: byTID_def)
next
  case (snoc x qs)
  then show ?case by (auto simp: byTID_def split: if_splits)
qed

lemma awaitSTUN_answer:
  "awaitSTUN resolve m es = Some (Inr (x, e)) \<Longrightarrow>
     \<exists>q. FanResponse x \<in> set es \<and> m (srTID x) = Some q \<and> e = uqEndpoint q \<and>
       stunSourceMatches resolve (srSource x) (Some (uqAddr q))"
  by (induction resolve m es rule: awaitSTUN.induct) (auto split: option.splits if_splits)

lemma fanoutLoop_answer:
  "fanoutLoop resolve tries qs left n err = Inr (x, e) \<Longrightarrow>
     \<exists>q j. q \<in> set qs \<and> uqTID q = srTID x \<and> e = uqEndpoint q \<and> FanResponse x \<in> set (faEvents (tries j)) \<and>
       n \<le> j \<and> j < n + left \<and> stunSourceMatches resolve (srSource x) (Some (uqAddr q))"
proof (induction left arbitrary: n err)
  case 0
  then show ?case by (simp split: option.splits)
next
  case (Suc left)
  show ?case
  proof (cases "awaitSTUN resolve (byTID qs) (faEvents (tries n)) = Some (Inr (x, e))")
    case True
    from awaitSTUN_answer[OF this] obtain q where q: "FanResponse x \<in> set (faEvents (tries n))"
      "byTID qs (srTID x) = Some q" "e = uqEndpoint q" "stunSourceMatches resolve (srSource x) (Some (uqAddr q))"
      by auto
    with byTID_set[OF q(2)] show ?thesis by (intro exI[of _ q] exI[of _ n]) simp
  next
    case False
    with Suc.prems obtain err' where "fanoutLoop resolve tries qs left (n + 1) err' = Inr (x, e)"
      by (auto simp: Let_def split: option.splits sum.splits prod.splits if_splits)
    from Suc.IH[OF this] show ?thesis by (auto intro: order.strict_trans2 less_imp_le)
  qed
qed

lemma udpRequests_set:
  "q \<in> set (fst (udpRequests env es err)) \<Longrightarrow>
     uqEndpoint q \<in> set es \<and> upResolve env (uqEndpoint q) = Inr (uqAddr q) \<and>
     stunRequest (upRandom env (uqEndpoint q)) = Inr (uqPacket q, uqTID q)"
proof (induction es arbitrary: err)
  case Nil
  then show ?case by simp
next
  case (Cons a es)
  have "(\<exists>e. q \<in> set (fst (udpRequests env es e))) \<or> (uqEndpoint q = a \<and>
      upResolve env a = Inr (uqAddr q) \<and> stunRequest (upRandom env a) = Inr (uqPacket q, uqTID q))"
    using Cons.prems by (auto simp: Let_def case_prod_beta split: sum.splits)
  with Cons.IH show ?case by auto
qed

lemma slice_subset: "slice xs a b = Inr ys \<Longrightarrow> set ys \<subseteq> set xs"
  by (auto simp: slice_def split: if_splits dest: in_set_takeD in_set_dropD)

lemma rotate_subset: "rotateServerEndpoints es n = Inr ys \<Longrightarrow> set ys \<subseteq> set es"
  by (auto simp: rotateServerEndpoints_def Let_def split: if_splits dest: in_set_takeD in_set_dropD)

lemma ordered_subset: "orderedServerEndpoints kind es after r = (Inr ys, r') \<Longrightarrow> set ys \<subseteq> set es"
  by (auto simp: orderedServerEndpoints_def Let_def split: if_splits prod.splits dest!: rotate_subset)

lemma batch_subset: "orderedServerEndpointBatch kind es n r = (Inr ys, r') \<Longrightarrow> set ys \<subseteq> set es"
  using ordered_subset[of kind es None r ys r']
  by (force simp: orderedServerEndpointBatch_def split: if_splits prod.splits dest!: slice_subset rotate_subset)

text \<open>
  C14: A UDP probe takes its result from the right server: the result is a response that
  arrived during one of its retries, its transaction is the one drawn for a configured
  server, it came from the address which that server resolved to (or carries no source), and
  the result names this server.
\<close>

theorem udp_probe_answer_matches:
  assumes "udpPublicProbe env endpoints r = (Inr result, r')"
  shows "\<exists>endpoint a packet j x. endpoint \<in> set endpoints \<and> upResolve env endpoint = Inr a \<and>
    stunRequest (upRandom env endpoint) = Inr (packet, srTID result) \<and>
    FanResponse x \<in> set (faEvents (upTries env j)) \<and>
    result = x\<lparr>srServer := describeServerEndpoint endpoint\<rparr> \<and>
    (srSource x = [] \<or>
       (\<exists>b. upResolveText env (srSource x) = Inr b \<and> snd b = snd a \<and> ip_equal (fst b) (fst a)))"
proof -
  from assms obtain batch r1 where b: "orderedServerEndpointBatch ''stun'' endpoints udpPublicProbeFanout r = (Inr batch, r1)"
    by (auto simp: udpPublicProbe_def split: if_splits sum.splits prod.splits)
  obtain qs err where qs: "udpRequests env batch None = (qs, err)" by (cases "udpRequests env batch None")
  from assms b qs obtain x e r2 where x: "stunUDPSharedFanout (upWindows env) (upResolveText env) (upTries env) qs r1 = (Inr (x, e), r2)"
    "result = x\<lparr>srServer := describeServerEndpoint e\<rparr>"
    by (auto simp: udpPublicProbe_def Let_def split: if_splits sum.splits prod.splits)
  then obtain n where "fanoutLoop (upResolveText env) (upTries env) qs n 0 None = Inr (x, e)"
    by (auto simp: stunUDPSharedFanout_def Let_def split: if_splits prod.splits)
  from fanoutLoop_answer[OF this] obtain q j where q: "q \<in> set qs" "uqTID q = srTID x" "e = uqEndpoint q"
    "FanResponse x \<in> set (faEvents (upTries env j))" "stunSourceMatches (upResolveText env) (srSource x) (Some (uqAddr q))"
    by auto
  from udpRequests_set[of q env batch None] qs q(1) have u: "uqEndpoint q \<in> set batch"
    "upResolve env (uqEndpoint q) = Inr (uqAddr q)"
    "stunRequest (upRandom env (uqEndpoint q)) = Inr (uqPacket q, uqTID q)" by simp_all
  from q(5) have "srSource x = [] \<or> (\<exists>b. upResolveText env (srSource x) = Inr b \<and>
      snd b = snd (uqAddr q) \<and> ip_equal (fst b) (fst (uqAddr q)))"
    by (auto simp: stunSourceMatches_def split: sum.splits if_splits)
  with u batch_subset[OF b] q x(2) show ?thesis
    by (intro exI[of _ e] exI[of _ "uqAddr q"] exI[of _ "uqPacket q"] exI[of _ j] exI[of _ x]) auto
qed

section \<open>One socket for two protocols\<close>

text \<open>The reads of QUIC until the input is used up: the packets it gets, and the STUN results.\<close>

fun readPackets :: "nat \<Rightarrow> nat \<Rightarrow> (byte list \<times> addr option) res list \<Rightarrow> stunResult list \<Rightarrow>
    (byte list \<times> addr option) res list \<times> stunResult list" where
  "readPackets 0 len input q = ([], q)"
| "readPackets (Suc n) len input q =
     (case ReadFrom len input q of
        (None, rest, q1) \<Rightarrow> ([], q1)
      | (Some p, rest, q1) \<Rightarrow> (let (ps, q2) = readPackets n len rest q1 in (p # ps, q2)))"

definition stunOf :: "(byte list \<times> addr option) res \<Rightarrow> stunResult option" where
  "stunOf p = (case p of Inl e \<Rightarrow> None
     | Inr (packet, source) \<Rightarrow>
         (case parseSTUN (take 2048 packet) of
            Inl e \<Rightarrow> None
          | Inr x \<Rightarrow> Some (case source of None \<Rightarrow> x | Some a \<Rightarrow> x\<lparr>srSource := addrString a\<rparr>)))"

definition forQUIC :: "nat \<Rightarrow> (byte list \<times> addr option) res \<Rightarrow> (byte list \<times> addr option) res" where
  "forQUIC len p = (case p of Inl e \<Rightarrow> Inl e | Inr (packet, source) \<Rightarrow> Inr (take len (take 2048 packet), source))"

lemma ReadFrom_step:
  "ReadFrom len (p # input) q =
     (case stunOf p of
        None \<Rightarrow> (Some (forQUIC len p), input, q)
      | Some x \<Rightarrow> ReadFrom len input (offerStun x q))"
  by (cases p) (auto simp: stunOf_def forQUIC_def Let_def split: sum.split option.split)

lemma offerStun_eq: "length q \<le> stunQueueSize \<Longrightarrow> offerStun x q = take stunQueueSize (q @ [x])"
  by (simp add: offerStun_def)

lemma readPackets_eq:
  "length input \<le> n \<Longrightarrow> length q \<le> stunQueueSize \<Longrightarrow>
     readPackets (Suc n) len input q =
       (map (forQUIC len) (filter (\<lambda>p. stunOf p = None) input), take stunQueueSize (q @ List.map_filter stunOf input))"
proof (induction input arbitrary: n q)
  case Nil
  then show ?case by (simp add: List.map_filter_simps)
next
  case (Cons p input)
  show ?case
  proof (cases "stunOf p")
    case None
    from Cons.prems obtain k where k: "n = Suc k" "length input \<le> k" by (cases n) auto
    from Cons.IH[OF k(2) Cons.prems(2)] None show ?thesis
      by (simp add: k(1) ReadFrom_step List.map_filter_simps del: ReadFrom.simps)
  next
    case (Some x)
    let ?q = "offerStun x q"
    have l: "length ?q \<le> stunQueueSize" using Cons.prems(2) by (simp add: offerStun_def)
    have t: "take stunQueueSize (?q @ ys) = take stunQueueSize (q @ x # ys)" for ys
      using Cons.prems(2) by (auto simp: offerStun_def take_Cons')
    have "readPackets (Suc n) len (p # input) q = readPackets (Suc n) len input ?q"
      using Some by (simp add: ReadFrom_step del: ReadFrom.simps)
    with Cons.IH[of n ?q] Cons.prems(1) l Some t show ?thesis
      by (simp add: List.map_filter_simps del: readPackets.simps)
  qed
qed

text \<open>
  C15: The socket that QUIC and STUN share separates the two: after any sequence of packets
  and errors, QUIC has read exactly the packets and errors that are not STUN responses, in
  their order, each cut to its buffer; and the channel of the probes holds the STUN results,
  with their sources and in their order, but never more than eight of them: what exceeds this
  is lost.
\<close>

theorem shared_socket_demultiplexes:
  "readPackets (Suc (length input)) len input [] =
     (map (forQUIC len) (filter (\<lambda>p. stunOf p = None) input), take 8 (List.map_filter stunOf input))"
  using readPackets_eq[OF order_refl, of "[]" input len] by (simp add: stunQueueSize_def)

section \<open>Instances\<close>

definition sampleTID :: tid where
  "sampleTID = replicate 12 7"

definition sampleAnswer :: stunResult where
  "sampleAnswer = zeroStunResult\<lparr>srTID := sampleTID, srIP := [203, 0, 113, 9], srPort := 40000\<rparr>"

definition sampleServers :: "serverEndpoint list" where
  "sampleServers = [\<lparr>epHost = ''a'', epPort = 3478\<rparr>]"

definition sampleNet :: udpProbeEnv where
  "sampleNet = \<lparr>upWindows = False, upResolve = (\<lambda>_. Inr ([192, 0, 2, 1], 3478)),
     upResolveText = (\<lambda>_. Inr ([192, 0, 2, 1], 3478)), upRandom = (\<lambda>_. Inr (sampleTID)),
     upTries = (\<lambda>_. \<lparr>faCtx = None, faSend = (\<lambda>_. None), faSendCtx = (\<lambda>_. None),
       faEvents = [FanResponse sampleAnswer]\<rparr>), upCtx = False\<rparr>"

definition sampleConfirm :: confirmEnv where
  "sampleConfirm = \<lparr>cePrb = (\<lambda>a q. (Inr sampleAnswer, q)), ceCtx = (\<lambda>_. None), ceWait = (\<lambda>_. None), ceNow = int\<rparr>"

definition sampleRound :: probeRound where
  "sampleRound = \<lparr>prCtx = False, prConfirm = (\<lambda>p q. (Inr sampleAnswer, p, q)), prAfter = False, prWait = False,
     prNow = 9, prNotify = None\<rparr>"

definition sampleRunner :: runner where
  "sampleRunner = NewRunner (webConfig\<lparr>cfgMappingConfirmations := 2, cfgResolvedSTUN := sampleServers\<rparr>) True"

lemma sample_request: "\<exists>p. stunRequest (Inr (sampleTID)) = Inr (p, sampleTID)"
  by (simp add: stunRequest_def)

definition sampleEndpoint :: serverEndpoint where
  "sampleEndpoint = \<lparr>epHost = ''a'', epPort = 3478\<rparr>"

definition sampleQuery :: "byte list \<Rightarrow> udpSTUNRequest" where
  "sampleQuery p = \<lparr>uqEndpoint = sampleEndpoint, uqAddr = ([192, 0, 2, 1], 3478), uqPacket = p, uqTID = sampleTID\<rparr>"

lemma sample_batch: "orderedServerEndpointBatch ''stun'' sampleServers udpPublicProbeFanout q = (Inr sampleServers, q)"
  by (simp add: orderedServerEndpointBatch_def orderedServerEndpoints_def sampleServers_def)

lemma sample_requests: "\<exists>p. udpRequests sampleNet sampleServers None = ([sampleQuery p], None)"
  using sample_request by (auto simp: sampleNet_def sampleServers_def sampleQuery_def sampleEndpoint_def)

lemma sample_await: "awaitSTUN resolve (byTID [sampleQuery p]) [FanResponse sampleAnswer] = Some (Inr (sampleAnswer, sampleEndpoint))"
  by (simp add: byTID_def sampleQuery_def sampleAnswer_def zeroStunResult_def stunSourceMatches_def)

lemma sample_fanout:
  "\<exists>q'. stunUDPSharedFanout False (upResolveText sampleNet) (upTries sampleNet) [sampleQuery p] q =
     (Inr (sampleAnswer, sampleEndpoint), q')"
  using sample_await
  by (simp add: stunUDPSharedFanout_def udpSTUNTiming_def nextUDPQueryIndex_def sampleNet_def numeral_3_eq_3)

lemma sample_probe: "\<exists>q'. udpPublicProbe sampleNet sampleServers q =
  (Inr (sampleAnswer\<lparr>srServer := describeServerEndpoint sampleEndpoint\<rparr>), q')"
proof -
  obtain p where "udpRequests sampleNet sampleServers None = ([sampleQuery p], None)" using sample_requests by blast
  moreover obtain q' where "stunUDPSharedFanout False (upResolveText sampleNet) (upTries sampleNet) [sampleQuery p] q =
     (Inr (sampleAnswer, sampleEndpoint), q')" using sample_fanout by blast
  moreover have "upWindows sampleNet = False" "sampleServers \<noteq> []" by (simp_all add: sampleNet_def sampleServers_def)
  ultimately show ?thesis by (simp add: udpPublicProbe_def sample_batch)
qed

lemma sample_stun: "stunServers (rnCfg sampleRunner) = sampleServers"
  by (simp add: sampleRunner_def NewRunner_def stunServers_def sampleServers_def)

lemma sample_same: "samePublicProbeResult sampleAnswer (sampleAnswer\<lparr>srServer := v\<rparr>)"
  by (simp add: samePublicProbeResult_def)

lemma sample_agrees:
  "\<exists>y. fst (udpPublicProbe sampleNet sampleServers q) = Inr y \<and> samePublicProbeResult sampleAnswer y"
  using sample_probe[of q] sample_same by auto

lemma published_endpoint_was_repeated_witness:
  "\<exists>m hs. rnLastMap (startUDPPublicProbe [10, 0, 0, 1] 5000 [(sampleRound, sampleConfirm, \<lambda>_. sampleNet)] sampleRunner) = Some m \<and>
    mePrivatePort m = 5000 \<and> seenInRow 2 m (concat hs)"
proof -
  let ?r = "startUDPPublicProbe [10, 0, 0, 1] 5000 [(sampleRound, sampleConfirm, \<lambda>_. sampleNet)] sampleRunner"
  let ?env = "sampleConfirm\<lparr>cePrb := (\<lambda>n. udpPublicProbe sampleNet sampleServers)\<rparr>"
  have b: "rnLastMap sampleRunner = None" "cfgMappingConfirmations (rnCfg sampleRunner) = 2"
    by (simp_all add: sampleRunner_def NewRunner_def)
  have "\<exists>y p' r'. confirmPublicProbeWithProgress ?env (int (length sampleServers)) (Some zeroProgress) sampleRunner =
      (Inr y, Some p', r') \<and> samePublicProbeResult sampleAnswer y \<and> pgCount p' = 0"
    using sample_agrees by (intro stable_endpoint_is_confirmed) (simp_all add: sampleConfirm_def zeroProgress_def)
  then obtain y p r1 where c: "confirmPublicProbeWithProgress ?env (int (length sampleServers)) (Some zeroProgress) sampleRunner =
      (Inr y, p, r1)" by blast
  have "undisturbed q (snd (cePrb ?env a q))" for a q by (simp add: undisturbed_udpProbe)
  from confirm_undisturbed[OF this, of sampleRunner "int (length sampleServers)" "Some zeroProgress"] c b
  have "rnLastMap r1 = None" by (simp add: undisturbed_def)
  with c have "rnLastMap ?r \<noteq> None"
    by (simp add: startUDPPublicProbe_def confirmedUDPPublicProbe_def sampleRound_def sample_stun
        publishMapping_eq afterUpdate_def updateMappingLocked_eq lastIs_def Let_def)
  with b have "rnLastMap ?r \<noteq> rnLastMap sampleRunner" "2 \<le> cfgMappingConfirmations (rnCfg sampleRunner)" by auto
  from published_endpoint_was_repeated[OF this] b(2) show ?thesis by auto
qed

lemma stable_endpoint_is_published_witness:
  "\<exists>m. rnLastMap (startUDPPublicProbe [10, 0, 0, 1] 5000 [(sampleRound, sampleConfirm, \<lambda>_. sampleNet)] sampleRunner) = Some m \<and>
    mePublicPort m = srPort sampleAnswer \<and> ip_equal (mePublicIP m) (srIP sampleAnswer) \<and>
    mePrivatePort m = 5000 \<and> meProtocol m = ''udp''"
  using sample_agrees by (intro stable_endpoint_is_published) (simp_all add: sample_stun sampleConfirm_def sampleRound_def)

lemma udp_probe_answer_matches_witness:
  "\<exists>e a packet. e \<in> set sampleServers \<and> upResolve sampleNet e = Inr a \<and>
     stunRequest (upRandom sampleNet e) = Inr (packet, sampleTID)"
proof -
  obtain q' where "udpPublicProbe sampleNet sampleServers sampleRunner = (Inr (sampleAnswer\<lparr>srServer := describeServerEndpoint sampleEndpoint\<rparr>), q')"
    using sample_probe by blast
  from udp_probe_answer_matches[OF this] show ?thesis by (auto simp: sampleAnswer_def)
qed

end
