(* ===== verification/Platform.thy ===== *)
theory Platform
  imports Manager
begin

text \<open>
  What the program asks of the operating system for its sockets: the options set before a
  socket is bound (\<open>socket_options_unix.go\<close>, \<open>socket_options_windows.go\<close>) and the round-trip
  time of a connection (\<open>tcp_rtt.go\<close> and its three variants).
\<close>

section \<open>Socket options\<close>

text \<open>
  An option: the two that the \<open>syscall\<close> package names, and those that the code gives by
  number, all at level \<open>SOL_SOCKET\<close>.
\<close>

datatype sockOption =
    SoReuseAddr int
  | SoInt int int
  | SoString int string

definition soReusePort :: int where
  "soReusePort = 15"

definition soBindToDevice :: int where
  "soBindToDevice = 25"

definition soMark :: int where
  "soMark = 36"

text \<open>
  Setting options of one socket: \<open>sys\<close> is the outcome of each system call; the result is the
  error returned and the calls that were made, in order.
\<close>

type_synonym sysCall = "sockOption \<Rightarrow> go_error option"

definition setReuse :: "string \<Rightarrow> sysCall \<Rightarrow> go_error option \<times> sockOption list" where
  "setReuse goos sys =
     (case sys (SoReuseAddr 1) of
        Some e \<Rightarrow> (Some e, [SoReuseAddr 1])
      | None \<Rightarrow> (None, SoReuseAddr 1 # (if goos \<noteq> ''darwin'' then [SoInt soReusePort 1] else [])))"

definition bindToDevice :: "string \<Rightarrow> sysCall \<Rightarrow> string \<Rightarrow> go_error option \<times> sockOption list" where
  "bindToDevice goos sys iface =
     (if goos \<noteq> ''linux'' then (None, [])
      else (sys (SoString soBindToDevice iface), [SoString soBindToDevice iface]))"

definition setFwmark :: "string \<Rightarrow> sysCall \<Rightarrow> 32 word \<Rightarrow> go_error option \<times> sockOption list" where
  "setFwmark goos sys mark =
     (if goos \<noteq> ''linux'' then (None, [])
      else (sys (SoInt soMark (uint mark)), [SoInt soMark (uint mark)]))"

text \<open>The function given to \<open>c.Control\<close>.\<close>

definition controlBody :: "string \<Rightarrow> sysCall \<Rightarrow> string \<Rightarrow> 32 word \<Rightarrow> go_error option \<times> sockOption list" where
  "controlBody goos sys iface mark =
     (case setReuse goos sys of
        (Some e, c0) \<Rightarrow> (Some e, c0)
      | (None, c0) \<Rightarrow>
          (case (if iface \<noteq> [] then bindToDevice goos sys iface else (None, [])) of
             (Some e, c1) \<Rightarrow> (Some e, c0 @ c1)
           | (None, c1) \<Rightarrow>
               (let (err, c2) = (if mark \<noteq> 0 then setFwmark goos sys mark else (None, []))
                in (err, c0 @ c1 @ c2))))"

text \<open>\<open>c.Control\<close> runs its argument, or returns an error without running it.\<close>

definition socketControl ::
  "string \<Rightarrow> sysCall \<Rightarrow> go_error option \<Rightarrow> string \<Rightarrow> 32 word \<Rightarrow> go_error option \<times> sockOption list" where
  "socketControl goos sys controlErr iface mark =
     (case controlErr of Some e \<Rightarrow> (Some e, []) | None \<Rightarrow> controlBody goos sys iface mark)"

definition socketControlWindows ::
  "sysCall \<Rightarrow> go_error option \<Rightarrow> go_error option \<times> sockOption list" where
  "socketControlWindows sys controlErr =
     (case controlErr of Some e \<Rightarrow> (Some e, []) | None \<Rightarrow> (sys (SoReuseAddr 1), [SoReuseAddr 1]))"

section \<open>The round-trip time\<close>

text \<open>
  The answer of the system: \<open>SyscallConn\<close>, \<open>Control\<close> and the query each end with an error or
  not, and the query gives the round-trip time in microseconds in 32 bits.
\<close>

record rttQuery =
  rqConn :: "go_error option"
  rqControl :: "go_error option"
  rqInfo :: "(32 word) res"

definition currentTCPRTTMilliseconds :: "rttQuery \<Rightarrow> int option" where
  "currentTCPRTTMilliseconds q =
     (case rqConn q of
        Some e \<Rightarrow> None
      | None \<Rightarrow>
          (case rqControl q of
             Some e \<Rightarrow> None
           | None \<Rightarrow>
               (case rqInfo q of
                  Inl e \<Rightarrow> None
                | Inr rttUs \<Rightarrow> (if rttUs = 0 then None else Some (maxInt64 1 (uint (rttUs + 999) div 1000))))))"

definition currentTCPRTTMillisecondsOther :: "rttQuery \<Rightarrow> int option" where
  "currentTCPRTTMillisecondsOther q = None"

definition tcpRTTMilliseconds :: "int option \<Rightarrow> int \<Rightarrow> int" where
  "tcpRTTMilliseconds current fallbackMs =
     (case current of Some rtt \<Rightarrow> rtt | None \<Rightarrow> (if fallbackMs > 0 then fallbackMs else 0))"

section \<open>What they promise\<close>

text \<open>
  C31: On Linux a socket of an instance never escapes the interface and the mark of its
  configuration: when the options are set without an error, the system has accepted
  \<open>SO_BINDTODEVICE\<close> with the interface, if one is configured, and \<open>SO_MARK\<close> with the mark,
  if it is not zero, after \<open>SO_REUSEADDR\<close>; and when the system refuses one of them, the error
  of the first one refused is returned and no later option is set.
\<close>

theorem socket_options_enforced:
  "case socketControl ''linux'' sys None iface mark of
     (None, calls) \<Rightarrow>
       calls = [SoReuseAddr 1, SoInt soReusePort 1] @
         (if iface = [] then [] else [SoString soBindToDevice iface]) @
         (if mark = 0 then [] else [SoInt soMark (uint mark)]) \<and>
       (\<forall>c \<in> set calls. c = SoInt soReusePort 1 \<or> sys c = None)
   | (Some e, calls) \<Rightarrow>
       calls \<noteq> [] \<and> sys (last calls) = Some e \<and>
       (\<forall>c \<in> set (butlast calls). c = SoInt soReusePort 1 \<or> sys c = None)"
  by (cases "sys (SoReuseAddr 1)"; cases "sys (SoString soBindToDevice iface)"; cases "sys (SoInt soMark (uint mark))")
    (auto simp: socketControl_def controlBody_def setReuse_def bindToDevice_def setFwmark_def)

lemma socket_options_enforced_witness:
  "case socketControl ''linux'' (\<lambda>_. None) None ''wan0'' 5 of
     (None, calls) \<Rightarrow> SoString soBindToDevice ''wan0'' \<in> set calls \<and> SoInt soMark 5 \<in> set calls
   | (Some e, calls) \<Rightarrow> False"
  using socket_options_enforced[where sys = "\<lambda>_. None" and iface = "''wan0''" and mark = 5]
  by (auto simp: socketControl_def controlBody_def setReuse_def bindToDevice_def setFwmark_def)

lemma wrap_round: "uint (us + 999 :: 32 word) =
    (if uint us \<le> 4294966296 then uint us + 999 else uint us + 999 - 4294967296)"
proof -
  have r: "0 \<le> uint us" "uint us < 4294967296" using uint_lt2p[of us] by simp_all
  have "uint (us + 999) = (uint us + 999) mod 4294967296" by (simp add: uint_word_ariths)
  moreover have "(uint us + 999) mod 4294967296 = uint us + 999" if "uint us \<le> 4294966296"
    using that r by (intro mod_pos_pos_trivial) simp_all
  moreover have "(uint us + 999) mod 4294967296 = uint us + 999 - 4294967296" if "\<not> uint us \<le> 4294966296"
  proof -
    have "(uint us + 999) mod 4294967296 = (uint us + 999 - 4294967296) mod 4294967296"
      by (rule minus_mod_self2[symmetric])
    also have "\<dots> = uint us + 999 - 4294967296" using that r by (intro mod_pos_pos_trivial) simp_all
    finally show ?thesis .
  qed
  ultimately show ?thesis by simp
qed

text \<open>
  The round-trip time shown is the one of the system, rounded up to whole milliseconds and
  at least one, as long as the rounding does not leave 32 bits; beyond that (the last 999
  microseconds of the range) it wraps around to one millisecond.
\<close>

lemma rtt_rounds_up:
  assumes "rqConn q = None" and "rqControl q = None" and "rqInfo q = Inr us" and "us \<noteq> 0"
  shows "tcpRTTMilliseconds (currentTCPRTTMilliseconds q) fallback =
    (if uint us \<le> 4294966296 then (uint us + 999) div 1000 else 1)"
proof -
  have "uint us \<noteq> 0" using assms(4) by (simp add: uint_0_iff)
  then have pos: "0 < uint us" using uint_ge_0[of us] by linarith
  have "maxInt64 1 (uint (us + 999) div 1000) = (if uint us \<le> 4294966296 then (uint us + 999) div 1000 else 1)"
    using pos uint_lt2p[of us] unfolding wrap_round maxInt64_def by auto
  with assms show ?thesis by (simp add: tcpRTTMilliseconds_def currentTCPRTTMilliseconds_def)
qed

lemma rtt_rounds_up_witness:
  "tcpRTTMilliseconds (currentTCPRTTMilliseconds \<lparr>rqConn = None, rqControl = None, rqInfo = Inr 12001\<rparr>) 7 = 13"
  by (subst rtt_rounds_up[where us = 12001]) simp_all

end
