(* ===== verification/Keepalive.thy ===== *)
theory Keepalive
  imports Probe_Props Platform
begin

text \<open>
  Keeping a TCP connection alive (\<open>internal/core/runner.go\<close>): the request that is repeated on
  it, the wait between two requests, opening the connection to the first server that answers,
  and reconnecting when it was lost. What the network and the clock do is an argument of
  each function, as in the theory of the probes.
\<close>

section \<open>One request\<close>

text \<open>
  A connection: its identity for \<open>track\<close> and its two addresses. The surroundings of a request:
  the context before it and after a failure, the outcomes of the calls in their order (the
  response is its \<open>Close\<close> flag), and the answer of the system about the round-trip time.
\<close>

record keepConn =
  kcID :: nat
  kcLocal :: addr
  kcRemote :: addr

record keepRequest =
  krCtx :: bool
  krWriteDeadline :: "go_error option"
  krWrite :: "string \<Rightarrow> go_error option"
  krReadDeadline :: "go_error option"
  krResponse :: "bool res"
  krCtxAfter :: bool
  krRTT :: "int option"

definition crlf :: string where
  "crlf = [char_of (13 :: nat), char_of (10 :: nat)]"

definition headRequest :: "serverEndpoint \<Rightarrow> string" where
  "headRequest endpoint =
     (let host = (if epPort endpoint \<noteq> 80 then hostPort (epHost endpoint) (epPort endpoint) else epHost endpoint)
      in ''HEAD / HTTP/1.1'' @ crlf @ ''Host: '' @ host @ crlf @ ''Connection: keep-alive'' @ crlf @ crlf)"

definition sessionClosed :: "string \<Rightarrow> go_error" where
  "sessionClosed text = wrap_w_v (Sentinel ErrSessionClosed) text"

definition tcpKeepAliveRequest :: "keepRequest \<Rightarrow> serverEndpoint \<Rightarrow> int \<Rightarrow> int res" where
  "tcpKeepAliveRequest k endpoint lastLatency =
     (if krCtx k then Inl (Sentinel ErrStopped)
      else case krWriteDeadline k of
          Some e \<Rightarrow> Inl (sessionClosed (''tcp keep-alive write deadline: '' @ err_text e))
        | None \<Rightarrow>
      (case krWrite k (headRequest endpoint) of
          Some e \<Rightarrow> (if krCtxAfter k then Inl (Sentinel ErrStopped)
                     else Inl (sessionClosed (''tcp keep-alive write: '' @ err_text e)))
        | None \<Rightarrow>
      (case krReadDeadline k of
          Some e \<Rightarrow> Inl (sessionClosed (''tcp keep-alive read deadline: '' @ err_text e))
        | None \<Rightarrow>
      (case krResponse k of
          Inl e \<Rightarrow>
            (if krCtxAfter k then Inl (Sentinel ErrStopped)
             else if err_is e IoEOF then Inl (sessionClosed ''tcp keep-alive closed by peer'')
             else Inl (sessionClosed (''tcp keep-alive read response: '' @ err_text e)))
        | Inr close \<Rightarrow>
            (if close then Inl (sessionClosed ''tcp keep-alive response requested close'')
             else Inr (tcpRTTMilliseconds (krRTT k) lastLatency))))))"

section \<open>The wait\<close>

text \<open>
  One pass through the loop of \<open>waitTCPKeepAliveInterval\<close>: the context, the instant, the
  outcomes of \<open>SetReadDeadline\<close> and of \<open>Peek\<close> (the number of bytes that are buffered then),
  and the context after a failed \<open>Peek\<close>. Only an error that itself is a network error counts
  as a timeout.
\<close>

record waitStep =
  wsCtx :: bool
  wsNow :: time
  wsSetDeadline :: "time \<Rightarrow> go_error option"
  wsPeek :: "int res"
  wsCtxAfter :: bool

fun is_net_timeout :: "go_error \<Rightarrow> bool" where
  "is_net_timeout (NetError t b) = b"
| "is_net_timeout (Sentinel s) = (s = CtxDeadlineExceeded \<or> s = OsErrDeadlineExceeded)"
| "is_net_timeout (ErrNew t) = False"
| "is_net_timeout (BadPort t) = False"
| "is_net_timeout (Wrap t e) = False"
| "is_net_timeout (GoPanic t) = False"

definition oneSecond :: time where
  "oneSecond = 1000000000"

definition waitReadDeadline :: "time \<Rightarrow> time \<Rightarrow> time" where
  "waitReadDeadline deadline now = (if deadline - now > oneSecond then now + oneSecond else deadline)"

text \<open>
  One pass: \<open>Some None\<close> returns without an error, \<open>Some (Some e)\<close> returns \<open>e\<close> and \<open>None\<close> goes
  on, after what was buffered has been discarded or the timeout has passed.
\<close>

definition waitOnce :: "time \<Rightarrow> waitStep \<Rightarrow> go_error option option" where
  "waitOnce deadline w =
     (if wsCtx w then Some (Some (Sentinel ErrStopped))
      else if \<not> wsNow w < deadline then Some None
      else case wsSetDeadline w (waitReadDeadline deadline (wsNow w)) of
          Some e \<Rightarrow> Some (Some (sessionClosed (''tcp keep-alive read deadline: '' @ err_text e)))
        | None \<Rightarrow>
            (case wsPeek w of
               Inl e \<Rightarrow>
                 (if wsCtxAfter w then Some (Some (Sentinel ErrStopped))
                  else if is_net_timeout e then None
                  else if err_is e IoEOF then Some (Some (sessionClosed ''tcp keep-alive closed by peer''))
                  else Some (Some (sessionClosed (''tcp keep-alive read: '' @ err_text e))))
             | Inr buffered \<Rightarrow> None))"

fun waitLoop :: "time \<Rightarrow> waitStep list \<Rightarrow> go_error option option" where
  "waitLoop deadline [] = None"
| "waitLoop deadline (w # ws) =
     (case waitOnce deadline w of Some res \<Rightarrow> Some res | None \<Rightarrow> waitLoop deadline ws)"

definition waitTCPKeepAliveInterval :: "time \<Rightarrow> time \<Rightarrow> waitStep list \<Rightarrow> go_error option option" where
  "waitTCPKeepAliveInterval start interval ws = waitLoop (start + interval) ws"

text \<open>\<open>time.Duration(r.cfg.KeepAliveSeconds) * time.Second\<close>, in 64 bits.\<close>

definition keepInterval :: "instanceConfig \<Rightarrow> time" where
  "keepInterval cfg = wrap64 (cfgKeepAliveSeconds cfg * oneSecond)"

section \<open>Keeping alive\<close>

record keepRound =
  kdRequest :: keepRequest
  kdNow :: time
  kdStart :: time
  kdWait :: "waitStep list"

definition rttMessage :: "string \<Rightarrow> int \<Rightarrow> string" where
  "rttMessage proto latency = proto @ '' rtt '' @ itoa latency @ ''ms''"

text \<open>The error that ends the loop; \<open>None\<close> when the script ends first.\<close>

fun tcpKeepAlive ::
  "keepConn \<Rightarrow> serverEndpoint \<Rightarrow> keepRound list \<Rightarrow> int \<Rightarrow> runner \<Rightarrow> go_error option \<times> runner" where
  "tcpKeepAlive conn endpoint [] lastLatency r = (None, r)"
| "tcpKeepAlive conn endpoint (k # ks) lastLatency r =
     (case tcpKeepAliveRequest (kdRequest k) endpoint lastLatency of
        Inl e \<Rightarrow> (Some e, r)
      | Inr latency \<Rightarrow>
          (let r1 = emitKeepAlive (kdNow k) KeepAliveConnected ''tcp'' (Some (kcRemote conn))
                 (rttMessage ''tcp'' latency) latency r
           in case waitTCPKeepAliveInterval (kdStart k) (keepInterval (rnCfg r1)) (kdWait k) of
                None \<Rightarrow> (None, r1)
              | Some (Some e) \<Rightarrow> (Some e, r1)
              | Some None \<Rightarrow> tcpKeepAlive conn endpoint ks latency r1))"

section \<open>Opening the connection\<close>

definition openTCPKeepAlive ::
  "keepConn dialTry \<times> keepConn dialTry list \<Rightarrow> runner \<Rightarrow> keepConn res \<times> runner" where
  "openTCPKeepAlive dial r =
     (case dialTCP (fst dial) (snd dial) of
        Inl e \<Rightarrow> (Inl e, r)
      | Inr conn \<Rightarrow> (Inr conn, track (KeepConn (kcID conn)) (openConn (KeepConn (kcID conn)) r)))"

text \<open>
  Trying one server: what its name resolves to, the dial, the milliseconds it took, the
  answer about the round-trip time, the first request, whether the context is done after a
  failure, and the instant. What is opened: the server, its address, the connection, the
  latency.
\<close>

record tcpOpenEnv =
  toResolve :: "addr res"
  toDial :: "keepConn dialTry \<times> keepConn dialTry list"
  toElapsedMs :: int
  toRTT :: "int option"
  toRequest :: keepRequest
  toCtx :: bool
  toNow :: time

record tcpOpened =
  opEndpoint :: serverEndpoint
  opAddr :: addr
  opConn :: keepConn
  opLatency :: int

definition firstLatency :: "tcpOpenEnv \<Rightarrow> int" where
  "firstLatency t = tcpRTTMilliseconds (toRTT t) (maxInt64 1 (toElapsedMs t))"

fun openTCPLoop ::
  "(serverEndpoint \<Rightarrow> tcpOpenEnv) \<Rightarrow> serverEndpoint list \<Rightarrow> go_error option \<Rightarrow> runner \<Rightarrow>
     (go_error option + tcpOpened) \<times> runner" where
  "openTCPLoop env [] lastErr r = (Inl lastErr, r)"
| "openTCPLoop env (endpoint # rest) lastErr r =
     (let t = env endpoint in
      case toResolve t of
        Inl e \<Rightarrow> openTCPLoop env rest (Some e) r
      | Inr a \<Rightarrow>
          (case openTCPKeepAlive (toDial t) r of
             (Inl e, r1) \<Rightarrow>
               (if isLocalPortUnavailable e \<or> toCtx t then (Inl (Some e), r1)
                else openTCPLoop env rest (Some e) r1)
           | (Inr conn, r1) \<Rightarrow>
               (let r2 = logInfo (toNow t) (''> preflight keepalive --proto tcp --target '' @ addrString a) r1
                in case tcpKeepAliveRequest (toRequest t) endpoint (firstLatency t) of
                     Inr latency \<Rightarrow>
                       (Inr \<lparr>opEndpoint = endpoint, opAddr = a, opConn = conn, opLatency = latency\<rparr>,
                        logInfo (toNow t) (''[ok] preflight keepalive --proto tcp --target '' @ addrString a @
                          '' --rtt '' @ itoa latency @ ''ms'') r2)
                   | Inl e \<Rightarrow>
                       (let r3 = logWarn (toNow t) (''! preflight keepalive failed --proto tcp --target '' @
                              addrString a @ '' --error '' @ err_text e) (closeConn (KeepConn (kcID conn)) (untrack (KeepConn (kcID conn)) r2))
                        in if isLocalPortUnavailable e \<or> toCtx t then (Inl (Some e), r3)
                           else openTCPLoop env rest (Some e) r3))))"

definition openTCPKeepAliveFromServers ::
  "(serverEndpoint \<Rightarrow> tcpOpenEnv) \<Rightarrow> serverEndpoint list \<Rightarrow> runner \<Rightarrow> tcpOpened res \<times> runner" where
  "openTCPKeepAliveFromServers env endpoints r =
     (if endpoints = [] then (Inl (ErrNew ''no tcp keep-alive servers configured''), r)
      else case orderedServerEndpoints ''http'' endpoints None r of
          (Inl e, r1) \<Rightarrow> (Inl e, r1)
        | (Inr ordered, r1) \<Rightarrow>
            (case openTCPLoop env ordered None r1 of
               (Inr opened, r2) \<Rightarrow> (Inr opened, r2)
             | (Inl lastErr, r2) \<Rightarrow>
                 (Inl (wrap_prefix ''tcp keep-alive server selection failed: ''
                    (case lastErr of None \<Rightarrow> ErrNew ''no tcp keep-alive servers configured'' | Some e \<Rightarrow> e)), r2)))"

section \<open>Reconnecting\<close>

text \<open>One attempt over the servers: a result to return, or the last error.\<close>

fun reconnectTCPServers ::
  "(serverEndpoint \<Rightarrow> tcpOpenEnv) \<Rightarrow> int \<Rightarrow> serverEndpoint list \<Rightarrow> go_error option \<Rightarrow> runner \<Rightarrow>
     (go_error option + tcpOpened res) \<times> runner" where
  "reconnectTCPServers env privatePort [] lastErr r = (Inl lastErr, r)"
| "reconnectTCPServers env privatePort (endpoint # rest) lastErr r =
     (let t = env endpoint; now = toNow t in
      case toResolve t of
        Inl e \<Rightarrow>
          reconnectTCPServers env privatePort rest (Some e)
            (logWarn now (''! keepalive resolve failed --proto tcp --target '' @ describeServerEndpoint endpoint @
               '' --error '' @ err_text e) r)
      | Inr a \<Rightarrow>
          (case openTCPKeepAlive (toDial t) (logInfo now (''> dial keepalive --proto tcp --target '' @ addrString a) r) of
             (Inr conn, r1) \<Rightarrow>
               (let r2 = logInfo now (''> preflight keepalive --proto tcp --target '' @ addrString a) r1
                in case tcpKeepAliveRequest (toRequest t) endpoint (firstLatency t) of
                     Inr latency \<Rightarrow>
                       (Inr (Inr \<lparr>opEndpoint = endpoint, opAddr = a, opConn = conn, opLatency = latency\<rparr>),
                        emit now (stateUpdate StateRunning [logEntryOf now ''info''
                          (''[ok] keepalive reconnected --proto tcp --target '' @ addrString a @
                           '' --rtt '' @ itoa latency @ ''ms'')]) r2)
                   | Inl e \<Rightarrow>
                       reconnectTCPServers env privatePort rest (Some e)
                         (logWarn now (''! preflight keepalive failed --proto tcp --target '' @ addrString a @
                            '' --error '' @ err_text e) (closeConn (KeepConn (kcID conn)) (untrack (KeepConn (kcID conn)) r2))))
           | (Inl e, r1) \<Rightarrow>
               (if toCtx t then (Inr (Inl (Sentinel ErrStopped)), r1)
                else
                  (let r2 = logWarn now (''! keepalive dial failed --proto tcp --target '' @ addrString a @
                         '' --error '' @ err_text e) r1
                   in if isLocalPortUnavailable e then
                        (Inr (Inl (sessionClosed (''local bind port unavailable: '' @ err_text e))),
                         emit now (stateUpdate StateStarting [logEntryOf now ''warn''
                           (''! local bind port unavailable --proto tcp --port '' @ itoa privatePort @
                            '' --action rebuild'')]) (advanceBindPort r2))
                      else reconnectTCPServers env privatePort rest (Some e) r2))))"

text \<open>
  One attempt of the loop: the context before it, the servers, whether the context ends
  during the pause, and the instant. An exhausted script is a loop that still goes on.
\<close>

record 'e reconnectTry =
  rcCtx :: bool
  rcServers :: "serverEndpoint \<Rightarrow> 'e"
  rcWait :: bool
  rcNow :: time

fun reconnectTCPLoop ::
  "ip \<Rightarrow> int \<Rightarrow> serverEndpoint \<Rightarrow> serverEndpoint list \<Rightarrow> tcpOpenEnv reconnectTry list \<Rightarrow> nat \<Rightarrow> runner \<Rightarrow>
     tcpOpened res option \<times> runner" where
  "reconnectTCPLoop privateIP privatePort current endpoints [] attempt r = (None, r)"
| "reconnectTCPLoop privateIP privatePort current endpoints (t # ts) attempt r =
     (if rcCtx t then (Some (Inl (Sentinel ErrStopped)), r)
      else
        (let now = rcNow t;
             r1 = emit now (stateUpdate StateStarting [logEntryOf now ''info''
                    (''$ keepalive reconnect --proto tcp --attempt '' @ itoa (int (attempt + 1)) @ '' --from '' @
                     hostPort (ip_string privateIP) privatePort @ '' --previous '' @
                     describeServerEndpoint current)]) r
         in case orderedServerEndpoints ''http'' endpoints (Some current) r1 of
              (Inl e, r2) \<Rightarrow> (Some (Inl e), r2)
            | (Inr ordered, r2) \<Rightarrow>
                (case reconnectTCPServers (rcServers t) privatePort ordered None r2 of
                   (Inr res, r3) \<Rightarrow> (Some res, r3)
                 | (Inl lastErr, r3) \<Rightarrow>
                     (let e = (case lastErr of None \<Rightarrow> ErrNew ''no tcp keep-alive servers configured'' | Some e \<Rightarrow> e)
                      in if attempt + 1 \<ge> 3 \<and> length endpoints > 1 then
                           (Some (Inl (sessionClosed (''keep-alive server reconnect failed; rebuilding with another server: '' @
                              err_text e))), r3)
                         else
                           (let r4 = emit now (stateUpdate StateStarting [logEntryOf now ''warn''
                                  (''! keepalive reconnect retry --proto tcp --attempt '' @ itoa (int (attempt + 1)) @
                                   '' --error '' @ err_text e)]) r3
                            in if rcWait t then (Some (Inl (Sentinel ErrStopped)), r4)
                               else reconnectTCPLoop privateIP privatePort current endpoints ts (attempt + 1) r4)))))"

definition reconnectTCPKeepAliveForProbe ::
  "ip \<Rightarrow> int \<Rightarrow> serverEndpoint \<Rightarrow> serverEndpoint list \<Rightarrow> tcpOpenEnv reconnectTry list \<Rightarrow> runner \<Rightarrow>
     tcpOpened res option \<times> runner" where
  "reconnectTCPKeepAliveForProbe privateIP privatePort current endpoints tries r =
     reconnectTCPLoop privateIP privatePort current endpoints tries 0 r"

section \<open>Checking the mapping after a reconnect\<close>

text \<open>
  The surroundings of the check: the context before it and after a failed dial (its error),
  the dial (the milliseconds it took), and the instant.
\<close>

record tcpCheckEnv =
  tcCtx :: bool
  tcDial :: "string \<Rightarrow> int res"
  tcCtxErr :: "go_error option"
  tcNow :: time

definition checkTCPPublicMapping ::
  "tcpCheckEnv \<Rightarrow> mappingEvent \<Rightarrow> runner \<Rightarrow> (portCheck \<times> go_error option) \<times> runner" where
  "checkTCPPublicMapping env mapping r =
     (if mePublicIP mapping = [] \<or> mePublicPort mapping \<le> 0 then ((zeroPortCheck, Some (Sentinel ErrNoTCPMapping)), r)
      else if tcCtx env then ((zeroPortCheck, Some (Sentinel ErrStopped)), r)
      else case tcDial env (hostPort (ip_string (mePublicIP mapping)) (mePublicPort mapping)) of
          Inl e \<Rightarrow>
            (case tcCtxErr env of
               Some x \<Rightarrow> ((zeroPortCheck, Some x), r)
             | None \<Rightarrow>
                 ((zeroPortCheck\<lparr>pcProtocol := ''tcp'', pcState := classifyTCPCheckError e,
                     pcCheckedAt := tcNow env, pcMessage := err_text e\<rparr>, Some e), r))
        | Inr ms \<Rightarrow>
            ((zeroPortCheck\<lparr>pcProtocol := ''tcp'', pcState := ''open'', pcLatencyMs := maxInt64 1 ms,
                pcCheckedAt := tcNow env, pcMessage := ''tcp public mapping reachable after keepalive reconnect''\<rparr>,
              None), closeConn CheckConn (openConn CheckConn r)))"

definition skipTCPPublicProbeAfterReconnect :: "tcpCheckEnv \<Rightarrow> ip \<Rightarrow> int \<Rightarrow> runner \<Rightarrow> bool \<times> runner" where
  "skipTCPPublicProbeAfterReconnect env privateIP privatePort r =
     (let now = tcNow env in
      case currentTCPPublicMapping privateIP privatePort r of
        Inl reason \<Rightarrow>
          (False, logInfo now (''> public mapping check skipped --proto tcp --reason '' @ reason @ '' --action stun'') r)
      | Inr mapping \<Rightarrow>
          (let mapped = formatMappingEndpoint mapping;
               priv = hostPort (ip_string (mePrivateIP mapping)) (mePrivatePort mapping);
               r1 = logInfo now (''> public mapping check --proto tcp --mapped '' @ mapped @ '' --private '' @ priv @
                      '' --timeout 2.5s'') r;
               ((chk, err), r2) = checkTCPPublicMapping env mapping r1
           in case err of
                None \<Rightarrow>
                  (True, emit now (zeroStatus\<lparr>stPortCheck := chk, stLogs := [logEntryOf now ''info''
                     (''[ok] public mapping reachable --proto tcp --mapped '' @ mapped @ '' --latency '' @
                      itoa (pcLatencyMs chk) @ ''ms --action skip-stun'')]\<rparr>) r2)
              | Some e \<Rightarrow>
                  (if tcCtx env \<or> tcCtxErr env \<noteq> None then (False, r2)
                   else (False, emit now (zeroStatus\<lparr>stPortCheck := chk, stLogs := [logEntryOf now ''warn''
                     (''! public mapping check failed --proto tcp --mapped '' @ mapped @ '' --state '' @ pcState chk @
                      '' --error '' @ err_text e @ '' --action stun'')]\<rparr>) r2))))"

end
