(* ===== verification/Keepalive_Quic.thy ===== *)
theory Keepalive_Quic
  imports Keepalive
begin

text \<open>
  Keeping a QUIC connection alive over the shared UDP socket (\<open>internal/core/runner.go\<close>): the
  HTTP/3 request, opening the connection to the first server that answers, one period of the
  keepalive, and reconnecting. The HTTP/3 transport is a third-party package: a request ends
  with an error or not, and an open connection gives its statistics and the cause of its end.
\<close>

section \<open>The connection\<close>

definition maxDuration :: "time \<Rightarrow> time \<Rightarrow> time" where
  "maxDuration a b = (if a > b then a else b)"

definition quicInitialConnectTimeout :: time where
  "quicInitialConnectTimeout = 8 * oneSecond"

definition quicKeepAliveRequestTimeout :: time where
  "quicKeepAliveRequestTimeout = 2 * oneSecond"

text \<open>The configuration of the transport: server name, handshake and idle timeouts, period.\<close>

record quicConfig =
  qcServerName :: string
  qcHandshakeIdleTimeout :: time
  qcMaxIdleTimeout :: time
  qcKeepAlivePeriod :: time

text \<open>The round-trip times of a connection in nanoseconds: latest, smoothed and minimal.\<close>

record quicStats =
  qsLatest :: time
  qsSmoothed :: time
  qsMin :: time

text \<open>
  A transport (its identity); \<open>rttMilliseconds\<close> of one with the statistics of its connection,
  if it has one.
\<close>

type_synonym quicTransport = nat

definition msOf :: "time \<Rightarrow> int" where
  "msOf d = d div 1000000"

definition rttMilliseconds :: "quicStats option \<Rightarrow> time \<Rightarrow> int" where
  "rttMilliseconds stats fallback =
     (let last = (if fallback > 0 then maxInt64 1 (msOf fallback) else 0)
      in case stats of
           None \<Rightarrow> last
         | Some s \<Rightarrow>
             (if qsLatest s > 0 then maxInt64 1 (msOf (qsLatest s))
              else if qsSmoothed s > 0 then maxInt64 1 (msOf (qsSmoothed s))
              else if qsMin s > 0 then maxInt64 1 (msOf (qsMin s))
              else last))"

text \<open>
  A HEAD request: making it can fail, and its round trip within the timeout. The timeout that
  applies is given to the round trip.
\<close>

record http3Env =
  h3New :: "go_error option"
  h3RoundTrip :: "string \<Rightarrow> time \<Rightarrow> go_error option"

definition http3KeepAliveRequest :: "http3Env \<Rightarrow> serverEndpoint \<Rightarrow> time \<Rightarrow> go_error option" where
  "http3KeepAliveRequest env endpoint timeout0 =
     (let timeout = (if timeout0 \<le> 0 then quicKeepAliveRequestTimeout else timeout0);
          url = ''https://'' @ endpointHostPort endpoint @ ''/''
      in case h3New env of Some e \<Rightarrow> Some e | None \<Rightarrow> h3RoundTrip env url timeout)"

text \<open>
  Opening: the transport that is made, the request it carries for its configuration, the
  statistics after it and the time it took.
\<close>

record quicOpenEnv =
  qoResolve :: "addr res"
  qoTransport :: quicTransport
  qoRequest :: "quicConfig \<Rightarrow> http3Env"
  qoStats :: "quicStats option"
  qoElapsed :: time
  qoCtx :: bool
  qoNow :: time

definition quicConfigFor :: "instanceConfig \<Rightarrow> serverEndpoint \<Rightarrow> time \<Rightarrow> quicConfig" where
  "quicConfigFor cfg endpoint timeout =
     \<lparr>qcServerName = epHost endpoint, qcHandshakeIdleTimeout = timeout,
      qcMaxIdleTimeout = maxDuration (30 * oneSecond) (wrap64 (3 * cfgKeepAliveSeconds cfg * oneSecond)),
      qcKeepAlivePeriod = keepInterval cfg\<rparr>"

definition openQUICKeepAlive ::
  "quicOpenEnv \<Rightarrow> serverEndpoint \<Rightarrow> time \<Rightarrow> runner \<Rightarrow> (quicTransport \<times> int) res \<times> runner" where
  "openQUICKeepAlive env endpoint timeout0 r =
     (let timeout = (if timeout0 \<le> 0 then quicInitialConnectTimeout else timeout0);
          r1 = openConn (QuicTransport (qoTransport env)) r
      in case http3KeepAliveRequest (qoRequest env (quicConfigFor (rnCfg r) endpoint timeout)) endpoint timeout of
           Some e \<Rightarrow> (Inl e, closeConn (QuicTransport (qoTransport env)) r1)
         | None \<Rightarrow> (Inr (qoTransport env, rttMilliseconds (qoStats env) (qoElapsed env)), r1))"

record quicOpened =
  qpEndpoint :: serverEndpoint
  qpAddr :: addr
  qpTransport :: quicTransport
  qpLatency :: int

fun openQUICLoop ::
  "(serverEndpoint \<Rightarrow> quicOpenEnv) \<Rightarrow> time \<Rightarrow> serverEndpoint list \<Rightarrow> go_error option \<Rightarrow> runner \<Rightarrow>
     (go_error option + quicOpened) \<times> runner" where
  "openQUICLoop env timeout [] lastErr r = (Inl lastErr, r)"
| "openQUICLoop env timeout (endpoint # rest) lastErr r =
     (let t = env endpoint in
      case qoResolve t of
        Inl e \<Rightarrow> openQUICLoop env timeout rest (Some e) r
      | Inr a \<Rightarrow>
          (case openQUICKeepAlive t endpoint timeout r of
             (Inr (transport, latency), r1) \<Rightarrow>
               (Inr \<lparr>qpEndpoint = endpoint, qpAddr = a, qpTransport = transport, qpLatency = latency\<rparr>, r1)
           | (Inl e, r1) \<Rightarrow>
               (if qoCtx t then (Inl (Some e), r1) else openQUICLoop env timeout rest (Some e) r1)))"

definition openQUICKeepAliveFromServers ::
  "(serverEndpoint \<Rightarrow> quicOpenEnv) \<Rightarrow> serverEndpoint list \<Rightarrow> time \<Rightarrow> runner \<Rightarrow> quicOpened res \<times> runner" where
  "openQUICKeepAliveFromServers env endpoints timeout r =
     (if endpoints = [] then (Inl (ErrNew ''no udp quic keep-alive servers configured''), r)
      else case orderedServerEndpoints ''quic'' endpoints None r of
          (Inl e, r1) \<Rightarrow> (Inl e, r1)
        | (Inr ordered, r1) \<Rightarrow>
            (case openQUICLoop env timeout ordered None r1 of
               (Inr opened, r2) \<Rightarrow> (Inr opened, r2)
             | (Inl lastErr, r2) \<Rightarrow>
                 (Inl (wrap_prefix ''udp quic keep-alive server selection failed: ''
                    (case lastErr of None \<Rightarrow> ErrNew ''no udp quic keep-alive servers configured'' | Some e \<Rightarrow> e)), r2)))"

section \<open>One period\<close>

text \<open>What the select of \<open>quicKeepAliveOnce\<close> finds: the context, the end of the connection (with
  the context then, and the cause), or the timer.\<close>

datatype quicWait =
    QuicCtx
  | QuicDone bool "go_error option"
  | QuicTimer

record quicPeriod =
  qpWait :: quicWait
  qpRequest :: http3Env
  qpCtxAfter :: bool
  qpStats :: "quicStats option"
  qpElapsed :: time
  qpNow :: time

definition quicKeepAliveOnce :: "quicPeriod \<Rightarrow> serverEndpoint \<Rightarrow> addr \<Rightarrow> runner \<Rightarrow> int res \<times> runner" where
  "quicKeepAliveOnce q endpoint remote r =
     (case qpWait q of
        QuicCtx \<Rightarrow> (Inl (Sentinel ErrStopped), r)
      | QuicDone ctx cause \<Rightarrow>
          (if ctx then (Inl (Sentinel ErrStopped), r)
           else (Inl (sessionClosed (''udp quic keep-alive closed: '' @
              (case cause of None \<Rightarrow> ''connection closed'' | Some e \<Rightarrow> err_text e))), r))
      | QuicTimer \<Rightarrow>
          (case http3KeepAliveRequest (qpRequest q) endpoint quicKeepAliveRequestTimeout of
             Some e \<Rightarrow>
               (if qpCtxAfter q then (Inl (Sentinel ErrStopped), r)
                else (Inl (sessionClosed (''udp quic keep-alive request: '' @ err_text e)), r))
           | None \<Rightarrow>
               (let latency = rttMilliseconds (qpStats q) (qpElapsed q)
                in (Inr latency, emitKeepAlive (qpNow q) KeepAliveConnected ''udp'' (Some remote)
                      (rttMessage ''quic'' latency) latency r))))"

text \<open>The periods of a connection: the error that ends them, \<open>None\<close> when the script ends.\<close>

fun quicKeepAlive ::
  "serverEndpoint \<Rightarrow> addr \<Rightarrow> quicPeriod list \<Rightarrow> runner \<Rightarrow> go_error option \<times> runner" where
  "quicKeepAlive endpoint remote [] r = (None, r)"
| "quicKeepAlive endpoint remote (q # qs) r =
     (case quicKeepAliveOnce q endpoint remote r of
        (Inl e, r1) \<Rightarrow> (Some e, r1)
      | (Inr latency, r1) \<Rightarrow> quicKeepAlive endpoint remote qs r1)"

section \<open>Reconnecting\<close>

fun reconnectQUICServers ::
  "(serverEndpoint \<Rightarrow> quicOpenEnv) \<Rightarrow> serverEndpoint list \<Rightarrow> go_error option \<Rightarrow> runner \<Rightarrow>
     (go_error option + quicOpened res) \<times> runner" where
  "reconnectQUICServers env [] lastErr r = (Inl lastErr, r)"
| "reconnectQUICServers env (endpoint # rest) lastErr r =
     (let t = env endpoint; now = qoNow t in
      case qoResolve t of
        Inl e \<Rightarrow>
          reconnectQUICServers env rest (Some e)
            (logWarn now (''! keepalive resolve failed --proto udp/quic --target '' @ describeServerEndpoint endpoint @
               '' --error '' @ err_text e) r)
      | Inr a \<Rightarrow>
          (let r1 = logInfo now (''> dial keepalive --proto udp/quic --target '' @ addrString a) r
           in case openQUICKeepAlive t endpoint quicInitialConnectTimeout r1 of
                (Inr (transport, latency), r2) \<Rightarrow>
                  (Inr (Inr \<lparr>qpEndpoint = endpoint, qpAddr = a, qpTransport = transport, qpLatency = latency\<rparr>),
                   emit now (stateUpdate StateRunning [logEntryOf now ''info''
                     (''[ok] keepalive reconnected --proto udp/quic --target '' @ addrString a @
                      '' --rtt '' @ itoa latency @ ''ms'')]) r2)
              | (Inl e, r2) \<Rightarrow>
                  (if qoCtx t then (Inr (Inl (Sentinel ErrStopped)), r2)
                   else reconnectQUICServers env rest (Some e)
                     (logWarn now (''! keepalive dial failed --proto udp/quic --target '' @ addrString a @
                        '' --error '' @ err_text e) r2))))"

fun reconnectQUICLoop ::
  "addr \<Rightarrow> serverEndpoint \<Rightarrow> serverEndpoint list \<Rightarrow> quicOpenEnv reconnectTry list \<Rightarrow> nat \<Rightarrow> runner \<Rightarrow>
     quicOpened res option \<times> runner" where
  "reconnectQUICLoop local current endpoints [] attempt r = (None, r)"
| "reconnectQUICLoop local current endpoints (t # ts) attempt r =
     (if rcCtx t then (Some (Inl (Sentinel ErrStopped)), r)
      else
        (let now = rcNow t;
             r1 = emit now (stateUpdate StateStarting [logEntryOf now ''info''
                    (''$ keepalive reconnect --proto udp/quic --attempt '' @ itoa (int (attempt + 1)) @ '' --from '' @
                     addrString local @ '' --previous '' @ describeServerEndpoint current)]) r
         in case orderedServerEndpoints ''quic'' endpoints (Some current) r1 of
              (Inl e, r2) \<Rightarrow> (Some (Inl e), r2)
            | (Inr ordered, r2) \<Rightarrow>
                (case reconnectQUICServers (rcServers t) ordered None r2 of
                   (Inr res, r3) \<Rightarrow> (Some res, r3)
                 | (Inl lastErr, r3) \<Rightarrow>
                     (let e = (case lastErr of None \<Rightarrow> ErrNew ''no udp quic keep-alive servers configured'' | Some e \<Rightarrow> e)
                      in if attempt + 1 \<ge> 3 \<and> length endpoints > 1 then
                           (Some (Inl (sessionClosed (''udp quic keep-alive reconnect failed; rebuilding with another server: '' @
                              err_text e))), r3)
                         else
                           (let r4 = emit now (stateUpdate StateStarting [logEntryOf now ''warn''
                                  (''! keepalive reconnect retry --proto udp/quic --attempt '' @ itoa (int (attempt + 1)) @
                                   '' --error '' @ err_text e)]) r3
                            in if rcWait t then (Some (Inl (Sentinel ErrStopped)), r4)
                               else reconnectQUICLoop local current endpoints ts (attempt + 1) r4)))))"

definition reconnectQUICKeepAliveForProbe ::
  "addr \<Rightarrow> serverEndpoint \<Rightarrow> serverEndpoint list \<Rightarrow> quicOpenEnv reconnectTry list \<Rightarrow> runner \<Rightarrow>
     quicOpened res option \<times> runner" where
  "reconnectQUICKeepAliveForProbe local current endpoints tries r =
     reconnectQUICLoop local current endpoints tries 0 r"

end
