(* ===== verification/Session.thy ===== *)
theory Session
  imports Probe_Props Keepalive_Quic
begin

text \<open>
  A session of a runner (\<open>runTCP\<close>, \<open>runUDP\<close> and \<open>runOnce\<close> in \<open>internal/core/runner.go\<close>): bind
  a local port, open the keepalive connection, probe the public endpoint while the connection
  lives, and reconnect when it is lost. A session is played over a script of connections; the
  probing goroutine of a connection takes its steps before the periods of the keepalive, the
  only order of the two that is modelled; its last probe may still wait for an answer, with its
  connection open, when the keepalive goes on and when the session returns.
\<close>

section \<open>Over TCP\<close>

text \<open>
  The life of one connection: the rounds of the probing goroutine and the STUN connection on which
  it still waits, if there is one, the rounds of the keepalive,
  the instant of its end, the context then, the attempts to reconnect, and the check of the
  mapping after a reconnect.
\<close>

record tcpSession =
  tsProbes :: "(probeRound \<times> confirmEnv \<times> (nat \<Rightarrow> tcpProbeEnv)) list"
  tsWaiting :: "nat option"
  tsKeep :: "keepRound list"
  tsNow :: time
  tsCtx :: bool
  tsTries :: "tcpOpenEnv reconnectTry list"
  tsCheck :: tcpCheckEnv

definition probeWaits :: "nat option \<Rightarrow> runner \<Rightarrow> runner" where
  "probeWaits waiting r =
     (case waiting of None \<Rightarrow> r | Some i \<Rightarrow> track (StunConn i) (openConn (StunConn i) r))"

definition emitClosed :: "time \<Rightarrow> string \<Rightarrow> string \<Rightarrow> serverEndpoint \<Rightarrow> addr \<Rightarrow> go_error \<Rightarrow> runner \<Rightarrow> runner" where
  "emitClosed now proto label endpoint a e r =
     emitKeepAlive now KeepAliveReconnecting proto (Some a) (err_text e) 0
       (logWarn now (''! keepalive session closed --proto '' @ label @ '' --target '' @
          describeServerEndpoint endpoint @ '' --reason '' @ err_text e) r)"

text \<open>The loop of \<open>runTCP\<close>: the error it returns, \<open>None\<close> when the script ends first.\<close>

fun tcpSessions ::
  "ip \<Rightarrow> int \<Rightarrow> tcpOpened \<Rightarrow> bool \<Rightarrow> tcpSession list \<Rightarrow> runner \<Rightarrow> go_error option \<times> runner" where
  "tcpSessions privateIP privatePort c probe [] r = (None, r)"
| "tcpSessions privateIP privatePort c probe (s # ss) r =
     (let r1 = (if probe then probeWaits (tsWaiting s) (startTCPPublicProbe privateIP privatePort (tsProbes s) r) else r);
          now = tsNow s
      in case tcpKeepAlive (opConn c) (opEndpoint c) (tsKeep s) (opLatency c) r1 of
           (None, r2) \<Rightarrow> (None, r2)
         | (Some keepErr, r2) \<Rightarrow>
             (let r3 = closeConn (KeepConn (kcID (opConn c))) (untrack (KeepConn (kcID (opConn c))) r2) in
              if \<not> err_is keepErr ErrSessionClosed then
                (Some keepErr, emitKeepAlive now KeepAliveDisconnected ''tcp'' (Some (opAddr c)) (err_text keepErr) 0 r3)
              else
                (let r4 = emitClosed now ''tcp'' ''tcp'' (opEndpoint c) (opAddr c) keepErr r3 in
                 if tsCtx s then (Some (Sentinel ErrStopped), r4)
                 else case reconnectTCPKeepAliveForProbe privateIP privatePort (opEndpoint c)
                          (keepAliveServers (rnCfg r4)) (tsTries s) r4 of
                     (None, r5) \<Rightarrow> (None, r5)
                   | (Some (Inl e), r5) \<Rightarrow> (Some e, r5)
                   | (Some (Inr d), r5) \<Rightarrow>
                       (let r6 = emitKeepAlive now KeepAliveConnected ''tcp'' (Some (opAddr d))
                              (rttMessage ''tcp'' (opLatency d)) (opLatency d) r5;
                            (skip, r7) = skipTCPPublicProbeAfterReconnect (tsCheck s) privateIP privatePort r6
                        in tcpSessions privateIP privatePort d (\<not> skip) ss r7))))"

text \<open>
  \<open>runTCP\<close>: the draws of the port picker, opening from a local address, the instant, and the
  connections for the private endpoint. A failed opening returns no remote address.
\<close>

record tcpRunEnv =
  trDraws :: draws
  trOpen :: "addr \<Rightarrow> serverEndpoint \<Rightarrow> tcpOpenEnv"
  trNow :: time
  trSessions :: "addr \<Rightarrow> tcpSession list"

definition privateOf :: "addr \<Rightarrow> ip \<Rightarrow> ip" where
  "privateOf local bindIP = (if fst local = [] \<or> is_unspecified (fst local) then bindIP else fst local)"

definition emitBound :: "time \<Rightarrow> string \<Rightarrow> ip \<Rightarrow> int \<Rightarrow> addr \<Rightarrow> runner \<Rightarrow> runner" where
  "emitBound now proto privateIP privatePort local r =
     emit now (zeroStatus\<lparr>stState := StateStarting, stPrivateAddress := ip_string privateIP,
       stPrivatePort := privatePort,
       stLogs := [logEntryOf now ''info'' (proto @ '' bound on '' @ addrString local)]\<rparr>) r"

definition runTCP :: "tcpRunEnv \<Rightarrow> runner \<Rightarrow> go_error option \<times> runner" where
  "runTCP env r =
     (let bindIP = parseBindIP (cfgBindAddress (rnCfg r)); now = trNow env in
      case bindPort (trDraws env) r of
        Inl e \<Rightarrow> (Some e, r)
      | Inr (port, r1) \<Rightarrow>
          (case openTCPKeepAliveFromServers (trOpen env (bindIP, port)) (keepAliveServers (rnCfg r1)) r1 of
             (Inl e, r2) \<Rightarrow>
               (Some (wrap_prefix (''tcp keep-alive connect from '' @ addrString (bindIP, port) @
                   '' to configured servers: '') e),
                if isLocalPortUnavailable e then advanceBindPort r2 else r2)
           | (Inr c, r2) \<Rightarrow>
               (let local = kcLocal (opConn c); privateIP = privateOf local bindIP; privatePort = snd local;
                    r3 = emitKeepAlive now KeepAliveConnected ''tcp'' (Some (opAddr c))
                           (rttMessage ''tcp'' (opLatency c)) (opLatency c) (keepBindPort (snd local) r2)
                in tcpSessions privateIP privatePort c True (trSessions env (privateIP, privatePort))
                     (emitBound now ''tcp'' privateIP privatePort local r3))))"

section \<open>Over UDP\<close>

record udpSession =
  usProbes :: "(probeRound \<times> confirmEnv \<times> (nat \<Rightarrow> udpProbeEnv)) list"
  usPeriods :: "quicPeriod list"
  usNow :: time
  usCtx :: bool
  usTries :: "quicOpenEnv reconnectTry list"

fun udpSessions ::
  "addr \<Rightarrow> ip \<Rightarrow> int \<Rightarrow> quicOpened \<Rightarrow> udpSession list \<Rightarrow> runner \<Rightarrow> go_error option \<times> runner" where
  "udpSessions local privateIP privatePort c [] r = (None, r)"
| "udpSessions local privateIP privatePort c (s # ss) r =
     (let r1 = startUDPPublicProbe privateIP privatePort (usProbes s) r; now = usNow s in
      case quicKeepAlive (qpEndpoint c) (qpAddr c) (usPeriods s) r1 of
        (None, r2) \<Rightarrow> (None, r2)
      | (Some keepErr, r2) \<Rightarrow>
          (if \<not> err_is keepErr ErrSessionClosed then
             (Some keepErr, closeConn (QuicTransport (qpTransport c))
                (emitKeepAlive now KeepAliveDisconnected ''udp'' (Some (qpAddr c)) (err_text keepErr) 0 r2))
           else
             (let r3 = emitClosed now ''udp'' ''udp/quic'' (qpEndpoint c) (qpAddr c) keepErr
                         (closeConn (QuicTransport (qpTransport c)) r2) in
              if usCtx s then (Some (Sentinel ErrStopped), r3)
              else case reconnectQUICKeepAliveForProbe local (qpEndpoint c) (keepAliveServers (rnCfg r3)) (usTries s) r3 of
                  (None, r4) \<Rightarrow> (None, r4)
                | (Some (Inl e), r4) \<Rightarrow> (Some e, r4)
                | (Some (Inr d), r4) \<Rightarrow>
                    udpSessions local privateIP privatePort d ss
                      (emitKeepAlive now KeepAliveConnected ''udp'' (Some (qpAddr d))
                         (rttMessage ''quic'' (qpLatency d)) (qpLatency d) r4))))"

text \<open>\<open>runUDP\<close>: a socket is its identity for \<open>track\<close> and its local address.\<close>

record udpRunEnv =
  urDraws :: draws
  urListen :: "addr \<Rightarrow> (nat \<times> addr) res"
  urOpen :: "addr \<Rightarrow> serverEndpoint \<Rightarrow> quicOpenEnv"
  urNow :: time
  urCtx :: bool
  urSessions :: "addr \<Rightarrow> udpSession list"

text \<open>
  The part of \<open>runUDP\<close> after the socket is open; a deferred function closes the last transport
  before the one that closes the socket.
\<close>

definition runUDPSocket :: "udpRunEnv \<Rightarrow> ip \<Rightarrow> addr \<Rightarrow> runner \<Rightarrow> go_error option \<times> runner" where
  "runUDPSocket env bindIP local r =
     (let privateIP = privateOf local bindIP; privatePort = snd local; now = urNow env in
      case openQUICKeepAliveFromServers (urOpen env local) (keepAliveServers (rnCfg r)) quicInitialConnectTimeout r of
        (Inl e, r1) \<Rightarrow>
          (Some (wrap_prefix (''udp quic keep-alive connect from '' @ addrString local @
              '' to configured servers: '') e),
           if isLocalPortUnavailable e then advanceBindPort r1 else r1)
      | (Inr c, r1) \<Rightarrow>
          (let r2 = emitKeepAlive now KeepAliveConnected ''udp'' (Some (qpAddr c))
                 (rttMessage ''quic'' (qpLatency c)) (qpLatency c) r1
           in if urCtx env then (Some (Sentinel ErrStopped), closeConn (QuicTransport (qpTransport c)) r2)
              else udpSessions local privateIP privatePort c (urSessions env (privateIP, privatePort))
                     (emitBound now ''udp'' privateIP privatePort local r2)))"

definition runUDP :: "udpRunEnv \<Rightarrow> runner \<Rightarrow> go_error option \<times> runner" where
  "runUDP env r =
     (let bindIP = parseBindIP (cfgBindAddress (rnCfg r)) in
      case bindPort (urDraws env) r of
        Inl e \<Rightarrow> (Some e, r)
      | Inr (port, r1) \<Rightarrow>
          (case urListen env (bindIP, port) of
             Inl e \<Rightarrow>
               (Some (wrap_prefix (''udp bind on '' @ ip_string bindIP @ '':'' @ itoa port @ '': '') e),
                if isLocalPortUnavailable e then advanceBindPort r1 else r1)
           | Inr (i, local) \<Rightarrow>
               (case runUDPSocket env bindIP local (keepBindPort (snd local) (track (UdpSocket i) (openConn (UdpSocket i) r1))) of
                  (None, r2) \<Rightarrow> (None, r2)
                | (Some e, r2) \<Rightarrow> (Some e, closeConn (UdpSocket i) (untrack (UdpSocket i) r2)))))"

definition runOnce :: "tcpRunEnv \<Rightarrow> udpRunEnv \<Rightarrow> runner \<Rightarrow> go_error option \<times> runner" where
  "runOnce tcp udp r = (if cfgProtocol (rnCfg r) = ''udp'' then runUDP udp r else runTCP tcp r)"

section \<open>The life of a runner\<close>

text \<open>
  One iteration of the loop of \<open>Run\<close>: whether the context is done before \<open>runOnce\<close>, the
  surroundings of \<open>runOnce\<close>, whether the context is done after it, whether it ends during the
  pause, and the instant. A script that ends, or a session that has not returned, is a runner
  that is still in its loop.
\<close>

record runIter =
  itDoneBefore :: bool
  itTCP :: tcpRunEnv
  itUDP :: udpRunEnv
  itDoneAfter :: bool
  itDoneWait :: bool
  itNow :: time

fun runLoop :: "runIter list \<Rightarrow> runner \<Rightarrow> runner" where
  "runLoop [] r = r"
| "runLoop (it # its) r =
     (let now = itNow it in
      if itDoneBefore it then runReturn (emitStopped now r)
      else case runOnce (itTCP it) (itUDP it) r of
          (None, r1) \<Rightarrow> r1
        | (Some err, r1) \<Rightarrow>
            (if itDoneAfter it then runReturn (emitStopped now r1)
             else if stopError (Some err) then runReturn (emitStopped now r1)
             else if sessionError (Some err) then
               (let r2 = emit now (stateUpdate StateStarting [logEntryOf now ''info'' ''rebuilding session'']) r1
                in if itDoneWait it then runReturn (emit now (stateUpdate StateStopped []) r2)
                   else runLoop its r2)
             else
               (let message = describeRunError (rnCfg r1) err;
                    r2 = emit now ((stateUpdate StateError [logEntryOf now ''error'' message])
                           \<lparr>stLastError := message\<rparr>) r1;
                    r3 = emit now (logUpdate now ''info'' ''retrying in 5s'') r2
                in if itDoneWait it then runReturn (emit now (stateUpdate StateStopped []) r3)
                   else runLoop its (emit now (stateUpdate StateStarting []) r3))))"

definition Run :: "time \<Rightarrow> runIter list \<Rightarrow> runner \<Rightarrow> runner" where
  "Run now its r = runLoop its (runBegin now r)"

end
