(* ===== verification/Session_Correct.thy ===== *)
theory Session_Correct
  imports Session
begin

text \<open>
  What every function of a session keeps. The locale \<open>runner_laws\<close> states what an invariant of
  the runner, relative to a set of connections that may be open, has to satisfy under the
  elementary operations of the runner; inside it the invariant is carried through probes,
  confirmations, keepalives, reconnects and whole sessions. It is interpreted for the open
  connections, for the cursors of the server lists, and for the fields that no session changes.
\<close>

text \<open>What is never tracked.\<close>

fun untracked :: "closer \<Rightarrow> bool" where
  "untracked (QuicTransport i) = True"
| "untracked CheckConn = True"
| "untracked _ = False"

locale runner_laws =
  fixes J :: "closer set \<Rightarrow> runner \<Rightarrow> bool"
  assumes keeps_mono: "S \<subseteq> T \<Longrightarrow> J S r \<Longrightarrow> J T r"
    and keeps_emit: "J S r \<Longrightarrow> J S (emit now u r)"
    and keeps_cursor: "J S r \<Longrightarrow> 0 \<le> n \<Longrightarrow> J S (setServerCursor kind n r)"
    and keeps_step: "J S r \<Longrightarrow> J S (snd (nextServerCursorStep kind n k r))"
    and keeps_opening: "J S r \<Longrightarrow> J (insert c S) (openConn c r)"
    and keeps_track: "J (insert c S) r \<Longrightarrow> J (insert c S) (track c r)"
    and keeps_drop: "J (insert c S) r \<Longrightarrow> J S (closeConn c (untrack c r))"
    and keeps_closing: "untracked c \<Longrightarrow> J (insert c S) r \<Longrightarrow> J S (closeConn c r)"
    and keeps_waiting: "J S r \<Longrightarrow> J S (probeWaits waiting r)"
    and keeps_query: "J S r \<Longrightarrow> J S (r\<lparr>rnUdpQueries := n\<rparr>)"
    and keeps_publish: "J S r \<Longrightarrow> J S (publishMapping now e m r)"
    and keeps_bind: "bindPort draws r = Inr (port, r') \<Longrightarrow> J S r \<Longrightarrow> J S r'"
    and keeps_advance: "J S r \<Longrightarrow> J S (advanceBindPort r)"
    and keeps_keep: "J S r \<Longrightarrow> J S (keepBindPort port r)"
begin

lemma keeps_log: "J S r \<Longrightarrow> J S (rlog level now msg r)"
  by (simp add: rlog_def keeps_emit)

lemma keeps_alive: "J S r \<Longrightarrow> J S (emitKeepAlive now state proto a msg ms r)"
  by (simp add: emitKeepAlive_def Let_def keeps_emit)

lemmas keeps_quiet = keeps_emit keeps_log keeps_alive keeps_advance keeps_keep keeps_publish

lemma keeps_after: "J S r \<Longrightarrow> J S (setServerCursorAfter kind es e r)"
  by (simp add: setServerCursorAfter_def Let_def keeps_cursor)

lemma keeps_ordered: "orderedServerEndpoints kind es a r = (x, r') \<Longrightarrow> J S r \<Longrightarrow> J S r'"
  using keeps_step[of S r kind "int (length es)" 1]
  by (auto simp: orderedServerEndpoints_def nextServerCursor_def Let_def intro!: keeps_cursor split: prod.splits if_splits)

lemma keeps_batch: "orderedServerEndpointBatch kind es limit r = (x, r') \<Longrightarrow> J S r \<Longrightarrow> J S r'"
  using keeps_ordered[of kind es None r x r' S] keeps_step[of S r kind "int (length es)" limit]
  by (auto simp: orderedServerEndpointBatch_def split: prod.splits if_splits)

section \<open>Probes\<close>

lemma keeps_tcpLoop: "J S r \<Longrightarrow> J S (snd (tcpProbeLoop env servers batch e r))"
proof (induction batch arbitrary: e r)
  case Nil
  then show ?case by simp
next
  case (Cons a batch)
  have u: "J S (closeConn i (untrack i (track i (openConn i r))))" for i
    by (intro keeps_drop keeps_track keeps_opening Cons.prems)
  from Cons.IH[OF u] Cons.IH[OF Cons.prems] u show ?case
    by (auto simp: Let_def keeps_after Cons.prems split: sum.splits prod.splits)
qed

lemma keeps_tcpProbe: "J S r \<Longrightarrow> J S (snd (tcpPublicProbe env es r))"
  by (auto simp: tcpPublicProbe_def Let_def split: prod.splits sum.splits
      dest: keeps_batch keeps_tcpLoop[of S _ env es _ None])
    (metis keeps_batch keeps_tcpLoop snd_conv)+

lemma keeps_udpProbe: "J S r \<Longrightarrow> J S (snd (udpPublicProbe env es r))"
proof -
  assume J: "J S r"
  obtain b r1 where b: "orderedServerEndpointBatch ''stun'' es udpPublicProbeFanout r = (b, r1)"
    by (cases "orderedServerEndpointBatch ''stun'' es udpPublicProbeFanout r")
  have u: "J S r1" using keeps_batch[OF b J] .
  have "J S r2" if "stunUDPSharedFanout w res tr qs r1 = (x, r2)" for w res tr qs x r2
    using that keeps_query[OF u] u
    by (auto simp: stunUDPSharedFanout_def udpSTUNTiming_def nextUDPQueryIndex_def Let_def split: if_splits prod.splits)
  with u b J show ?thesis
    by (auto simp: udpPublicProbe_def Let_def keeps_after split: prod.splits sum.splits)
qed

text \<open>A probe that keeps the invariant keeps it when it is confirmed.\<close>

definition calm :: "closer set \<Rightarrow> confirmEnv \<Rightarrow> bool" where
  "calm S env \<longleftrightarrow> (\<forall>a r. J S r \<longrightarrow> J S (snd (cePrb env a r)))"

lemma calmD: "calm S env \<Longrightarrow> cePrb env a r = (x, r') \<Longrightarrow> J S r \<Longrightarrow> J S r'"
  by (metis calm_def snd_conv)

lemma keeps_sample:
  "calm S env \<Longrightarrow> J S (csRunner s) \<Longrightarrow> confirmSample env c maxA a s = (fin, s1) \<Longrightarrow> J S (csRunner s1)"
  by (cases "cePrb env a (csRunner s)")
    (auto simp: confirmSample_def Let_def intro!: keeps_log dest: calmD split: sum.splits if_splits)

lemma keeps_confirmLoop:
  "calm S env \<Longrightarrow> J S (csRunner s) \<Longrightarrow> J S (csRunner (snd (confirmLoop env c maxA left s)))"
proof (induction left arbitrary: s)
  case 0
  then show ?case by (simp add: confirmFail_def Let_def keeps_log split: option.split)
next
  case (Suc left)
  obtain fin s1 where st: "confirmSample env c maxA (maxA - left) s = (fin, s1)"
    by (cases "confirmSample env c maxA (maxA - left) s")
  note u = keeps_sample[OF Suc.prems st]
  from st u Suc.IH[OF Suc.prems(1) u] show ?case
    by (cases fin; cases "ceCtx env (maxA - left)"; cases "ceWait env (maxA - left)"; cases "left = 0")
      (simp_all add: Let_def)
qed

lemma keeps_confirm:
  assumes "calm S env" and "J S r"
  shows "J S (snd (snd (confirmPublicProbeWithProgress env k p r)))"
proof (cases "cfgMappingConfirmations (rnCfg r) \<le> 1")
  case True
  with assms show ?thesis
    by (auto simp: confirmPublicProbeWithProgress_def confirmOnce_def Let_def keeps_log
        intro!: keeps_log dest: calmD split: prod.splits sum.splits)
next
  case False
  with assms keeps_confirmLoop[OF assms(1)] show ?thesis
    by (simp add: confirmPublicProbeWithProgress_def Let_def case_prod_beta keeps_log)
qed

lemma keeps_probeRounds:
  assumes "\<And>rd p q. rd \<in> set rds \<Longrightarrow> J S q \<Longrightarrow> J S (snd (snd (prConfirm rd p q)))"
  shows "J S r \<Longrightarrow> J S (probeRounds proto a b rds n p r)"
  using assms
proof (induction rds arbitrary: n p r)
  case Nil
  then show ?case by simp
next
  case (Cons rd rds)
  obtain res p1 r1 where c: "prConfirm rd p r = (res, p1, r1)" by (cases "prConfirm rd p r")
  with Cons.prems(2)[of rd r p] Cons.prems(1) have r1: "J S r1" by simp
  have "J S (probeRounds proto a b rds (n + 1) p1 q)" if "J S q" for q
    using that Cons.prems(2) by (intro Cons.IH) simp_all
  with c r1 Cons.prems(1) show ?case
    by (auto simp: Let_def keeps_quiet split: sum.splits)
qed

lemma keeps_startTCP: "J S r \<Longrightarrow> J S (startTCPPublicProbe a b rounds r)"
  unfolding startTCPPublicProbe_def
  by (rule keeps_probeRounds)
    (auto simp: confirmedTCPPublicProbe_def calm_def intro!: keeps_confirm keeps_tcpProbe)

lemma keeps_startUDP: "J S r \<Longrightarrow> J S (startUDPPublicProbe a b rounds r)"
  unfolding startUDPPublicProbe_def
  by (rule keeps_probeRounds)
    (auto simp: confirmedUDPPublicProbe_def calm_def intro!: keeps_confirm keeps_udpProbe)

section \<open>Keepalives\<close>

lemma keeps_tcpKeepAlive: "J S r \<Longrightarrow> tcpKeepAlive conn endpoint ks latency r = (e, r') \<Longrightarrow> J S r'"
proof (induction ks arbitrary: latency r)
  case Nil
  then show ?case by simp
next
  case (Cons k ks)
  from Cons.prems show ?case
    by (auto simp: Let_def intro: Cons.IH keeps_alive split: sum.splits option.splits)
qed

lemma keeps_quicKeepAlive: "J S r \<Longrightarrow> quicKeepAlive endpoint a qs r = (e, r') \<Longrightarrow> J S r'"
proof (induction qs arbitrary: r)
  case Nil
  then show ?case by simp
next
  case (Cons q qs)
  obtain x r1 where q: "quicKeepAliveOnce q endpoint a r = (x, r1)" by (cases "quicKeepAliveOnce q endpoint a r")
  with Cons.prems(1) have "J S r1"
    by (auto simp: quicKeepAliveOnce_def Let_def keeps_alive split: quicWait.splits option.splits if_splits)
  with q Cons.prems(2) show ?case by (auto intro: Cons.IH split: sum.splits)
qed

text \<open>Opening leaves exactly the connection it returns.\<close>

definition opened :: "closer set \<Rightarrow> 'x + tcpOpened \<Rightarrow> closer set" where
  "opened S res = (case res of Inl e \<Rightarrow> S | Inr c \<Rightarrow> insert (KeepConn (kcID (opConn c))) S)"

lemma opened_simps [simp]: "opened S (Inl e) = S" "opened S (Inr c) = insert (KeepConn (kcID (opConn c))) S"
  by (simp_all add: opened_def)

lemma keeps_open:
  "J S r \<Longrightarrow> openTCPKeepAlive dial r = (Inr conn, r') \<Longrightarrow> J (insert (KeepConn (kcID conn)) S) r'"
  "J S r \<Longrightarrow> openTCPKeepAlive dial r = (Inl e, r') \<Longrightarrow> J S r'"
  by (auto simp: openTCPKeepAlive_def keeps_track keeps_opening split: sum.splits)

lemma keeps_openLoop: "J S r \<Longrightarrow> openTCPLoop env es err r = (res, r') \<Longrightarrow> J (opened S res) r'"
proof (induction es arbitrary: err r)
  case Nil
  then show ?case by auto
next
  case (Cons endpoint es)
  let ?t = "env endpoint"
  show ?case
  proof (cases "toResolve ?t")
    case (Inl e)
    with Cons.prems show ?thesis by (simp add: Cons.IH)
  next
    case (Inr a)
    obtain x r1 where o: "openTCPKeepAlive (toDial ?t) r = (x, r1)" by (cases "openTCPKeepAlive (toDial ?t) r")
    show ?thesis
    proof (cases x)
      case e: (Inl e)
      from keeps_open(2)[OF Cons.prems(1), of "toDial ?t" e r1] o e have "J S r1" by simp
      with Cons.prems Inr o e show ?thesis by (auto simp: Let_def intro: Cons.IH split: if_splits)
    next
      case c: (Inr conn)
      from keeps_open(1)[OF Cons.prems(1), of "toDial ?t" conn r1] o c
      have j: "J (insert (KeepConn (kcID conn)) S) r1" by simp
      note l = keeps_log[OF j]
      have u: "J S (rlog v2 now2 msg2 (closeConn (KeepConn (kcID conn)) (untrack (KeepConn (kcID conn)) (rlog v now msg r1))))" for v now msg v2 now2 msg2
        using j by (intro keeps_log keeps_drop)
      from Cons.prems Inr o c j l u show ?thesis
        by (auto simp: Let_def intro: Cons.IH[OF u] keeps_log split: sum.splits if_splits)
    qed
  qed
qed

lemma keeps_openFrom:
  "J S r \<Longrightarrow> openTCPKeepAliveFromServers env es r = (res, r') \<Longrightarrow> J (opened S res) r'"
  by (auto simp: openTCPKeepAliveFromServers_def split: if_splits prod.splits sum.splits
      dest!: keeps_openLoop[rotated] dest: keeps_ordered)

definition reopened :: "closer set \<Rightarrow> 'x + ('y + tcpOpened) \<Rightarrow> closer set" where
  "reopened S res = (case res of Inl e \<Rightarrow> S | Inr x \<Rightarrow> opened S x)"

lemma reopened_simps [simp]: "reopened S (Inl e) = S" "reopened S (Inr x) = opened S x"
  by (simp_all add: reopened_def)

lemma keeps_reconnectServers:
  "J S r \<Longrightarrow> reconnectTCPServers env port es err r = (res, r') \<Longrightarrow> J (reopened S res) r'"
proof (induction es arbitrary: err r)
  case Nil
  then show ?case by auto
next
  case (Cons endpoint es)
  let ?t = "env endpoint"
  show ?case
  proof (cases "toResolve ?t")
    case (Inl e)
    with Cons.prems show ?thesis by (auto simp: Let_def intro: Cons.IH keeps_log)
  next
    case (Inr a)
    let ?r = "logInfo (toNow ?t) (''> dial keepalive --proto tcp --target '' @ addrString a) r"
    have J: "J S ?r" using Cons.prems(1) by (rule keeps_log)
    obtain x r1 where o: "openTCPKeepAlive (toDial ?t) ?r = (x, r1)" by (cases "openTCPKeepAlive (toDial ?t) ?r")
    show ?thesis
    proof (cases x)
      case e: (Inl e)
      from keeps_open(2)[OF J, of "toDial ?t" e r1] o e have "J S r1" by simp
      with Cons.prems Inr o e show ?thesis
        by (auto simp: Let_def intro!: keeps_quiet intro: Cons.IH split: if_splits)
    next
      case c: (Inr conn)
      from keeps_open(1)[OF J, of "toDial ?t" conn r1] o c
      have j: "J (insert (KeepConn (kcID conn)) S) r1" by simp
      note l = keeps_log[OF j]
      have u: "J S (rlog v2 now2 msg2 (closeConn (KeepConn (kcID conn)) (untrack (KeepConn (kcID conn)) (rlog v now msg r1))))" for v now msg v2 now2 msg2
        using j by (intro keeps_log keeps_drop)
      from Cons.prems Inr o c j l u show ?thesis
        by (auto simp: Let_def intro: Cons.IH[OF u] keeps_emit split: sum.splits)
    qed
  qed
qed

definition attempted :: "closer set \<Rightarrow> tcpOpened res option \<Rightarrow> closer set" where
  "attempted S res = (case res of None \<Rightarrow> S | Some x \<Rightarrow> opened S x)"

lemma attempted_simps [simp]: "attempted S None = S" "attempted S (Some x) = opened S x"
  by (simp_all add: attempted_def)

lemma keeps_reconnectLoop:
  "J S r \<Longrightarrow> reconnectTCPLoop ip port current es ts n r = (res, r') \<Longrightarrow> J (attempted S res) r'"
proof (induction ts arbitrary: n r)
  case Nil
  then show ?case by auto
next
  case (Cons t ts)
  show ?case
  proof (cases "rcCtx t")
    case True
    with Cons.prems show ?thesis by auto
  next
    case False
    define r1 where "r1 = emit (rcNow t) (stateUpdate StateStarting [logEntryOf (rcNow t) ''info''
                    (''$ keepalive reconnect --proto tcp --attempt '' @ itoa (int (n + 1)) @ '' --from '' @
                     hostPort (ip_string ip) port @ '' --previous '' @ describeServerEndpoint current)]) r"
    have J1: "J S r1" unfolding r1_def using Cons.prems(1) by (rule keeps_emit)
    obtain o1 r2 where o: "orderedServerEndpoints ''http'' es (Some current) r1 = (o1, r2)"
      by (cases "orderedServerEndpoints ''http'' es (Some current) r1")
    have J2: "J S r2" using keeps_ordered[OF o J1] .
    note unfolded = Cons.prems(2)[unfolded reconnectTCPLoop.simps Let_def, folded r1_def]
    show ?thesis
    proof (cases o1)
      case (Inl e)
      with unfolded False o J2 show ?thesis by auto
    next
      case (Inr ordered)
      obtain x r3 where s: "reconnectTCPServers (rcServers t) port ordered None r2 = (x, r3)"
        by (cases "reconnectTCPServers (rcServers t) port ordered None r2")
      note J3 = keeps_reconnectServers[OF J2 s]
      show ?thesis
      proof (cases x)
        case (Inr res1)
        with unfolded False o s J3 \<open>o1 = Inr ordered\<close> show ?thesis by auto
      next
        case (Inl err)
        with J3 have "J S r3" by simp
        with unfolded False o s Inl \<open>o1 = Inr ordered\<close> show ?thesis
          by (auto intro: Cons.IH keeps_emit split: if_splits)
      qed
    qed
  qed
qed

lemma keeps_check: "J S r \<Longrightarrow> checkTCPPublicMapping env m r = (x, r') \<Longrightarrow> J S r'"
  by (auto simp: checkTCPPublicMapping_def intro: keeps_closing keeps_opening split: if_splits sum.splits option.splits)

lemma keeps_skip: "J S r \<Longrightarrow> skipTCPPublicProbeAfterReconnect env a port r = (b, r') \<Longrightarrow> J S r'"
  by (auto simp: skipTCPPublicProbeAfterReconnect_def Let_def intro!: keeps_quiet intro: keeps_check[rotated]
      split: sum.splits prod.splits option.splits if_splits)

lemma keeps_emitClosed: "J S r \<Longrightarrow> J S (emitClosed now proto label endpoint a e r)"
  by (simp add: emitClosed_def keeps_quiet)

lemma keeps_emitBound: "J S r \<Longrightarrow> J S (emitBound now proto a port local r)"
  by (simp add: emitBound_def keeps_quiet)

text \<open>A session that has returned leaves nothing open; one that goes on has at most two connections.\<close>

definition finished :: "closer set \<Rightarrow> go_error option \<times> runner \<Rightarrow> bool" where
  "finished S out = (case out of (Some e, r) \<Rightarrow> J S r | (None, r) \<Rightarrow> \<exists>c d. J (insert c (insert d S)) r)"

lemma finished_simps [simp]: "finished S (Some e, r) = J S r" "finished S (None, r) = (\<exists>c d. J (insert c (insert d S)) r)"
  by (simp_all add: finished_def)

lemma left_two: "J (insert c S) r \<Longrightarrow> \<exists>c d. J (insert c (insert d S)) r"
  by (rule exI[of _ c], rule exI[of _ c]) simp

lemma keeps_tcpSessions:
  "J (insert (KeepConn (kcID (opConn c))) S) r \<Longrightarrow> finished S (tcpSessions a port c probe ss r)"
proof (induction ss arbitrary: c probe r)
  case Nil
  then show ?case using left_two by simp
next
  case (Cons s ss)
  let ?S = "insert (KeepConn (kcID (opConn c))) S"
  define r1 where "r1 = (if probe then probeWaits (tsWaiting s) (startTCPPublicProbe a port (tsProbes s) r) else r)"
  have J1: "J ?S r1" using Cons.prems by (simp add: r1_def keeps_startTCP keeps_waiting)
  obtain e r2 where k: "tcpKeepAlive (opConn c) (opEndpoint c) (tsKeep s) (opLatency c) r1 = (e, r2)"
    by (cases "tcpKeepAlive (opConn c) (opEndpoint c) (tsKeep s) (opLatency c) r1")
  have J2: "J ?S r2" using keeps_tcpKeepAlive[OF J1 k] .
  let ?r3 = "closeConn (KeepConn (kcID (opConn c))) (untrack (KeepConn (kcID (opConn c))) r2)"
  have J3: "J S ?r3" using keeps_drop[OF J2] .
  show ?case
  proof (cases "\<exists>x. e = Some x \<and> err_is x ErrSessionClosed \<and> \<not> tsCtx s")
    case False
    with k J3 left_two[OF J2] show ?thesis
      by (auto simp: Let_def r1_def[symmetric] keeps_alive keeps_emitClosed split: option.split)
  next
    case True
    then obtain x where x: "e = Some x" "err_is x ErrSessionClosed" "\<not> tsCtx s" by blast
    define r4 where "r4 = emitClosed (tsNow s) ''tcp'' ''tcp'' (opEndpoint c) (opAddr c) x ?r3"
    have J4: "J S r4" unfolding r4_def using J3 by (rule keeps_emitClosed)
    obtain y r5 where rc: "reconnectTCPKeepAliveForProbe a port (opEndpoint c) (keepAliveServers (rnCfg r4)) (tsTries s) r4 = (y, r5)"
      by (cases "reconnectTCPKeepAliveForProbe a port (opEndpoint c) (keepAliveServers (rnCfg r4)) (tsTries s) r4")
    have J5: "J (attempted S y) r5"
      using rc keeps_reconnectLoop[OF J4] by (simp add: reconnectTCPKeepAliveForProbe_def)
    have eq: "tcpSessions a port c probe (s # ss) r =
      (case y of None \<Rightarrow> (None, r5) | Some (Inl e) \<Rightarrow> (Some e, r5)
       | Some (Inr d) \<Rightarrow>
          (let r6 = emitKeepAlive (tsNow s) KeepAliveConnected ''tcp'' (Some (opAddr d))
                (rttMessage ''tcp'' (opLatency d)) (opLatency d) r5;
               (skip, r7) = skipTCPPublicProbeAfterReconnect (tsCheck s) a port r6
           in tcpSessions a port d (\<not> skip) ss r7))"
      using k x rc by (simp add: Let_def r1_def[symmetric] r4_def[symmetric])
    show ?thesis
    proof (cases "\<exists>d. y = Some (Inr d)")
      case False
      with J5 left_two[OF keeps_mono[OF subset_insertI, of S r5]] show ?thesis
        unfolding eq by (auto split: option.splits sum.splits)
    next
      case True
      then obtain d where d: "y = Some (Inr d)" by blast
      let ?r6 = "emitKeepAlive (tsNow s) KeepAliveConnected ''tcp'' (Some (opAddr d))
                (rttMessage ''tcp'' (opLatency d)) (opLatency d) r5"
      obtain skip r7 where sk: "skipTCPPublicProbeAfterReconnect (tsCheck s) a port ?r6 = (skip, r7)"
        by (cases "skipTCPPublicProbeAfterReconnect (tsCheck s) a port ?r6")
      have "J (insert (KeepConn (kcID (opConn d))) S) r7"
        using keeps_skip[OF _ sk] keeps_alive J5 d by simp
      from Cons.IH[OF this] sk d show ?thesis unfolding eq by (simp add: Let_def)
    qed
  qed
qed

lemma keeps_runTCP: "J S r \<Longrightarrow> finished S (runTCP env r)"
proof -
  assume J: "J S r"
  let ?b = "parseBindIP (cfgBindAddress (rnCfg r))"
  show ?thesis
  proof (cases "bindPort (trDraws env) r")
    case (Inl e)
    with J show ?thesis by (simp add: runTCP_def Let_def)
  next
    case (Inr pr)
    obtain port r1 where p: "pr = (port, r1)" by (cases pr)
    with Inr have J1: "J S r1" using keeps_bind J by blast
    obtain x r2 where o: "openTCPKeepAliveFromServers (trOpen env (?b, port)) (keepAliveServers (rnCfg r1)) r1 = (x, r2)"
      by (cases "openTCPKeepAliveFromServers (trOpen env (?b, port)) (keepAliveServers (rnCfg r1)) r1")
    note J2 = keeps_openFrom[OF J1 o]
    show ?thesis
    proof (cases x)
      case e: (Inl e)
      with J2 Inr p o show ?thesis by (simp add: runTCP_def Let_def keeps_advance)
    next
      case c: (Inr c)
      with J2 have "J (insert (KeepConn (kcID (opConn c))) S) r2" by simp
      with Inr p o c show ?thesis
        by (simp add: runTCP_def Let_def) (intro keeps_tcpSessions keeps_emitBound keeps_alive keeps_keep)
    qed
  qed
qed

text \<open>Opening over QUIC leaves exactly the transport it returns.\<close>

definition carried :: "closer set \<Rightarrow> 'x + quicOpened \<Rightarrow> closer set" where
  "carried S res = (case res of Inl e \<Rightarrow> S | Inr c \<Rightarrow> insert (QuicTransport (qpTransport c)) S)"

lemma carried_simps [simp]: "carried S (Inl e) = S" "carried S (Inr c) = insert (QuicTransport (qpTransport c)) S"
  by (simp_all add: carried_def)

lemma keeps_openQUIC:
  "J S r \<Longrightarrow> openQUICKeepAlive t endpoint timeout r = (Inr (i, l), r') \<Longrightarrow> J (insert (QuicTransport i) S) r'"
  "J S r \<Longrightarrow> openQUICKeepAlive t endpoint timeout r = (Inl e, r') \<Longrightarrow> J S r'"
  by (auto simp: openQUICKeepAlive_def Let_def keeps_opening intro: keeps_closing split: option.splits)

lemma keeps_openQUICLoop: "J S r \<Longrightarrow> openQUICLoop env timeout es err r = (res, r') \<Longrightarrow> J (carried S res) r'"
proof (induction es arbitrary: err r)
  case Nil
  then show ?case by auto
next
  case (Cons endpoint es)
  let ?t = "env endpoint"
  obtain x r1 where o: "openQUICKeepAlive ?t endpoint timeout r = (x, r1)" by (cases "openQUICKeepAlive ?t endpoint timeout r")
  show ?case
  proof (cases x)
    case (Inl e)
    with keeps_openQUIC(2)[OF Cons.prems(1)] o have "J S r1" by simp
    with Cons.prems o Inl show ?thesis
      by (auto simp: Let_def intro: Cons.IH split: sum.splits if_splits)
  next
    case (Inr y)
    with keeps_openQUIC(1)[OF Cons.prems(1)] o have "J (insert (QuicTransport (fst y)) S) r1" by (cases y) simp
    with Cons.prems o Inr show ?thesis
      by (cases y) (auto simp: Let_def intro: Cons.IH split: sum.splits)
  qed
qed

lemma keeps_openQUICFrom:
  "J S r \<Longrightarrow> openQUICKeepAliveFromServers env es timeout r = (res, r') \<Longrightarrow> J (carried S res) r'"
  by (auto simp: openQUICKeepAliveFromServers_def split: if_splits prod.splits sum.splits
      dest!: keeps_openQUICLoop[rotated] dest: keeps_ordered)

definition recarried :: "closer set \<Rightarrow> 'x + ('y + quicOpened) \<Rightarrow> closer set" where
  "recarried S res = (case res of Inl e \<Rightarrow> S | Inr x \<Rightarrow> carried S x)"

lemma recarried_simps [simp]: "recarried S (Inl e) = S" "recarried S (Inr x) = carried S x"
  by (simp_all add: recarried_def)

lemma keeps_reconnectQUICServers:
  "J S r \<Longrightarrow> reconnectQUICServers env es err r = (res, r') \<Longrightarrow> J (recarried S res) r'"
proof (induction es arbitrary: err r)
  case Nil
  then show ?case by auto
next
  case (Cons endpoint es)
  let ?t = "env endpoint"
  show ?case
  proof (cases "qoResolve ?t")
    case (Inl e)
    with Cons.prems show ?thesis by (auto simp: Let_def intro: Cons.IH keeps_log)
  next
    case (Inr a)
    let ?r = "logInfo (qoNow ?t) (''> dial keepalive --proto udp/quic --target '' @ addrString a) r"
    have J: "J S ?r" using Cons.prems(1) by (rule keeps_log)
    obtain x r1 where o: "openQUICKeepAlive ?t endpoint quicInitialConnectTimeout ?r = (x, r1)"
      by (cases "openQUICKeepAlive ?t endpoint quicInitialConnectTimeout ?r")
    show ?thesis
    proof (cases x)
      case e: (Inl e)
      with keeps_openQUIC(2)[OF J] o have "J S r1" by simp
      with Cons.prems Inr o e show ?thesis
        by (auto simp: Let_def intro!: keeps_quiet intro: Cons.IH split: if_splits)
    next
      case y: (Inr y)
      with keeps_openQUIC(1)[OF J] o have "J (insert (QuicTransport (fst y)) S) r1" by (cases y) simp
      with Cons.prems Inr o y show ?thesis by (cases y) (auto simp: Let_def intro: keeps_emit)
    qed
  qed
qed

definition retried :: "closer set \<Rightarrow> quicOpened res option \<Rightarrow> closer set" where
  "retried S res = (case res of None \<Rightarrow> S | Some x \<Rightarrow> carried S x)"

lemma retried_simps [simp]: "retried S None = S" "retried S (Some x) = carried S x"
  by (simp_all add: retried_def)

lemma keeps_reconnectQUICLoop:
  "J S r \<Longrightarrow> reconnectQUICLoop local current es ts n r = (res, r') \<Longrightarrow> J (retried S res) r'"
proof (induction ts arbitrary: n r)
  case Nil
  then show ?case by auto
next
  case (Cons t ts)
  define r1 where "r1 = emit (rcNow t) (stateUpdate StateStarting [logEntryOf (rcNow t) ''info''
                    (''$ keepalive reconnect --proto udp/quic --attempt '' @ itoa (int (n + 1)) @ '' --from '' @
                     addrString local @ '' --previous '' @ describeServerEndpoint current)]) r"
  have J1: "J S r1" unfolding r1_def using Cons.prems(1) by (rule keeps_emit)
  obtain o1 r2 where o: "orderedServerEndpoints ''quic'' es (Some current) r1 = (o1, r2)"
    by (cases "orderedServerEndpoints ''quic'' es (Some current) r1")
  have J2: "J S r2" using keeps_ordered[OF o J1] .
  note unfolded = Cons.prems(2)[unfolded reconnectQUICLoop.simps Let_def, folded r1_def]
  show ?case
  proof (cases o1)
    case (Inl e)
    with unfolded o J2 Cons.prems(1) show ?thesis by (auto split: if_splits)
  next
    case (Inr ordered)
    obtain x r3 where s: "reconnectQUICServers (rcServers t) ordered None r2 = (x, r3)"
      by (cases "reconnectQUICServers (rcServers t) ordered None r2")
    note J3 = keeps_reconnectQUICServers[OF J2 s]
    show ?thesis
    proof (cases x)
      case (Inr res1)
      with unfolded o s J3 \<open>o1 = Inr ordered\<close> Cons.prems(1) show ?thesis by (auto split: if_splits)
    next
      case (Inl err)
      with J3 have "J S r3" by simp
      with unfolded o s Inl \<open>o1 = Inr ordered\<close> Cons.prems(1) show ?thesis
        by (auto intro: Cons.IH keeps_emit split: if_splits)
    qed
  qed
qed

lemma keeps_udpSessions:
  "J (insert (QuicTransport (qpTransport c)) S) r \<Longrightarrow> udpSessions local a port c ss r = (e, r') \<Longrightarrow>
     case e of Some x \<Rightarrow> J S r' | None \<Rightarrow> \<exists>d. J (insert d S) r'"
proof (induction ss arbitrary: c r)
  case Nil
  then show ?case by auto
next
  case (Cons s ss)
  let ?S = "insert (QuicTransport (qpTransport c)) S"
  define r1 where "r1 = startUDPPublicProbe a port (usProbes s) r"
  have J1: "J ?S r1" using Cons.prems(1) by (simp add: r1_def keeps_startUDP)
  obtain k r2 where q: "quicKeepAlive (qpEndpoint c) (qpAddr c) (usPeriods s) r1 = (k, r2)"
    by (cases "quicKeepAlive (qpEndpoint c) (qpAddr c) (usPeriods s) r1")
  have J2: "J ?S r2" using keeps_quicKeepAlive[OF J1 q] .
  let ?r3 = "closeConn (QuicTransport (qpTransport c)) r2"
  have J3: "J S ?r3" using J2 by (intro keeps_closing) simp_all
  have J3': "J S (closeConn (QuicTransport (qpTransport c)) (emitKeepAlive now st proto x m l r2))" for now st proto x m l
    using J2 by (intro keeps_closing keeps_alive) simp_all
  show ?case
  proof (cases "\<exists>x. k = Some x \<and> err_is x ErrSessionClosed \<and> \<not> usCtx s")
    case False
    with q J2 J3 J3' Cons.prems(2) show ?thesis
      by (auto simp: Let_def r1_def[symmetric] keeps_emitClosed split: option.splits if_splits)
  next
    case True
    then obtain x where x: "k = Some x" "err_is x ErrSessionClosed" "\<not> usCtx s" by blast
    define r4 where "r4 = emitClosed (usNow s) ''udp'' ''udp/quic'' (qpEndpoint c) (qpAddr c) x ?r3"
    have J4: "J S r4" unfolding r4_def using J3 by (rule keeps_emitClosed)
    obtain y r5 where rc: "reconnectQUICKeepAliveForProbe local (qpEndpoint c) (keepAliveServers (rnCfg r4)) (usTries s) r4 = (y, r5)"
      by (cases "reconnectQUICKeepAliveForProbe local (qpEndpoint c) (keepAliveServers (rnCfg r4)) (usTries s) r4")
    have J5: "J (retried S y) r5"
      using rc keeps_reconnectQUICLoop[OF J4] by (simp add: reconnectQUICKeepAliveForProbe_def)
    note eq = Cons.prems(2)[unfolded udpSessions.simps Let_def, folded r1_def]
    show ?thesis
    proof (cases "\<exists>d. y = Some (Inr d)")
      case False
      with eq q x rc J5 keeps_mono[OF subset_insertI, of S r5] show ?thesis
        by (auto simp: r4_def[symmetric] split: option.splits sum.splits)
    next
      case True
      then obtain d where d: "y = Some (Inr d)" by blast
      with J5 have "J (insert (QuicTransport (qpTransport d)) S)
          (emitKeepAlive (usNow s) KeepAliveConnected ''udp'' (Some (qpAddr d))
             (rttMessage ''quic'' (qpLatency d)) (qpLatency d) r5)" by (simp add: keeps_alive)
      from Cons.IH[OF this] eq q x rc d show ?thesis by (simp add: r4_def[symmetric])
    qed
  qed
qed

lemma keeps_runUDPSocket:
  assumes "J S r" and "runUDPSocket env b local r = (e, r')"
  shows "case e of Some x \<Rightarrow> J S r' | None \<Rightarrow> \<exists>d. J (insert d S) r'"
proof -
  obtain y r1 where o: "openQUICKeepAliveFromServers (urOpen env local) (keepAliveServers (rnCfg r)) quicInitialConnectTimeout r = (y, r1)"
    by (cases "openQUICKeepAliveFromServers (urOpen env local) (keepAliveServers (rnCfg r)) quicInitialConnectTimeout r")
  note J1 = keeps_openQUICFrom[OF assms(1) o]
  show ?thesis
  proof (cases y)
    case (Inl x)
    with J1 o assms(2) show ?thesis by (auto simp: runUDPSocket_def Let_def keeps_advance)
  next
    case (Inr c)
    have J2: "J (insert (QuicTransport (qpTransport c)) S) (emitKeepAlive now st proto x m l r1)" for now st proto x m l
      using J1 Inr by (simp add: keeps_alive)
    have J3: "J S (closeConn (QuicTransport (qpTransport c)) (emitKeepAlive now st proto x m l r1))" for now st proto x m l
      using J2 by (intro keeps_closing) simp_all
    have J4: "J (insert (QuicTransport (qpTransport c)) S) (emitBound n2 p2 i2 port2 l2 (emitKeepAlive now st proto x m l r1))"
      for now st proto x m l n2 p2 i2 port2 l2 using J2 by (rule keeps_emitBound)
    show ?thesis
    proof (cases "urCtx env")
      case True
      with Inr o assms(2) J3 show ?thesis by (auto simp: runUDPSocket_def Let_def)
    next
      case False
      with Inr o assms(2) show ?thesis
        by (intro keeps_udpSessions[OF J4]) (auto simp: runUDPSocket_def Let_def)
    qed
  qed
qed

lemma keeps_runUDP: "J S r \<Longrightarrow> finished S (runUDP env r)"
proof -
  assume J: "J S r"
  let ?b = "parseBindIP (cfgBindAddress (rnCfg r))"
  show ?thesis
  proof (cases "bindPort (urDraws env) r")
    case (Inl e)
    with J show ?thesis by (simp add: runUDP_def Let_def)
  next
    case (Inr pr)
    obtain port r1 where p: "pr = (port, r1)" by (cases pr)
    with Inr have J1: "J S r1" using keeps_bind J by blast
    show ?thesis
    proof (cases "urListen env (?b, port)")
      case (Inl e)
      with Inr p J1 show ?thesis by (simp add: runUDP_def Let_def keeps_advance)
    next
      case s: (Inr sock)
      obtain i local where sk: "sock = (i, local)" by (cases sock)
      let ?S = "insert (UdpSocket i) S"
      let ?r = "keepBindPort (snd local) (track (UdpSocket i) (openConn (UdpSocket i) r1))"
      have J2: "J ?S ?r" using J1 by (intro keeps_keep keeps_track keeps_opening)
      obtain e r2 where u: "runUDPSocket env ?b local ?r = (e, r2)" by (cases "runUDPSocket env ?b local ?r")
      note J3 = keeps_runUDPSocket[OF J2 u]
      show ?thesis
      proof (cases e)
        case None
        with J3 Inr p s sk u show ?thesis by (auto simp: runUDP_def Let_def)
      next
        case (Some x)
        with J3 keeps_drop[of "UdpSocket i" S r2] Inr p s sk u show ?thesis by (simp add: runUDP_def Let_def)
      qed
    qed
  qed
qed

lemma keeps_runOnce: "J S r \<Longrightarrow> finished S (runOnce tcp udp r)"
  by (simp add: runOnce_def keeps_runTCP keeps_runUDP)

end

end
