(* ===== verification/Session_Props.thy ===== *)
theory Session_Props
  imports Session_Correct
begin

text \<open>
  What the sessions of a runner promise: no connection is left open, an established session
  ends in a stop or a rebuild, reconnecting gives up when there is another server, the wait
  between two requests respects its deadline, and no session changes the configuration of its
  runner.
\<close>

section \<open>Instances of the laws\<close>

lemma publish_conns [simp]:
  "rnActive (publishMapping now s e r) = rnActive r" "rnOpen (publishMapping now s e r) = rnOpen r"
  by (simp_all add: publishMapping_eq afterUpdate_def updateMappingLocked_eq Let_def emit_def runNotify_def split: option.split)

lemmas runner_op_defs = emit_def setServerCursor_def nextServerCursorStep_def track_def untrack_def openConn_def
  closeConn_def probeWaits_def bindPort_def advanceBindPort_def keepBindPort_def

text \<open>
  What a session itself opens, and what it tracks of it; the connection on which the probing
  goroutine waits for an answer is that goroutine's.
\<close>

fun ofSession :: "closer \<Rightarrow> bool" where
  "ofSession (StunConn i) = False"
| "ofSession _ = True"

definition sessionConns :: "runner \<Rightarrow> closer set" where
  "sessionConns r = {c \<in> set (rnOpen r). ofSession c}"

definition sessionTracked :: "runner \<Rightarrow> closer set" where
  "sessionTracked r = {c \<in> set (rnActive r). ofSession c \<and> \<not> untracked c}"

interpretation conns: runner_laws "\<lambda>S r. sessionConns r \<subseteq> S \<union> A \<and> sessionTracked r \<subseteq> S \<union> B" for A B
proof (unfold_locales, goal_cases)
  case (8 c S r)
  then show ?case by (cases c) (auto simp: sessionConns_def sessionTracked_def closeConn_def)
qed (auto simp: runner_op_defs sessionConns_def sessionTracked_def Let_def split: if_splits option.splits prod.splits)

lemma publish_cursor [simp]: "rnServerCursor (publishMapping now s e r) = rnServerCursor r"
  by (simp add: publishMapping_eq afterUpdate_def updateMappingLocked_eq Let_def emit_def runNotify_def split: option.split)

interpretation cursors: runner_laws "\<lambda>S. cursors_ok"
  by unfold_locales
    (simp_all add: setServerCursor_ok nextServerCursorStep_ok,
     auto simp: emit_def track_def untrack_def openConn_def closeConn_def probeWaits_def Let_def cursors_ok_def
      bindPort_def advanceBindPort_def keepBindPort_def split: if_splits option.splits prod.splits)

interpretation fields: runner_laws "\<lambda>S r. rnCfg r = cfg \<and> rnReport r = rep \<and> rnDone r = fin \<and> prefix out (rnOut r)"
  for cfg rep fin out
  by unfold_locales
    (auto simp: runner_op_defs publishMapping_eq afterUpdate_def updateMappingLocked_eq runNotify_def Let_def
      split: if_splits option.splits prod.splits)

section \<open>Closing\<close>

lemma conns_finished:
  "conns.finished (sessionConns r) (sessionTracked r) {} out \<longleftrightarrow>
     (case out of
        (Some e, r') \<Rightarrow> sessionConns r' \<subseteq> sessionConns r \<and> sessionTracked r' \<subseteq> sessionTracked r
      | (None, r') \<Rightarrow> \<exists>c d. sessionConns r' \<subseteq> {c, d} \<union> sessionConns r \<and> sessionTracked r' \<subseteq> {c, d} \<union> sessionTracked r)"
  by (auto simp: conns.finished_def split: prod.split option.split)

text \<open>A probe over TCP closes the connection it has opened before it goes on to another server.\<close>

lemma probeLoop_closes: "set (rnOpen (snd (tcpProbeLoop env servers batch e r))) \<subseteq> set (rnOpen r)"
proof (induction batch arbitrary: e r)
  case Nil
  then show ?case by simp
next
  case (Cons a batch)
  have u: "set (rnOpen (closeConn i (untrack i (track i (openConn i r))))) \<subseteq> set (rnOpen r)" for i
    by (auto simp: track_def untrack_def openConn_def closeConn_def)
  have "set (rnOpen (snd (tcpProbeLoop env servers batch x (closeConn i (untrack i (track i (openConn i r))))))) \<subseteq> set (rnOpen r)"
    for i x using Cons.IH u by blast
  with Cons.IH u show ?case
    by (auto simp: Let_def setServerCursorAfter_def setServerCursor_def split: sum.splits prod.splits)
qed

lemma tcpPublicProbe_closes: "set (rnOpen (snd (tcpPublicProbe env es r))) \<subseteq> set (rnOpen r)"
proof -
  obtain b r1 where b: "orderedServerEndpointBatch ''stun'' es tcpPublicProbeBatchSize r = (b, r1)"
    by (cases "orderedServerEndpointBatch ''stun'' es tcpPublicProbeBatchSize r")
  have "rnOpen r1 = rnOpen r" using b
    by (auto simp: orderedServerEndpointBatch_def orderedServerEndpoints_def nextServerCursor_def setServerCursor_def
        nextServerCursorStep_def Let_def split: prod.splits if_splits)
  then have "set (rnOpen (snd (tcpProbeLoop env es batch None r1))) \<subseteq> set (rnOpen r)" for batch
    using probeLoop_closes[of env es batch None r1] by simp
  with b \<open>rnOpen r1 = rnOpen r\<close> show ?thesis
    by (auto simp: tcpPublicProbe_def Let_def split: prod.splits sum.splits) (metis in_mono snd_conv)+
qed

text \<open>
  C4: A session leaves nothing open: when \<open>runOnce\<close> returns, every keepalive connection, socket,
  QUIC transport and check connection that the session has opened is closed again, and untracked,
  on every path, whatever the network did; while it runs, at most two of them are open. What
  can be open after that is the connection on which the probing goroutine still waits for an
  answer; a probe over TCP closes every connection that it has opened when it returns.
\<close>

theorem session_leaves_no_connection:
  "(case runOnce tcp udp r of
      (Some e, r') \<Rightarrow> sessionConns r' \<subseteq> sessionConns r \<and> sessionTracked r' \<subseteq> sessionTracked r
    | (None, r') \<Rightarrow> \<exists>c d. sessionConns r' \<subseteq> {c, d} \<union> sessionConns r \<and> sessionTracked r' \<subseteq> {c, d} \<union> sessionTracked r) \<and>
   set (rnOpen (snd (tcpPublicProbe env servers q))) \<subseteq> set (rnOpen q)"
  using conns.keeps_runOnce[of r "{}" "sessionConns r" "sessionTracked r" tcp udp] tcpPublicProbe_closes[of env servers q]
  by (simp add: conns_finished)

section \<open>How a session ends\<close>

definition ended :: "go_error \<Rightarrow> bool" where
  "ended e \<longleftrightarrow> err_is e ErrStopped \<or> err_is e ErrSessionClosed"

lemma ended_simps [simp]: "ended (Sentinel ErrStopped)" "ended (sessionClosed t)"
  by (simp_all add: ended_def sessionClosed_def)

lemma request_ended: "tcpKeepAliveRequest k endpoint l = Inl e \<Longrightarrow> ended e"
  by (auto simp: tcpKeepAliveRequest_def split: if_splits option.splits sum.splits)

lemma wait_ended: "waitLoop d ws = Some (Some e) \<Longrightarrow> ended e"
  by (induction ws) (auto simp: waitOnce_def split: option.splits sum.splits if_splits)

lemma tcpKeepAlive_ended: "tcpKeepAlive conn endpoint ks l r = (Some e, r') \<Longrightarrow> ended e"
proof (induction ks arbitrary: l r)
  case (Cons k ks)
  then show ?case
    by (auto simp: Let_def waitTCPKeepAliveInterval_def dest: request_ended wait_ended split: sum.splits option.splits)
qed simp

lemma quicKeepAlive_ended: "quicKeepAlive endpoint a qs r = (Some e, r') \<Longrightarrow> ended e"
proof (induction qs arbitrary: r)
  case (Cons q qs)
  then show ?case
    by (auto simp: quicKeepAliveOnce_def Let_def split: sum.splits option.splits quicWait.splits if_splits prod.splits)
qed simp

lemma ordered_ok:
  assumes "orderedServerEndpoints kind es a r = (x, r')" and "cursors_ok r"
  shows "\<exists>ordered. x = Inr ordered \<and> set ordered = set es \<and> cursors_ok r'"
  using assms(1) orderedServerEndpoints_eq[OF assms(2), of kind es a] cursors.keeps_ordered[OF assms]
  by (auto split: if_splits)

text \<open>The outcome of reconnecting: an error that stops or rebuilds, or a configured server.\<close>

definition tcpOutcome :: "serverEndpoint set \<Rightarrow> tcpOpened res \<Rightarrow> bool" where
  "tcpOutcome es res = (case res of Inl e \<Rightarrow> ended e | Inr c \<Rightarrow> opEndpoint c \<in> es)"

lemma tcpOutcome_simps [simp]: "tcpOutcome es (Inl e) = ended e" "tcpOutcome es (Inr c) = (opEndpoint c \<in> es)"
  by (simp_all add: tcpOutcome_def)

lemma tcpOutcome_mono: "tcpOutcome A res \<Longrightarrow> A \<subseteq> B \<Longrightarrow> tcpOutcome B res"
  by (auto simp: tcpOutcome_def split: sum.splits)

lemma reconnectTCPServers_outcome:
  "reconnectTCPServers env port es err r = (Inr res, r') \<Longrightarrow> tcpOutcome (set es) res"
proof (induction es arbitrary: err r)
  case (Cons endpoint es)
  have ih: "tcpOutcome (insert endpoint (set es)) res" if "reconnectTCPServers env port es e q = (Inr res, r')" for e q
    using Cons.IH[OF that] by (rule tcpOutcome_mono) auto
  from Cons.prems show ?case
    by (auto simp: Let_def ih split: sum.splits prod.splits if_splits)
qed simp

lemma reconnectTCPLoop_outcome:
  "cursors_ok r \<Longrightarrow> reconnectTCPLoop a port current es ts n r = (Some res, r') \<Longrightarrow> tcpOutcome (set es) res"
proof (induction ts arbitrary: n r)
  case (Cons t ts)
  define r1 where "r1 = emit (rcNow t) (stateUpdate StateStarting [logEntryOf (rcNow t) ''info''
                    (''$ keepalive reconnect --proto tcp --attempt '' @ itoa (int (n + 1)) @ '' --from '' @
                     hostPort (ip_string a) port @ '' --previous '' @ describeServerEndpoint current)]) r"
  obtain o1 r2 where o: "orderedServerEndpoints ''http'' es (Some current) r1 = (o1, r2)"
    by (cases "orderedServerEndpoints ''http'' es (Some current) r1")
  have "cursors_ok r1" unfolding r1_def using cursors.keeps_emit[OF Cons.prems(1)] .
  from ordered_ok[OF o this] obtain ordered where od: "o1 = Inr ordered" "set ordered = set es" "cursors_ok r2" by auto
  note unfolded = Cons.prems(2)[unfolded reconnectTCPLoop.simps Let_def, folded r1_def]
  obtain x r3 where s: "reconnectTCPServers (rcServers t) port ordered None r2 = (x, r3)"
    by (cases "reconnectTCPServers (rcServers t) port ordered None r2")
  show ?case
  proof (cases x)
    case (Inr y)
    with unfolded o od s reconnectTCPServers_outcome[of "rcServers t" port ordered None r2 y r3] show ?thesis
      by (auto split: if_splits)
  next
    case (Inl err)
    have "cursors_ok r3" using cursors.keeps_reconnectServers[OF od(3) s] .
    with unfolded o od s Inl show ?thesis
      by (auto intro: Cons.IH cursors.keeps_emit split: if_splits)
  qed
qed simp

definition quicOutcome :: "serverEndpoint set \<Rightarrow> quicOpened res \<Rightarrow> bool" where
  "quicOutcome es res = (case res of Inl e \<Rightarrow> ended e | Inr c \<Rightarrow> qpEndpoint c \<in> es)"

lemma quicOutcome_simps [simp]: "quicOutcome es (Inl e) = ended e" "quicOutcome es (Inr c) = (qpEndpoint c \<in> es)"
  by (simp_all add: quicOutcome_def)

lemma quicOutcome_mono: "quicOutcome A res \<Longrightarrow> A \<subseteq> B \<Longrightarrow> quicOutcome B res"
  by (auto simp: quicOutcome_def split: sum.splits)

lemma reconnectQUICServers_outcome:
  "reconnectQUICServers env es err r = (Inr res, r') \<Longrightarrow> quicOutcome (set es) res"
proof (induction es arbitrary: err r)
  case (Cons endpoint es)
  have ih: "quicOutcome (insert endpoint (set es)) res" if "reconnectQUICServers env es e q = (Inr res, r')" for e q
    using Cons.IH[OF that] by (rule quicOutcome_mono) auto
  from Cons.prems show ?case
    by (auto simp: Let_def ih split: sum.splits prod.splits if_splits)
qed simp

lemma reconnectQUICLoop_outcome:
  "cursors_ok r \<Longrightarrow> reconnectQUICLoop local current es ts n r = (Some res, r') \<Longrightarrow> quicOutcome (set es) res"
proof (induction ts arbitrary: n r)
  case (Cons t ts)
  define r1 where "r1 = emit (rcNow t) (stateUpdate StateStarting [logEntryOf (rcNow t) ''info''
                    (''$ keepalive reconnect --proto udp/quic --attempt '' @ itoa (int (n + 1)) @ '' --from '' @
                     addrString local @ '' --previous '' @ describeServerEndpoint current)]) r"
  obtain o1 r2 where o: "orderedServerEndpoints ''quic'' es (Some current) r1 = (o1, r2)"
    by (cases "orderedServerEndpoints ''quic'' es (Some current) r1")
  have "cursors_ok r1" unfolding r1_def using cursors.keeps_emit[OF Cons.prems(1)] .
  from ordered_ok[OF o this] obtain ordered where od: "o1 = Inr ordered" "set ordered = set es" "cursors_ok r2" by auto
  note unfolded = Cons.prems(2)[unfolded reconnectQUICLoop.simps Let_def, folded r1_def]
  obtain x r3 where s: "reconnectQUICServers (rcServers t) ordered None r2 = (x, r3)"
    by (cases "reconnectQUICServers (rcServers t) ordered None r2")
  show ?case
  proof (cases x)
    case (Inr y)
    with unfolded o od s reconnectQUICServers_outcome[of "rcServers t" ordered None r2 y r3] show ?thesis
      by (auto split: if_splits)
  next
    case (Inl err)
    have "cursors_ok r3" using cursors.keeps_reconnectQUICServers[OF od(3) s] .
    with unfolded o od s Inl show ?thesis
      by (auto intro: Cons.IH cursors.keeps_emit split: if_splits)
  qed
qed simp

lemma tcpSessions_ended:
  "cursors_ok r \<Longrightarrow> tcpSessions a port c probe ss r = (Some e, r') \<Longrightarrow> ended e"
proof (induction ss arbitrary: c probe r)
  case (Cons s ss)
  define r1 where "r1 = (if probe then probeWaits (tsWaiting s) (startTCPPublicProbe a port (tsProbes s) r) else r)"
  have J1: "cursors_ok r1" using Cons.prems(1) by (simp add: r1_def cursors.keeps_startTCP cursors.keeps_waiting)
  obtain k r2 where k: "tcpKeepAlive (opConn c) (opEndpoint c) (tsKeep s) (opLatency c) r1 = (k, r2)"
    by (cases "tcpKeepAlive (opConn c) (opEndpoint c) (tsKeep s) (opLatency c) r1")
  note unfolded = Cons.prems(2)[unfolded tcpSessions.simps Let_def, folded r1_def]
  show ?case
  proof (cases "\<exists>x. k = Some x \<and> err_is x ErrSessionClosed \<and> \<not> tsCtx s")
    case False
    with unfolded k tcpKeepAlive_ended[of "opConn c" "opEndpoint c" "tsKeep s" "opLatency c" r1] show ?thesis
      by (auto split: option.splits if_splits)
  next
    case True
    then obtain x where x: "k = Some x" "err_is x ErrSessionClosed" "\<not> tsCtx s" by blast
    define r4 where "r4 = emitClosed (tsNow s) ''tcp'' ''tcp'' (opEndpoint c) (opAddr c) x
        (closeConn (KeepConn (kcID (opConn c))) (untrack (KeepConn (kcID (opConn c))) r2))"
    have J2: "cursors_ok r2" using cursors.keeps_tcpKeepAlive[OF J1 k] .
    have J4: "cursors_ok r4"
      unfolding r4_def by (intro cursors.keeps_emitClosed cursors.keeps_drop) (rule J2)
    obtain y r5 where rc: "reconnectTCPLoop a port (opEndpoint c) (keepAliveServers (rnCfg r4)) (tsTries s) 0 r4 = (y, r5)"
      by (cases "reconnectTCPLoop a port (opEndpoint c) (keepAliveServers (rnCfg r4)) (tsTries s) 0 r4")
    have J5: "cursors_ok r5" using cursors.keeps_reconnectLoop[OF J4 rc] .
    from reconnectTCPLoop_outcome[OF J4] rc have out: "y = Some res \<Longrightarrow> tcpOutcome (set (keepAliveServers (rnCfg r4))) res" for res
      by blast
    have j: "cursors_ok q" if "skipTCPPublicProbeAfterReconnect env a port (emitKeepAlive now st pr ad m l r5) = (b, q)"
      for env now st pr ad m l b q
      using cursors.keeps_skip[OF cursors.keeps_alive[OF J5] that] .
    from unfolded k x rc out show ?thesis
      by (auto simp: reconnectTCPKeepAliveForProbe_def r4_def[symmetric] intro: Cons.IH[OF j]
          split: option.splits sum.splits prod.splits)
  qed
qed simp

lemma udpSessions_ended:
  "cursors_ok r \<Longrightarrow> udpSessions local a port c ss r = (Some e, r') \<Longrightarrow> ended e"
proof (induction ss arbitrary: c r)
  case (Cons s ss)
  define r1 where "r1 = startUDPPublicProbe a port (usProbes s) r"
  have J1: "cursors_ok r1" using Cons.prems(1) by (simp add: r1_def cursors.keeps_startUDP)
  obtain k r2 where k: "quicKeepAlive (qpEndpoint c) (qpAddr c) (usPeriods s) r1 = (k, r2)"
    by (cases "quicKeepAlive (qpEndpoint c) (qpAddr c) (usPeriods s) r1")
  note unfolded = Cons.prems(2)[unfolded udpSessions.simps Let_def, folded r1_def]
  show ?case
  proof (cases "\<exists>x. k = Some x \<and> err_is x ErrSessionClosed \<and> \<not> usCtx s")
    case False
    with unfolded k quicKeepAlive_ended[of "qpEndpoint c" "qpAddr c" "usPeriods s" r1] show ?thesis
      by (auto split: option.splits if_splits)
  next
    case True
    then obtain x where x: "k = Some x" "err_is x ErrSessionClosed" "\<not> usCtx s" by blast
    define r3 where "r3 = emitClosed (usNow s) ''udp'' ''udp/quic'' (qpEndpoint c) (qpAddr c) x
        (closeConn (QuicTransport (qpTransport c)) r2)"
    have J3: "cursors_ok r3"
      unfolding r3_def
      by (intro cursors.keeps_emitClosed cursors.keeps_closing[OF _ cursors.keeps_quicKeepAlive[OF J1 k]]) simp
    obtain y r4 where rc: "reconnectQUICLoop local (qpEndpoint c) (keepAliveServers (rnCfg r3)) (usTries s) 0 r3 = (y, r4)"
      by (cases "reconnectQUICLoop local (qpEndpoint c) (keepAliveServers (rnCfg r3)) (usTries s) 0 r3")
    have J4: "cursors_ok r4" using cursors.keeps_reconnectQUICLoop[OF J3 rc] .
    from reconnectQUICLoop_outcome[OF J3] rc have out: "y = Some res \<Longrightarrow> quicOutcome (set (keepAliveServers (rnCfg r3))) res" for res
      by blast
    from unfolded k x rc out J4 show ?thesis
      by (auto simp: reconnectQUICKeepAliveForProbe_def r3_def[symmetric] intro: Cons.IH cursors.keeps_alive
          split: option.splits sum.splits)
  qed
qed simp

text \<open>
  C18: Once its keepalive connection is established, a session only ends in order to stop or
  to be rebuilt: whatever happens to its connections, requests, waits and reconnects, the
  error that \<open>runTCP\<close> and \<open>runUDP\<close> return is the one of a stop or the one of a closed session,
  which \<open>Run\<close> answers with the state "stopped" or with a rebuild one second later, never with
  the state "error".
\<close>

theorem established_session_stops_or_rebuilds:
  assumes "cursors_ok r"
    and "tcpSessions privateIP privatePort c probe ss r = (Some e, r') \<or>
         udpSessions local privateIP privatePort d us r = (Some e, r')"
  shows "err_is e ErrStopped \<and> stopError (Some e) \<or> err_is e ErrSessionClosed \<and> sessionError (Some e)"
proof -
  have "ended e" using assms(2) tcpSessions_ended[OF assms(1)] udpSessions_ended[OF assms(1)] by blast
  then show ?thesis by (auto simp: ended_def stopError_def sessionError_def)
qed

section \<open>Reconnecting\<close>

lemma reconnectTCPLoop_ends:
  "1 < length es \<Longrightarrow> n < 3 \<Longrightarrow> 3 \<le> n + length ts \<Longrightarrow> fst (reconnectTCPLoop a port current es ts n r) \<noteq> None"
proof (induction ts arbitrary: n r)
  case (Cons t ts)
  show ?case
  proof (cases "n + 1 \<ge> 3")
    case True
    with Cons.prems(1) show ?thesis by (auto simp: Let_def split: sum.splits prod.splits)
  next
    case False
    then have "fst (reconnectTCPLoop a port current es ts (n + 1) q) \<noteq> None" for q
      using Cons.prems by (intro Cons.IH) simp_all
    with False show ?thesis by (auto simp: Let_def split: sum.splits prod.splits)
  qed
qed simp

lemma reconnectQUICLoop_ends:
  "1 < length es \<Longrightarrow> n < 3 \<Longrightarrow> 3 \<le> n + length ts \<Longrightarrow> fst (reconnectQUICLoop local current es ts n r) \<noteq> None"
proof (induction ts arbitrary: n r)
  case (Cons t ts)
  show ?case
  proof (cases "n + 1 \<ge> 3")
    case True
    with Cons.prems(1) show ?thesis by (auto simp: Let_def split: sum.splits prod.splits)
  next
    case False
    then have "fst (reconnectQUICLoop local current es ts (n + 1) q) \<noteq> None" for q
      using Cons.prems by (intro Cons.IH) simp_all
    with False show ?thesis by (auto simp: Let_def split: sum.splits prod.splits)
  qed
qed simp

text \<open>
  C12: Reconnecting ends when there is another server to turn to: with at least two keepalive
  servers, both protocols return after at most three attempts over the servers, either with a
  connection to one of the configured servers or with an error that stops or rebuilds the
  session.
\<close>

theorem reconnect_gives_up:
  assumes "1 < length endpoints" and "cursors_ok r" and "3 \<le> length tries" and "3 \<le> length qtries"
  shows "(\<exists>res r'. reconnectTCPKeepAliveForProbe privateIP privatePort current endpoints tries r = (Some res, r') \<and>
      tcpOutcome (set endpoints) res) \<and>
    (\<exists>res r'. reconnectQUICKeepAliveForProbe local current endpoints qtries r = (Some res, r') \<and>
      quicOutcome (set endpoints) res)"
proof
  let ?t = "reconnectTCPLoop privateIP privatePort current endpoints tries 0 r"
  from reconnectTCPLoop_ends[OF assms(1), of 0 tries privateIP privatePort current r] assms(3)
  obtain res where "?t = (Some res, snd ?t)" by (cases ?t) auto
  with reconnectTCPLoop_outcome[OF assms(2) this]
  show "\<exists>res r'. reconnectTCPKeepAliveForProbe privateIP privatePort current endpoints tries r = (Some res, r') \<and>
      tcpOutcome (set endpoints) res"
    unfolding reconnectTCPKeepAliveForProbe_def by blast
  let ?q = "reconnectQUICLoop local current endpoints qtries 0 r"
  from reconnectQUICLoop_ends[OF assms(1), of 0 qtries local current r] assms(4)
  obtain res where "?q = (Some res, snd ?q)" by (cases ?q) auto
  with reconnectQUICLoop_outcome[OF assms(2) this]
  show "\<exists>res r'. reconnectQUICKeepAliveForProbe local current endpoints qtries r = (Some res, r') \<and>
      quicOutcome (set endpoints) res"
    unfolding reconnectQUICKeepAliveForProbe_def by blast
qed

section \<open>The wait between two requests\<close>

text \<open>A pass that goes on: the deadline was set and the read brought data or timed out.\<close>

definition quietStep :: "time \<Rightarrow> waitStep \<Rightarrow> bool" where
  "quietStep d w \<longleftrightarrow> \<not> wsCtx w \<and> wsNow w < d \<and> wsSetDeadline w (min d (wsNow w + oneSecond)) = None \<and>
     (case wsPeek w of Inl e \<Rightarrow> \<not> wsCtxAfter w \<and> is_net_timeout e | Inr n \<Rightarrow> True)"

lemma waitReadDeadline_eq: "waitReadDeadline d now = min d (now + oneSecond)"
  by (simp add: waitReadDeadline_def min_def)

lemma waitOnce_None: "waitOnce d w = None \<longleftrightarrow> quietStep d w"
  by (auto simp: waitOnce_def quietStep_def waitReadDeadline_eq split: option.splits sum.splits)

lemma waitOnce_done: "waitOnce d w = Some None \<longleftrightarrow> \<not> wsCtx w \<and> d \<le> wsNow w"
  by (auto simp: waitOnce_def split: option.splits sum.splits)

text \<open>
  The wait between two keepalive requests lasts until its deadline and no longer: it
  returns without an error exactly when it comes to a pass whose clock has reached the
  deadline, with the context alive, and every pass before it was before the deadline, had its
  read deadline set to the earlier of one second later and the deadline, and read data or
  timed out; any other read error, and the end of the context, ends it earlier.
\<close>

lemma wait_lasts_until_deadline:
  "waitTCPKeepAliveInterval start interval ws = Some None \<longleftrightarrow>
     (\<exists>pre w post. ws = pre @ w # post \<and> list_all (quietStep (start + interval)) pre \<and>
        \<not> wsCtx w \<and> start + interval \<le> wsNow w)"
proof -
  have "waitLoop d ws = Some None \<longleftrightarrow>
     (\<exists>pre w post. ws = pre @ w # post \<and> list_all (quietStep d) pre \<and> \<not> wsCtx w \<and> d \<le> wsNow w)" for d
  proof (induction ws)
    case Nil
    then show ?case by simp
  next
    case (Cons w ws)
    show ?case
    proof (cases "quietStep d w")
      case True
      then have n: "waitOnce d w = None" "\<not> d \<le> wsNow w" by (simp_all add: waitOnce_None quietStep_def)
      show ?thesis
      proof
        assume "waitLoop d (w # ws) = Some None"
        with n Cons.IH obtain pre v post where "ws = pre @ v # post" "list_all (quietStep d) pre" "\<not> wsCtx v" "d \<le> wsNow v"
          by auto
        with True show "\<exists>pre v post. w # ws = pre @ v # post \<and> list_all (quietStep d) pre \<and> \<not> wsCtx v \<and> d \<le> wsNow v"
          by (intro exI[of _ "w # pre"] exI[of _ v] exI[of _ post]) simp
      next
        assume "\<exists>pre v post. w # ws = pre @ v # post \<and> list_all (quietStep d) pre \<and> \<not> wsCtx v \<and> d \<le> wsNow v"
        then obtain pre v post where e: "w # ws = pre @ v # post" "list_all (quietStep d) pre" "\<not> wsCtx v" "d \<le> wsNow v"
          by blast
        with n(2) obtain pre' where "pre = w # pre'" by (cases pre) auto
        with e Cons.IH have "waitLoop d ws = Some None" by auto
        with n(1) show "waitLoop d (w # ws) = Some None" by simp
      qed
    next
      case False
      then have n: "waitOnce d w \<noteq> None" by (simp add: waitOnce_None)
      have "waitLoop d (w # ws) = Some None \<longleftrightarrow> \<not> wsCtx w \<and> d \<le> wsNow w"
        using n waitOnce_done[of d w] by (auto split: option.splits)
      also have "\<dots> \<longleftrightarrow> (\<exists>pre v post. w # ws = pre @ v # post \<and> list_all (quietStep d) pre \<and> \<not> wsCtx v \<and> d \<le> wsNow v)"
      proof
        assume "\<not> wsCtx w \<and> d \<le> wsNow w"
        then show "\<exists>pre v post. w # ws = pre @ v # post \<and> list_all (quietStep d) pre \<and> \<not> wsCtx v \<and> d \<le> wsNow v"
          by (intro exI[of _ "[]"] exI[of _ w] exI[of _ ws]) simp
      qed (use False in \<open>auto simp: Cons_eq_append_conv\<close>)
      finally show ?thesis .
    qed
  qed
  then show ?thesis by (simp add: waitTCPKeepAliveInterval_def)
qed

text \<open>
  C36: The interval is the configured number of seconds as long as it fits into 64 bits of
  nanoseconds; the validation of a configuration has no upper bound for it, and with the
  smallest number beyond the interval is negative, so that the wait returns at once and the
  keepalive requests follow one another without a pause.
\<close>

theorem keepalive_interval_overflows:
  assumes "validateConfig cfg = Inr ()"
  shows "(0 < cfgKeepAliveSeconds cfg \<and> cfgKeepAliveSeconds cfg \<le> 9223372036 \<longrightarrow>
      keepInterval cfg = cfgKeepAliveSeconds cfg * oneSecond) \<and>
    validateConfig (cfg\<lparr>cfgKeepAliveSeconds := 9223372037\<rparr>) = Inr () \<and>
    keepInterval (cfg\<lparr>cfgKeepAliveSeconds := 9223372037\<rparr>) < 0 \<and>
    (\<not> wsCtx w \<and> start \<le> wsNow w \<longrightarrow>
      waitTCPKeepAliveInterval start (keepInterval (cfg\<lparr>cfgKeepAliveSeconds := 9223372037\<rparr>)) (w # ws) = Some None)"
proof -
  have i: "keepInterval (cfg\<lparr>cfgKeepAliveSeconds := 9223372037\<rparr>) < 0"
    by (simp add: keepInterval_def wrap64_def oneSecond_def)
  have "waitOnce (start + keepInterval (cfg\<lparr>cfgKeepAliveSeconds := 9223372037\<rparr>)) w = Some None"
    if "\<not> wsCtx w" "start \<le> wsNow w"
    using i that unfolding waitOnce_done by linarith
  moreover have "validateConfig (cfg\<lparr>cfgKeepAliveSeconds := 9223372037\<rparr>) = Inr ()"
    using assms by (simp add: validateConfig_def)
  moreover have "keepInterval cfg = cfgKeepAliveSeconds cfg * oneSecond"
    if "0 < cfgKeepAliveSeconds cfg" "cfgKeepAliveSeconds cfg \<le> 9223372036"
    using that unfolding keepInterval_def by (intro wrap64_id) (simp_all add: min_int64_def max_int64_def oneSecond_def)
  ultimately show ?thesis using i by (simp add: waitTCPKeepAliveInterval_def)
qed

section \<open>Running and stopping\<close>

lemma runOnce_fields:
  assumes "runOnce tcp udp r = (e, r')"
  shows "rnReport r' = rnReport r \<and> rnDone r' = rnDone r \<and> rnCfg r' = rnCfg r \<and> prefix (rnOut r) (rnOut r')"
  using fields.keeps_runOnce[of r "rnCfg r" "rnReport r" "rnDone r" "rnOut r" "{}" tcp udp] assms
  by (cases e) (simp_all add: fields.finished_def)

lemma emit_fields [simp]: "rnDone (rlog level now m r) = rnDone r" "rnReport (rlog level now m r) = rnReport r"
  by (simp_all add: rlog_def)

lemma stateUpdate_state [simp]: "stState (stateUpdate s l) = s"
  by (simp add: stateUpdate_def)

section \<open>Instances\<close>

definition sampleLocal :: addr where
  "sampleLocal = ([10, 0, 0, 1], 5000)"

definition sampleConn :: tcpOpened where
  "sampleConn = \<lparr>opEndpoint = sampleEndpoint, opAddr = sampleLocal,
     opConn = \<lparr>kcID = 1, kcLocal = sampleLocal, kcRemote = sampleLocal\<rparr>, opLatency = 5\<rparr>"

text \<open>A server that asks to close the connection; a name that does not resolve.\<close>

definition closingRound :: keepRound where
  "closingRound = \<lparr>kdRequest = \<lparr>krCtx = False, krWriteDeadline = None, krWrite = (\<lambda>_. None), krReadDeadline = None,
     krResponse = Inr True, krCtxAfter = False, krRTT = None\<rparr>, kdNow = 1, kdStart = 1, kdWait = []\<rparr>"

definition noName :: tcpOpenEnv where
  "noName = \<lparr>toResolve = Inl (NetError ''no such host'' False), toDial = (\<lparr>dtResult = Inl (Sentinel IoEOF), dtCtx = None, dtWait = None\<rparr>, []),
     toElapsedMs = 0, toRTT = None, toRequest = kdRequest closingRound, toCtx = False, toNow = 2\<rparr>"

definition noNameQuic :: quicOpenEnv where
  "noNameQuic = \<lparr>qoResolve = Inl (NetError ''no such host'' False), qoTransport = 0,
     qoRequest = (\<lambda>_. \<lparr>h3New = None, h3RoundTrip = (\<lambda>_ _. None)\<rparr>), qoStats = None, qoElapsed = 0, qoCtx = False, qoNow = 2\<rparr>"

definition plainTry :: "'e \<Rightarrow> 'e reconnectTry" where
  "plainTry env = \<lparr>rcCtx = False, rcServers = (\<lambda>_. env), rcWait = False, rcNow = 3\<rparr>"

definition closingSession :: tcpSession where
  "closingSession = \<lparr>tsProbes = [], tsWaiting = None, tsKeep = [closingRound], tsNow = 4, tsCtx = True, tsTries = [],
     tsCheck = \<lparr>tcCtx = False, tcDial = (\<lambda>_. Inr 1), tcCtxErr = None, tcNow = 5\<rparr>\<rparr>"

lemma new_cursors: "cursors_ok (NewRunner cfg rep)"
  by (simp add: cursors_ok_def NewRunner_def)

lemma established_session_stops_or_rebuilds_witness:
  "\<exists>e r'. tcpSessions [10, 0, 0, 1] 5000 sampleConn False [closingSession] sampleRunner = (Some e, r') \<and>
     (err_is e ErrStopped \<or> err_is e ErrSessionClosed)"
proof -
  have c: "cursors_ok sampleRunner" by (simp add: sampleRunner_def new_cursors)
  have "tcpSessions [10, 0, 0, 1] 5000 sampleConn False [closingSession] sampleRunner =
      (Some (Sentinel ErrStopped), snd (tcpSessions [10, 0, 0, 1] 5000 sampleConn False [closingSession] sampleRunner))"
    by (simp add: closingSession_def closingRound_def tcpKeepAliveRequest_def Let_def sessionClosed_def)
  from established_session_stops_or_rebuilds[OF c disjI1, OF this] this show ?thesis by blast
qed

lemma reconnect_gives_up_witness:
  "\<exists>res. fst (reconnectTCPKeepAliveForProbe [10, 0, 0, 1] 5000 sampleEndpoint
      [sampleEndpoint, \<lparr>epHost = ''b'', epPort = 80\<rparr>] (replicate 3 (plainTry noName)) sampleRunner) = Some res"
proof -
  have "cursors_ok sampleRunner" by (simp add: sampleRunner_def new_cursors)
  from reconnect_gives_up[where endpoints = "[sampleEndpoint, \<lparr>epHost = ''b'', epPort = 80\<rparr>]" and
      tries = "replicate 3 (plainTry noName)" and qtries = "replicate 3 (plainTry noNameQuic)" and
      privateIP = "[10, 0, 0, 1]" and privatePort = 5000 and current = sampleEndpoint and local = sampleLocal, OF _ this]
  obtain res r' where "reconnectTCPKeepAliveForProbe [10, 0, 0, 1] 5000 sampleEndpoint
      [sampleEndpoint, \<lparr>epHost = ''b'', epPort = 80\<rparr>] (replicate 3 (plainTry noName)) sampleRunner = (Some res, r')"
    by auto
  then show ?thesis by simp
qed

lemma keepalive_interval_overflows_witness:
  "validateConfig ((normalizeConfig sampleConfig)\<lparr>cfgKeepAliveSeconds := 9223372037\<rparr>) = Inr () \<and>
     keepInterval ((normalizeConfig sampleConfig)\<lparr>cfgKeepAliveSeconds := 9223372037\<rparr>) < 0"
  using keepalive_interval_overflows[OF sample_valid] by blast

definition stoppingRun :: runIter where
  "stoppingRun = \<lparr>itDoneBefore = False,
     itTCP = \<lparr>trDraws = (\<lambda>_. Some 0), trOpen = (\<lambda>_ _. noName), trNow = 1, trSessions = (\<lambda>_. [])\<rparr>,
     itUDP = \<lparr>urDraws = (\<lambda>_. Some 0), urListen = (\<lambda>_. Inl (ErrNew ''x'')), urOpen = (\<lambda>_ _. noNameQuic), urNow = 1,
       urCtx = False, urSessions = (\<lambda>_. [])\<rparr>,
     itDoneAfter = False, itDoneWait = True, itNow = 2\<rparr>"

end
