(* ===== verification/Session_Stops.thy ===== *)
theory Session_Stops
  imports Session_Props
begin

text \<open>
  That a stop ends a runner. A script says what a loop would meet if it went on, so in a world
  where the context is done at some time a script that is long enough contains a place where
  the loop meets it. The conditions below say just that for each loop of a session, and that the
  clock reaches the deadline of every wait.
\<close>

section \<open>Scripts that end\<close>

definition request_ends :: "keepRequest \<Rightarrow> bool" where
  "request_ends k \<longleftrightarrow> krCtx k \<or> (case krResponse k of Inl e \<Rightarrow> True | Inr close \<Rightarrow> close)"

definition wait_ends :: "time \<Rightarrow> keepRound \<Rightarrow> bool" where
  "wait_ends interval k \<longleftrightarrow> (\<exists>w \<in> set (kdWait k). wsCtx w \<or> kdStart k + interval \<le> wsNow w)"

definition keep_ends :: "time \<Rightarrow> keepRound list \<Rightarrow> bool" where
  "keep_ends interval ks \<longleftrightarrow> (\<forall>k \<in> set ks. wait_ends interval k) \<and> (\<exists>k \<in> set ks. request_ends (kdRequest k))"

definition periods_end :: "quicPeriod list \<Rightarrow> bool" where
  "periods_end qs \<longleftrightarrow> (\<exists>q \<in> set qs. qpWait q \<noteq> QuicTimer)"

definition tries_end :: "nat \<Rightarrow> 'e reconnectTry list \<Rightarrow> bool" where
  "tries_end servers ts \<longleftrightarrow> (\<exists>t \<in> set ts. rcCtx t) \<or> 1 < servers \<and> 3 \<le> length ts"

text \<open>The connections of a session end each, and one of them ends with the context done.\<close>

definition tcp_ends :: "instanceConfig \<Rightarrow> tcpSession list \<Rightarrow> bool" where
  "tcp_ends cfg ss \<longleftrightarrow>
     (\<forall>s \<in> set ss. keep_ends (keepInterval cfg) (tsKeep s) \<and> tries_end (length (keepAliveServers cfg)) (tsTries s)) \<and>
     (\<exists>s \<in> set ss. tsCtx s)"

definition udp_ends :: "instanceConfig \<Rightarrow> udpSession list \<Rightarrow> bool" where
  "udp_ends cfg ss \<longleftrightarrow>
     (\<forall>s \<in> set ss. periods_end (usPeriods s) \<and> tries_end (length (keepAliveServers cfg)) (usTries s)) \<and>
     (\<exists>s \<in> set ss. usCtx s)"

section \<open>The loops of a session\<close>

interpretation settings: runner_laws "\<lambda>S r. rnCfg r = cfg" for cfg
  by unfold_locales
    (auto simp: runner_op_defs publishMapping_eq afterUpdate_def updateMappingLocked_eq runNotify_def Let_def
      split: if_splits option.splits prod.splits)

lemma request_fails: "request_ends k \<Longrightarrow> \<exists>e. tcpKeepAliveRequest k endpoint l = Inl e"
  by (auto simp: request_ends_def tcpKeepAliveRequest_def split: option.split sum.splits)

lemma waitLoop_returns: "\<exists>w \<in> set ws. wsCtx w \<or> deadline \<le> wsNow w \<Longrightarrow> waitLoop deadline ws \<noteq> None"
proof (induction ws)
  case (Cons w ws)
  show ?case
  proof (cases "wsCtx w \<or> deadline \<le> wsNow w")
    case True
    then have "waitOnce deadline w \<noteq> None" by (auto simp: waitOnce_def)
    then show ?thesis by (auto split: option.split)
  next
    case False
    with Cons show ?thesis by (auto split: option.split)
  qed
qed simp

lemma tcpKeepAlive_returns:
  "keep_ends (keepInterval (rnCfg r)) ks \<Longrightarrow> fst (tcpKeepAlive conn endpoint ks l r) \<noteq> None"
proof (induction ks arbitrary: l r)
  case Nil
  then show ?case by (simp add: keep_ends_def)
next
  case (Cons k ks)
  show ?case
  proof (cases "tcpKeepAliveRequest (kdRequest k) endpoint l")
    case (Inl e)
    then show ?thesis by simp
  next
    case (Inr latency)
    with request_fails[of "kdRequest k" endpoint l] have n: "\<not> request_ends (kdRequest k)" by auto
    let ?q = "emitKeepAlive (kdNow k) KeepAliveConnected ''tcp'' (Some (kcRemote conn)) (rttMessage ''tcp'' latency) latency r"
    have c: "rnCfg ?q = rnCfg r" by (simp add: settings.keeps_alive[of r "rnCfg r"])
    from Cons.prems n have "keep_ends (keepInterval (rnCfg ?q)) ks" by (simp add: keep_ends_def c)
    from Cons.IH[OF this, of latency] have ih: "fst (tcpKeepAlive conn endpoint ks latency ?q) \<noteq> None" .
    from Cons.prems have "wait_ends (keepInterval (rnCfg ?q)) k" by (simp add: keep_ends_def c)
    then have "waitTCPKeepAliveInterval (kdStart k) (keepInterval (rnCfg ?q)) (kdWait k) \<noteq> None"
      unfolding waitTCPKeepAliveInterval_def wait_ends_def by (rule waitLoop_returns)
    with Inr ih show ?thesis by (auto simp: Let_def split: option.split)
  qed
qed

lemma quicKeepAlive_returns: "periods_end qs \<Longrightarrow> fst (quicKeepAlive endpoint a qs r) \<noteq> None"
proof (induction qs arbitrary: r)
  case Nil
  then show ?case by (simp add: periods_end_def)
next
  case (Cons q qs)
  show ?case
  proof (cases "qpWait q = QuicTimer")
    case True
    with Cons show ?thesis by (auto simp: periods_end_def split: sum.split prod.split)
  next
    case False
    then show ?thesis by (cases "qpWait q") (auto simp: quicKeepAliveOnce_def split: sum.split prod.split)
  qed
qed

lemma reconnectTCPLoop_ctx:
  "\<exists>t \<in> set tries. rcCtx t \<Longrightarrow> fst (reconnectTCPLoop a port current es tries n r) \<noteq> None"
proof (induction tries arbitrary: n r)
  case (Cons t tries)
  have ih: "fst (reconnectTCPLoop a port current es tries m q) \<noteq> None" if "\<not> rcCtx t" for m q
    using Cons that by auto
  show ?case by (auto simp: Let_def ih[unfolded not_None_eq] split: sum.split prod.split)
qed simp

lemma reconnectQUICLoop_ctx:
  "\<exists>t \<in> set tries. rcCtx t \<Longrightarrow> fst (reconnectQUICLoop local current es tries n r) \<noteq> None"
proof (induction tries arbitrary: n r)
  case (Cons t tries)
  have ih: "fst (reconnectQUICLoop local current es tries m q) \<noteq> None" if "\<not> rcCtx t" for m q
    using Cons that by auto
  show ?case by (auto simp: Let_def ih[unfolded not_None_eq] split: sum.split prod.split)
qed simp

lemma reconnectTCP_returns:
  assumes "tries_end (length es) tries"
  shows "fst (reconnectTCPKeepAliveForProbe a port current es tries r) \<noteq> None"
  using assms reconnectTCPLoop_ctx[of tries a port current es 0 r] reconnectTCPLoop_ends[of es 0 tries a port current r]
  by (auto simp: tries_end_def reconnectTCPKeepAliveForProbe_def)

lemma reconnectQUIC_returns:
  assumes "tries_end (length es) tries"
  shows "fst (reconnectQUICKeepAliveForProbe local current es tries r) \<noteq> None"
  using assms reconnectQUICLoop_ctx[of tries local current es 0 r] reconnectQUICLoop_ends[of es 0 tries local current r]
  by (auto simp: tries_end_def reconnectQUICKeepAliveForProbe_def)

section \<open>Sessions\<close>

lemma tcpSessions_returns:
  "tcp_ends (rnCfg r) ss \<Longrightarrow> fst (tcpSessions a port c probe ss r) \<noteq> None"
proof (induction ss arbitrary: c probe r)
  case Nil
  then show ?case by (simp add: tcp_ends_def)
next
  case (Cons s ss)
  let ?r1 = "if probe then probeWaits (tsWaiting s) (startTCPPublicProbe a port (tsProbes s) r) else r"
  have c1: "rnCfg ?r1 = rnCfg r" by (simp add: settings.keeps_waiting settings.keeps_startTCP)
  obtain e r2 where k: "tcpKeepAlive (opConn c) (opEndpoint c) (tsKeep s) (opLatency c) ?r1 = (e, r2)"
    by (cases "tcpKeepAlive (opConn c) (opEndpoint c) (tsKeep s) (opLatency c) ?r1")
  have "keep_ends (keepInterval (rnCfg ?r1)) (tsKeep s)" using Cons.prems c1 by (simp add: tcp_ends_def)
  from tcpKeepAlive_returns[OF this, of "opConn c" "opEndpoint c" "opLatency c"] k obtain x where x: "e = Some x" by auto
  let ?r4 = "emitClosed (tsNow s) ''tcp'' ''tcp'' (opEndpoint c) (opAddr c) x
      (closeConn (KeepConn (kcID (opConn c))) (untrack (KeepConn (kcID (opConn c))) r2))"
  have c4: "rnCfg ?r4 = rnCfg r"
    by (intro settings.keeps_emitClosed settings.keeps_drop settings.keeps_tcpKeepAlive[OF c1 k])
  show ?case
  proof (cases "tsCtx s \<or> \<not> err_is x ErrSessionClosed")
    case True
    with k x show ?thesis by (auto simp: Let_def)
  next
    case False
    obtain y r5 where y: "reconnectTCPKeepAliveForProbe a port (opEndpoint c) (keepAliveServers (rnCfg ?r4)) (tsTries s) ?r4 = (y, r5)"
      by (cases "reconnectTCPKeepAliveForProbe a port (opEndpoint c) (keepAliveServers (rnCfg ?r4)) (tsTries s) ?r4")
    have "tries_end (length (keepAliveServers (rnCfg ?r4))) (tsTries s)" using Cons.prems by (simp add: tcp_ends_def c4)
    from reconnectTCP_returns[OF this, of a port "opEndpoint c" ?r4] y obtain z where z: "y = Some z" by auto
    show ?thesis
    proof (cases z)
      case (Inl f)
      with k x y z False show ?thesis by (simp add: Let_def)
    next
      case (Inr d)
      let ?r6 = "emitKeepAlive (tsNow s) KeepAliveConnected ''tcp'' (Some (opAddr d)) (rttMessage ''tcp'' (opLatency d)) (opLatency d) r5"
      obtain skip r7 where s7: "skipTCPPublicProbeAfterReconnect (tsCheck s) a port ?r6 = (skip, r7)"
        by (cases "skipTCPPublicProbeAfterReconnect (tsCheck s) a port ?r6")
      have "rnCfg r5 = rnCfg r"
        using settings.keeps_reconnectLoop[OF c4] y unfolding reconnectTCPKeepAliveForProbe_def by blast
      then have "rnCfg ?r6 = rnCfg r" by (rule settings.keeps_alive)
      from settings.keeps_skip[OF this s7] have "tcp_ends (rnCfg r7) ss"
        using Cons.prems False by (auto simp: tcp_ends_def)
      from Cons.IH[OF this, of d "\<not> skip"] k x y z Inr s7 False show ?thesis by (simp add: Let_def)
    qed
  qed
qed

lemma udpSessions_returns:
  "udp_ends (rnCfg r) ss \<Longrightarrow> fst (udpSessions local a port c ss r) \<noteq> None"
proof (induction ss arbitrary: c r)
  case Nil
  then show ?case by (simp add: udp_ends_def)
next
  case (Cons s ss)
  let ?r1 = "startUDPPublicProbe a port (usProbes s) r"
  have c1: "rnCfg ?r1 = rnCfg r" by (simp add: settings.keeps_startUDP)
  obtain e r2 where k: "quicKeepAlive (qpEndpoint c) (qpAddr c) (usPeriods s) ?r1 = (e, r2)"
    by (cases "quicKeepAlive (qpEndpoint c) (qpAddr c) (usPeriods s) ?r1")
  have "periods_end (usPeriods s)" using Cons.prems by (simp add: udp_ends_def)
  from quicKeepAlive_returns[OF this, of "qpEndpoint c" "qpAddr c" ?r1] k obtain x where x: "e = Some x" by auto
  let ?r3 = "emitClosed (usNow s) ''udp'' ''udp/quic'' (qpEndpoint c) (qpAddr c) x
      (closeConn (QuicTransport (qpTransport c)) r2)"
  have c3: "rnCfg ?r3 = rnCfg r"
    by (intro settings.keeps_emitClosed settings.keeps_closing settings.keeps_quicKeepAlive[OF c1 k]) simp
  show ?case
  proof (cases "usCtx s \<or> \<not> err_is x ErrSessionClosed")
    case True
    with k x show ?thesis by (auto simp: Let_def)
  next
    case False
    obtain y r4 where y: "reconnectQUICKeepAliveForProbe local (qpEndpoint c) (keepAliveServers (rnCfg ?r3)) (usTries s) ?r3 = (y, r4)"
      by (cases "reconnectQUICKeepAliveForProbe local (qpEndpoint c) (keepAliveServers (rnCfg ?r3)) (usTries s) ?r3")
    have "tries_end (length (keepAliveServers (rnCfg ?r3))) (usTries s)" using Cons.prems by (simp add: udp_ends_def c3)
    from reconnectQUIC_returns[OF this, of local "qpEndpoint c" ?r3] y obtain z where z: "y = Some z" by auto
    show ?thesis
    proof (cases z)
      case (Inl f)
      with k x y z False show ?thesis by (simp add: Let_def)
    next
      case (Inr d)
      let ?r5 = "emitKeepAlive (usNow s) KeepAliveConnected ''udp'' (Some (qpAddr d)) (rttMessage ''quic'' (qpLatency d)) (qpLatency d) r4"
      have "rnCfg r4 = rnCfg r"
        using settings.keeps_reconnectQUICLoop[OF c3] y unfolding reconnectQUICKeepAliveForProbe_def by blast
      then have "rnCfg ?r5 = rnCfg r" by (rule settings.keeps_alive)
      then have "udp_ends (rnCfg ?r5) ss" using Cons.prems False by (auto simp: udp_ends_def)
      from Cons.IH[OF this, of d] k x y z Inr False show ?thesis by (simp add: Let_def)
    qed
  qed
qed

lemma runTCP_returns:
  assumes "\<And>a. tcp_ends (rnCfg r) (trSessions env a)"
  shows "fst (runTCP env r) \<noteq> None"
proof (cases "bindPort (trDraws env) r")
  case (Inl e)
  then show ?thesis by (simp add: runTCP_def Let_def)
next
  case (Inr x)
  obtain port r1 where b: "bindPort (trDraws env) r = Inr (port, r1)" using Inr by (cases x) auto
  let ?ip = "parseBindIP (cfgBindAddress (rnCfg r))"
  let ?o = "openTCPKeepAliveFromServers (trOpen env (?ip, port)) (keepAliveServers (rnCfg r1)) r1"
  obtain y r2 where o: "?o = (y, r2)" by (cases ?o)
  show ?thesis
  proof (cases y)
    case (Inl e)
    with b o show ?thesis by (simp add: runTCP_def Let_def)
  next
    case (Inr c)
    have c2: "rnCfg r2 = rnCfg r" using settings.keeps_openFrom[OF settings.keeps_bind[OF b refl] o] .
    let ?priv = "privateOf (kcLocal (opConn c)) ?ip"
    let ?local = "kcLocal (opConn c)"
    let ?r4 = "emitBound (trNow env) ''tcp'' ?priv (snd ?local) ?local (emitKeepAlive (trNow env) KeepAliveConnected ''tcp''
        (Some (opAddr c)) (rttMessage ''tcp'' (opLatency c)) (opLatency c) (keepBindPort (snd ?local) r2))"
    have "rnCfg ?r4 = rnCfg r" by (intro settings.keeps_emitBound settings.keeps_alive settings.keeps_keep c2)
    with assms have "tcp_ends (rnCfg ?r4) (trSessions env (?priv, snd ?local))" by simp
    from tcpSessions_returns[OF this, of ?priv "snd ?local" c True] b o Inr show ?thesis
      by (simp add: runTCP_def Let_def)
  qed
qed

lemma runUDPSocket_returns:
  assumes "\<And>a. udp_ends (rnCfg r) (urSessions env a)"
  shows "fst (runUDPSocket env ip local r) \<noteq> None"
proof -
  let ?o = "openQUICKeepAliveFromServers (urOpen env local) (keepAliveServers (rnCfg r)) quicInitialConnectTimeout r"
  obtain y r1 where o: "?o = (y, r1)" by (cases ?o)
  show ?thesis
  proof (cases y)
    case (Inl e)
    with o show ?thesis by (simp add: runUDPSocket_def Let_def)
  next
    case (Inr c)
    have c1: "rnCfg r1 = rnCfg r" using settings.keeps_openQUICFrom[OF refl o] .
    let ?priv = "privateOf local ip"
    let ?r3 = "emitBound (urNow env) ''udp'' ?priv (snd local) local (emitKeepAlive (urNow env) KeepAliveConnected ''udp''
        (Some (qpAddr c)) (rttMessage ''quic'' (qpLatency c)) (qpLatency c) r1)"
    have "rnCfg ?r3 = rnCfg r" by (intro settings.keeps_emitBound settings.keeps_alive c1)
    with assms have "udp_ends (rnCfg ?r3) (urSessions env (?priv, snd local))" by simp
    from udpSessions_returns[OF this, of local ?priv "snd local" c] o Inr show ?thesis
      by (simp add: runUDPSocket_def Let_def)
  qed
qed

lemma runUDP_returns:
  assumes "\<And>a. udp_ends (rnCfg r) (urSessions env a)"
  shows "fst (runUDP env r) \<noteq> None"
proof (cases "bindPort (urDraws env) r")
  case (Inl e)
  then show ?thesis by (simp add: runUDP_def Let_def)
next
  case (Inr x)
  obtain port r1 where b: "bindPort (urDraws env) r = Inr (port, r1)" using Inr by (cases x) auto
  let ?ip = "parseBindIP (cfgBindAddress (rnCfg r))"
  show ?thesis
  proof (cases "urListen env (?ip, port)")
    case (Inl e)
    with b show ?thesis by (simp add: runUDP_def Let_def)
  next
    case (Inr y)
    obtain i local where l: "urListen env (?ip, port) = Inr (i, local)" using Inr by (cases y) auto
    let ?q = "keepBindPort (snd local) (track (UdpSocket i) (openConn (UdpSocket i) r1))"
    have "rnCfg ?q = rnCfg r"
      by (intro settings.keeps_keep settings.keeps_track settings.keeps_opening settings.keeps_bind[OF b refl])
    with assms have "\<And>a. udp_ends (rnCfg ?q) (urSessions env a)" by simp
    from runUDPSocket_returns[OF this, of ?ip local] b l show ?thesis
      by (auto simp: runUDP_def Let_def split: prod.split option.split)
  qed
qed

section \<open>The runner\<close>

lemma runLoop_stops:
  assumes "\<forall>it \<in> set its. \<forall>a. tcp_ends (rnCfg r) (trSessions (itTCP it) a) \<and> udp_ends (rnCfg r) (urSessions (itUDP it) a)"
    and "\<exists>it \<in> set its. itDoneBefore it \<or> itDoneAfter it \<or> itDoneWait it"
  shows "rnDone (runLoop its r)"
  using assms
proof (induction its arbitrary: r)
  case Nil
  then show ?case by simp
next
  case (Cons it its)
  obtain e r1 where o: "runOnce (itTCP it) (itUDP it) r = (e, r1)" by (cases "runOnce (itTCP it) (itUDP it) r")
  have ends: "tcp_ends (rnCfg r) (trSessions (itTCP it) a)" "udp_ends (rnCfg r) (urSessions (itUDP it) a)" for a
    using Cons.prems(1) list.set_intros(1)[of it its] by blast+
  have "fst (runTCP (itTCP it) r) \<noteq> None" by (rule runTCP_returns) (rule ends)
  moreover have "fst (runUDP (itUDP it) r) \<noteq> None" by (rule runUDP_returns) (rule ends)
  ultimately have "fst (runOnce (itTCP it) (itUDP it) r) \<noteq> None" by (simp add: runOnce_def)
  with o obtain x where x: "e = Some x" by auto
  have c1: "rnCfg r1 = rnCfg r" using runOnce_fields[OF o] by simp
  have ih: "rnDone (runLoop its q)" if "\<not> (itDoneBefore it \<or> itDoneAfter it \<or> itDoneWait it)" "rnCfg q = rnCfg r" for q
    using Cons.prems that by (intro Cons.IH) auto
  from o x c1 ih show ?case by (simp add: Let_def runReturn_def settings.keeps_emit)
qed

text \<open>
  C28: A stop ends a runner. Take any runner and any behaviour of the network in which the clock
  reaches the deadline of every wait, in which a connection is lost or the context is done at
  some time of its life, and in which the context is done at some time of every session and at one
  of the places where \<open>Run\<close> asks for it: then \<open>Run\<close> returns, over TCP and over UDP, whatever
  ports, names, connections, requests, probes and reconnects failed on the way. No loop of the
  program keeps a stopped runner.
\<close>

theorem stopped_runner_returns:
  assumes "\<forall>it \<in> set its. \<forall>a. tcp_ends (rnCfg r) (trSessions (itTCP it) a) \<and> udp_ends (rnCfg r) (urSessions (itUDP it) a)"
    and "\<exists>it \<in> set its. itDoneBefore it \<or> itDoneAfter it \<or> itDoneWait it"
  shows "rnDone (Run now its r)"
proof -
  have "rnCfg (runBegin now r) = rnCfg r" by (simp add: runBegin_def settings.keeps_emit)
  with assms show ?thesis unfolding Run_def by (intro runLoop_stops) simp_all
qed

text \<open>
  Two connections: the first answers one request and is then closed by the server, after which
  the context is done.
\<close>

definition answeredRound :: keepRound where
  "answeredRound = closingRound\<lparr>
     kdRequest := (kdRequest closingRound)\<lparr>krResponse := Inr False\<rparr>,
     kdWait := [\<lparr>wsCtx = False, wsNow = 1 + max_int64, wsSetDeadline = (\<lambda>_. None), wsPeek = Inr 0, wsCtxAfter = False\<rparr>]\<rparr>"

definition stoppedTry :: "'e \<Rightarrow> 'e reconnectTry" where
  "stoppedTry env = (plainTry env)\<lparr>rcCtx := True\<rparr>"

definition answeringServer :: tcpOpenEnv where
  "answeringServer = noName\<lparr>toResolve := Inr ([10, 0, 0, 2], 80),
     toDial := (\<lparr>dtResult = Inr (opConn sampleConn), dtCtx = None, dtWait = None\<rparr>, []),
     toRequest := kdRequest answeredRound\<rparr>"

definition stoppedQuic :: quicPeriod where
  "stoppedQuic = \<lparr>qpWait = QuicCtx, qpRequest = \<lparr>h3New = None, h3RoundTrip = (\<lambda>_ _. None)\<rparr>, qpCtxAfter = True,
     qpStats = None, qpElapsed = 0, qpNow = 4\<rparr>"

definition stoppedIter :: runIter where
  "stoppedIter = stoppingRun\<lparr>
     itTCP := (itTCP stoppingRun)\<lparr>trOpen := (\<lambda>_ _. answeringServer),
       trSessions := (\<lambda>_. [closingSession\<lparr>tsKeep := [answeredRound, closingRound \<lparr>kdWait := kdWait answeredRound\<rparr>],
         tsTries := [stoppedTry noName]\<rparr>])\<rparr>,
     itUDP := (itUDP stoppingRun)\<lparr>urSessions := (\<lambda>_. [\<lparr>usProbes = [], usPeriods = [stoppedQuic], usNow = 4,
       usCtx = True, usTries = [stoppedTry noNameQuic]\<rparr>])\<rparr>\<rparr>"

lemma stopped_iter_ends: "tcp_ends cfg (trSessions (itTCP stoppedIter) a)" "udp_ends cfg (urSessions (itUDP stoppedIter) a)"
proof -
  have "keepInterval cfg \<le> max_int64" using wrap64_range by (simp add: keepInterval_def)
  then have w: "wait_ends (keepInterval cfg) answeredRound"
    "wait_ends (keepInterval cfg) (closingRound\<lparr>kdWait := kdWait answeredRound\<rparr>)"
    by (simp_all add: wait_ends_def answeredRound_def closingRound_def)
  have k: "request_ends (kdRequest (closingRound\<lparr>kdWait := ws\<rparr>))" for ws
    by (simp add: request_ends_def closingRound_def)
  have t: "tries_end n [stoppedTry e]" for n and e :: 'e
    by (simp add: tries_end_def stoppedTry_def)
  from w k t show "tcp_ends cfg (trSessions (itTCP stoppedIter) a)"
    by (simp add: tcp_ends_def keep_ends_def stoppedIter_def closingSession_def)
  from t show "udp_ends cfg (urSessions (itUDP stoppedIter) a)"
    by (simp add: udp_ends_def periods_end_def stoppedIter_def stoppedQuic_def)
qed

lemma stopped_runner_returns_witness: "rnDone (Run 1 [stoppedIter] sampleRunner)"
proof (rule stopped_runner_returns)
  show "\<exists>it \<in> set [stoppedIter]. itDoneBefore it \<or> itDoneAfter it \<or> itDoneWait it"
    by (simp add: stoppedIter_def stoppingRun_def)
qed (simp add: stopped_iter_ends del: split_paired_All)

end
