(* ===== verification/Store_Registry.thy ===== *)
theory Store_Registry
  imports Store_Props
begin

text \<open>
  What the store promises to the rest of the program, as an abstract machine: a registry of
  configurations and saved mappings in memory, and the last content that was written to the
  file. Every step of the store, whatever the file system does, is a step of this machine.
\<close>

section \<open>The registry\<close>

record content =
  ctConfigs :: "string \<rightharpoonup> instanceConfig"
  ctMappings :: "string \<rightharpoonup> persistedRuntimeStatus"

datatype edit =
    Create string instanceConfig
  | Replace string instanceConfig
  | Discard string
  | Record string persistedRuntimeStatus
  | Forget string
  | Touch

text \<open>An edit and where it is allowed; discarding an instance also forgets its mapping.\<close>

fun applyEdit :: "edit \<Rightarrow> content \<Rightarrow> content" where
  "applyEdit (Create i c) m = m\<lparr>ctConfigs := (ctConfigs m)(i \<mapsto> c)\<rparr>"
| "applyEdit (Replace i c) m = m\<lparr>ctConfigs := (ctConfigs m)(i \<mapsto> c)\<rparr>"
| "applyEdit (Discard i) m = m\<lparr>ctConfigs := (ctConfigs m)(i := None), ctMappings := (ctMappings m)(i := None)\<rparr>"
| "applyEdit (Record i p) m = m\<lparr>ctMappings := (ctMappings m)(i \<mapsto> p)\<rparr>"
| "applyEdit (Forget i) m = m\<lparr>ctMappings := (ctMappings m)(i := None)\<rparr>"
| "applyEdit Touch m = m"

fun allowed :: "edit \<Rightarrow> content \<Rightarrow> bool" where
  "allowed (Create i c) m \<longleftrightarrow> ctConfigs m i = None \<and> cfgID c = i \<and> config_ok c"
| "allowed (Replace i c) m \<longleftrightarrow> ctConfigs m i \<noteq> None \<and> cfgID c = i \<and> config_ok c"
| "allowed (Discard i) m \<longleftrightarrow> ctConfigs m i \<noteq> None"
| "allowed (Record i p) m \<longleftrightarrow> i \<noteq> [] \<and> prPublicAddress p \<noteq> [] \<and> prPublicPort p \<noteq> 0"
| "allowed (Forget i) m \<longleftrightarrow> ctMappings m i \<noteq> None"
| "allowed Touch m \<longleftrightarrow> True"

definition emptyContent :: content where
  "emptyContent = \<lparr>ctConfigs = (\<lambda>_. None), ctMappings = (\<lambda>_. None)\<rparr>"

text \<open>
  The steps of a registry, a pair of the memory and the file: a refusal, an edit that is
  saved, an edit whose save fails (the memory keeps it), a restart, and a first start.
\<close>

inductive reg_step :: "content \<times> content option \<Rightarrow> content \<times> content option \<Rightarrow> bool" where
  reg_refuse: "reg_step x x"
| reg_saved: "allowed e m \<Longrightarrow> reg_step (m, f) (applyEdit e m, Some (applyEdit e m))"
| reg_unsaved: "allowed e m \<Longrightarrow> reg_step (m, f) (applyEdit e m, f)"
| reg_restart: "reg_step (m, Some c) (c, Some c)"
| reg_fresh: "reg_step (m, None) (emptyContent, Some emptyContent)"

section \<open>The registry of a store\<close>

definition contentOf :: "database \<Rightarrow> content" where
  "contentOf db = \<lparr>ctConfigs = (\<lambda>i. find (\<lambda>c. cfgID c = i) (dbItems db)), ctMappings = dbRuntime db\<rparr>"

definition fileContent :: "disk \<Rightarrow> content option" where
  "fileContent d = (case dkFile d of DbFile db \<Rightarrow> Some (contentOf db) | _ \<Rightarrow> None)"

definition registryOf :: "store \<times> disk \<Rightarrow> content \<times> content option" where
  "registryOf x = (contentOf (stoDB (fst x)), fileContent (snd x))"

lemma contentOf_refresh [simp]: "contentOf (stoDB (refreshAdminFromDiskLocked s d)) = contentOf (stoDB s)"
  by (simp add: contentOf_def)

lemma fileContent_saved [simp]: "fileContent \<lparr>dkFile = DbFile db, dkTmp = x\<rparr> = Some (contentOf db)"
  by (simp add: fileContent_def)

lemma fileContent_cong: "dkFile d' = dkFile d \<Longrightarrow> fileContent d' = fileContent d"
  by (simp add: fileContent_def)

text \<open>
  An edit of the database in memory that is then saved, or not. An edit that is saved leaves
  its result in both.
\<close>

definition edits :: "edit \<Rightarrow> io \<Rightarrow> store \<Rightarrow> disk \<Rightarrow> unit res \<Rightarrow> store \<times> disk \<Rightarrow> bool" where
  "edits e io s d u y \<longleftrightarrow> (\<exists>t. saveLocked io t d = (u, y) \<and>
     contentOf (stoDB t) = applyEdit e (contentOf (stoDB s)) \<and> allowed e (contentOf (stoDB s)))"

definition completes :: "edit \<Rightarrow> content \<times> content option \<Rightarrow> content \<times> content option \<Rightarrow> bool" where
  "completes e x y \<longleftrightarrow> allowed e (fst x) \<and> y = (applyEdit e (fst x), Some (applyEdit e (fst x)))"

lemma editsI:
  "saveLocked io t d = (u, s', d') \<Longrightarrow> contentOf (stoDB t) = applyEdit e (contentOf (stoDB s)) \<Longrightarrow>
     allowed e (contentOf (stoDB s)) \<Longrightarrow> edits e io s d u (s', d')"
  by (auto simp: edits_def)

lemma edits_completes:
  assumes "edits e io s d (Inr ()) (s', d')" and "db_ok (stoDB s')"
  shows "completes e (registryOf (s, d)) (registryOf (s', d'))"
proof -
  from assms(1) obtain t where t: "saveLocked io t d = (Inr (), s', d')"
    "contentOf (stoDB t) = applyEdit e (contentOf (stoDB s))" "allowed e (contentOf (stoDB s))"
    by (auto simp: edits_def)
  from t(1) show ?thesis
    by (cases rule: saveLocked_cases) (use t(2,3) assms(2) in \<open>simp_all add: registryOf_def completes_def\<close>)
qed

lemma edits_step:
  assumes "edits e io s d u (s', d')" and "db_ok (stoDB s')"
  shows "reg_step (registryOf (s, d)) (registryOf (s', d'))"
proof (cases u)
  case (Inr x)
  with edits_completes[of e io s d s' d'] assms reg_saved[of e "contentOf (stoDB s)"] show ?thesis
    by (simp add: completes_def registryOf_def)
next
  case (Inl x)
  with assms(1) obtain t where t: "saveLocked io t d = (Inl x, s', d')"
    "contentOf (stoDB t) = applyEdit e (contentOf (stoDB s))" "allowed e (contentOf (stoDB s))"
    by (auto simp: edits_def)
  from t(1) have "registryOf (s', d') = (applyEdit e (contentOf (stoDB s)), fileContent d)"
  proof (cases rule: saveLocked_cases)
    case (failed e)
    from fileContent_cong[OF failed(3)] t(2) show ?thesis by (simp add: registryOf_def failed(2))
  qed simp
  with reg_unsaved[OF t(3)] show ?thesis by (simp add: registryOf_def)
qed

text \<open>An operation is refused without any effect, or it edits; its result is that of the save.\<close>

definition reported :: "unit res \<Rightarrow> 'a \<Rightarrow> 'a res" where
  "reported u x = (case u of Inl e \<Rightarrow> Inl e | Inr v \<Rightarrow> Inr x)"

lemma reported_Inr [simp]: "reported u x = Inr y \<longleftrightarrow> u = Inr () \<and> y = x"
  by (cases u) (auto simp: reported_def)

lemma Inr_reported [simp]: "Inr y = reported u x \<longleftrightarrow> u = Inr () \<and> y = x"
  by (cases u) (auto simp: reported_def)

lemma saveThen_edits:
  assumes "saveThen io f t d = (r, s', d')"
    and "contentOf (stoDB t) = applyEdit e (contentOf (stoDB s))" and "allowed e (contentOf (stoDB s))"
  shows "\<exists>u. edits e io s d u (s', d') \<and> r = reported u (f s')"
proof -
  obtain u x y where sv: "saveLocked io t d = (u, x, y)" by (cases "saveLocked io t d")
  with assms(1) have "x = s'" "y = d'" "r = reported u (f s')"
    by (cases u; simp add: saveThen_def reported_def)+
  with sv have "saveLocked io t d = (u, s', d')" "r = reported u (f s')" by simp_all
  with editsI[OF _ assms(2,3)] show ?thesis by blast
qed

lemma content_add:
  assumes "cfgID n \<notin> cfgID ` set (items s)"
  shows "contentOf (stoDB (setItems (items s @ [n]) s)) = applyEdit (Create (cfgID n) n) (contentOf (stoDB s))"
  using find_append_new(1)[OF assms, of n] find_append_new(2)[of _ n "items s"]
  by (auto simp: contentOf_def)

lemma find_filter_id:
  "find (\<lambda>c. cfgID c = j) (filter (\<lambda>c. cfgID c \<noteq> i) cs) = (if j = i then None else find (\<lambda>c. cfgID c = j) cs)"
  by (induction cs) auto

text \<open>The configuration that is stored for the one that is posted.\<close>

definition addedConfig :: "byte list option \<Rightarrow> instanceConfig \<Rightarrow> instanceConfig" where
  "addedConfig rnd cfg = normalizeConfig (if cfgID cfg = [] then cfg\<lparr>cfgID := newID rnd\<rparr> else cfg)"

definition changedConfig :: "string \<Rightarrow> instanceConfig \<Rightarrow> instanceConfig" where
  "changedConfig i cfg = normalizeConfig (cfg\<lparr>cfgID := i\<rparr>)"

lemma Add_edits:
  fixes cfg rnd
  defines "n \<equiv> addedConfig rnd cfg"
  assumes "AddInstance rnd cfg io s d = (r, s', d')" and "json_config cfg = cfg" and "random_id rnd"
  shows "isl r \<and> s' = s \<and> d' = d \<or>
    (\<exists>u. edits (Create (cfgID n) n) io s d u (s', d') \<and> r = reported u (resolveConfigLocked (options s') n))"
proof (cases "\<exists>u. validateConfigLocked (options s) n = Inr u \<and> \<not> list_ex (\<lambda>x. cfgID x = cfgID n) (items s)")
  case False
  with assms(2) show ?thesis by (auto simp: n_def addedConfig_def AddInstance_def Let_def split: sum.splits if_splits)
next
  case True
  let ?raw = "if cfgID cfg = [] then cfg\<lparr>cfgID := newID rnd\<rparr> else cfg"
  have j: "json_config ?raw = ?raw" "cfgID ?raw \<noteq> []"
    using assms(3) newID_ne[OF assms(4)] by (cases cfg, auto simp: json_config_def)
  from True obtain u where u: "validateConfigLocked (options s) n = Inr u"
    and fresh: "\<not> list_ex (\<lambda>x. cfgID x = cfgID n) (items s)" by blast
  have sv: "saveThen io (\<lambda>s'. resolveConfigLocked (options s') n) (setItems (items s @ [n]) s) d = (r, s', d')"
    using assms(2) u fresh by (simp add: n_def addedConfig_def AddInstance_def Let_def)
  from fresh have new: "cfgID n \<notin> cfgID ` set (items s)" by (auto simp: list_ex_iff)
  then have "find (\<lambda>x. cfgID x = cfgID n) (items s) = None" by (rule find_id_None[THEN iffD2])
  with config_ok_normalized[OF j u[unfolded n_def addedConfig_def]] have "allowed (Create (cfgID n) n) (contentOf (stoDB s))"
    by (simp add: contentOf_def n_def addedConfig_def)
  from saveThen_edits[OF sv content_add[OF new] this] show ?thesis by blast
qed

lemma Update_edits:
  fixes cfg i
  defines "n \<equiv> changedConfig i cfg"
  assumes "UpdateInstance i cfg io s d = (r, s', d')" and "json_config cfg = cfg" and "db_ok (stoDB s)"
  shows "isl r \<and> s' = s \<and> d' = d \<or>
    (\<exists>u. edits (Replace i n) io s d u (s', d') \<and> r = reported u (resolveConfigLocked (options s') n))"
proof (cases "\<exists>u cs. validateConfigLocked (options s) n = Inr u \<and> replaceFirst i n (items s) = Some cs")
  case False
  with assms(2) show ?thesis by (auto simp: n_def changedConfig_def UpdateInstance_def Let_def split: sum.splits option.splits)
next
  case True
  then obtain u cs where u: "validateConfigLocked (options s) n = Inr u"
    and cs: "replaceFirst i n (items s) = Some cs" by blast
  have j: "json_config (cfg\<lparr>cfgID := i\<rparr>) = cfg\<lparr>cfgID := i\<rparr>" using assms(3) by (cases cfg) (simp add: json_config_def)
  have id: "cfgID n = i" by (simp add: n_def changedConfig_def)
  have mem: "i \<in> cfgID ` set (items s)" using cs replaceFirst_None[of i n "items s"] by force
  then have "i \<noteq> []" using assms(4) by (auto simp: db_ok_def list_all_iff config_ok_def)
  then have ok: "config_ok n" using config_ok_normalized[OF j _ u[unfolded n_def changedConfig_def]] by (simp add: n_def changedConfig_def)
  have sv: "saveThen io (\<lambda>s'. resolveConfigLocked (options s') n) (setItems cs s) d = (r, s', d')"
    using assms(2) u cs by (simp add: n_def changedConfig_def UpdateInstance_def Let_def)
  have "contentOf (stoDB (setItems cs s)) = applyEdit (Replace i n) (contentOf (stoDB s))"
    using replaceFirst_Some[OF cs id] by (auto simp: contentOf_def)
  moreover have "allowed (Replace i n) (contentOf (stoDB s))"
    using mem find_id_None[of i "items s"] ok id by (simp add: contentOf_def)
  ultimately show ?thesis using saveThen_edits[OF sv] by blast
qed

lemma Delete_edits:
  assumes "DeleteInstance i io s d = (r, s', d')" and "db_ok (stoDB s)"
  shows "isl r \<and> s' = s \<and> d' = d \<or> edits (Discard i) io s d r (s', d')"
proof (cases "removeFirst i (items s)")
  case None
  with assms(1) show ?thesis by (auto simp: DeleteInstance_def)
next
  case (Some cs)
  let ?t = "setRuntimes ((runtimes s)(i := None)) (setItems cs s)"
  have sv: "saveLocked io ?t d = (r, s', d')" using assms(1) Some by (simp add: DeleteInstance_def)
  have cs: "cs = filter (\<lambda>x. cfgID x \<noteq> i) (items s)"
    using removeFirst_Some[OF Some] assms(2) by (simp add: db_ok_def)
  have "contentOf (stoDB ?t) = applyEdit (Discard i) (contentOf (stoDB s))"
    by (auto simp: contentOf_def cs find_filter_id)
  moreover have "allowed (Discard i) (contentOf (stoDB s))"
    using Some removeFirst_None[of i "items s"] find_id_None[of i "items s"] by (auto simp: contentOf_def)
  ultimately show ?thesis using editsI[OF sv] by blast
qed

definition saveIgnored :: "string \<Rightarrow> runtimeStatus \<Rightarrow> content \<Rightarrow> bool" where
  "saveIgnored i st m \<longleftrightarrow> i = [] \<or> stPublicAddress st = [] \<or> stPublicPort st = 0 \<or> ctMappings m i = Some (persisted st)"

definition clearIgnored :: "string \<Rightarrow> content \<Rightarrow> bool" where
  "clearIgnored i m \<longleftrightarrow> i = [] \<or> ctMappings m i = None"

lemma Save_edits:
  assumes "SaveRuntimeStatus i st io s d = (r, s', d')"
  shows "if saveIgnored i st (contentOf (stoDB s)) then r = Inr () \<and> s' = s \<and> d' = d
    else edits (Record i (persisted st)) io s d r (s', d')"
proof (cases "saveIgnored i st (contentOf (stoDB s))")
  case True
  with assms show ?thesis by (auto simp: saveIgnored_def contentOf_def SaveRuntimeStatus_def split: if_splits)
next
  case False
  then have "saveLocked io (setRuntimes ((runtimes s)(i \<mapsto> persisted st)) s) d = (r, s', d')"
    using assms by (simp add: saveIgnored_def contentOf_def SaveRuntimeStatus_def)
  from editsI[OF this, of "Record i (persisted st)" s] False show ?thesis
    by (simp add: saveIgnored_def contentOf_def persisted_def)
qed

lemma Clear_edits:
  assumes "ClearRuntimeStatus i io s d = (r, s', d')"
  shows "if clearIgnored i (contentOf (stoDB s)) then r = Inr () \<and> s' = s \<and> d' = d
    else edits (Forget i) io s d r (s', d')"
proof (cases "clearIgnored i (contentOf (stoDB s))")
  case True
  with assms show ?thesis by (auto simp: clearIgnored_def contentOf_def ClearRuntimeStatus_def split: if_splits)
next
  case False
  then have "saveLocked io (setRuntimes ((runtimes s)(i := None)) s) d = (r, s', d')"
    using assms by (auto simp: clearIgnored_def contentOf_def ClearRuntimeStatus_def)
  from editsI[OF this, of "Forget i" s] False show ?thesis
    by (auto simp: clearIgnored_def contentOf_def)
qed

lemma Groups_step:
  assumes "UpdateServerGroups g io s d = (r, s', d')" and "db_ok (stoDB s')"
  shows "reg_step (registryOf (s, d)) (registryOf (s', d'))"
proof -
  let ?t = "s\<lparr>stoDB := (stoDB s)\<lparr>dbOptions := newServerLists g (options s)\<rparr>\<rparr>"
  from assms(1) have "s' = s \<and> d' = d \<or> saveThen io (\<lambda>s'. serverGroupsOf (options s')) ?t d = (r, s', d')"
    by (auto simp: UpdateServerGroups_def Let_def split: sum.splits)
  then show ?thesis
  proof
    assume sv: "saveThen io (\<lambda>s'. serverGroupsOf (options s')) ?t d = (r, s', d')"
    have "contentOf (stoDB ?t) = applyEdit Touch (contentOf (stoDB s))" by (simp add: contentOf_def)
    from saveThen_edits[OF sv this] obtain u where "edits Touch io s d u (s', d')" by auto
    then show ?thesis using assms(2) by (rule edits_step)
  qed (simp add: reg_refuse)
qed

lemma content_normalized: "db_ok db \<Longrightarrow> contentOf (normalizeDB db) = contentOf db"
  using normalizeDB_ok[of db] by (simp add: contentOf_def)

lemma Open_step:
  assumes "OpenStore path u p r1 r2 now io d = (Inr (s', g), d')" and "disk_ok d"
  shows "reg_step (registryOf (s, d)) (registryOf (s', d'))"
proof (cases "\<exists>db. dkFile d = DbFile db")
  case True
  then obtain db where DbFile: "dkFile d = DbFile db" by blast
  with assms have "stoDB s' = normalizeDB db" "d' = d" "db_ok db"
    by (auto simp: OpenStore_def normalizeLocked_def disk_ok_def)
  with DbFile reg_restart[of "contentOf (stoDB s)" "contentOf db"] show ?thesis
    by (simp add: registryOf_def fileContent_def content_normalized)
next
  case False
  with assms(1) have "createStore path u p r1 r2 now io d = (Inr (s', g), d')"
    by (cases "dkFile d") (auto simp: OpenStore_def split: if_splits)
  then obtain adm where sv: "saveLocked io \<lparr>stoPath = path, stoDB = freshDB adm\<rparr> d = (Inr (), s', d')"
    by (auto simp: createStore_def split: sum.splits prod.splits)
  have e: "contentOf (freshDB a) = emptyContent" for a
    by (simp add: contentOf_def freshDB_def emptyContent_def)
  from sv have "registryOf (s', d') = (emptyContent, Some emptyContent)"
    by (cases rule: saveLocked_cases) (simp_all add: registryOf_def freshDB_ok e)
  moreover have "fileContent d = None" using False by (auto simp: fileContent_def split: dataFile.split)
  ultimately show ?thesis using reg_fresh[of "contentOf (stoDB s)"] by (simp add: registryOf_def)
qed

lemma Password_step:
  assumes "ChangeAdminPassword path u p rnd now io d = (r, d')" and "disk_ok d"
  shows "fileContent d' = fileContent d"
  using assms(1)
proof (cases rule: ChangeAdminPassword_cases)
  case (saves db adm s')
  let ?db = "(json_view db)\<lparr>dbAdmin := adm\<lparr>admLastPassword := now\<rparr>\<rparr>"
  have ok: "db_ok db" using assms(2) saves(1) by (simp add: disk_ok_def)
  then have o: "db_ok ?db" by simp
  have n: "db_ok (normalizeDB ?db)" using normalizeDB_ok[OF o] by (rule conjunct1)
  have c: "contentOf (normalizeDB ?db) = contentOf db"
    unfolding content_normalized[OF o] using ok by (simp add: contentOf_def)
  from saves(3) show ?thesis
  proof (cases rule: saveLocked_cases)
    case saved
    with n c saves(1) show ?thesis by (simp add: fileContent_def)
  next
    case (failed e)
    from fileContent_cong[OF failed(3)] show ?thesis .
  qed
qed simp

text \<open>
  C2: The store refines the registry: in every reachable state, whatever operation is called
  with whatever arguments, whatever the file system does, after a restart, and when another
  process changes the password between two operations, what happens to the instances and mappings in memory and in
  the file is one step of the abstract registry: nothing, or one allowed edit of the memory
  that the file either receives completely or does not see at all, or a restart that takes the
  memory from the file. The saves of the two processes do not overlap here; what happens when
  they do is shown in \<open>Store_Props\<close>.
\<close>

theorem store_refines_registry:
  assumes "store_reach x" and "store_step x y"
  shows "reg_step (registryOf x) (registryOf y)"
proof -
  from store_reach_ok[OF assms(1)] have ok: "db_ok (stoDB (fst x))" "disk_ok (snd x)" by simp_all
  from store_step_ok[OF assms(2) ok] have ok': "db_ok (stoDB (fst y))" by simp
  from assms(2) ok ok' show ?thesis
  proof cases
    case (step_add rnd cfg io s d r s' d')
    with ok' Add_edits[OF step_add(3-5)] show ?thesis by (auto simp: reg_refuse intro: edits_step)
  next
    case (step_update i cfg io s d r s' d')
    with ok ok' Update_edits[OF step_update(3,4)] show ?thesis by (auto simp: reg_refuse intro: edits_step)
  next
    case (step_delete i io s d u s' d')
    with ok ok' Delete_edits[OF step_delete(3)] show ?thesis by (auto simp: reg_refuse intro: edits_step)
  next
    case (step_groups g io s d q s' d')
    with ok' Groups_step[OF step_groups(3)] show ?thesis by simp
  next
    case (step_save i st io s d u s' d')
    with ok' Save_edits[OF step_save(3)] show ?thesis by (auto simp: reg_refuse intro: edits_step split: if_splits)
  next
    case (step_clear i io s d u s' d')
    with ok' Clear_edits[OF step_clear(3)] show ?thesis by (auto simp: reg_refuse intro: edits_step split: if_splits)
  next
    case (step_admin s d a s')
    then have "registryOf y = registryOf x" by (auto simp: registryOf_def Admin_def Let_def)
    then show ?thesis by (simp add: reg_refuse)
  next
    case (step_reopen s name pw r1 r2 now io d s' g' d')
    with ok Open_step[OF step_reopen(3), of s] show ?thesis by simp
  next
    case (step_password s name pw r2 now io d u d')
    with ok Password_step[OF step_password(3)] have "registryOf y = registryOf x" by (simp add: registryOf_def)
    then show ?thesis by (simp add: reg_refuse)
  qed
qed

lemma store_refines_registry_witness:
  "reg_step (registryOf (demoStore, demoDisk)) (registryOf (demoStore2, demoDisk2))"
proof -
  have "json_config sampleConfig = sampleConfig"
    by (simp add: json_config_def sampleConfig_def zeroConfig_def)
  from step_add[OF demo_add this] have "store_step (demoStore, demoDisk) (demoStore2, demoDisk2)"
    by (simp add: random_id_def)
  with demo_reach show ?thesis by (rule store_refines_registry)
qed

section \<open>Success is the effect\<close>

lemma db_ok_after: "store_reach (s, d) \<Longrightarrow> store_step (s, d) (s', d') \<Longrightarrow> db_ok (stoDB s')"
  using store_reach_ok[of "(s, d)"] store_step_ok[of "(s, d)" "(s', d')"] by simp

text \<open>
  C3: An operation that reports success has had exactly its effect, in memory and in the file: in
  a reachable store, a successful \<open>AddInstance\<close> has created the normalised configuration under
  an identifier that was free and returns it, a successful \<open>UpdateInstance\<close> has replaced the
  instance by the normalised configuration, a successful \<open>DeleteInstance\<close> has removed an existing
  instance together with its saved mapping, and the mapping of a report is recorded, or
  forgotten, unless there is nothing to record or to forget. Nothing else changes, and the file
  has the content of the memory.
\<close>

theorem successful_operations_take_effect:
  assumes "store_reach (s, d)" and "json_config cfg = cfg" and "random_id rnd"
  shows "(AddInstance rnd cfg io s d = (Inr c, s', d') \<longrightarrow> c = resolveConfigLocked (options s') (addedConfig rnd cfg) \<and>
      completes (Create (cfgID c) (addedConfig rnd cfg)) (registryOf (s, d)) (registryOf (s', d'))) \<and>
    (UpdateInstance i cfg io s d = (Inr c, s', d') \<longrightarrow> c = resolveConfigLocked (options s') (changedConfig i cfg) \<and>
      completes (Replace i (changedConfig i cfg)) (registryOf (s, d)) (registryOf (s', d'))) \<and>
    (DeleteInstance i io s d = (Inr (), s', d') \<longrightarrow>
      completes (Discard i) (registryOf (s, d)) (registryOf (s', d'))) \<and>
    (SaveRuntimeStatus i st io s d = (Inr (), s', d') \<longrightarrow>
      (if saveIgnored i st (contentOf (stoDB s)) then s' = s \<and> d' = d
       else completes (Record i (persisted st)) (registryOf (s, d)) (registryOf (s', d')))) \<and>
    (ClearRuntimeStatus i io s d = (Inr (), s', d') \<longrightarrow>
      (if clearIgnored i (contentOf (stoDB s)) then s' = s \<and> d' = d
       else completes (Forget i) (registryOf (s, d)) (registryOf (s', d'))))"
proof (intro conjI impI, goal_cases)
  case 1
  with Add_edits[OF _ assms(2,3)] show ?case by force
next
  case 2
  then have "db_ok (stoDB s')" using db_ok_after[OF assms(1) step_add[OF _ assms(2,3)]] by blast
  with Add_edits[OF 2 assms(2,3)] show ?case by (auto intro: edits_completes)
next
  case 3
  with Update_edits[OF _ assms(2)] store_reach_ok[OF assms(1)] show ?case by force
next
  case 4
  then have "db_ok (stoDB s')" using db_ok_after[OF assms(1) step_update[OF _ assms(2)]] by blast
  with Update_edits[OF 4 assms(2)] store_reach_ok[OF assms(1)] show ?case by (auto intro: edits_completes)
next
  case 5
  then have "db_ok (stoDB s')" using db_ok_after[OF assms(1) step_delete] by blast
  with Delete_edits[OF 5] store_reach_ok[OF assms(1)] show ?case by (auto intro: edits_completes)
next
  case 6
  then have "db_ok (stoDB s')" using db_ok_after[OF assms(1) step_save] by blast
  with Save_edits[OF 6] show ?case by (auto intro: edits_completes split: if_splits)
next
  case 7
  then have "db_ok (stoDB s')" using db_ok_after[OF assms(1) step_clear] by blast
  with Clear_edits[OF 7] show ?case by (auto intro: edits_completes split: if_splits)
qed

lemma successful_operations_take_effect_witness:
  "completes (Create ''web'' (addedConfig None sampleConfig)) (registryOf (demoStore, demoDisk)) (registryOf (demoStore2, demoDisk2))"
proof -
  have "json_config sampleConfig = sampleConfig"
    by (simp add: json_config_def sampleConfig_def zeroConfig_def)
  from successful_operations_take_effect[OF demo_reach this, of None okIO "resolveConfigLocked (options demoStore) webConfig"
      demoStore2 demoDisk2] demo_add
  show ?thesis by (simp add: random_id_def webConfig_def)
qed

end
