(* ===== verification/Program.thy ===== *)
theory Program
  imports Server_Props
begin

text \<open>
  The program (\<open>cmd/natcat/main.go\<close>): its flags and environment, the command that changes the
  administrator's password, and the start of the console. The flags are those of Go's package
  \<open>flag\<close>, all of them strings. What the process prints is a list of lines; the usage text and the
  message of a flag error, which the package prints itself, are left out.
\<close>

section \<open>Flags\<close>

text \<open>
  Parsing stops at the first argument that is not a flag, or after \<open>--\<close>. A set that exits on
  errors ends the process, with 0 when help was asked for and with 2 otherwise.
\<close>

datatype flagError =
    FlagHelp
  | FlagBad string

definition splitFlag :: "string \<Rightarrow> string \<times> string option" where
  "splitFlag s =
     (let rest = dropWhile (\<lambda>c. c \<noteq> CHR ''='') (tl s)
      in (take 1 s @ takeWhile (\<lambda>c. c \<noteq> CHR ''='') (tl s), if rest = [] then None else Some (tl rest)))"

fun parseFlags :: "string list \<Rightarrow> string list \<Rightarrow> (string \<rightharpoonup> string) \<Rightarrow> flagError + (string \<rightharpoonup> string) \<times> string list" where
  "parseFlags names [] vals = Inr (vals, [])"
| "parseFlags names (s # args) vals =
     (if length s < 2 \<or> hd s \<noteq> CHR ''-'' then Inr (vals, s # args)
      else if s = ''--'' then Inr (vals, args)
      else
        (let flag = (if s ! 1 = CHR ''-'' then drop 2 s else tl s) in
         if flag = [] \<or> hd flag = CHR ''-'' \<or> hd flag = CHR ''='' then Inl (FlagBad (''bad flag syntax: '' @ s))
         else
           (let (name, given) = splitFlag flag in
            if \<not> List.member names name then
              Inl (if name = ''help'' \<or> name = ''h'' then FlagHelp
                   else FlagBad (''flag provided but not defined: -'' @ name))
            else
              (case given of
                 Some v \<Rightarrow> parseFlags names args (vals(name \<mapsto> v))
               | None \<Rightarrow>
                   (case args of
                      [] \<Rightarrow> Inl (FlagBad (''flag needs an argument: -'' @ name))
                    | v # rest \<Rightarrow> parseFlags names rest (vals(name \<mapsto> v)))))))"

definition flagValue :: "(string \<rightharpoonup> string) \<Rightarrow> string \<Rightarrow> string \<Rightarrow> string" where
  "flagValue vals name value = (case vals name of None \<Rightarrow> value | Some v \<Rightarrow> v)"

definition flagExit :: "flagError \<Rightarrow> int" where
  "flagExit e = (case e of FlagHelp \<Rightarrow> 0 | FlagBad m \<Rightarrow> 2)"

section \<open>The environment\<close>

text \<open>The environment of the process: its variables, and \<open>os.UserConfigDir()\<close>.\<close>

record osEnv =
  osGetenv :: "string \<Rightarrow> string"
  osConfigDir :: "string res"

definition isPasswordCommand :: "string \<Rightarrow> bool" where
  "isPasswordCommand command \<longleftrightarrow> command = ''password'' \<or> command = ''passwd'' \<or> command = ''change-password''"

definition envDefault :: "osEnv \<Rightarrow> string \<Rightarrow> string \<Rightarrow> string" where
  "envDefault os key fallback = (if osGetenv os key \<noteq> [] then osGetenv os key else fallback)"

definition defaultDataPath :: "osEnv \<Rightarrow> string" where
  "defaultDataPath os =
     (if osGetenv os ''NATCAT_DATA'' \<noteq> [] then osGetenv os ''NATCAT_DATA''
      else case osConfigDir os of
          Inl e \<Rightarrow> ''natcat.json''
        | Inr dir \<Rightarrow> (if dir = [] then ''natcat.json'' else path_clean (dir @ ''/natcat/data.json'')))"

section \<open>The commands\<close>

text \<open>
  How the process goes on: it exits with a code, it returns from \<open>main\<close>, or it serves the
  console. What the start of a command meets: the clock, the file system and the random bytes.
\<close>

datatype outcome =
    Exits int "string list" disk
  | Returns "string list" disk
  | Serves string "string list" server

record startEnv =
  seNow :: time
  seIO :: io
  seSecret :: "byte list option"
  seSalt :: "byte list option"
  seStatic :: "(string \<Rightarrow> bool) res"

definition passwordFlags :: "string list" where
  "passwordFlags = [''data'', ''user'', ''password'']"

definition changePassword :: "osEnv \<Rightarrow> startEnv \<Rightarrow> string list \<Rightarrow> disk \<Rightarrow> outcome" where
  "changePassword os se args d =
     (case parseFlags passwordFlags args (\<lambda>_. None) of
        Inl e \<Rightarrow> Exits (flagExit e) [] d
      | Inr (vals, rest) \<Rightarrow>
          (let dataPath = flagValue vals ''data'' (defaultDataPath os);
               username = flagValue vals ''user'' [];
               password0 = flagValue vals ''password'' (osGetenv os ''NATCAT_ADMIN_PASSWORD'');
               password = (if password0 = [] \<and> rest \<noteq> [] then hd rest else password0)
           in if password = [] then
                Exits 1 [''new password is required: pass --password, use a positional value, or set NATCAT_ADMIN_PASSWORD''] d
              else
                (case ChangeAdminPassword dataPath username password (seSalt se) (seNow se) (seIO se) d of
                   (Inl e, d1) \<Rightarrow> Exits 1 [''change admin password: '' @ err_text e] d1
                 | (Inr u, d1) \<Rightarrow>
                     Returns [''Password updated for '' @ (if username = [] then ''current admin'' else username) @ ''.'',
                              ''Data file: '' @ dataPath] d1)))"

definition serverFlags :: "string list" where
  "serverFlags = [''listen'', ''data'', ''setup-user'', ''setup-password'']"

text \<open>The part of \<open>main\<close> that starts the console.\<close>

definition startServer :: "osEnv \<Rightarrow> startEnv \<Rightarrow> string list \<Rightarrow> disk \<Rightarrow> outcome" where
  "startServer os se args d =
     (case parseFlags serverFlags args (\<lambda>_. None) of
        Inl e \<Rightarrow> Exits (flagExit e) [] d
      | Inr (vals, rest) \<Rightarrow>
          (let listen = flagValue vals ''listen'' ''0.0.0.0:8080'';
               dataPath = flagValue vals ''data'' (defaultDataPath os);
               setupUser = flagValue vals ''setup-user'' (envDefault os ''NATCAT_SETUP_USER'' ''admin'');
               setupPassword = flagValue vals ''setup-password'' (osGetenv os ''NATCAT_SETUP_PASSWORD'')
           in case OpenStore dataPath setupUser setupPassword (seSecret se) (seSalt se) (seNow se) (seIO se) d of
                (Inl e, d1) \<Rightarrow> Exits 1 [''open data store: '' @ err_text e] d1
              | (Inr (store, generatedPassword), d1) \<Rightarrow>
                  (let manager = StartEnabled (seNow se) (NewManager store d1) in
                   case seStatic se of
                     Inl e \<Rightarrow> Exits 1 [''load web assets: '' @ err_text e] (mgDisk manager)
                   | Inr static \<Rightarrow>
                       Serves listen
                         ([''NATCat Console listening on http://'' @ listen, ''Data file: '' @ dataPath] @
                          (if generatedPassword \<noteq> [] then
                             [''Initial login: '' @ setupUser @ '' / '' @ generatedPassword,
                              ''Set NATCAT_SETUP_PASSWORD or pass --setup-password to choose the first password.'']
                           else []))
                         (New manager static))))"

text \<open>\<open>main\<close> with the arguments after the program's name.\<close>

definition main :: "osEnv \<Rightarrow> startEnv \<Rightarrow> string list \<Rightarrow> disk \<Rightarrow> outcome" where
  "main os se args d =
     (case args of
        [] \<Rightarrow> startServer os se [] d
      | command # rest \<Rightarrow>
          (if isPasswordCommand command then changePassword os se rest d else startServer os se args d))"

section \<open>Logging in\<close>

text \<open>The request of a login, and when the console answers it with a session.\<close>

definition loginRequest :: "string \<Rightarrow> string \<Rightarrow> request" where
  "loginRequest u p = plainRequest\<lparr>rqMethod := ''POST'', rqPath := ''/api/login'', rqLogin := Inr (u, p)\<rparr>"

lemma login_status:
  assumes "enToken env = Inr tok"
    and "CheckPassword (fst (Admin (mgStore (svManager s)) (mgDisk (svManager s)))) u p"
  shows "rsStatus (fst (Handler env (loginRequest u p) s)) = 200"
proof -
  obtain adm st where a: "Admin (mgStore (svManager s)) (mgDisk (svManager s)) = (adm, st)"
    by (cases "Admin (mgStore (svManager s)) (mgDisk (svManager s))")
  have f: "rqMethod (loginRequest u p) = ''POST''" "rqPath (loginRequest u p) = ''/api/login''"
    "\<not> rqRedirects (loginRequest u p)" "rqLogin (loginRequest u p) = Inr (u, p)"
    by (simp_all add: loginRequest_def plainRequest_def)
  obtain ck ses where c: "create (Inr tok) (rqTLS (loginRequest u p)) (enNow env) (svSession s) = (Inr ck, ses)"
    by (simp add: create_def newToken_def Let_def)
  from f a assms c show ?thesis
    by (simp add: Handler_def serveMux_def login_def decodeJSON_def currentAdmin_def secureHeaders_def writeJSON_def Let_def)
qed

text \<open>
  C13: A changed password logs in: when the password command returns, any running server over
  the same data file answers the next login with the new password (of the flag or the environment,
  or else the first argument) and the name given (by
  default the name of the administrator in the file) with a session, without a restart. This
  needs a clock of the command that is later than the last change that the file and the server
  know, and no save of the server between the steps of the command.
\<close>

theorem changed_password_logs_in:
  assumes "isPasswordCommand command" and "main os se (command # args) d = Returns out d'"
    and "parseFlags passwordFlags args (\<lambda>_. None) = Inr (vals, rest)"
    and "seSalt se = Some salt" and "length salt = 16" and "dkFile d = DbFile db"
    and "0 < seNow se" and "admLastPassword (dbAdmin db) < seNow se"
    and "mgDisk (svManager s) = d'" and "admLastPassword (dbAdmin (stoDB (mgStore (svManager s)))) < seNow se"
    and "enToken env = Inr tok"
  shows "rsStatus (fst (Handler env (loginRequest
       (if flagValue vals ''user'' [] = [] then admUsername (dbAdmin db) else flagValue vals ''user'' [])
       (if flagValue vals ''password'' (osGetenv os ''NATCAT_ADMIN_PASSWORD'') = [] then hd rest
        else flagValue vals ''password'' (osGetenv os ''NATCAT_ADMIN_PASSWORD''))) s)) = 200"
proof -
  let ?p0 = "flagValue vals ''password'' (osGetenv os ''NATCAT_ADMIN_PASSWORD'')"
  let ?p = "if ?p0 = [] \<and> rest \<noteq> [] then hd rest else ?p0"
  let ?u = "flagValue vals ''user'' []"
  from assms(1-3) have "?p \<noteq> []" and
    "\<exists>x. ChangeAdminPassword (flagValue vals ''data'' (defaultDataPath os)) ?u ?p (seSalt se) (seNow se) (seIO se) d = (Inr x, d')"
    by (auto simp: main_def changePassword_def Let_def split: if_splits sum.splits prod.splits)
  then obtain x where c: "ChangeAdminPassword (flagValue vals ''data'' (defaultDataPath os)) ?u ?p (Some salt) (seNow se) (seIO se) d = (Inr x, d')"
    using assms(4) by auto
  from changed_password_accepted[OF c assms(5-8,10)] assms(9)
  have "CheckPassword (fst (Admin (mgStore (svManager s)) (mgDisk (svManager s))))
      (if ?u = [] then admUsername (dbAdmin db) else ?u) ?p" by simp
  from login_status[OF assms(11) this] \<open>?p \<noteq> []\<close> show ?thesis by (simp split: if_splits)
qed

definition bareOS :: osEnv where
  "bareOS = \<lparr>osGetenv = (\<lambda>_. []), osConfigDir = Inl (NetError ''no home'' False)\<rparr>"

definition demoStart :: startEnv where
  "demoStart = \<lparr>seNow = 9, seIO = okIO, seSecret = Some (replicate 18 3), seSalt = Some (replicate 16 1),
     seStatic = Inr (\<lambda>_. False)\<rparr>"

lemma bare_os [simp]: "osGetenv bareOS k = []" "defaultDataPath bareOS = ''natcat.json''"
  by (simp_all add: bareOS_def defaultDataPath_def)

lemma demo_start [simp]:
  "seNow demoStart = 9" "seIO demoStart = okIO" "seSecret demoStart = Some (replicate 18 3)"
  "seSalt demoStart = Some (replicate 16 1)" "seStatic demoStart = Inr (\<lambda>_. False)"
  by (simp_all add: demoStart_def)

lemma demo_password_flags: "parseFlags passwordFlags [''pw''] (\<lambda>_. None) = Inr (\<lambda>_. None, [''pw''])"
  by (simp add: passwordFlags_def)

lemma changed_password_logs_in_witness:
  "\<exists>out d'. main bareOS demoStart [''passwd'', ''pw''] demoDisk = Returns out d' \<and>
     rsStatus (fst (Handler demoEnv (loginRequest ''admin'' ''pw'') (sampleServer (NewManager demoStore d')))) = 200"
proof -
  obtain d' where c: "ChangeAdminPassword ''natcat.json'' [] ''pw'' (Some (replicate 16 1)) 9 okIO demoDisk
      = (Inr (), d')" using demo_change by blast
  have cmd: "isPasswordCommand ''passwd''" by (simp add: isPasswordCommand_def)
  have m: "main bareOS demoStart [''passwd'', ''pw''] demoDisk
      = Returns [''Password updated for current admin.'', ''Data file: natcat.json''] d'"
    using c cmd demo_password_flags by (simp add: main_def changePassword_def flagValue_def Let_def)
  let ?s = "sampleServer (NewManager demoStore d')"
  have f: "svManager ?s = NewManager demoStore d'" by (simp add: sampleServer_def New_def)
  from changed_password_logs_in[OF cmd m demo_password_flags _ _ demo_disk_file, of "replicate 16 1" ?s demoEnv "[7]"] m
  show ?thesis by (auto simp: f flagValue_def demo_admin NewManager_def)
qed

text \<open>
  C33: The first start prints credentials that work: without a data file and without a setup
  password, a console that serves has printed the initial login, and its server answers a
  login with exactly these credentials with a session.
\<close>

theorem printed_login_works:
  assumes "startServer os se args \<lparr>dkFile = NoFile, dkTmp = t\<rparr> = Serves listen out s"
    and "parseFlags serverFlags args (\<lambda>_. None) = Inr (vals, rest)"
    and "flagValue vals ''setup-password'' (osGetenv os ''NATCAT_SETUP_PASSWORD'') = []"
    and "seSecret se = Some buf" and "length buf = 18" and "seSalt se = Some salt" and "length salt = 16"
    and "enToken env = Inr tok"
  shows "\<exists>u p. u = flagValue vals ''setup-user'' (envDefault os ''NATCAT_SETUP_USER'' ''admin'') \<and>
    ''Initial login: '' @ u @ '' / '' @ p \<in> set out \<and> length p = 18 \<and>
    rsStatus (fst (Handler env (loginRequest u p) s)) = 200"
proof -
  let ?u = "flagValue vals ''setup-user'' (envDefault os ''NATCAT_SETUP_USER'' ''admin'')"
  let ?path = "flagValue vals ''data'' (defaultDataPath os)"
  from assms(1-4,6) obtain store g d1 where o: "OpenStore ?path ?u [] (Some buf) (Some salt) (seNow se) (seIO se)
      \<lparr>dkFile = NoFile, dkTmp = t\<rparr> = (Inr (store, g), d1)"
    and out: "set out \<supseteq> (if g \<noteq> [] then {''Initial login: '' @ ?u @ '' / '' @ g} else {})"
    and s: "svManager s = StartEnabled (seNow se) (NewManager store d1)"
    by (auto simp: startServer_def Let_def New_def split: sum.splits prod.splits if_splits)
  from first_start_password_works[OF o assms(5,7)] have g: "length g = 18"
    "CheckPassword (fst (Admin store d1)) ?u g" "ListInstances store = []" by simp_all
  have "svManager s = NewManager store d1"
    using g(3) by (simp add: s StartEnabled_def NewManager_def)
  then have "CheckPassword (fst (Admin (mgStore (svManager s)) (mgDisk (svManager s)))) ?u g"
    using g(2) by (simp add: NewManager_def)
  moreover have "''Initial login: '' @ ?u @ '' / '' @ g \<in> set out" using g(1) out by (cases g) auto
  ultimately show ?thesis using login_status[OF assms(8)] g(1) by blast
qed

lemma printed_login_works_witness:
  "\<exists>out s p. startServer bareOS demoStart [] \<lparr>dkFile = NoFile, dkTmp = NoFile\<rparr> = Serves ''0.0.0.0:8080'' out s \<and>
     ''Initial login: '' @ ''admin'' @ '' / '' @ p \<in> set out \<and>
     rsStatus (fst (Handler demoEnv (loginRequest ''admin'' p) s)) = 200"
proof -
  let ?d = "\<lparr>dkFile = NoFile, dkTmp = NoFile\<rparr>"
  have "\<exists>s g. fst (OpenStore ''natcat.json'' ''admin'' [] (Some (replicate 18 3)) (Some (replicate 16 1)) 9 okIO ?d) = Inr (s, g)"
    by (simp add: OpenStore_def createStore_def randomSecret_def NewAdminCredential_def saveLocked_ok_io demo_path)
  then obtain s g d' where o: "OpenStore ''natcat.json'' ''admin'' [] (Some (replicate 18 3)) (Some (replicate 16 1)) 9 okIO ?d
      = (Inr (s, g), d')" by (metis prod.collapse)
  have fl: "parseFlags serverFlags [] (\<lambda>_. None) = Inr (\<lambda>_. None, [])" by simp
  obtain out sv where m: "startServer bareOS demoStart [] ?d = Serves ''0.0.0.0:8080'' out sv"
    using o by (simp add: startServer_def flagValue_def envDefault_def Let_def)
  from printed_login_works[OF m fl, of "replicate 18 3" "replicate 16 1" demoEnv "[7]"] m
  show ?thesis by (auto simp: flagValue_def envDefault_def)
qed

end
