(* ===== verification/Spec2Isabelle.thy ===== *)
theory Spec2Isabelle
  imports Stun_Correct Server_Props Session_Stops Store_Registry Program
begin

text \<open>
  NATCat is a console for NAT mappings: it keeps TCP and UDP mappings of a router open,
  discovers their public endpoints with STUN, and shows and publishes them through a web
  interface. This development models the Go program below \<open>src/cmd\<close> and \<open>src/internal\<close> and
  proves what makes it correct.

  \<^bold>\<open>The parts and how they work together.\<close> The program (\<open>cmd/natcat/main.go\<close>) opens the store,
  starts a manager over it and serves the HTTP interface. The store (\<open>core/store.go\<close>) owns the
  configurations, the administrator and the saved mappings, in memory and in one data file. The
  manager (\<open>core/manager.go\<close>) owns one runner per running instance, collects what the runners
  report, and gives it to the subscribers of the event stream. A runner (\<open>core/runner.go\<close>) goes
  through sessions: it picks a local port (\<open>core/port.go\<close>), opens a connection to one of its
  servers, asks STUN servers (\<open>core/stun.go\<close>) from the same local port for the public endpoint,
  confirms it by repeated samples, publishes it (which may run a script) and keeps it open by
  periodic requests. The HTTP interface (\<open>server/server.go\<close>, \<open>server/sessions.go\<close>) checks the
  session of a request and calls the store and the manager.

  \<^bold>\<open>The theories.\<close>
  \<^item> \<open>Prelude\<close>, \<open>Go_Strings\<close>, \<open>Go_Numbers\<close>, \<open>Go_Ip\<close>: Go's integers, errors with the chain of
    \<open>errors.Is\<close>, and the functions of its packages \<open>strings\<close>, \<open>strconv\<close> and \<open>net\<close> that the
    program uses; lower case is that of all of Unicode (\<open>lowerRanges\<close>).
  \<^item> \<open>Types\<close> (\<open>core/types.go\<close>): one record per struct. \<open>Validate\<close> (\<open>core/validate.go\<close>):
    normalisation and validation of configurations and server lists.
  \<^item> \<open>Port\<close> (\<open>core/port.go\<close>): the picker of local ports. The locale \<open>port_source\<close> is what a runner
    expects of it, interpreted for the picker of the code.
  \<^item> \<open>Stun\<close>, \<open>Stun_Correct\<close> (\<open>core/stun.go\<close>): the parser, on byte lists with checked indices, and
    its correctness against an encoder of the wire format.
  \<^item> \<open>Auth\<close> (\<open>core/auth.go\<close>): credentials, with SHA-256, HMAC, PBKDF2 and base64 written out on
    words, and the equivalence of the code's key derivation with RFC 8018.
  \<^item> \<open>Store\<close>, \<open>Store_Correct\<close>, \<open>Store_Props\<close>, \<open>Store_Registry\<close> (\<open>core/store.go\<close>): every operation
    over a database in memory and a disk with the data file and its temporary copy; the invariant
    of the reachable stores (\<open>store_step\<close>, which has the steps of another process that changes
    the password); what each operation changes; failures of each call of the file system; and
    the refinement of an abstract registry. There is no lock between processes: \<open>saveAmid\<close> and
    \<open>ChangeAdminPasswordAmid\<close> are the save and the password command with the places where the
    other process can change the files, and \<open>saveLocked\<close> and \<open>ChangeAdminPassword\<close>, with which the
    other operations are built, are these without such a change. \<open>Store_Props\<close> shows what a save
    guarantees when they overlap, and which updates are lost then. The locale \<open>runtime_store\<close> is what the manager
    expects of the saved mappings.
  \<^item> \<open>Runner_State\<close>, \<open>Runner_Correct\<close>, \<open>Runner_Props\<close> (\<open>core/runner.go\<close>): the state of a runner and
    the operations on its port, published mapping, server cursors, connections and reports;
    \<open>rnOpen\<close> holds what the runner has opened in the system and not closed, \<open>rnActive\<close> what it tracks.
    A configuration that the store accepts gives a runner what it needs to begin.
  \<^item> \<open>Notify\<close> (\<open>core/runner.go\<close>): which script runs with which values and environment.
  \<^item> \<open>Platform\<close> (\<open>core/socket_options_*.go\<close>, \<open>core/tcp_rtt*.go\<close>): socket options and round-trip
    times, with the arithmetic at its width.
  \<^item> \<open>Probe\<close>, \<open>Confirm\<close>, \<open>Confirm_Correct\<close>, \<open>Probe_Props\<close> (\<open>core/runner.go\<close>): the probes over TCP
    and over the UDP socket that QUIC shares, the confirmation, the goroutine that repeats it
    and publishes the result.
  \<^item> \<open>Keepalive\<close>, \<open>Keepalive_Quic\<close> (\<open>core/runner.go\<close>): the periodic requests, the waits between
    them, opening a connection and reconnecting for another probe.
  \<^item> \<open>Session\<close>, \<open>Session_Correct\<close>, \<open>Session_Props\<close>, \<open>Session_Stops\<close> (\<open>core/runner.go\<close>): \<open>runTCP\<close>, \<open>runUDP\<close>, \<open>runOnce\<close>
    and the loop of \<open>Run\<close>. The locale \<open>runner_laws\<close> states what an invariant of a runner needs of
    each elementary operation and proves it for whole sessions; it is interpreted for the open
    connections, the server cursors, and the fields that a session never changes;
    \<open>Session_Stops\<close> shows that a stop ends every loop.
  \<^item> \<open>Manager\<close>, \<open>Manager_Correct\<close>, \<open>Manager_Props\<close> (\<open>core/manager.go\<close>, \<open>core/port_check.go\<close>): the
    manager with its runners and channels as objects referred to by number, the reports, the
    subscriptions, and starting, stopping and replacing. \<open>ReplaceConfig\<close> gives the mutex back in four
    places (the wait for the old runner, before and inside \<open>clearRuntime\<close>, before \<open>Start\<close>); what others
    do there is the argument \<open>during\<close>, and each property says what it supposes of it.
  \<^item> \<open>Sessions\<close>, \<open>Server\<close>, \<open>Server_Correct\<close>, \<open>Server_Props\<close> (\<open>server/*.go\<close>): the sessions of the
    console, the routes and every handler. The locale \<open>handler_invariant\<close> proves that what each
    operation of store and manager keeps is kept by every request; it is interpreted for the
    invariants of the manager and of the store.
  \<^item> \<open>Program\<close> (\<open>cmd/natcat/main.go\<close>): flags, environment, the password command and the start, and
    that the credentials they set log in.
\<close>

text \<open>
  \<^bold>\<open>How the code is read.\<close> A method is a function from the state of its receiver to a result and
  the new state; an error is a left injection; a lock makes a method one step, and a method that
  gives up its lock is cut there. Where a call waits (for a runner to end), the argument that
  stands for what happens meanwhile is an arbitrary function on the state or an arbitrary list
  of steps. Strings are lists of the bytes of the UTF-8 text. Go's \<open>int\<close> is an integer where
  validation or a length bounds it; the fields of STUN packets, round-trip times and hashes are words, and
  durations write their wrap-around out (\<open>wrap64\<close>).

  \<^bold>\<open>What is an argument.\<close> The clock (one reading per operation, or one per report), random bytes,
  the outcomes of system calls and of the file system, name resolution, connections and packets,
  the HTTP/3 transport (a third-party package), the outcome of a script, and the context. The
  arguments of loops that wait for the outside are scripts: lists with one entry per round. A
  script that is used up means that the loop is still running, which is the result \<open>None\<close>; so a
  theorem that a loop returns says that the result is not \<open>None\<close> for scripts of the length that
  it states (\<open>reconnect_gives_up\<close>: three attempts; \<open>stopped_runner_returns\<close>: scripts in which
  every wait reaches its deadline and every connection its end). Loops with a bound of the program, such as the
  samples of a confirmation (\<open>publicProbeMaxAttempts\<close>), count down on their own.

  \<^bold>\<open>Choices.\<close> The data file is its parsed database: \<open>json_view\<close> is what the JSON form keeps of it.
  In a session the probing goroutine takes its steps before the periods of the keepalive; the
  code runs it beside them and does not wait for it when the session ends. What it can
  leave behind is modelled: the connection on which it still waits for an answer (\<open>probeWaits\<close>). The
  reports that it and the goroutine of a notify script (\<open>notifyExited\<close>) can make after \<open>Run\<close> has
  returned are not part of the run, and no property speaks of the last report of a runner. The seconds of an age are those of the
  whole seconds of the duration (Go rounds through a float, which can differ for ages beyond
  what a process lives). The listing sorts by name; instances of the same name keep the order of
  the store, which Go's \<open>sort.Slice\<close> leaves open.

  \<^bold>\<open>Not modelled.\<close> The inside of the QUIC and HTTP/3 transport and the forwarding methods of the
  shared socket, the system calls themselves, the wire formats of HTTP, JSON and the event
  stream (a handler gets the decoded body or the error of decoding it), the usage text of the
  flag package, the embedding of the static files (\<open>web/web.go\<close>, a directive of the compiler),
  and the scripts of the web interface, which are not Go.
\<close>

end
